(* ===== verification/Prelude.thy ===== *)
theory Prelude
  imports Main "HOL-Library.Word"
begin

unbundle bit_operations_syntax

text \<open>
  Shared vocabulary of the development: the collections the component theories feed, the
  names of the code's machine integers (@typedef@s of include/types.h), and the facts about
  8-bit and 16-bit words that several components use (bytes and words, pages, single-bit
  masks, two's complement, lists updated by index).
\<close>

named_theorems instr_defs
named_theorems mode_defs
named_theorems flag_simps
named_theorems touch_intros

type_synonym MEM_WORD = "8 word"
type_synonym MEM_TWO_WORDS = "16 word"
type_synonym uint32 = "32 word"
type_synonym uint64 = "64 word"

text \<open>A C pointer that is only stored and passed on (a \<open>void* CTX\<close>); 0 is NULL.\<close>

type_synonym pointer = nat

subsection \<open>Single-bit masks\<close>

lemma and_exp_neq_0_iff_bit:
  "((w :: 'a::len word) AND 2 ^ n \<noteq> 0) = bit w n"
  by (simp add: and_exp_eq_0_iff_not_bit)

lemma byte_mask_bits:
  fixes w :: MEM_WORD
  shows "(w AND 1 = 0) = (\<not> bit w 0)" and "(w AND 2 = 0) = (\<not> bit w 1)"
    and "(w AND 4 = 0) = (\<not> bit w 2)" and "(w AND 8 = 0) = (\<not> bit w 3)"
    and "(w AND 16 = 0) = (\<not> bit w 4)" and "(w AND 32 = 0) = (\<not> bit w 5)"
    and "(w AND 64 = 0) = (\<not> bit w 6)" and "(w AND 128 = 0) = (\<not> bit w 7)"
  using and_exp_eq_0_iff_not_bit [of w 0] and_exp_eq_0_iff_not_bit [of w 1]
    and_exp_eq_0_iff_not_bit [of w 2] and_exp_eq_0_iff_not_bit [of w 3]
    and_exp_eq_0_iff_not_bit [of w 4] and_exp_eq_0_iff_not_bit [of w 5]
    and_exp_eq_0_iff_not_bit [of w 6] and_exp_eq_0_iff_not_bit [of w 7]
  by simp_all

lemma byte_eqI:
  fixes v w :: MEM_WORD
  assumes "\<And>n. n < 8 \<Longrightarrow> bit v n = bit w n"
  shows "v = w"
  by (rule bit_word_eqI) (use assms in simp)

lemma less_8_cases:
  "(n::nat) < 8 \<Longrightarrow> n = 0 \<or> n = 1 \<or> n = 2 \<or> n = 3 \<or> n = 4 \<or> n = 5 \<or> n = 6 \<or> n = 7"
  by arith

text \<open>Two bytes are equal when their eight bits are.\<close>

lemma byte_eq_bits:
  fixes v w :: MEM_WORD
  shows "(v = w) = (bit v 0 = bit w 0 \<and> bit v 1 = bit w 1 \<and> bit v 2 = bit w 2 \<and>
    bit v 3 = bit w 3 \<and> bit v 4 = bit w 4 \<and> bit v 5 = bit w 5 \<and> bit v 6 = bit w 6 \<and>
    bit v 7 = bit w 7)"
  (is "_ = ?bits")
proof
  assume b: ?bits
  show "v = w"
  proof (rule byte_eqI)
    fix n :: nat
    assume "n < 8"
    from less_8_cases [OF this] b show "bit v n = bit w n" by (elim disjE) simp_all
  qed
qed simp

subsection \<open>Bytes and words\<close>

text \<open>The idiom \<open>lo | ((MEM_TWO_WORDS)hi << 8)\<close> of the code.\<close>

definition word_of_bytes :: "MEM_WORD \<Rightarrow> MEM_WORD \<Rightarrow> MEM_TWO_WORDS" where
  "word_of_bytes lo hi = ucast lo OR push_bit 8 (ucast hi)"

text \<open>The idioms \<open>(MEM_WORD)(w & 0xFF)\<close> and \<open>(MEM_WORD)(w >> 8)\<close>.\<close>

definition lo_byte :: "MEM_TWO_WORDS \<Rightarrow> MEM_WORD" where
  "lo_byte w = ucast (w AND 0xFF)"

definition hi_byte :: "MEM_TWO_WORDS \<Rightarrow> MEM_WORD" where
  "hi_byte w = ucast (drop_bit 8 w)"

lemma ucast_and_0xFF:
  "(ucast ((w :: MEM_TWO_WORDS) AND 0xFF) :: MEM_WORD) = ucast w"
proof -
  have "w AND 0xFF = take_bit 8 w"
    by (simp add: take_bit_eq_mask mask_eq_exp_minus_1)
  then show ?thesis
    by (auto intro!: bit_word_eqI simp: bit_simps)
qed

lemma lo_byte_word_of_bytes [simp]: "lo_byte (word_of_bytes lo hi) = lo"
  unfolding lo_byte_def ucast_and_0xFF
  by (rule bit_word_eqI) (auto simp: word_of_bytes_def bit_simps)

lemma hi_byte_word_of_bytes [simp]: "hi_byte (word_of_bytes lo hi) = hi"
  by (rule bit_word_eqI)
    (auto simp: hi_byte_def word_of_bytes_def bit_simps dest: bit_imp_le_length)

lemma word_of_bytes_split [simp]: "word_of_bytes (lo_byte w) (hi_byte w) = w"
  unfolding lo_byte_def ucast_and_0xFF
  by (rule bit_word_eqI)
    (auto simp: hi_byte_def word_of_bytes_def bit_simps not_less)

subsection \<open>Unsigned values\<close>

lemma unat_word16_less: "unat (w :: MEM_TWO_WORDS) < 0x10000"
proof -
  have "unat w < 2 ^ LENGTH(16)" by (rule unsigned_less)
  then show ?thesis by simp
qed

lemma unat_byte_less: "unat (w :: MEM_WORD) < 0x100"
proof -
  have "unat w < 2 ^ LENGTH(8)" by (rule unsigned_less)
  then show ?thesis by simp
qed

lemma unat_ucast_word:
  "unat (ucast (w :: 'a::len word) :: 'b::len word) = unat w mod 2 ^ LENGTH('b)"
  by (simp add: unsigned_ucast_eq take_bit_eq_mod)

lemma unat_ucast_16_32 [simp]: "unat (ucast (w :: MEM_TWO_WORDS) :: uint32) = unat w"
  using unat_word16_less [of w] by (simp add: unat_ucast_word)

lemma and_0xFF_unat: "unat ((w :: MEM_TWO_WORDS) AND 0xFF) = unat w mod 256"
proof -
  have "w AND 0xFF = take_bit 8 w"
    by (simp add: take_bit_eq_mask mask_eq_exp_minus_1)
  then show ?thesis by (simp only: unsigned_take_bit_eq) (simp add: take_bit_eq_mod)
qed

lemma nibble_mask: "(w :: 'a::len word) AND 0x0F = take_bit 4 w"
  by (simp add: take_bit_eq_mask mask_eq_exp_minus_1)

lemma unat_low_nibble: "unat ((w :: 'a::len word) AND 0x0F) = unat w mod 16"
  by (simp only: nibble_mask unsigned_take_bit_eq) (simp add: take_bit_eq_mod)

lemma unat_nibbles [simp]: "unat (drop_bit 4 (w :: 'a::len word)) = unat w div 16"
  by (simp only: unat_drop_bit_eq) (simp add: drop_bit_eq_div)

text \<open>The zero page: \<open>(x + y) & 0xFF\<close> is the 8-bit sum.\<close>

lemma zero_page_sum:
  "((ucast x + ucast y) AND 0xFF :: MEM_TWO_WORDS) = ucast (x + y :: MEM_WORD)"
  using unat_byte_less [of x] unat_byte_less [of y]
  by (simp add: word_unat_eq_iff and_0xFF_unat unat_ucast_word unat_word_ariths)

lemma zero_page_Suc:
  "((ucast x + 1) AND 0xFF :: MEM_TWO_WORDS) = ucast (x + 1 :: MEM_WORD)"
  using zero_page_sum [of x 1] by simp

lemma unat_word_of_bytes: "unat (word_of_bytes l h) = unat l + 256 * unat h"
proof -
  have "word_of_bytes l h = ucast l + push_bit 8 (ucast h)"
    unfolding word_of_bytes_def
    by (rule disjunctive_add [symmetric]) (auto simp: bit_simps dest: bit_imp_le_length)
  then show ?thesis
    using unat_byte_less [of l] unat_byte_less [of h]
    by (simp add: push_bit_eq_mult unat_word_ariths unat_ucast_word)
qed

lemma and_0xFF00: "(w :: MEM_TWO_WORDS) AND 0xFF00 = word_of_bytes 0 (hi_byte w)"
proof -
  have "(0xFF00 :: MEM_TWO_WORDS) = push_bit 8 (mask 8)" by (simp add: mask_eq_exp_minus_1)
  then have b: "bit (0xFF00 :: MEM_TWO_WORDS) n = (8 \<le> n \<and> n < 16)" for n
    by (simp only: bit_simps) auto
  show ?thesis
  proof (rule bit_word_eqI)
    fix n
    assume "n < LENGTH(16)"
    then show "bit (w AND 0xFF00) n = bit (word_of_bytes 0 (hi_byte w)) n"
      by (simp only: b bit_and_iff) (auto simp: word_of_bytes_def hi_byte_def bit_simps)
  qed
qed

text \<open>Two addresses are on the same page when their high bytes agree.\<close>

lemma same_page: "((a :: MEM_TWO_WORDS) AND 0xFF00 = b AND 0xFF00) = (hi_byte a = hi_byte b)"
  unfolding and_0xFF00 by (metis hi_byte_word_of_bytes)

lemma unat_bytes: "unat w = unat (lo_byte w) + 256 * unat (hi_byte w)"
  using unat_word_of_bytes [of "lo_byte w" "hi_byte w"] by simp

lemma low_byte_full: "((w :: MEM_TWO_WORDS) AND 0xFF = 0xFF) = (lo_byte w = 0xFF)"
  using unat_byte_less [of "lo_byte w"]
  by (simp add: word_unat_eq_iff and_0xFF_unat unat_bytes [of w])

text \<open>Incrementing the low byte of an address stays on its page.\<close>

lemma next_on_page:
  "word_of_bytes (lo_byte p + 1) (hi_byte p) =
     (if p AND 0xFF = 0xFF then p AND 0xFF00 else p + 1)"
proof (cases "lo_byte p = 0xFF")
  case True
  then have "lo_byte p + 1 = 0" by simp
  then show ?thesis using True by (simp only: low_byte_full and_0xFF00 refl if_True)
next
  case False
  then have "lo_byte p + 1 \<noteq> 0" by (auto simp: add_eq_0_iff2)
  then have l: "unat (lo_byte p + 1) = unat (lo_byte p) + 1"
    by (metis add_diff_cancel_right' unat_minus_one unat_gt_0 Suc_pred Suc_eq_plus1)
  have "unat (lo_byte p) + 1 < 256" using unat_byte_less [of "lo_byte p + 1"] l by simp
  then have "unat p + 1 < 65536"
    using unat_byte_less [of "hi_byte p"] unat_bytes [of p] by linarith
  then have "unat (p + 1) = unat p + 1" by (simp add: unat_word_ariths)
  then have "word_of_bytes (lo_byte p + 1) (hi_byte p) = p + 1"
    by (simp add: word_unat_eq_iff unat_word_of_bytes l unat_bytes [of p])
  with False show ?thesis by (simp add: low_byte_full)
qed

subsection \<open>Lists indexed by words\<close>

lemma nth_list_update_word:
  "unat i < length xs \<Longrightarrow> (xs[unat i := x]) ! unat j = (if i = j then x else xs ! unat j)"
  by (auto simp: nth_list_update word_unat_eq_iff)

lemma unat_diff_word: "(s :: 'a::len word) \<le> a \<Longrightarrow> unat (a - s) = unat a - unat s"
  by (simp add: unat_sub)

end
