(* ===== verification/Machine.thy ===== *)
theory Machine
  imports Prelude
begin

text \<open>
  The data model of the emulator (include/types.h, include/interrupt.h and the globals of
  src/cpu.c, src/interrupt.c and src/trace.c): enums as datatypes, structs as records, and
  one record \<open>machine\<close> for all the global variables. The type variable \<open>'w\<close> is whatever the
  bus callbacks work on (the region table and the devices in src/memory.c), so everything
  that does not look behind the bus is generic in it.
\<close>

subsection \<open>types.h: constants and enums\<close>

definition CPU_STACK_BASE :: MEM_TWO_WORDS where [simp]: "CPU_STACK_BASE = 0x0100"
definition CPU_STACK_TOP :: MEM_TWO_WORDS where [simp]: "CPU_STACK_TOP = 0x01FF"
definition CPU_RESET_STACK_POINTER :: MEM_WORD where "CPU_RESET_STACK_POINTER = 0xFD"
definition CPU_RESET_STATUS :: MEM_WORD where "CPU_RESET_STATUS = 0x24"
definition CPU_RESET_VECTOR_ADDRESS :: MEM_TWO_WORDS where
  [simp]: "CPU_RESET_VECTOR_ADDRESS = 0xFFFC"

datatype CPU_VARIANT = CPU_VARIANT_NMOS_6502 | CPU_VARIANT_CMOS_65C02

definition FLAG_C :: MEM_WORD where [flag_simps]: "FLAG_C = 0x01"
definition FLAG_Z :: MEM_WORD where [flag_simps]: "FLAG_Z = 0x02"
definition FLAG_I :: MEM_WORD where [flag_simps]: "FLAG_I = 0x04"
definition FLAG_D :: MEM_WORD where [flag_simps]: "FLAG_D = 0x08"
definition FLAG_B :: MEM_WORD where [flag_simps]: "FLAG_B = 0x10"
definition FLAG_U :: MEM_WORD where [flag_simps]: "FLAG_U = 0x20"
definition FLAG_V :: MEM_WORD where [flag_simps]: "FLAG_V = 0x40"
definition FLAG_N :: MEM_WORD where [flag_simps]: "FLAG_N = 0x80"

datatype MEM_REGION_TYPE = MEM_REGION_NONE | MEM_REGION_RAM | MEM_REGION_ROM | MEM_REGION_IO

datatype ADDR_MODE = ADDR_NONE | ADDR_ACC | ADDR_IMM | ADDR_ZP | ADDR_ZPX | ADDR_ZPY
  | ADDR_ABS | ADDR_ABSX | ADDR_ABSY | ADDR_IND | ADDR_INDX | ADDR_INDY | ADDR_REL
  | ADDR_ZPREL | ADDR_ZP_IND | ADDR_ABS_IND_X

datatype REG_TYPE = REG_NONE | REG_A | REG_X | REG_Y | REG_SP | REG_ACC

record INST =
  CMD :: string
  ADDR :: ADDR_MODE
  SRC :: REG_TYPE
  DEST :: REG_TYPE

text \<open>The register file; the one-letter fields of \<open>T_REGISTER\<close> carry a prefix \<open>r\<close>.\<close>

record T_REGISTER =
  rPC :: MEM_TWO_WORDS
  rA :: MEM_WORD
  rP :: MEM_WORD
  rS :: MEM_WORD
  rX :: MEM_WORD
  rY :: MEM_WORD

text \<open>
  The bus callbacks are client code behind a function pointer: a function of the address,
  the context pointer and the state the callbacks share, returning that state. NULL is None.
\<close>

type_synonym 'w bus_read_fn = "MEM_TWO_WORDS \<Rightarrow> pointer \<Rightarrow> 'w \<Rightarrow> MEM_WORD \<times> 'w"
type_synonym 'w bus_write_fn = "MEM_TWO_WORDS \<Rightarrow> MEM_WORD \<Rightarrow> pointer \<Rightarrow> 'w \<Rightarrow> 'w"

record 'w T_BUS =
  READ :: "'w bus_read_fn option"
  WRITE :: "'w bus_write_fn option"
  BUS_CTX :: pointer

subsection \<open>interrupt.h: the interrupt controller's state\<close>

definition IRQ_VECTOR :: MEM_TWO_WORDS where [simp]: "IRQ_VECTOR = 0xFFFE"
definition NMI_VECTOR :: MEM_TWO_WORDS where [simp]: "NMI_VECTOR = 0xFFFA"

datatype INTERRUPT_TYPE = INT_NONE | INT_IRQ | INT_NMI | INT_BRK | INT_RESET

record INTERRUPT_EVENT =
  ev_type :: INTERRUPT_TYPE
  ev_pc :: MEM_TWO_WORDS
  ev_p :: MEM_WORD
  ev_cycle :: uint64

definition MAX_INTERRUPT_HISTORY :: nat where [simp]: "MAX_INTERRUPT_HISTORY = 32"

record INTERRUPT_CONTROLLER =
  irq_line :: int
  irq_line_prev :: int
  nmi_line :: int
  nmi_line_prev :: int
  nmi_pending :: int
  interrupt_in_progress :: int
  current_interrupt :: INTERRUPT_TYPE
  interrupt_cycle :: int
  history :: "INTERRUPT_EVENT list"
  history_count :: nat
  history_index :: nat
  total_irqs :: uint64
  total_nmis :: uint64
  total_brks :: uint64

subsection \<open>The global variables\<close>

text \<open>
  What the emulator prints while it executes, as structured events: the line of
  \<open>trace_before\<close>, the newline of \<open>trace_after\<close>, the message of \<open>interrupt_begin\<close>.
\<close>

datatype out_event =
    Trace_Line MEM_TWO_WORDS MEM_WORD string T_REGISTER
  | Trace_Newline
  | Nmi_Hijack_Message

record 'w machine =
  REG :: T_REGISTER
  BUS :: "'w T_BUS"
  CYCLES :: uint32
  OPCODE :: MEM_WORD
  REL_OFFSET :: MEM_WORD
  CPU_VARIANT_MODE :: CPU_VARIANT
  CPU_WAITING :: int
  CPU_STOPPED :: int
  EA :: MEM_TWO_WORDS
  HAS_EA :: int
  PAGE_CROSS :: int
  BRANCH_TAKEN :: int
  BRANCH_PAGE_CROSS :: int
  ic :: INTERRUPT_CONTROLLER
  global_cycle_count :: uint64
  trace_enabled :: int
  out :: "out_event list"
  bus_world :: 'w

abbreviation PC_of :: "'w machine \<Rightarrow> MEM_TWO_WORDS" where "PC_of m \<equiv> rPC (REG m)"
abbreviation A_of :: "'w machine \<Rightarrow> MEM_WORD" where "A_of m \<equiv> rA (REG m)"
abbreviation P_of :: "'w machine \<Rightarrow> MEM_WORD" where "P_of m \<equiv> rP (REG m)"
abbreviation S_of :: "'w machine \<Rightarrow> MEM_WORD" where "S_of m \<equiv> rS (REG m)"
abbreviation X_of :: "'w machine \<Rightarrow> MEM_WORD" where "X_of m \<equiv> rX (REG m)"
abbreviation Y_of :: "'w machine \<Rightarrow> MEM_WORD" where "Y_of m \<equiv> rY (REG m)"

abbreviation set_PC :: "MEM_TWO_WORDS \<Rightarrow> 'w machine \<Rightarrow> 'w machine" where
  "set_PC v \<equiv> REG_update (rPC_update (\<lambda>_. v))"
abbreviation set_A :: "MEM_WORD \<Rightarrow> 'w machine \<Rightarrow> 'w machine" where
  "set_A v \<equiv> REG_update (rA_update (\<lambda>_. v))"
abbreviation set_P :: "MEM_WORD \<Rightarrow> 'w machine \<Rightarrow> 'w machine" where
  "set_P v \<equiv> REG_update (rP_update (\<lambda>_. v))"
abbreviation set_S :: "MEM_WORD \<Rightarrow> 'w machine \<Rightarrow> 'w machine" where
  "set_S v \<equiv> REG_update (rS_update (\<lambda>_. v))"
abbreviation set_X :: "MEM_WORD \<Rightarrow> 'w machine \<Rightarrow> 'w machine" where
  "set_X v \<equiv> REG_update (rX_update (\<lambda>_. v))"
abbreviation set_Y :: "MEM_WORD \<Rightarrow> 'w machine \<Rightarrow> 'w machine" where
  "set_Y v \<equiv> REG_update (rY_update (\<lambda>_. v))"

subsection \<open>The flag macros\<close>

definition SET_FLAG :: "MEM_WORD \<Rightarrow> 'w machine \<Rightarrow> 'w machine" where
  "SET_FLAG b = REG_update (rP_update (\<lambda>p. p OR b))"

definition CLR_FLAG :: "MEM_WORD \<Rightarrow> 'w machine \<Rightarrow> 'w machine" where
  "CLR_FLAG b = REG_update (rP_update (\<lambda>p. p AND NOT b))"

definition GET_FLAG :: "MEM_WORD \<Rightarrow> 'w machine \<Rightarrow> bool" where
  "GET_FLAG b m = (rP (REG m) AND b \<noteq> 0)"

text \<open>The idiom \<open>if (c) SET_FLAG(b); else CLR_FLAG(b);\<close>.\<close>

definition PUT_FLAG :: "MEM_WORD \<Rightarrow> bool \<Rightarrow> 'w machine \<Rightarrow> 'w machine" where
  "PUT_FLAG b c m = (if c then SET_FLAG b m else CLR_FLAG b m)"

text \<open>The status byte with one flag bit written, the effect of the macros on \<open>REG.P\<close>.\<close>

definition put_bit :: "MEM_WORD \<Rightarrow> bool \<Rightarrow> MEM_WORD \<Rightarrow> MEM_WORD" where
  "put_bit b c p = (if c then p OR b else p AND NOT b)"

lemma PUT_FLAG_eq: "PUT_FLAG b c = REG_update (rP_update (put_bit b c))"
  by (rule ext) (simp add: PUT_FLAG_def SET_FLAG_def CLR_FLAG_def put_bit_def)

lemma SET_FLAG_eq: "SET_FLAG b = REG_update (rP_update (put_bit b True))"
  by (simp add: SET_FLAG_def put_bit_def [abs_def])

lemma CLR_FLAG_eq: "CLR_FLAG b = REG_update (rP_update (put_bit b False))"
  by (simp add: CLR_FLAG_def put_bit_def [abs_def])

lemmas flag_eqs = PUT_FLAG_eq SET_FLAG_eq CLR_FLAG_eq

text \<open>Reading a flag is reading its bit.\<close>

lemma GET_FLAG_bit [flag_simps]:
  "GET_FLAG 1 m = bit (P_of m) 0" "GET_FLAG 2 m = bit (P_of m) 1"
  "GET_FLAG 4 m = bit (P_of m) 2" "GET_FLAG 8 m = bit (P_of m) 3"
  "GET_FLAG 16 m = bit (P_of m) 4" "GET_FLAG 32 m = bit (P_of m) 5"
  "GET_FLAG 64 m = bit (P_of m) 6" "GET_FLAG 128 m = bit (P_of m) 7"
  by (simp_all add: GET_FLAG_def byte_mask_bits)

text \<open>Writing a flag changes that bit only.\<close>

lemma bit_put_bit [flag_simps]:
  "bit (put_bit 1 c p) n = (if n = 0 then c else bit p n)"
  "bit (put_bit 2 c p) n = (if n = 1 then c else bit p n)"
  "bit (put_bit 4 c p) n = (if n = 2 then c else bit p n)"
  "bit (put_bit 8 c p) n = (if n = 3 then c else bit p n)"
  "bit (put_bit 16 c p) n = (if n = 4 then c else bit p n)"
  "bit (put_bit 32 c p) n = (if n = 5 then c else bit p n)"
  "bit (put_bit 64 c p) n = (if n = 6 then c else bit p n)"
  "bit (put_bit 128 c p) n = (if n = 7 then c else bit p n)"
proof -
  have gen: "bit (put_bit (2 ^ k) c p) n = (if n = k then c else bit p n)" if "k < 8" for k
    using that by (auto simp: put_bit_def bit_simps dest: bit_imp_le_length)
  show "bit (put_bit 1 c p) n = (if n = 0 then c else bit p n)"
    "bit (put_bit 2 c p) n = (if n = 1 then c else bit p n)"
    "bit (put_bit 4 c p) n = (if n = 2 then c else bit p n)"
    "bit (put_bit 8 c p) n = (if n = 3 then c else bit p n)"
    "bit (put_bit 16 c p) n = (if n = 4 then c else bit p n)"
    "bit (put_bit 32 c p) n = (if n = 5 then c else bit p n)"
    "bit (put_bit 64 c p) n = (if n = 6 then c else bit p n)"
    "bit (put_bit 128 c p) n = (if n = 7 then c else bit p n)"
    using gen [of 0] gen [of 1] gen [of 2] gen [of 3] gen [of 4] gen [of 5] gen [of 6]
      gen [of 7]
    by simp_all
qed

subsection \<open>cpu.c: variant, waiting and stopped\<close>

definition cpu_set_variant :: "CPU_VARIANT \<Rightarrow> 'w machine \<Rightarrow> 'w machine" where
  "cpu_set_variant v m = m\<lparr>CPU_VARIANT_MODE := v\<rparr>"

definition cpu_get_variant :: "'w machine \<Rightarrow> CPU_VARIANT" where
  [simp]: "cpu_get_variant m = CPU_VARIANT_MODE m"

definition cpu_set_waiting :: "int \<Rightarrow> 'w machine \<Rightarrow> 'w machine" where
  [simp]: "cpu_set_waiting v m = m\<lparr>CPU_WAITING := v\<rparr>"

definition cpu_set_stopped :: "int \<Rightarrow> 'w machine \<Rightarrow> 'w machine" where
  [simp]: "cpu_set_stopped v m = m\<lparr>CPU_STOPPED := v\<rparr>"

definition cpu_is_waiting :: "'w machine \<Rightarrow> int" where
  "cpu_is_waiting m = CPU_WAITING m"

definition cpu_is_stopped :: "'w machine \<Rightarrow> int" where
  "cpu_is_stopped m = CPU_STOPPED m"

text \<open>\<open>set_zn\<close>: Z and N from the value of a byte.\<close>

definition set_zn :: "MEM_WORD \<Rightarrow> 'w machine \<Rightarrow> 'w machine" where
  "set_zn V m =
     (let m = (if V = 0 then SET_FLAG FLAG_Z m else CLR_FLAG FLAG_Z m)
      in if V AND 0x80 \<noteq> 0 then SET_FLAG FLAG_N m else CLR_FLAG FLAG_N m)"

lemma set_zn_eq: "set_zn V = REG_update (rP_update (\<lambda>p. put_bit 128 (bit V 7) (put_bit 2 (V = 0) p)))"
  by (rule ext) (simp add: set_zn_def flag_eqs FLAG_Z_def FLAG_N_def byte_mask_bits o_def Let_def)

end
