(* ===== verification/Instr_Table.thy ===== *)
theory Instr_Table
  imports Machine
begin

text \<open>
  src/instructions_table.c: the 16 rows of \<open>INST_TABLE\<close>, one definition per row, and the
  lookup \<open>INST_TABLE[OPCODE>>4][OPCODE&0x0F]\<close>. The addressing modes are the 65C02's; theory
  Cpu has the per-variant overrides.
\<close>

named_theorems row_defs

definition inst :: "string \<Rightarrow> ADDR_MODE \<Rightarrow> REG_TYPE \<Rightarrow> REG_TYPE \<Rightarrow> INST" where
  [simp]: "inst c a s d = \<lparr>CMD = c, ADDR = a, SRC = s, DEST = d\<rparr>"

definition INST_ROW_0 :: "INST list" where
  [row_defs]: "INST_ROW_0 =
    [inst ''BRK'' ADDR_NONE REG_NONE REG_NONE,
     inst ''ORA'' ADDR_INDX REG_A REG_NONE,
     inst ''NOP'' ADDR_IMM REG_NONE REG_NONE,
     inst ''SLO'' ADDR_NONE REG_NONE REG_NONE,
     inst ''TSB'' ADDR_ZP REG_NONE REG_NONE,
     inst ''ORA'' ADDR_ZP REG_A REG_NONE,
     inst ''ASL'' ADDR_ZP REG_A REG_A,
     inst ''RMB0'' ADDR_ZP REG_NONE REG_NONE,
     inst ''PHP'' ADDR_NONE REG_NONE REG_NONE,
     inst ''ORA'' ADDR_IMM REG_A REG_NONE,
     inst ''ASL'' ADDR_ACC REG_A REG_A,
     inst ''ANC'' ADDR_IMM REG_A REG_NONE,
     inst ''TSB'' ADDR_ABS REG_NONE REG_NONE,
     inst ''ORA'' ADDR_ABS REG_A REG_NONE,
     inst ''ASL'' ADDR_ABS REG_A REG_A,
     inst ''BBR0'' ADDR_ZPREL REG_NONE REG_NONE]"

definition INST_ROW_1 :: "INST list" where
  [row_defs]: "INST_ROW_1 =
    [inst ''BPL'' ADDR_REL REG_NONE REG_NONE,
     inst ''ORA'' ADDR_INDY REG_A REG_NONE,
     inst ''ORA'' ADDR_ZP_IND REG_A REG_NONE,
     inst ''SLO'' ADDR_NONE REG_NONE REG_NONE,
     inst ''TRB'' ADDR_ZP REG_NONE REG_NONE,
     inst ''ORA'' ADDR_ZPX REG_A REG_NONE,
     inst ''ASL'' ADDR_ZPX REG_A REG_A,
     inst ''RMB1'' ADDR_ZP REG_NONE REG_NONE,
     inst ''CLC'' ADDR_NONE REG_NONE REG_NONE,
     inst ''ORA'' ADDR_ABSY REG_A REG_NONE,
     inst ''INC'' ADDR_ACC REG_A REG_A,
     inst ''SLO'' ADDR_NONE REG_NONE REG_NONE,
     inst ''TRB'' ADDR_ABS REG_NONE REG_NONE,
     inst ''ORA'' ADDR_ABSX REG_A REG_NONE,
     inst ''ASL'' ADDR_ABSX REG_A REG_A,
     inst ''BBR1'' ADDR_ZPREL REG_NONE REG_NONE]"

definition INST_ROW_2 :: "INST list" where
  [row_defs]: "INST_ROW_2 =
    [inst ''JSR'' ADDR_ABS REG_NONE REG_NONE,
     inst ''AND'' ADDR_INDX REG_A REG_NONE,
     inst ''NOP'' ADDR_IMM REG_NONE REG_NONE,
     inst ''RLA'' ADDR_NONE REG_NONE REG_NONE,
     inst ''BIT'' ADDR_ZP REG_NONE REG_NONE,
     inst ''AND'' ADDR_ZP REG_A REG_NONE,
     inst ''ROL'' ADDR_ZP REG_A REG_A,
     inst ''RMB2'' ADDR_ZP REG_NONE REG_NONE,
     inst ''PLP'' ADDR_NONE REG_NONE REG_NONE,
     inst ''AND'' ADDR_IMM REG_A REG_NONE,
     inst ''ROL'' ADDR_ACC REG_A REG_A,
     inst ''ANC'' ADDR_IMM REG_A REG_NONE,
     inst ''BIT'' ADDR_ABS REG_NONE REG_NONE,
     inst ''AND'' ADDR_ABS REG_A REG_NONE,
     inst ''ROL'' ADDR_ABS REG_A REG_A,
     inst ''BBR2'' ADDR_ZPREL REG_NONE REG_NONE]"

definition INST_ROW_3 :: "INST list" where
  [row_defs]: "INST_ROW_3 =
    [inst ''BMI'' ADDR_REL REG_NONE REG_NONE,
     inst ''AND'' ADDR_INDY REG_A REG_NONE,
     inst ''AND'' ADDR_ZP_IND REG_A REG_NONE,
     inst ''RLA'' ADDR_NONE REG_NONE REG_NONE,
     inst ''BIT'' ADDR_ZPX REG_NONE REG_NONE,
     inst ''AND'' ADDR_ZPX REG_A REG_NONE,
     inst ''ROL'' ADDR_ZPX REG_A REG_A,
     inst ''RMB3'' ADDR_ZP REG_NONE REG_NONE,
     inst ''SEC'' ADDR_NONE REG_NONE REG_NONE,
     inst ''AND'' ADDR_ABSY REG_A REG_NONE,
     inst ''DEC'' ADDR_ACC REG_A REG_A,
     inst ''RLA'' ADDR_NONE REG_NONE REG_NONE,
     inst ''BIT'' ADDR_ABSX REG_NONE REG_NONE,
     inst ''AND'' ADDR_ABSX REG_A REG_NONE,
     inst ''ROL'' ADDR_ABSX REG_A REG_A,
     inst ''BBR3'' ADDR_ZPREL REG_NONE REG_NONE]"

definition INST_ROW_4 :: "INST list" where
  [row_defs]: "INST_ROW_4 =
    [inst ''RTI'' ADDR_NONE REG_NONE REG_NONE,
     inst ''EOR'' ADDR_INDX REG_A REG_NONE,
     inst ''NOP'' ADDR_IMM REG_NONE REG_NONE,
     inst ''SRE'' ADDR_NONE REG_NONE REG_NONE,
     inst ''NOP'' ADDR_ZP REG_NONE REG_NONE,
     inst ''EOR'' ADDR_ZP REG_A REG_NONE,
     inst ''LSR'' ADDR_ZP REG_A REG_A,
     inst ''RMB4'' ADDR_ZP REG_NONE REG_NONE,
     inst ''PHA'' ADDR_NONE REG_NONE REG_NONE,
     inst ''EOR'' ADDR_IMM REG_A REG_NONE,
     inst ''LSR'' ADDR_ACC REG_A REG_A,
     inst ''ALR'' ADDR_IMM REG_A REG_NONE,
     inst ''JMP'' ADDR_ABS REG_NONE REG_NONE,
     inst ''EOR'' ADDR_ABS REG_A REG_NONE,
     inst ''LSR'' ADDR_ABS REG_A REG_A,
     inst ''BBR4'' ADDR_ZPREL REG_NONE REG_NONE]"

definition INST_ROW_5 :: "INST list" where
  [row_defs]: "INST_ROW_5 =
    [inst ''BVC'' ADDR_REL REG_NONE REG_NONE,
     inst ''EOR'' ADDR_INDY REG_A REG_NONE,
     inst ''EOR'' ADDR_ZP_IND REG_A REG_NONE,
     inst ''SRE'' ADDR_NONE REG_NONE REG_NONE,
     inst ''NOP'' ADDR_ZPX REG_NONE REG_NONE,
     inst ''EOR'' ADDR_ZPX REG_A REG_NONE,
     inst ''LSR'' ADDR_ZPX REG_A REG_A,
     inst ''RMB5'' ADDR_ZP REG_NONE REG_NONE,
     inst ''CLI'' ADDR_NONE REG_NONE REG_NONE,
     inst ''EOR'' ADDR_ABSY REG_A REG_NONE,
     inst ''PHY'' ADDR_NONE REG_Y REG_NONE,
     inst ''SRE'' ADDR_NONE REG_NONE REG_NONE,
     inst ''NOP'' ADDR_ABS REG_NONE REG_NONE,
     inst ''EOR'' ADDR_ABSX REG_A REG_NONE,
     inst ''LSR'' ADDR_ABSX REG_A REG_A,
     inst ''BBR5'' ADDR_ZPREL REG_NONE REG_NONE]"

definition INST_ROW_6 :: "INST list" where
  [row_defs]: "INST_ROW_6 =
    [inst ''RTS'' ADDR_NONE REG_NONE REG_NONE,
     inst ''ADC'' ADDR_INDX REG_A REG_NONE,
     inst ''NOP'' ADDR_IMM REG_NONE REG_NONE,
     inst ''RRA'' ADDR_NONE REG_NONE REG_NONE,
     inst ''STZ'' ADDR_ZP REG_NONE REG_NONE,
     inst ''ADC'' ADDR_ZP REG_A REG_NONE,
     inst ''ROR'' ADDR_ZP REG_A REG_A,
     inst ''RMB6'' ADDR_ZP REG_NONE REG_NONE,
     inst ''PLA'' ADDR_NONE REG_NONE REG_NONE,
     inst ''ADC'' ADDR_IMM REG_A REG_NONE,
     inst ''ROR'' ADDR_ACC REG_A REG_A,
     inst ''ARR'' ADDR_IMM REG_A REG_NONE,
     inst ''JMP'' ADDR_IND REG_NONE REG_NONE,
     inst ''ADC'' ADDR_ABS REG_A REG_NONE,
     inst ''ROR'' ADDR_ABS REG_A REG_A,
     inst ''BBR6'' ADDR_ZPREL REG_NONE REG_NONE]"

definition INST_ROW_7 :: "INST list" where
  [row_defs]: "INST_ROW_7 =
    [inst ''BVS'' ADDR_REL REG_NONE REG_NONE,
     inst ''ADC'' ADDR_INDY REG_A REG_NONE,
     inst ''ADC'' ADDR_ZP_IND REG_A REG_NONE,
     inst ''RRA'' ADDR_NONE REG_NONE REG_NONE,
     inst ''STZ'' ADDR_ZPX REG_NONE REG_NONE,
     inst ''ADC'' ADDR_ZPX REG_A REG_NONE,
     inst ''ROR'' ADDR_ZPX REG_A REG_A,
     inst ''RMB7'' ADDR_ZP REG_NONE REG_NONE,
     inst ''SEI'' ADDR_NONE REG_NONE REG_NONE,
     inst ''ADC'' ADDR_ABSY REG_A REG_NONE,
     inst ''PLY'' ADDR_NONE REG_NONE REG_Y,
     inst ''RRA'' ADDR_NONE REG_NONE REG_NONE,
     inst ''JMP'' ADDR_ABS_IND_X REG_NONE REG_NONE,
     inst ''ADC'' ADDR_ABSX REG_A REG_NONE,
     inst ''ROR'' ADDR_ABSX REG_A REG_A,
     inst ''BBR7'' ADDR_ZPREL REG_NONE REG_NONE]"

definition INST_ROW_8 :: "INST list" where
  [row_defs]: "INST_ROW_8 =
    [inst ''BRA'' ADDR_REL REG_NONE REG_NONE,
     inst ''STA'' ADDR_INDX REG_A REG_NONE,
     inst ''NOP'' ADDR_IMM REG_NONE REG_NONE,
     inst ''SAX'' ADDR_NONE REG_NONE REG_NONE,
     inst ''STY'' ADDR_ZP REG_Y REG_NONE,
     inst ''STA'' ADDR_ZP REG_A REG_NONE,
     inst ''STX'' ADDR_ZP REG_X REG_NONE,
     inst ''SMB0'' ADDR_ZP REG_NONE REG_NONE,
     inst ''DEY'' ADDR_NONE REG_Y REG_NONE,
     inst ''BIT'' ADDR_IMM REG_NONE REG_NONE,
     inst ''TXS'' ADDR_NONE REG_X REG_SP,
     inst ''KIL'' ADDR_NONE REG_NONE REG_NONE,
     inst ''STY'' ADDR_ABS REG_Y REG_NONE,
     inst ''STA'' ADDR_ABS REG_A REG_NONE,
     inst ''STX'' ADDR_ABS REG_X REG_NONE,
     inst ''BBS0'' ADDR_ZPREL REG_NONE REG_NONE]"

definition INST_ROW_9 :: "INST list" where
  [row_defs]: "INST_ROW_9 =
    [inst ''BCC'' ADDR_REL REG_NONE REG_NONE,
     inst ''STA'' ADDR_INDY REG_A REG_NONE,
     inst ''STA'' ADDR_ZP_IND REG_A REG_NONE,
     inst ''KIL'' ADDR_NONE REG_NONE REG_NONE,
     inst ''STY'' ADDR_ZPX REG_Y REG_NONE,
     inst ''STA'' ADDR_ZPX REG_A REG_NONE,
     inst ''STX'' ADDR_ZPY REG_X REG_NONE,
     inst ''SMB1'' ADDR_ZP REG_NONE REG_NONE,
     inst ''TYA'' ADDR_NONE REG_Y REG_A,
     inst ''STA'' ADDR_ABSY REG_A REG_NONE,
     inst ''TXS'' ADDR_NONE REG_X REG_SP,
     inst ''KIL'' ADDR_NONE REG_NONE REG_NONE,
     inst ''STZ'' ADDR_ABS REG_NONE REG_NONE,
     inst ''STA'' ADDR_ABSX REG_A REG_NONE,
     inst ''STZ'' ADDR_ABSX REG_NONE REG_NONE,
     inst ''BBS1'' ADDR_ZPREL REG_NONE REG_NONE]"

definition INST_ROW_A :: "INST list" where
  [row_defs]: "INST_ROW_A =
    [inst ''LDY'' ADDR_IMM REG_NONE REG_Y,
     inst ''LDA'' ADDR_INDX REG_NONE REG_A,
     inst ''LDX'' ADDR_IMM REG_NONE REG_X,
     inst ''LAX'' ADDR_NONE REG_NONE REG_NONE,
     inst ''LDY'' ADDR_ZP REG_NONE REG_Y,
     inst ''LDA'' ADDR_ZP REG_NONE REG_A,
     inst ''LDX'' ADDR_ZP REG_NONE REG_X,
     inst ''SMB2'' ADDR_ZP REG_NONE REG_NONE,
     inst ''TAY'' ADDR_NONE REG_A REG_Y,
     inst ''LDA'' ADDR_IMM REG_NONE REG_A,
     inst ''TAX'' ADDR_NONE REG_A REG_X,
     inst ''KIL'' ADDR_NONE REG_NONE REG_NONE,
     inst ''LDY'' ADDR_ABS REG_NONE REG_Y,
     inst ''LDA'' ADDR_ABS REG_NONE REG_A,
     inst ''LDX'' ADDR_ABS REG_NONE REG_X,
     inst ''BBS2'' ADDR_ZPREL REG_NONE REG_NONE]"

definition INST_ROW_B :: "INST list" where
  [row_defs]: "INST_ROW_B =
    [inst ''BCS'' ADDR_REL REG_NONE REG_NONE,
     inst ''LDA'' ADDR_INDY REG_NONE REG_A,
     inst ''LDA'' ADDR_ZP_IND REG_NONE REG_A,
     inst ''LAX'' ADDR_NONE REG_NONE REG_NONE,
     inst ''LDY'' ADDR_ZPX REG_NONE REG_Y,
     inst ''LDA'' ADDR_ZPX REG_NONE REG_A,
     inst ''LDX'' ADDR_ZPY REG_NONE REG_X,
     inst ''SMB3'' ADDR_ZP REG_NONE REG_NONE,
     inst ''CLV'' ADDR_NONE REG_NONE REG_NONE,
     inst ''LDA'' ADDR_ABSY REG_NONE REG_A,
     inst ''TSX'' ADDR_NONE REG_SP REG_X,
     inst ''KIL'' ADDR_NONE REG_NONE REG_NONE,
     inst ''LDY'' ADDR_ABSX REG_NONE REG_Y,
     inst ''LDA'' ADDR_ABSX REG_NONE REG_A,
     inst ''LDX'' ADDR_ABSY REG_NONE REG_X,
     inst ''BBS3'' ADDR_ZPREL REG_NONE REG_NONE]"

definition INST_ROW_C :: "INST list" where
  [row_defs]: "INST_ROW_C =
    [inst ''CPY'' ADDR_IMM REG_Y REG_NONE,
     inst ''CMP'' ADDR_INDX REG_A REG_NONE,
     inst ''NOP'' ADDR_IMM REG_NONE REG_NONE,
     inst ''DCP'' ADDR_NONE REG_NONE REG_NONE,
     inst ''CPY'' ADDR_ZP REG_Y REG_NONE,
     inst ''CMP'' ADDR_ZP REG_A REG_NONE,
     inst ''DEC'' ADDR_ZP REG_NONE REG_NONE,
     inst ''SMB4'' ADDR_ZP REG_NONE REG_NONE,
     inst ''INY'' ADDR_NONE REG_Y REG_Y,
     inst ''CMP'' ADDR_IMM REG_A REG_NONE,
     inst ''DEX'' ADDR_NONE REG_X REG_X,
     inst ''WAI'' ADDR_NONE REG_NONE REG_NONE,
     inst ''CPY'' ADDR_ABS REG_Y REG_NONE,
     inst ''CMP'' ADDR_ABS REG_A REG_NONE,
     inst ''DEC'' ADDR_ABS REG_NONE REG_NONE,
     inst ''BBS4'' ADDR_ZPREL REG_NONE REG_NONE]"

definition INST_ROW_D :: "INST list" where
  [row_defs]: "INST_ROW_D =
    [inst ''BNE'' ADDR_REL REG_NONE REG_NONE,
     inst ''CMP'' ADDR_INDY REG_A REG_NONE,
     inst ''CMP'' ADDR_ZP_IND REG_A REG_NONE,
     inst ''DCP'' ADDR_NONE REG_NONE REG_NONE,
     inst ''NOP'' ADDR_ZPX REG_NONE REG_NONE,
     inst ''CMP'' ADDR_ZPX REG_A REG_NONE,
     inst ''DEC'' ADDR_ZPX REG_NONE REG_NONE,
     inst ''SMB5'' ADDR_ZP REG_NONE REG_NONE,
     inst ''CLD'' ADDR_NONE REG_NONE REG_NONE,
     inst ''CMP'' ADDR_ABSY REG_A REG_NONE,
     inst ''PHX'' ADDR_NONE REG_X REG_NONE,
     inst ''STP'' ADDR_NONE REG_NONE REG_NONE,
     inst ''NOP'' ADDR_ABS REG_NONE REG_NONE,
     inst ''CMP'' ADDR_ABSX REG_A REG_NONE,
     inst ''DEC'' ADDR_ABSX REG_NONE REG_NONE,
     inst ''BBS5'' ADDR_ZPREL REG_NONE REG_NONE]"

definition INST_ROW_E :: "INST list" where
  [row_defs]: "INST_ROW_E =
    [inst ''CPX'' ADDR_IMM REG_X REG_NONE,
     inst ''SBC'' ADDR_INDX REG_A REG_NONE,
     inst ''NOP'' ADDR_IMM REG_NONE REG_NONE,
     inst ''ISC'' ADDR_NONE REG_NONE REG_NONE,
     inst ''CPX'' ADDR_ZP REG_X REG_NONE,
     inst ''SBC'' ADDR_ZP REG_A REG_NONE,
     inst ''INC'' ADDR_ZP REG_NONE REG_NONE,
     inst ''SMB6'' ADDR_ZP REG_NONE REG_NONE,
     inst ''INX'' ADDR_NONE REG_X REG_X,
     inst ''SBC'' ADDR_IMM REG_A REG_NONE,
     inst ''NOP'' ADDR_NONE REG_NONE REG_NONE,
     inst ''ALT'' ADDR_IMM REG_A REG_NONE,
     inst ''CPX'' ADDR_ABS REG_X REG_NONE,
     inst ''SBC'' ADDR_ABS REG_A REG_NONE,
     inst ''INC'' ADDR_ABS REG_NONE REG_NONE,
     inst ''BBS6'' ADDR_ZPREL REG_NONE REG_NONE]"

definition INST_ROW_F :: "INST list" where
  [row_defs]: "INST_ROW_F =
    [inst ''BEQ'' ADDR_REL REG_NONE REG_NONE,
     inst ''SBC'' ADDR_INDY REG_A REG_NONE,
     inst ''SBC'' ADDR_ZP_IND REG_A REG_NONE,
     inst ''ISC'' ADDR_NONE REG_NONE REG_NONE,
     inst ''NOP'' ADDR_ZPX REG_NONE REG_NONE,
     inst ''SBC'' ADDR_ZPX REG_A REG_NONE,
     inst ''INC'' ADDR_ZPX REG_NONE REG_NONE,
     inst ''SMB7'' ADDR_ZP REG_NONE REG_NONE,
     inst ''SED'' ADDR_NONE REG_NONE REG_NONE,
     inst ''SBC'' ADDR_ABSY REG_A REG_NONE,
     inst ''PLX'' ADDR_NONE REG_NONE REG_X,
     inst ''ISC'' ADDR_NONE REG_NONE REG_NONE,
     inst ''NOP'' ADDR_ABSX REG_NONE REG_NONE,
     inst ''SBC'' ADDR_ABSX REG_A REG_NONE,
     inst ''INC'' ADDR_ABSX REG_NONE REG_NONE,
     inst ''BBS7'' ADDR_ZPREL REG_NONE REG_NONE]"

definition INST_TABLE :: "INST list list" where
  "INST_TABLE =
    [INST_ROW_0, INST_ROW_1, INST_ROW_2, INST_ROW_3,
     INST_ROW_4, INST_ROW_5, INST_ROW_6, INST_ROW_7,
     INST_ROW_8, INST_ROW_9, INST_ROW_A, INST_ROW_B,
     INST_ROW_C, INST_ROW_D, INST_ROW_E, INST_ROW_F]"

definition META_of :: "MEM_WORD \<Rightarrow> INST" where
  "META_of op = INST_TABLE ! unat (drop_bit 4 op) ! unat (op AND 0x0F)"

subsection \<open>Shape of the table\<close>

lemma INST_ROW_lengths:
  "\<forall>r \<in> set INST_TABLE. length r = 16"
  by (simp add: INST_TABLE_def row_defs)

lemma length_INST_TABLE [simp]: "length INST_TABLE = 16"
  by (simp add: INST_TABLE_def)

text \<open>
  The table read row by row: opcode \<open>op\<close> is entry \<open>op\<close> of the 256, so the two indices the code
  computes are always in bounds.
\<close>

lemma concat_nth:
  "(\<forall>r \<in> set rs. length r = k) \<Longrightarrow> j < k \<Longrightarrow> i < length rs \<Longrightarrow>
    concat rs ! (i * k + j) = rs ! i ! j"
proof (induction rs arbitrary: i)
  case (Cons r rs)
  then show ?case
    by (cases i) (auto simp: nth_append add.assoc)
qed simp

lemma META_of_nth: "META_of op = concat INST_TABLE ! unat op"
proof -
  have i: "unat (drop_bit 4 op) = unat op div 16" and j: "unat (op AND 0x0F) = unat op mod 16"
    by (simp_all add: unat_low_nibble)
  have "\<forall>r \<in> set INST_TABLE. length r = 16"
    by (rule INST_ROW_lengths)
  then have "concat INST_TABLE ! (unat op div 16 * 16 + unat op mod 16) =
      INST_TABLE ! (unat op div 16) ! (unat op mod 16)"
    using unat_byte_less [of op] by (intro concat_nth) auto
  then show ?thesis by (simp add: META_of_def i j)
qed

end
