(* ===== verification/Bus.thy ===== *)
theory Bus
  imports Machine
begin

text \<open>
  src/bus.c: the two accessors in front of the callbacks of \<open>BUS\<close>, and the little-endian
  16-bit read. \<open>bus_run\<close> is the relation "reached by bus reads and writes only"; \<open>touches\<close>
  says that an operation changed the outside world through the bus only, and left the wiring
  and the CPU variant alone. The locales \<open>bus_invariant\<close> and \<open>memory_bus\<close> are what the rest
  of the emulator relies on when the callbacks behave like memory; src/memory.c provides them.
\<close>

subsection \<open>The accessors\<close>

definition bus_read :: "MEM_TWO_WORDS \<Rightarrow> 'w machine \<Rightarrow> MEM_WORD \<times> 'w machine" where
  "bus_read a m =
     (case READ (BUS m) of
        Some f \<Rightarrow> (let (v, w) = f a (BUS_CTX (BUS m)) (bus_world m) in (v, m\<lparr>bus_world := w\<rparr>))
      | None \<Rightarrow> (0, m))"

definition bus_write :: "MEM_TWO_WORDS \<Rightarrow> MEM_WORD \<Rightarrow> 'w machine \<Rightarrow> 'w machine" where
  "bus_write a d m =
     (case WRITE (BUS m) of
        Some f \<Rightarrow> m\<lparr>bus_world := f a d (BUS_CTX (BUS m)) (bus_world m)\<rparr>
      | None \<Rightarrow> m)"

definition bus_read16 :: "MEM_TWO_WORDS \<Rightarrow> 'w machine \<Rightarrow> MEM_TWO_WORDS \<times> 'w machine" where
  "bus_read16 a m =
     (let (lo, m) = bus_read a m;
          (hi, m) = bus_read (a + 1) m
      in (word_of_bytes lo hi, m))"

subsection \<open>The accessors as functions of the wiring and the world\<close>

definition bus_rd :: "'w T_BUS \<Rightarrow> MEM_TWO_WORDS \<Rightarrow> 'w \<Rightarrow> MEM_WORD \<times> 'w" where
  "bus_rd b a w = (case READ b of Some f \<Rightarrow> f a (BUS_CTX b) w | None \<Rightarrow> (0, w))"

definition bus_wr :: "'w T_BUS \<Rightarrow> MEM_TWO_WORDS \<Rightarrow> MEM_WORD \<Rightarrow> 'w \<Rightarrow> 'w" where
  "bus_wr b a d w = (case WRITE b of Some f \<Rightarrow> f a d (BUS_CTX b) w | None \<Rightarrow> w)"

lemma bus_read_eq:
  "bus_read a m = (fst (bus_rd (BUS m) a (bus_world m)),
                   bus_world_update (\<lambda>w. snd (bus_rd (BUS m) a w)) m)"
  by (cases m) (simp add: bus_read_def bus_rd_def split: option.split prod.split)

lemma bus_write_eq: "bus_write a d m = bus_world_update (bus_wr (BUS m) a d) m"
  by (cases m) (simp add: bus_write_def bus_wr_def split: option.split)

lemma bus_read16_eq:
  "bus_read16 a m =
     (let r1 = bus_rd (BUS m) a (bus_world m); r2 = bus_rd (BUS m) (a + 1) (snd r1)
      in (word_of_bytes (fst r1) (fst r2), m\<lparr>bus_world := snd r2\<rparr>))"
  by (cases m) (simp add: bus_read16_def bus_read_eq Let_def split: prod.split)

lemma bus_write_REG:
  "REG (bus_write a d m) = REG m"
  "bus_write a d (REG_update f m) = REG_update f (bus_write a d m)"
  by (simp_all add: bus_write_eq)

lemmas bus_eqs = bus_read_eq bus_write_eq bus_read16_eq

text \<open>The byte an address holds as the CPU sees it.\<close>

definition peek :: "MEM_TWO_WORDS \<Rightarrow> 'w machine \<Rightarrow> MEM_WORD" where
  "peek a m = fst (bus_read a m)"

lemma peek_eq: "peek a m = fst (bus_rd (BUS m) a (bus_world m))"
  by (simp add: peek_def bus_read_eq)

subsection \<open>Reached by bus accesses only\<close>

inductive bus_run :: "'w T_BUS \<Rightarrow> 'w \<Rightarrow> 'w \<Rightarrow> bool" for b where
  bus_none: "bus_run b w w"
| bus_then_read: "bus_run b w w' \<Longrightarrow> bus_run b w (snd (bus_rd b a w'))"
| bus_then_write: "bus_run b w w' \<Longrightarrow> bus_run b w (bus_wr b a d w')"

lemma bus_run_trans:
  assumes "bus_run b u v" and "bus_run b v w"
  shows "bus_run b u w"
  using assms(2,1) by (induction rule: bus_run.induct) (auto intro: bus_run.intros)

definition touches :: "'w machine \<Rightarrow> 'w machine \<Rightarrow> bool" where
  "touches m m' =
     (BUS m' = BUS m \<and> CPU_VARIANT_MODE m' = CPU_VARIANT_MODE m \<and>
      trace_enabled m' = trace_enabled m \<and> bus_run (BUS m) (bus_world m) (bus_world m'))"

lemma touches_refl [simp, touch_intros]: "touches m m"
  by (simp add: touches_def bus_none)

lemma touches_trans: "touches m m' \<Longrightarrow> touches m' m'' \<Longrightarrow> touches m m''"
  by (auto simp: touches_def intro: bus_run_trans)

lemma touches_bus_read [touch_intros]: "touches m (snd (bus_read a m))"
  by (simp add: touches_def bus_read_eq bus_then_read bus_none)

lemma touches_bus_write [touch_intros]: "touches m (bus_write a d m)"
  by (simp add: touches_def bus_write_eq bus_then_write bus_none)

lemma touches_bus_read16 [touch_intros]: "touches m (snd (bus_read16 a m))"
  by (simp add: touches_def bus_read16_eq bus_then_read bus_none Let_def)

subsection \<open>The contract of a bus that behaves like memory\<close>

definition wired :: "'w bus_read_fn \<Rightarrow> 'w bus_write_fn \<Rightarrow> 'w machine \<Rightarrow> bool" where
  "wired rd wr m = (READ (BUS m) = Some rd \<and> WRITE (BUS m) = Some wr)"

lemma wired_touches: "touches m m' \<Longrightarrow> wired rd wr m' = wired rd wr m"
  by (simp add: touches_def wired_def)

text \<open>Callbacks that keep an invariant of the world.\<close>

locale bus_invariant =
  fixes rd :: "MEM_TWO_WORDS \<Rightarrow> pointer \<Rightarrow> 'w \<Rightarrow> MEM_WORD \<times> 'w"
    and wr :: "MEM_TWO_WORDS \<Rightarrow> MEM_WORD \<Rightarrow> pointer \<Rightarrow> 'w \<Rightarrow> 'w"
    and inv :: "'w \<Rightarrow> bool"
  assumes rd_inv: "inv w \<Longrightarrow> inv (snd (rd a c w))"
    and wr_inv: "inv w \<Longrightarrow> inv (wr a d c w)"
begin

lemma bus_run_inv:
  assumes "bus_run b w w'" and "READ b = Some rd" and "WRITE b = Some wr" and "inv w"
  shows "inv w'"
  using assms
  by (induction rule: bus_run.induct) (auto simp: bus_rd_def bus_wr_def rd_inv wr_inv)

text \<open>Whatever changes the world through the bus only keeps the invariant.\<close>

lemma touches_inv:
  "touches m m' \<Longrightarrow> wired rd wr m \<Longrightarrow> inv (bus_world m) \<Longrightarrow> inv (bus_world m')"
  by (auto simp: touches_def wired_def intro: bus_run_inv)

end

text \<open>
  Callbacks that behave like memory: at the addresses \<open>plain w\<close> a read has no side effect,
  at the addresses \<open>ram w\<close> a write is read back and disturbs no other plain address.
\<close>

locale memory_bus = bus_invariant rd wr inv
  for rd :: "MEM_TWO_WORDS \<Rightarrow> pointer \<Rightarrow> 'w \<Rightarrow> MEM_WORD \<times> 'w"
    and wr :: "MEM_TWO_WORDS \<Rightarrow> MEM_WORD \<Rightarrow> pointer \<Rightarrow> 'w \<Rightarrow> 'w"
    and inv :: "'w \<Rightarrow> bool" +
  fixes plain :: "'w \<Rightarrow> MEM_TWO_WORDS set"
    and ram :: "'w \<Rightarrow> MEM_TWO_WORDS set"
  assumes ram_plain: "inv w \<Longrightarrow> ram w \<subseteq> plain w"
    and rd_plain: "inv w \<Longrightarrow> a \<in> plain w \<Longrightarrow> snd (rd a c w) = w"
    and plain_wr: "inv w \<Longrightarrow> plain (wr a d c w) = plain w"
    and ram_wr: "inv w \<Longrightarrow> ram (wr a d c w) = ram w"
    and rd_wr: "inv w \<Longrightarrow> a \<in> ram w \<Longrightarrow> b \<in> plain w \<Longrightarrow>
      fst (rd b c (wr a d c w)) = (if b = a then d else fst (rd b c w))"
begin

lemma bus_read_plain:
  assumes "wired rd wr m" and "inv (bus_world m)" and "a \<in> plain (bus_world m)"
  shows "bus_read a m = (peek a m, m)"
  using assms by (cases m) (simp add: bus_read_eq peek_eq bus_rd_def wired_def rd_plain)

lemma peek_bus_write:
  assumes "wired rd wr m" and "inv (bus_world m)"
    and "a \<in> ram (bus_world m)" and "b \<in> plain (bus_world m)"
  shows "peek b (bus_write a d m) = (if b = a then d else peek b m)"
  using assms by (simp add: bus_write_eq peek_eq bus_rd_def bus_wr_def wired_def rd_wr)

lemma after_bus_write:
  assumes "wired rd wr m" and "inv (bus_world m)"
  shows "wired rd wr (bus_write a d m)" and "inv (bus_world (bus_write a d m))"
    and "plain (bus_world (bus_write a d m)) = plain (bus_world m)"
    and "ram (bus_world (bus_write a d m)) = ram (bus_world m)"
  using assms by (simp_all add: bus_write_eq bus_wr_def wired_def wr_inv plain_wr ram_wr)

end

end
