(* ===== verification/Fetch_Stack.thy ===== *)
theory Fetch_Stack
  imports Bus
begin

text \<open>
  Instruction fetch (\<open>fetch8\<close>, \<open>fetch16\<close> of src/cpu.c) and the hardware stack (src/stack.c),
  with the stack discipline proved once over the memory contract of theory Bus: pops return
  what was pushed, and the stack pointer wraps inside page one.
\<close>

subsection \<open>Fetch\<close>

definition fetch8 :: "'w machine \<Rightarrow> MEM_WORD \<times> 'w machine" where
  "fetch8 m = bus_read (PC_of m) (set_PC (PC_of m + 1) m)"

definition fetch16 :: "'w machine \<Rightarrow> MEM_TWO_WORDS \<times> 'w machine" where
  "fetch16 m =
     (let (LO, m) = bus_read (PC_of m) m;
          (HI, m) = bus_read (PC_of m + 1) m;
          m = set_PC (PC_of m + 2) m
      in (word_of_bytes LO HI, m))"

lemma fetch8_eq:
  "fetch8 m = (peek (PC_of m) m, set_PC (PC_of m + 1) (snd (bus_read (PC_of m) m)))"
  by (simp add: fetch8_def bus_read_eq peek_eq)

subsection \<open>Stack\<close>

text \<open>\<open>STACK_START + S\<close>, in the 16 bits of the address parameter.\<close>

definition stack_addr :: "MEM_WORD \<Rightarrow> MEM_TWO_WORDS" where
  "stack_addr s = CPU_STACK_BASE + ucast s"

definition push8 :: "MEM_WORD \<Rightarrow> 'w machine \<Rightarrow> 'w machine" where
  "push8 d m = bus_write (stack_addr (S_of m)) d (set_S (S_of m - 1) m)"

definition push16 :: "MEM_TWO_WORDS \<Rightarrow> 'w machine \<Rightarrow> 'w machine" where
  "push16 d m = push8 (lo_byte d) (push8 (hi_byte d) m)"

definition pop8 :: "'w machine \<Rightarrow> MEM_WORD \<times> 'w machine" where
  "pop8 m = bus_read (stack_addr (S_of m + 1)) (set_S (S_of m + 1) m)"

definition pop16 :: "'w machine \<Rightarrow> MEM_TWO_WORDS \<times> 'w machine" where
  "pop16 m =
     (let (low, m) = pop8 m;
          (high, m) = pop8 m
      in (word_of_bytes low high, m))"

lemma touches_fetch [touch_intros]:
  "touches m (snd (fetch8 m))" "touches m (snd (fetch16 m))"
  by (simp_all add: fetch8_def fetch16_def bus_read_eq touches_def bus_run.intros)

lemma touches_stack [touch_intros]:
  "touches m (push8 d m)" "touches m (push16 w m)"
  "touches m (snd (pop8 m))" "touches m (snd (pop16 m))"
  by (simp_all add: push8_def push16_def pop8_def pop16_def bus_eqs touches_def bus_run.intros)

text \<open>The stack lives in page one, each of the 256 stack pointers at its own address.\<close>

lemma unat_stack_addr: "unat (stack_addr s) = 256 + unat s"
  using unat_byte_less [of s]
  by (simp add: stack_addr_def unat_word_ariths unat_ucast_word)

lemma stack_addr_range: "CPU_STACK_BASE \<le> stack_addr s \<and> stack_addr s \<le> CPU_STACK_TOP"
  using unat_byte_less [of s] by (simp add: word_le_nat_alt unat_stack_addr)

lemma stack_addr_inj [simp]: "(stack_addr s = stack_addr t) = (s = t)"
  by (metis add_left_cancel unat_stack_addr word_unat_eq_iff)

text \<open>Registers other than S and the rest of the machine are not touched by a push or pop.\<close>

lemma push8_fields [simp]:
  "REG (push8 d m) = rS_update (\<lambda>_. S_of m - 1) (REG m)" "BUS (push8 d m) = BUS m"
  by (simp_all add: push8_def bus_write_eq)

lemma push16_fields [simp]:
  "REG (push16 w m) = rS_update (\<lambda>_. S_of m - 2) (REG m)" "BUS (push16 w m) = BUS m"
  by (simp_all add: push16_def)

lemma pop8_fields [simp]:
  "REG (snd (pop8 m)) = rS_update (\<lambda>_. S_of m + 1) (REG m)" "BUS (snd (pop8 m)) = BUS m"
  by (simp_all add: pop8_def bus_read_eq)

lemma pop16_fields [simp]:
  "REG (snd (pop16 m)) = rS_update (\<lambda>_. S_of m + 2) (REG m)" "BUS (snd (pop16 m)) = BUS m"
  by (simp_all add: pop16_def pop8_def bus_read_eq)

lemma peek_REG [simp]: "peek a (REG_update f m) = peek a m"
  by (simp add: peek_eq)

lemma fst_pop8: "fst (pop8 m) = peek (stack_addr (S_of m + 1)) m"
  by (simp add: pop8_def bus_read_eq peek_eq)

text \<open>The whole of page one is RAM.\<close>

definition stack_in :: "MEM_TWO_WORDS set \<Rightarrow> bool" where
  "stack_in A = (\<forall>s. stack_addr s \<in> A)"

definition stack_ready ::
  "'w bus_read_fn \<Rightarrow> 'w bus_write_fn \<Rightarrow> ('w \<Rightarrow> bool) \<Rightarrow> ('w \<Rightarrow> MEM_TWO_WORDS set) \<Rightarrow>
   'w machine \<Rightarrow> bool" where
  "stack_ready rd wr ok ramset m =
     (wired rd wr m \<and> ok (bus_world m) \<and> stack_in (ramset (bus_world m)))"

context memory_bus
begin

abbreviation stack_ok :: "'w machine \<Rightarrow> bool" where
  "stack_ok \<equiv> stack_ready rd wr inv ram"

lemma stack_ok_REG [simp]: "stack_ok (REG_update f m) = stack_ok m"
  by (simp add: stack_ready_def wired_def)

lemma stack_addr_ram: "stack_ok m \<Longrightarrow> stack_addr s \<in> ram (bus_world m)"
  by (simp add: stack_ready_def stack_in_def)

lemma stack_addr_plain: "stack_ok m \<Longrightarrow> stack_addr s \<in> plain (bus_world m)"
  using ram_plain stack_addr_ram by (auto simp: stack_ready_def)

lemma stack_ok_push8: "stack_ok m \<Longrightarrow> stack_ok (push8 d m)"
  unfolding stack_ready_def push8_def by (simp add: bus_write_eq bus_wr_def wired_def wr_inv ram_wr)

lemma stack_ok_push16: "stack_ok m \<Longrightarrow> stack_ok (push16 w m)"
  by (simp add: push16_def stack_ok_push8)

text \<open>A stack slot after a push: the pushed byte in its own slot, the old byte elsewhere.\<close>

lemma peek_push8:
  assumes "stack_ok m" and "b \<in> plain (bus_world m)"
  shows "peek b (push8 d m) = (if b = stack_addr (S_of m) then d else peek b m)"
  using assms peek_bus_write [of "set_S (S_of m - 1) m" "stack_addr (S_of m)" b d]
  by (simp add: push8_def stack_ready_def stack_in_def wired_def)

lemma plain_push8: "stack_ok m \<Longrightarrow> plain (bus_world (push8 d m)) = plain (bus_world m)"
  by (simp add: push8_def bus_write_eq bus_wr_def stack_ready_def wired_def plain_wr)

lemma plain_push16: "stack_ok m \<Longrightarrow> plain (bus_world (push16 w m)) = plain (bus_world m)"
  by (simp add: push16_def plain_push8 stack_ok_push8)

lemma peek_push16:
  assumes "stack_ok m" and "b \<in> plain (bus_world m)"
  shows "peek b (push16 w m) =
    (if b = stack_addr (S_of m - 1) then lo_byte w
     else if b = stack_addr (S_of m) then hi_byte w else peek b m)"
  using assms by (simp add: push16_def peek_push8 stack_ok_push8 plain_push8)

text \<open>A pop has no side effect but on S, and reads the slot above the stack pointer.\<close>

lemma pop8_eq:
  "stack_ok m \<Longrightarrow> pop8 m = (peek (stack_addr (S_of m + 1)) m, set_S (S_of m + 1) m)"
  using bus_read_plain [of "set_S (S_of m + 1) m" "stack_addr (S_of m + 1)"]
    stack_addr_plain [of m "S_of m + 1"]
  by (simp add: pop8_def stack_ready_def wired_def)

lemma pop16_eq:
  "stack_ok m \<Longrightarrow>
    pop16 m = (word_of_bytes (peek (stack_addr (S_of m + 1)) m) (peek (stack_addr (S_of m + 2)) m),
               set_S (S_of m + 2) m)"
  by (simp add: pop16_def pop8_eq add.commute)

lemma pop8_push8:
  "stack_ok m \<Longrightarrow> pop8 (push8 d m) = (d, set_S (S_of m) (push8 d m))"
  by (simp add: pop8_eq stack_ok_push8 peek_push8 stack_addr_plain)

lemma pop16_push16:
  "stack_ok m \<Longrightarrow> pop16 (push16 w m) = (w, set_S (S_of m) (push16 w m))"
  by (simp add: pop16_eq stack_ok_push16 peek_push16 stack_addr_plain)

end

end
