(* ===== verification/Addressing.thy ===== *)
theory Addressing
  imports Fetch_Stack
begin

text \<open>
  src/addressing.c: the operand fetch of every addressing mode. Each function returns the
  effective address (or, for immediate mode, the operand byte widened to 16 bits) and the
  machine after the fetches; the out-parameters \<open>page_cross\<close> and \<open>has_ea\<close> are the globals
  \<open>PAGE_CROSS\<close> and \<open>HAS_EA\<close>, the only objects the code ever passes. On memory without side
  effects the functions are shown to compute a reference definition over the memory contents.
\<close>

definition addr_zp :: "'w machine \<Rightarrow> MEM_TWO_WORDS \<times> 'w machine" where
  [mode_defs]: "addr_zp m = (let (v, m) = fetch8 m in (ucast v, m))"

definition addr_zpx :: "'w machine \<Rightarrow> MEM_TWO_WORDS \<times> 'w machine" where
  [mode_defs]: "addr_zpx m = (let (v, m) = fetch8 m in ((ucast (X_of m) + ucast v) AND 0xFF, m))"

definition addr_zpy :: "'w machine \<Rightarrow> MEM_TWO_WORDS \<times> 'w machine" where
  [mode_defs]: "addr_zpy m = (let (v, m) = fetch8 m in ((ucast (Y_of m) + ucast v) AND 0xFF, m))"

definition addr_abs :: "'w machine \<Rightarrow> MEM_TWO_WORDS \<times> 'w machine" where
  [mode_defs]: "addr_abs m = fetch16 m"

text \<open>The test \<open>(base&0xFF00) != (addr&0xFF00)\<close>.\<close>

definition crosses :: "MEM_TWO_WORDS \<Rightarrow> MEM_TWO_WORDS \<Rightarrow> int" where
  "crosses b a = (if b AND 0xFF00 \<noteq> a AND 0xFF00 then 1 else 0)"

definition addr_absx :: "'w machine \<Rightarrow> MEM_TWO_WORDS \<times> 'w machine" where
  [mode_defs]: "addr_absx m =
     (let (base, m) = fetch16 m; addr = base + ucast (X_of m)
      in (addr, m\<lparr>PAGE_CROSS := crosses base addr\<rparr>))"

definition addr_absy :: "'w machine \<Rightarrow> MEM_TWO_WORDS \<times> 'w machine" where
  [mode_defs]: "addr_absy m =
     (let (base, m) = fetch16 m; addr = base + ucast (Y_of m)
      in (addr, m\<lparr>PAGE_CROSS := crosses base addr\<rparr>))"

definition addr_ind :: "'w machine \<Rightarrow> MEM_TWO_WORDS \<times> 'w machine" where
  [mode_defs]: "addr_ind m =
     (let (base, m) = fetch16 m in
      if cpu_get_variant m = CPU_VARIANT_NMOS_6502 \<and> base AND 0xFF = 0xFF then
        (let (lo, m) = bus_read base m; (hi, m) = bus_read (base AND 0xFF00) m
         in (word_of_bytes lo hi, m))
      else bus_read16 base m)"

definition addr_indx :: "'w machine \<Rightarrow> MEM_TWO_WORDS \<times> 'w machine" where
  [mode_defs]: "addr_indx m =
     (let (v, m) = fetch8 m; zp_addr = v + X_of m;
          (lo, m) = bus_read (ucast zp_addr) m;
          (hi, m) = bus_read ((ucast zp_addr + 1) AND 0xFF) m
      in (word_of_bytes lo hi, m))"

definition addr_indy :: "'w machine \<Rightarrow> MEM_TWO_WORDS \<times> 'w machine" where
  [mode_defs]: "addr_indy m =
     (let (zp_addr, m) = fetch8 m;
          (lo, m) = bus_read (ucast zp_addr) m;
          (hi, m) = bus_read ((ucast zp_addr + 1) AND 0xFF) m;
          base = word_of_bytes lo hi; addr = base + ucast (Y_of m)
      in (addr, m\<lparr>PAGE_CROSS := crosses base addr\<rparr>))"

definition addr_imm :: "'w machine \<Rightarrow> MEM_TWO_WORDS \<times> 'w machine" where
  [mode_defs]: "addr_imm m = (let (v, m) = fetch8 m in (ucast v, m))"

definition addr_rel :: "'w machine \<Rightarrow> MEM_TWO_WORDS \<times> 'w machine" where
  [mode_defs]: "addr_rel m = (let (v, m) = fetch8 m in (PC_of m + scast v, m))"

definition addr_zprel :: "'w machine \<Rightarrow> MEM_TWO_WORDS \<times> 'w machine" where
  [mode_defs]: "addr_zprel m =
     (let (zp_addr, m) = fetch8 m; (off, m) = fetch8 m
      in (ucast zp_addr, m\<lparr>REL_OFFSET := off\<rparr>))"

definition addr_zp_ind :: "'w machine \<Rightarrow> MEM_TWO_WORDS \<times> 'w machine" where
  [mode_defs]: "addr_zp_ind m =
     (let (zp_addr, m) = fetch8 m;
          (lo, m) = bus_read (ucast zp_addr) m;
          (hi, m) = bus_read ((ucast zp_addr + 1) AND 0xFF) m
      in (word_of_bytes lo hi, m))"

definition addr_abs_ind_x :: "'w machine \<Rightarrow> MEM_TWO_WORDS \<times> 'w machine" where
  [mode_defs]: "addr_abs_ind_x m =
     (let (abs_addr, m) = fetch16 m in bus_read16 (abs_addr + ucast (X_of m)) m)"

definition addr_resolve :: "ADDR_MODE \<Rightarrow> 'w machine \<Rightarrow> MEM_TWO_WORDS \<times> 'w machine" where
  "addr_resolve mode m =
     (let m = m\<lparr>PAGE_CROSS := 0, HAS_EA := 1\<rparr> in
      case mode of
        ADDR_ZP \<Rightarrow> addr_zp m
      | ADDR_ZPX \<Rightarrow> addr_zpx m
      | ADDR_ZPY \<Rightarrow> addr_zpy m
      | ADDR_ABS \<Rightarrow> addr_abs m
      | ADDR_ABSX \<Rightarrow> addr_absx m
      | ADDR_ABSY \<Rightarrow> addr_absy m
      | ADDR_IND \<Rightarrow> addr_ind m
      | ADDR_INDX \<Rightarrow> addr_indx m
      | ADDR_INDY \<Rightarrow> addr_indy m
      | ADDR_ZP_IND \<Rightarrow> addr_zp_ind m
      | ADDR_ABS_IND_X \<Rightarrow> addr_abs_ind_x m
      | ADDR_IMM \<Rightarrow> addr_imm (m\<lparr>HAS_EA := 0\<rparr>)
      | ADDR_REL \<Rightarrow> addr_rel (m\<lparr>HAS_EA := 0\<rparr>)
      | ADDR_ZPREL \<Rightarrow> addr_zprel m
      | ADDR_ACC \<Rightarrow> (0, m\<lparr>HAS_EA := 0\<rparr>)
      | ADDR_NONE \<Rightarrow> (0, m\<lparr>HAS_EA := 0\<rparr>))"

subsection \<open>What every mode does and leaves alone\<close>

text \<open>Operand bytes of a mode, and whether it yields an effective address.\<close>

fun operand_length :: "ADDR_MODE \<Rightarrow> nat" where
  "operand_length ADDR_NONE = 0"
| "operand_length ADDR_ACC = 0"
| "operand_length ADDR_ABS = 2"
| "operand_length ADDR_ABSX = 2"
| "operand_length ADDR_ABSY = 2"
| "operand_length ADDR_IND = 2"
| "operand_length ADDR_ABS_IND_X = 2"
| "operand_length ADDR_ZPREL = 2"
| "operand_length _ = 1"

definition mode_has_ea :: "ADDR_MODE \<Rightarrow> bool" where
  "mode_has_ea mode = (mode \<notin> {ADDR_NONE, ADDR_ACC, ADDR_IMM, ADDR_REL})"

definition mode_indexed :: "ADDR_MODE \<Rightarrow> bool" where
  "mode_indexed mode = (mode \<in> {ADDR_ABSX, ADDR_ABSY, ADDR_INDY})"

lemmas resolve_defs = addr_resolve_def mode_defs fetch8_def fetch16_def

lemma crosses_01: "crosses a b = 0 \<or> crosses a b = 1"
  by (simp add: crosses_def)

lemma addr_resolve_REG:
  "REG (snd (addr_resolve mode m)) =
     rPC_update (\<lambda>_. PC_of m + of_nat (operand_length mode)) (REG m)"
  by (cases mode) (simp_all add: resolve_defs bus_eqs case_prod_beta Let_def add.assoc)

lemma addr_resolve_HAS_EA:
  "HAS_EA (snd (addr_resolve mode m)) = (if mode_has_ea mode then 1 else 0)"
  by (cases mode) (simp_all add: resolve_defs bus_eqs case_prod_beta Let_def mode_has_ea_def)

lemma addr_resolve_PAGE_CROSS:
  "PAGE_CROSS (snd (addr_resolve mode m)) = 0 \<or>
     mode_indexed mode \<and> PAGE_CROSS (snd (addr_resolve mode m)) = 1"
  using crosses_01
  by (cases mode) (simp_all add: resolve_defs bus_eqs case_prod_beta Let_def mode_indexed_def)

lemma addr_resolve_fields [simp]:
  "CYCLES (snd (addr_resolve mode m)) = CYCLES m"
  "OPCODE (snd (addr_resolve mode m)) = OPCODE m"
  "CPU_WAITING (snd (addr_resolve mode m)) = CPU_WAITING m"
  "CPU_STOPPED (snd (addr_resolve mode m)) = CPU_STOPPED m"
  "BRANCH_TAKEN (snd (addr_resolve mode m)) = BRANCH_TAKEN m"
  "BRANCH_PAGE_CROSS (snd (addr_resolve mode m)) = BRANCH_PAGE_CROSS m"
  "ic (snd (addr_resolve mode m)) = ic m"
  "global_cycle_count (snd (addr_resolve mode m)) = global_cycle_count m"
  "out (snd (addr_resolve mode m)) = out m"
  by (cases mode; simp add: resolve_defs bus_eqs case_prod_beta Let_def)+

lemma touches_addr_resolve [touch_intros]: "touches m (snd (addr_resolve mode m))"
  by (cases mode)
    (simp_all add: touches_def resolve_defs bus_eqs case_prod_beta Let_def bus_run.intros)

subsection \<open>The reference definition over memory contents\<close>

text \<open>
  The address a mode denotes, from the register file (with the program counter at the operand)
  and the bytes of memory: pointers in the zero page wrap within the page; an NMOS indirect
  jump fetches the second pointer byte from the page of the first.
\<close>

definition zp_pointer :: "(MEM_TWO_WORDS \<Rightarrow> MEM_WORD) \<Rightarrow> MEM_WORD \<Rightarrow> MEM_TWO_WORDS" where
  "zp_pointer mem z = word_of_bytes (mem (ucast z)) (mem (ucast (z + 1)))"

definition jmp_pointer ::
  "CPU_VARIANT \<Rightarrow> (MEM_TWO_WORDS \<Rightarrow> MEM_WORD) \<Rightarrow> MEM_TWO_WORDS \<Rightarrow> MEM_TWO_WORDS" where
  "jmp_pointer v mem p =
     (case v of
        CPU_VARIANT_NMOS_6502 \<Rightarrow>
          word_of_bytes (mem p) (mem (word_of_bytes (lo_byte p + 1) (hi_byte p)))
      | CPU_VARIANT_CMOS_65C02 \<Rightarrow> word_of_bytes (mem p) (mem (p + 1)))"

fun mode_address ::
  "CPU_VARIANT \<Rightarrow> (MEM_TWO_WORDS \<Rightarrow> MEM_WORD) \<Rightarrow> T_REGISTER \<Rightarrow> ADDR_MODE \<Rightarrow> MEM_TWO_WORDS" where
  "mode_address v mem r mode =
     (let b1 = mem (rPC r); w = word_of_bytes b1 (mem (rPC r + 1)) in
      case mode of
        ADDR_IMM \<Rightarrow> ucast b1
      | ADDR_ZP \<Rightarrow> ucast b1
      | ADDR_ZPREL \<Rightarrow> ucast b1
      | ADDR_ZPX \<Rightarrow> ucast (rX r + b1)
      | ADDR_ZPY \<Rightarrow> ucast (rY r + b1)
      | ADDR_ABS \<Rightarrow> w
      | ADDR_ABSX \<Rightarrow> w + ucast (rX r)
      | ADDR_ABSY \<Rightarrow> w + ucast (rY r)
      | ADDR_IND \<Rightarrow> jmp_pointer v mem w
      | ADDR_INDX \<Rightarrow> zp_pointer mem (b1 + rX r)
      | ADDR_INDY \<Rightarrow> zp_pointer mem b1 + ucast (rY r)
      | ADDR_ZP_IND \<Rightarrow> zp_pointer mem b1
      | ADDR_ABS_IND_X \<Rightarrow>
          word_of_bytes (mem (w + ucast (rX r))) (mem (w + ucast (rX r) + 1))
      | ADDR_REL \<Rightarrow> rPC r + 1 + scast b1
      | ADDR_ACC \<Rightarrow> 0
      | ADDR_NONE \<Rightarrow> 0)"

declare mode_address.simps [simp del]

text \<open>The base an indexed mode adds its index to.\<close>

definition mode_base ::
  "(MEM_TWO_WORDS \<Rightarrow> MEM_WORD) \<Rightarrow> T_REGISTER \<Rightarrow> ADDR_MODE \<Rightarrow> MEM_TWO_WORDS" where
  "mode_base mem r mode =
     (if mode = ADDR_INDY then zp_pointer mem (mem (rPC r))
      else word_of_bytes (mem (rPC r)) (mem (rPC r + 1)))"

lemma jmp_pointer_code:
  "jmp_pointer v mem p =
     (if v = CPU_VARIANT_NMOS_6502 \<and> p AND 0xFF = 0xFF
      then word_of_bytes (mem p) (mem (p AND 0xFF00))
      else word_of_bytes (mem p) (mem (p + 1)))"
  by (cases v) (simp_all add: jmp_pointer_def next_on_page)

text \<open>A machine on a bus whose every address is free of side effects.\<close>

definition quiet ::
  "'w bus_read_fn \<Rightarrow> 'w bus_write_fn \<Rightarrow> ('w \<Rightarrow> bool) \<Rightarrow> ('w \<Rightarrow> MEM_TWO_WORDS set) \<Rightarrow>
   'w machine \<Rightarrow> bool" where
  "quiet rd wr ok plainset m =
     (wired rd wr m \<and> ok (bus_world m) \<and> plainset (bus_world m) = UNIV)"

context memory_bus
begin

lemma quiet_bus_rd:
  "quiet rd wr inv plain m \<Longrightarrow>
    bus_rd (BUS m) a (bus_world m) = (peek a m, bus_world m)"
  by (simp add: quiet_def peek_eq bus_rd_def wired_def rd_plain prod_eq_iff)

lemma quiet_bus_read16:
  "quiet rd wr inv plain m \<Longrightarrow>
    bus_read16 a m = (word_of_bytes (peek a m) (peek (a + 1) m), m)"
  using quiet_bus_rd [of m] by (simp add: bus_read16_eq Let_def)

lemma quiet_bus_read: "quiet rd wr inv plain m \<Longrightarrow> bus_read a m = (peek a m, m)"
  using quiet_bus_rd [of m] by (simp add: bus_read_eq)

lemma addr_resolve_quiet:
  assumes "quiet rd wr inv plain m"
  shows "fst (addr_resolve mode m) =
      mode_address (CPU_VARIANT_MODE m) (\<lambda>a. peek a m) (REG m) mode"
    and "bus_world (snd (addr_resolve mode m)) = bus_world m"
    and "mode_indexed mode \<Longrightarrow> PAGE_CROSS (snd (addr_resolve mode m)) =
      of_bool (hi_byte (mode_base (\<lambda>a. peek a m) (REG m) mode) \<noteq>
               hi_byte (fst (addr_resolve mode m)))"
    and "mode = ADDR_ZPREL \<Longrightarrow> REL_OFFSET (snd (addr_resolve mode m)) = peek (PC_of m + 1) m"
proof -
  note defs = resolve_defs bus_eqs quiet_bus_rd [OF assms] case_prod_beta Let_def
    mode_address.simps zero_page_sum zero_page_Suc
  show "fst (addr_resolve mode m) =
      mode_address (CPU_VARIANT_MODE m) (\<lambda>a. peek a m) (REG m) mode"
    by (cases mode) (simp_all add: defs zp_pointer_def jmp_pointer_code)
  show "bus_world (snd (addr_resolve mode m)) = bus_world m"
    by (cases mode) (simp_all add: defs)
  show "mode_indexed mode \<Longrightarrow> PAGE_CROSS (snd (addr_resolve mode m)) =
      of_bool (hi_byte (mode_base (\<lambda>a. peek a m) (REG m) mode) \<noteq>
               hi_byte (fst (addr_resolve mode m)))"
    by (cases mode)
      (simp_all add: defs mode_indexed_def mode_base_def zp_pointer_def crosses_def same_page)
  show "mode = ADDR_ZPREL \<Longrightarrow> REL_OFFSET (snd (addr_resolve mode m)) = peek (PC_of m + 1) m"
    by (simp add: defs)
qed

end

end
