(* ===== verification/Ring.thy ===== *)
theory Ring
  imports Prelude
begin

text \<open>
  The contract of a bounded log, as the interrupt history of src/interrupt.c keeps one: an
  array of fixed capacity written round robin, with a count that saturates. The log's
  contents, read in chronological order, are the newest entries of everything recorded.
\<close>

subsection \<open>The newest entries of a list\<close>

definition newest :: "nat \<Rightarrow> 'a list \<Rightarrow> 'a list" where
  "newest n xs = drop (length xs - n) xs"

lemma newest_nil [simp]: "newest n [] = []"
  by (simp add: newest_def)

lemma length_newest [simp]: "length (newest n xs) = min n (length xs)"
  by (simp add: newest_def min_def)

lemma newest_all: "length xs \<le> n \<Longrightarrow> newest n xs = xs"
  by (simp add: newest_def)

lemma newest_snoc:
  "0 < n \<Longrightarrow> newest n (newest n xs @ [x]) = newest n (xs @ [x])"
  by (cases "length xs \<le> n") (simp_all add: newest_def Suc_diff_le)

lemma rev_newest: "rev (newest n xs) = take n (rev xs)"
  by (simp add: newest_def take_rev)

lemma take_newest:
  assumes "k \<le> n"
  shows "take (min k (length (newest n xs))) (rev (newest n xs)) = take k (rev xs)"
proof -
  have "min (min k (length (newest n xs))) n = min k (length xs)" using assms by simp
  then have "take (min k (length (newest n xs))) (rev (newest n xs)) = take (min k (length (rev xs))) (rev xs)"
    by (simp only: rev_newest take_take length_rev)
  then show ?thesis by (cases "k \<le> length xs") (simp_all add: min.absorb1 min.absorb2)
qed

text \<open>Reading a full array from the write index: the rotation, with the oldest slot rewritten.\<close>

lemma rotate_update:
  assumes "i < length xs"
  shows "drop (Suc i) (xs[i := x]) @ take (Suc i) (xs[i := x]) =
         drop 1 (drop i xs @ take i xs) @ [x]"
  using assms by (simp add: take_Suc_conv_app_nth)

subsection \<open>An array written round robin\<close>

text \<open>
  An array \<open>xs\<close> of \<open>n\<close> slots, the next slot \<open>i\<close> to write and the number \<open>c\<close> of slots in
  use; and what it holds, oldest first.
\<close>

definition ring_wf :: "nat \<Rightarrow> 'a list \<Rightarrow> nat \<Rightarrow> nat \<Rightarrow> bool" where
  "ring_wf n xs i c = (length xs = n \<and> i < n \<and> c \<le> n \<and> (c < n \<longrightarrow> i = c))"

definition ring_entries :: "'a list \<Rightarrow> nat \<Rightarrow> nat \<Rightarrow> 'a list" where
  "ring_entries xs i c = (if c < length xs then take c xs else drop i xs @ take i xs)"

lemma length_ring_entries: "ring_wf n xs i c \<Longrightarrow> length (ring_entries xs i c) = c"
  by (auto simp: ring_wf_def ring_entries_def)

text \<open>Reading from the oldest slot on, and reading backwards from the newest.\<close>

lemma ring_oldest_first:
  assumes "ring_wf n xs i c"
  shows "map (\<lambda>k. xs ! (((if c < n then 0 else i) + k) mod n)) [0 ..< c] = ring_entries xs i c"
  by (rule nth_equalityI)
    (use assms in \<open>auto simp: ring_wf_def ring_entries_def nth_append mod_if add.commute\<close>)

lemma ring_newest_first:
  assumes "ring_wf n xs i c" and "k \<le> c"
  shows "map (\<lambda>j. xs ! ((i + n - 1 - j) mod n)) [0 ..< k] = take k (rev (ring_entries xs i c))"
proof (rule nth_equalityI)
  fix j
  assume "j < length (map (\<lambda>j. xs ! ((i + n - 1 - j) mod n)) [0 ..< k])"
  then have j: "j < k" by simp
  have "ring_entries xs i c ! (c - Suc j) = xs ! ((i + n - 1 - j) mod n)"
    using assms j by (auto simp: ring_wf_def ring_entries_def nth_append mod_if intro: arg_cong)
  then show "map (\<lambda>j. xs ! ((i + n - 1 - j) mod n)) [0 ..< k] ! j =
      take k (rev (ring_entries xs i c)) ! j"
    using assms j by (simp add: rev_nth length_ring_entries [OF assms(1)])
qed (use assms length_ring_entries [OF assms(1)] in simp)

text \<open>Writing a slot.\<close>

lemma ring_push:
  assumes "ring_wf n xs i c"
  shows "ring_wf n (xs[i := e]) ((i + 1) mod n) (if c < n then c + 1 else c)"
    and "ring_entries (xs[i := e]) ((i + 1) mod n) (if c < n then c + 1 else c) =
      newest n (ring_entries xs i c @ [e])"
proof -
  show "ring_wf n (xs[i := e]) ((i + 1) mod n) (if c < n then c + 1 else c)"
    using assms by (auto simp: ring_wf_def mod_if)
  show "ring_entries (xs[i := e]) ((i + 1) mod n) (if c < n then c + 1 else c) =
      newest n (ring_entries xs i c @ [e])"
  proof (cases "c < n")
    case True
    then show ?thesis
      using assms
      by (auto simp: ring_wf_def ring_entries_def newest_all take_Suc_conv_app_nth mod_if
          upd_conv_take_nth_drop)
  next
    case False
    then have "ring_entries (xs[i := e]) ((i + 1) mod n) c =
        drop (Suc i) (xs[i := e]) @ take (Suc i) (xs[i := e])"
      using assms by (auto simp: ring_wf_def ring_entries_def mod_if)
    then show ?thesis
      using assms False rotate_update [of i xs e]
      by (simp add: ring_wf_def ring_entries_def newest_def)
  qed
qed

subsection \<open>The interface\<close>

locale bounded_log =
  fixes ok :: "'l \<Rightarrow> bool"
    and entries :: "'l \<Rightarrow> 'e list"
    and put :: "'e \<Rightarrow> 'l \<Rightarrow> 'l"
    and capacity :: nat
  assumes capacity_pos: "0 < capacity"
    and put_ok: "ok l \<Longrightarrow> ok (put e l)"
    and entries_put: "ok l \<Longrightarrow> entries (put e l) = newest capacity (entries l @ [e])"
begin

lemma entries_fold:
  assumes "ok l"
  shows "ok (fold put es l)"
    and "entries l = newest capacity hs \<Longrightarrow>
      entries (fold put es l) = newest capacity (hs @ es)"
proof -
  show "ok (fold put es l)" using assms
    by (induction es arbitrary: l) (simp_all add: put_ok)
  show "entries l = newest capacity hs \<Longrightarrow>
      entries (fold put es l) = newest capacity (hs @ es)" using assms
  proof (induction es arbitrary: l hs)
    case Nil
    then show ?case by simp
  next
    case (Cons e es)
    then have "entries (put e l) = newest capacity (hs @ [e])"
      by (simp add: entries_put newest_snoc capacity_pos)
    then show ?case
      using Cons.IH [of "put e l" "hs @ [e]"] Cons.prems(2) by (simp add: put_ok)
  qed
qed

text \<open>Recording from an empty log keeps exactly the newest entries.\<close>

lemma log_keeps_newest:
  "ok l \<Longrightarrow> entries l = [] \<Longrightarrow> entries (fold put es l) = newest capacity es"
  using entries_fold(2) [of l "[]"] by simp

lemma log_bounded: "ok l \<Longrightarrow> length (entries (put e l)) \<le> capacity"
  by (simp add: entries_put)

end

end
