(* ===== verification/Interrupt.thy ===== *)
theory Interrupt
  imports Addressing Ring
begin

text \<open>
  src/interrupt.c and the two line functions of src/cpu.c: the interrupt controller's lines
  and NMI edge detector, polling, the single-shot interrupt sequence and the event history.
\<close>

subsection \<open>Initialisation and lines\<close>

definition zero_event :: INTERRUPT_EVENT where
  "zero_event = \<lparr>ev_type = INT_NONE, ev_pc = 0, ev_p = 0, ev_cycle = 0\<rparr>"

definition interrupt_init :: "'w machine \<Rightarrow> 'w machine" where
  "interrupt_init m = m\<lparr>ic :=
     \<lparr>irq_line = 0, irq_line_prev = 0, nmi_line = 0, nmi_line_prev = 0, nmi_pending = 0,
      interrupt_in_progress = 0, current_interrupt = INT_NONE, interrupt_cycle = 0,
      history = replicate MAX_INTERRUPT_HISTORY zero_event, history_count = 0,
      history_index = 0, total_irqs = 0, total_nmis = 0, total_brks = 0\<rparr>\<rparr>"

definition interrupt_set_irq :: "int \<Rightarrow> 'w machine \<Rightarrow> 'w machine" where
  "interrupt_set_irq active =
     ic_update (\<lambda>c. c\<lparr>irq_line_prev := irq_line c, irq_line := active\<rparr>)"

definition interrupt_set_nmi :: "int \<Rightarrow> 'w machine \<Rightarrow> 'w machine" where
  "interrupt_set_nmi active =
     ic_update (\<lambda>c.
       let c = c\<lparr>nmi_line_prev := nmi_line c, nmi_line := active\<rparr>
       in if nmi_line_prev c = 1 \<and> nmi_line c = 0 then c\<lparr>nmi_pending := 1\<rparr> else c)"

definition cpu_irq :: "'w machine \<Rightarrow> 'w machine" where
  "cpu_irq m = interrupt_set_irq 1 m"

definition cpu_nmi :: "'w machine \<Rightarrow> 'w machine" where
  "cpu_nmi m = interrupt_set_nmi 0 (interrupt_set_nmi 1 m)"

definition interrupt_poll :: "'w machine \<Rightarrow> INTERRUPT_TYPE \<times> 'w machine" where
  "interrupt_poll m =
     (let m = m\<lparr>global_cycle_count := global_cycle_count m + 1\<rparr> in
      if nmi_pending (ic m) \<noteq> 0 then (INT_NMI, m)
      else if irq_line (ic m) \<noteq> 0 \<and> \<not> GET_FLAG FLAG_I m then (INT_IRQ, m)
      else (INT_NONE, m))"

subsection \<open>The interrupt sequence\<close>

definition push_event :: "INTERRUPT_EVENT \<Rightarrow> INTERRUPT_CONTROLLER \<Rightarrow> INTERRUPT_CONTROLLER" where
  "push_event e c =
     (let c = c\<lparr>history := (history c)[history_index c := e],
               history_index := (history_index c + 1) mod MAX_INTERRUPT_HISTORY\<rparr>
      in if history_count c < MAX_INTERRUPT_HISTORY
         then c\<lparr>history_count := history_count c + 1\<rparr> else c)"

definition record_interrupt ::
  "INTERRUPT_TYPE \<Rightarrow> MEM_TWO_WORDS \<Rightarrow> MEM_WORD \<Rightarrow> 'w machine \<Rightarrow> 'w machine" where
  "record_interrupt type pc p m =
     ic_update (\<lambda>c.
       let c = push_event \<lparr>ev_type = type, ev_pc = pc, ev_p = p,
                           ev_cycle = global_cycle_count m\<rparr> c
       in case type of
            INT_IRQ \<Rightarrow> c\<lparr>total_irqs := total_irqs c + 1\<rparr>
          | INT_NMI \<Rightarrow> c\<lparr>total_nmis := total_nmis c + 1\<rparr>
          | INT_BRK \<Rightarrow> c\<lparr>total_brks := total_brks c + 1\<rparr>
          | _ \<Rightarrow> c) m"

definition interrupt_begin :: "INTERRUPT_TYPE \<Rightarrow> 'w machine \<Rightarrow> 'w machine" where
  "interrupt_begin type m =
     (let m = (if interrupt_in_progress (ic m) \<noteq> 0 \<and> type = INT_NMI \<and>
                  current_interrupt (ic m) = INT_IRQ
               then m\<lparr>out := out m @ [Nmi_Hijack_Message]\<rparr> else m);
          m = ic_update (\<lambda>c. c\<lparr>interrupt_in_progress := 1, current_interrupt := type,
                                interrupt_cycle := 0\<rparr>) m
      in record_interrupt type (PC_of m) (P_of m) m)"

definition sequence_done :: "'w machine \<Rightarrow> 'w machine" where
  "sequence_done =
     ic_update (\<lambda>c. c\<lparr>interrupt_in_progress := 0, current_interrupt := INT_NONE,
                      interrupt_cycle := 0\<rparr>)"

text \<open>
  \<open>interrupt_step_cycle\<close>: the switch yields the machine after the return address is pushed,
  \<open>set_b_flag\<close> and \<open>vector_addr\<close>, or None for its default branch.
\<close>

definition interrupt_step_cycle :: "'w machine \<Rightarrow> int \<times> 'w machine" where
  "interrupt_step_cycle m =
     (if interrupt_in_progress (ic m) = 0 then (1, m)
      else if interrupt_cycle (ic m) = 0 then
        (case (case current_interrupt (ic m) of
                 INT_BRK \<Rightarrow> Some (push16 (PC_of m + 1) m, True, IRQ_VECTOR)
               | INT_IRQ \<Rightarrow>
                   (let m = m\<lparr>CYCLES := CYCLES m + 7\<rparr>
                    in Some (push16 (PC_of m) m, False, IRQ_VECTOR))
               | INT_NMI \<Rightarrow>
                   (let m = m\<lparr>CYCLES := CYCLES m + 7\<rparr>; m = push16 (PC_of m) m
                    in Some (ic_update (nmi_pending_update (\<lambda>_. 0)) m, False, NMI_VECTOR))
               | _ \<Rightarrow> None) of
           None \<Rightarrow> (1, sequence_done m)
         | Some (m, set_b_flag, vector_addr) \<Rightarrow>
             (let m = (if set_b_flag then push8 (P_of m OR FLAG_B OR FLAG_U) m
                       else push8 (P_of m AND NOT FLAG_B OR FLAG_U) m);
                  m = SET_FLAG FLAG_I m;
                  m = (if cpu_get_variant m = CPU_VARIANT_CMOS_65C02 then CLR_FLAG FLAG_D m
                       else m);
                  m = cpu_set_waiting 0 m;
                  (v, m) = bus_read16 vector_addr m;
                  m = set_PC v m
              in (1, sequence_done m)))
      else (1, sequence_done m))"

definition interrupt_is_active :: "'w machine \<Rightarrow> int" where
  "interrupt_is_active m = interrupt_in_progress (ic m)"

definition interrupt_get_current :: "'w machine \<Rightarrow> INTERRUPT_TYPE" where
  "interrupt_get_current m = current_interrupt (ic m)"

text \<open>What \<open>interrupt_clear_history\<close> prints, and what it does.\<close>

definition interrupt_clear_history :: "'w machine \<Rightarrow> string \<times> 'w machine" where
  "interrupt_clear_history m =
     (''[Interrupt Controller] History and statistics cleared'',
      ic_update (\<lambda>c. c\<lparr>history_count := 0, history_index := 0, total_irqs := 0,
                       total_nmis := 0, total_brks := 0\<rparr>) m)"

text \<open>
  The lines of \<open>interrupt_dump_history\<close>: their number \<open>i + 1\<close>, the event, and the name printed.
\<close>

fun event_name :: "INTERRUPT_TYPE \<Rightarrow> string" where
  "event_name INT_IRQ = ''IRQ''"
| "event_name INT_NMI = ''NMI''"
| "event_name INT_BRK = ''BRK''"
| "event_name INT_RESET = ''RESET''"
| "event_name INT_NONE = ''UNKNOWN''"

definition interrupt_dump_history ::
  "INTERRUPT_CONTROLLER \<Rightarrow> (nat \<times> INTERRUPT_EVENT \<times> string) list" where
  "interrupt_dump_history c =
     (let start_index = (if history_count c < MAX_INTERRUPT_HISTORY then 0 else history_index c)
      in map (\<lambda>i. let e = history c ! ((start_index + i) mod MAX_INTERRUPT_HISTORY)
                  in (i + 1, e, event_name (ev_type e)))
           [0 ..< history_count c])"

text \<open>The lines of \<open>interrupt_dump_stats\<close>; and the pointer to \<open>ic\<close>, as what it points to.\<close>

definition interrupt_dump_stats :: "INTERRUPT_CONTROLLER \<Rightarrow> (string \<times> uint64) list" where
  "interrupt_dump_stats c =
     [(''Total IRQs'', total_irqs c), (''Total NMIs'', total_nmis c), (''Total BRKs'', total_brks c),
      (''Total'', total_irqs c + total_nmis c + total_brks c)]"

definition interrupt_get_controller :: "'w machine \<Rightarrow> INTERRUPT_CONTROLLER" where
  "interrupt_get_controller m = ic m"

subsection \<open>The history is a bounded log\<close>

text \<open>The events \<open>interrupt_dump_history\<close> prints, oldest first.\<close>

definition recent :: "INTERRUPT_CONTROLLER \<Rightarrow> INTERRUPT_EVENT list" where
  "recent c = map (\<lambda>(i, e, s). e) (interrupt_dump_history c)"

text \<open>
  The history invariant: the array has its declared size, and the write index is the number
  of entries until the array is full.
\<close>

definition ic_wf :: "INTERRUPT_CONTROLLER \<Rightarrow> bool" where
  "ic_wf c =
     (length (history c) = 32 \<and> history_index c < 32 \<and> history_count c \<le> 32 \<and>
      (history_count c < 32 \<longrightarrow> history_index c = history_count c))"

lemma ic_wf_ring: "ic_wf c = ring_wf 32 (history c) (history_index c) (history_count c)"
  by (simp add: ic_wf_def ring_wf_def)

lemma recent_ring:
  "ic_wf c \<Longrightarrow> recent c = ring_entries (history c) (history_index c) (history_count c)"
  unfolding ic_wf_ring by (drule ring_oldest_first)
    (simp add: recent_def interrupt_dump_history_def Let_def o_def)

lemma push_event_ring:
  assumes "ic_wf c"
  shows "ic_wf (push_event e c)" and "recent (push_event e c) = newest 32 (recent c @ [e])"
proof -
  have f: "history (push_event e c) = (history c)[history_index c := e]"
    "history_index (push_event e c) = (history_index c + 1) mod 32"
    "history_count (push_event e c) = (if history_count c < 32 then history_count c + 1 else history_count c)"
    by (simp_all add: push_event_def Let_def)
  note ring = ring_push [OF assms [unfolded ic_wf_ring], of e, folded f]
  from ring(1) show wf: "ic_wf (push_event e c)" by (simp add: ic_wf_ring)
  from ring(2) show "recent (push_event e c) = newest 32 (recent c @ [e])"
    by (simp add: recent_ring [OF assms] recent_ring [OF wf])
qed

interpretation event_log: bounded_log ic_wf recent push_event 32
  by unfold_locales (simp_all add: push_event_ring)

lemma ic_wf_init [simp]: "ic_wf (ic (interrupt_init m))"
  by (simp add: interrupt_init_def ic_wf_def)

lemma recent_init [simp]: "recent (ic (interrupt_init m)) = []"
  by (simp add: recent_ring) (simp add: interrupt_init_def ring_entries_def)

subsection \<open>The edge detector\<close>

text \<open>
  Driven by a sequence of levels from the reset state, the detector is set exactly when the
  line has fallen from 1 to 0 somewhere in it.
\<close>

lemma nmi_pending_fold:
  "nmi_pending (ic (fold interrupt_set_nmi ls m)) \<noteq> 0 \<longleftrightarrow>
     nmi_pending (ic m) \<noteq> 0 \<or> (\<exists>us vs. nmi_line (ic m) # ls = us @ [1, 0] @ vs)"
proof (induction ls arbitrary: m)
  case Nil
  have "\<not> (\<exists>us vs. [nmi_line (ic m)] = us @ [1, 0] @ vs)"
    by (auto simp: Cons_eq_append_conv)
  then show ?case by simp
next
  case (Cons l ls)
  let ?m = "interrupt_set_nmi l m"
  have line: "nmi_line (ic ?m) = l"
    by (simp add: interrupt_set_nmi_def Let_def)
  have pend: "nmi_pending (ic ?m) \<noteq> 0 \<longleftrightarrow>
      nmi_pending (ic m) \<noteq> 0 \<or> nmi_line (ic m) = 1 \<and> l = 0"
    by (auto simp: interrupt_set_nmi_def Let_def)
  have split: "(\<exists>us vs. k # l # ls = us @ [1, 0] @ vs) \<longleftrightarrow>
      k = 1 \<and> l = 0 \<or> (\<exists>us vs. l # ls = us @ [1, 0] @ vs)" for k :: int
    by (auto simp: Cons_eq_append_conv)
  show ?case
    unfolding fold_simps Cons.IH [of ?m] line pend split by blast
qed

subsection \<open>What the sequence does\<close>

lemma poll_type:
  "fst (interrupt_poll m) =
     (if nmi_pending (ic m) \<noteq> 0 then INT_NMI
      else if irq_line (ic m) \<noteq> 0 \<and> \<not> bit (P_of m) 2 then INT_IRQ else INT_NONE)"
  by (simp add: interrupt_poll_def Let_def flag_simps)

lemma poll_state:
  "snd (interrupt_poll m) = global_cycle_count_update (\<lambda>n. n + 1) m"
  by (simp add: interrupt_poll_def Let_def)

text \<open>
  The specification of interrupt entry: return address and status pushed, the vector
  fetched, I set (and D cleared on the 65C02), 7 cycles charged to hardware interrupts,
  the event logged, and the controller idle again.
\<close>

definition taken :: "INTERRUPT_TYPE \<Rightarrow> bool" where
  "taken t = (t \<in> {INT_BRK, INT_IRQ, INT_NMI})"

definition entry_vector :: "INTERRUPT_TYPE \<Rightarrow> MEM_TWO_WORDS" where
  "entry_vector t = (if t = INT_NMI then 0xFFFA else 0xFFFE)"

definition entry_return :: "INTERRUPT_TYPE \<Rightarrow> MEM_TWO_WORDS \<Rightarrow> MEM_TWO_WORDS" where
  "entry_return t pc = (if t = INT_BRK then pc + 1 else pc)"

definition entry_pushed_P :: "INTERRUPT_TYPE \<Rightarrow> MEM_WORD \<Rightarrow> MEM_WORD" where
  "entry_pushed_P t p = put_bit 0x20 True (put_bit 0x10 (t = INT_BRK) p)"

definition entry_P :: "CPU_VARIANT \<Rightarrow> MEM_WORD \<Rightarrow> MEM_WORD" where
  "entry_P v p =
     (if v = CPU_VARIANT_CMOS_65C02 then put_bit 0x08 False (put_bit 0x04 True p)
      else put_bit 0x04 True p)"

definition entry_ic ::
  "INTERRUPT_TYPE \<Rightarrow> INTERRUPT_EVENT \<Rightarrow> INTERRUPT_CONTROLLER \<Rightarrow> INTERRUPT_CONTROLLER" where
  "entry_ic t e c =
     (push_event e c)
       \<lparr>interrupt_in_progress := 0, current_interrupt := INT_NONE, interrupt_cycle := 0,
        nmi_pending := (if t = INT_NMI then 0 else nmi_pending c),
        total_irqs := total_irqs c + (if t = INT_IRQ then 1 else 0),
        total_nmis := total_nmis c + (if t = INT_NMI then 1 else 0),
        total_brks := total_brks c + (if t = INT_BRK then 1 else 0)\<rparr>"

definition interrupt_entry :: "INTERRUPT_TYPE \<Rightarrow> 'w machine \<Rightarrow> 'w machine" where
  "interrupt_entry t m =
     (let e = \<lparr>ev_type = t, ev_pc = PC_of m, ev_p = P_of m, ev_cycle = global_cycle_count m\<rparr>;
          (v, m) = bus_read16 (entry_vector t)
            (push8 (entry_pushed_P t (P_of m)) (push16 (entry_return t (PC_of m)) m))
      in set_PC v (set_P (entry_P (CPU_VARIANT_MODE m) (P_of m))
           (m\<lparr>CYCLES := CYCLES m + (if t = INT_BRK then 0 else 7), CPU_WAITING := 0,
              ic := entry_ic t e (ic m)\<rparr>)))"

lemma push_event_fields [simp]:
  "interrupt_in_progress (push_event e c) = interrupt_in_progress c"
  "current_interrupt (push_event e c) = current_interrupt c"
  "interrupt_cycle (push_event e c) = interrupt_cycle c"
  "nmi_pending (push_event e c) = nmi_pending c"
  "irq_line (push_event e c) = irq_line c"
  "total_irqs (push_event e c) = total_irqs c"
  "total_nmis (push_event e c) = total_nmis c"
  "total_brks (push_event e c) = total_brks c"
  by (simp_all add: push_event_def Let_def)

lemma push_event_idle [simp]:
  "push_event e (c\<lparr>interrupt_in_progress := i, current_interrupt := t, interrupt_cycle := n\<rparr>) =
     (push_event e c)\<lparr>interrupt_in_progress := i, current_interrupt := t, interrupt_cycle := n\<rparr>"
  by (cases c) (simp add: push_event_def Let_def)

lemma pushed_P_code:
  "p OR FLAG_B OR FLAG_U = entry_pushed_P INT_BRK p"
  "p AND NOT FLAG_B OR FLAG_U = entry_pushed_P INT_IRQ p"
  "entry_pushed_P INT_NMI p = entry_pushed_P INT_IRQ p"
  by (simp_all add: entry_pushed_P_def put_bit_def FLAG_B_def FLAG_U_def ac_simps)

lemma sequence_is_entry:
  assumes "taken t" and "t = INT_NMI \<Longrightarrow> interrupt_in_progress (ic m) = 0"
  shows "interrupt_step_cycle (interrupt_begin t m) = (1, interrupt_entry t m)"
  using assms
  by (cases m; cases "ic m"; cases "REG m"; cases t)
    (simp_all add: taken_def interrupt_step_cycle_def interrupt_begin_def record_interrupt_def
      interrupt_entry_def entry_ic_def entry_vector_def entry_return_def entry_P_def
      pushed_P_code push16_def push8_def bus_eqs Let_def sequence_done_def flag_eqs FLAG_I_def
      FLAG_D_def o_def)

subsection \<open>Effects on the rest of the machine\<close>

lemma touches_interrupt [touch_intros]:
  "touches m (snd (interrupt_poll m))" "touches m (interrupt_begin t m)"
  "touches m (sequence_done m)"
  by (simp_all add: touches_def interrupt_poll_def interrupt_begin_def record_interrupt_def
      sequence_done_def Let_def bus_run.intros)

lemma touches_interrupt_entry [touch_intros]: "touches m (interrupt_entry t m)"
  by (simp add: touches_def interrupt_entry_def bus_eqs push8_def push16_def Let_def
      case_prod_beta bus_run.intros)

lemma REG_interrupt_entry:
  "REG (interrupt_entry t m) =
     \<lparr>rPC = PC_of (interrupt_entry t m), rA = A_of m,
      rP = entry_P (CPU_VARIANT_MODE m) (P_of m), rS = S_of m - 3, rX = X_of m, rY = Y_of m\<rparr>"
  by (cases "REG m")
    (simp add: interrupt_entry_def bus_read16_eq push8_def push16_def bus_write_eq Let_def
      case_prod_beta)

lemma interrupt_entry_fields [simp]:
  "ic (interrupt_entry t m) =
     entry_ic t \<lparr>ev_type = t, ev_pc = PC_of m, ev_p = P_of m, ev_cycle = global_cycle_count m\<rparr>
       (ic m)"
  "CYCLES (interrupt_entry t m) = CYCLES m + (if t = INT_BRK then 0 else 7)"
  "CPU_WAITING (interrupt_entry t m) = 0"
  "CPU_STOPPED (interrupt_entry t m) = CPU_STOPPED m"
  "BRANCH_TAKEN (interrupt_entry t m) = BRANCH_TAKEN m"
  "BRANCH_PAGE_CROSS (interrupt_entry t m) = BRANCH_PAGE_CROSS m"
  "PAGE_CROSS (interrupt_entry t m) = PAGE_CROSS m"
  "OPCODE (interrupt_entry t m) = OPCODE m"
  "HAS_EA (interrupt_entry t m) = HAS_EA m"
  "EA (interrupt_entry t m) = EA m"
  "global_cycle_count (interrupt_entry t m) = global_cycle_count m"
  "out (interrupt_entry t m) = out m"
  "BUS (interrupt_entry t m) = BUS m"
  by (simp_all add: interrupt_entry_def bus_eqs push8_def push16_def Let_def case_prod_beta)

lemma ic_wf_entry_ic: "ic_wf c \<Longrightarrow> ic_wf (entry_ic t e c)"
  using push_event_ring(1) [of c e] by (simp add: entry_ic_def ic_wf_def)

lemma recent_entry_ic:
  assumes "ic_wf c"
  shows "recent (entry_ic t e c) = newest 32 (recent c @ [e])"
proof -
  have "recent (entry_ic t e c) = recent (push_event e c)"
    by (simp add: recent_def interrupt_dump_history_def entry_ic_def)
  then show ?thesis by (simp add: event_log.entries_put assms)
qed

text \<open>Machines between instructions: no sequence under way, a well-formed history.\<close>

definition ic_idle :: "'w machine \<Rightarrow> bool" where
  "ic_idle m = (interrupt_in_progress (ic m) = 0 \<and> ic_wf (ic m))"

lemma ic_idle_entry: "ic_idle m \<Longrightarrow> ic_idle (interrupt_entry t m)"
  by (simp add: ic_idle_def ic_wf_entry_ic) (simp add: entry_ic_def)

lemma ic_idle_simps [simp]:
  "ic_idle (snd (interrupt_poll m)) = ic_idle m"
  "ic_idle (interrupt_set_irq l m) = ic_idle m"
  "ic_idle (interrupt_set_nmi l m) = ic_idle m"
  "ic_idle (interrupt_init m)"
  by (simp_all add: ic_idle_def interrupt_poll_def interrupt_set_irq_def interrupt_set_nmi_def
      ic_wf_def interrupt_init_def Let_def)

subsection \<open>On memory: what entry leaves on the stack\<close>

context memory_bus
begin

lemma stack_ok_touches: "touches m m' \<Longrightarrow> stack_ok m \<Longrightarrow> ram (bus_world m') = ram (bus_world m)
    \<Longrightarrow> stack_ok m'"
  using touches_inv [of m m'] by (auto simp: stack_ready_def wired_touches)

text \<open>When the whole address space is free of side effects the vector fetch is, too.\<close>

lemma interrupt_entry_quiet:
  assumes q: "quiet rd wr inv plain m" and s: "stack_ok m"
  shows "interrupt_entry t m =
    set_PC (word_of_bytes (peek (entry_vector t) m) (peek (entry_vector t + 1) m))
      (set_P (entry_P (CPU_VARIANT_MODE m) (P_of m))
        ((push8 (entry_pushed_P t (P_of m)) (push16 (entry_return t (PC_of m)) m))
           \<lparr>CYCLES := CYCLES m + (if t = INT_BRK then 0 else 7), CPU_WAITING := 0,
            ic := entry_ic t \<lparr>ev_type = t, ev_pc = PC_of m, ev_p = P_of m,
                              ev_cycle = global_cycle_count m\<rparr> (ic m)\<rparr>))"
proof -
  let ?m = "push8 (entry_pushed_P t (P_of m)) (push16 (entry_return t (PC_of m)) m)"
  have sok: "stack_ok ?m" by (simp add: s stack_ok_push8 stack_ok_push16)
  have pl: "plain (bus_world ?m) = UNIV" "plain (bus_world m) = UNIV"
    using q by (simp_all add: plain_push8 plain_push16 stack_ok_push16 s quiet_def)
  then have q': "quiet rd wr inv plain ?m"
    using sok by (simp add: quiet_def stack_ready_def)
  have v: "entry_vector t \<noteq> stack_addr x" "entry_vector t + 1 \<noteq> stack_addr x" for x
    using stack_addr_range [of x] by (auto simp: entry_vector_def)
  have "peek a ?m = peek a m" if "\<And>x. a \<noteq> stack_addr x" for a
    by (simp add: that peek_push8 peek_push16 stack_ok_push16 plain_push16 s pl)
  then have r: "bus_read16 (entry_vector t) ?m =
      (word_of_bytes (peek (entry_vector t) m) (peek (entry_vector t + 1) m), ?m)"
    unfolding quiet_bus_read16 [OF q'] by (simp add: v)
  show ?thesis
    unfolding interrupt_entry_def Let_def r by (simp add: push8_def push16_def bus_write_eq)
qed

end

end
