(* ===== verification/Instructions.thy ===== *)
theory Instructions
  imports Interrupt
begin

text \<open>
  src/instructions_implementation.c: one definition per instruction handler, in the order of
  the file, collected in \<open>instr_defs\<close>. Helpers name the idioms the handlers repeat: the
  operand test on \<open>HAS_EA\<close>, taking a branch, and setting C from a shifted-out bit. C's
  \<open>AND\<close> is \<open>AND_instr\<close> here and \<open>BPL_\<close> is \<open>BPL\<close>, Isabelle names allowing neither.
\<close>

subsection \<open>Idioms of the handlers\<close>

text \<open>\<open>HAS_EA ? bus_read(EA) : (MEM_WORD)EA\<close>\<close>

definition operand :: "'w machine \<Rightarrow> MEM_WORD \<times> 'w machine" where
  "operand m = (if HAS_EA m \<noteq> 0 then bus_read (EA m) m else (ucast (EA m), m))"

definition take_branch :: "MEM_TWO_WORDS \<Rightarrow> 'w machine \<Rightarrow> 'w machine" where
  "take_branch target m =
     (let old_pc = PC_of m; m = set_PC target m; m = m\<lparr>BRANCH_TAKEN := 1\<rparr>
      in m\<lparr>BRANCH_PAGE_CROSS := crosses old_pc (PC_of m)\<rparr>)"

text \<open>\<open>CLR_FLAG(FLAG_C); if (c) SET_FLAG(FLAG_C);\<close>\<close>

definition shift_carry :: "bool \<Rightarrow> 'w machine \<Rightarrow> 'w machine" where
  "shift_carry c m = (let m = CLR_FLAG FLAG_C m in if c then SET_FLAG FLAG_C m else m)"

text \<open>\<open>int carry = GET_FLAG(FLAG_C)\<close>, as the byte it is or-ed into.\<close>

definition carry_in :: "'w machine \<Rightarrow> MEM_WORD" where
  "carry_in m = (if GET_FLAG FLAG_C m then 1 else 0)"

text \<open>\<open>(OPCODE >> 4) & 0x07\<close>, the bit number of RMB, SMB, BBR and BBS.\<close>

definition opcode_bit :: "'w machine \<Rightarrow> nat" where
  "opcode_bit m = unat (drop_bit 4 (OPCODE m) AND 0x07)"

subsection \<open>Loads, stores and branches\<close>

definition LDA :: "'w machine \<Rightarrow> 'w machine" where
  [instr_defs]: "LDA m =
     (let (v, m) = operand m; m = set_A v m in set_zn (A_of m) m)"

definition STA :: "'w machine \<Rightarrow> 'w machine" where
  [instr_defs]: "STA m =
     bus_write (EA m) (A_of m) m"

definition BPL :: "'w machine \<Rightarrow> 'w machine" where
  [instr_defs]: "BPL m =
     (if \<not> GET_FLAG FLAG_N m then take_branch (EA m) m else m)"

definition BMI :: "'w machine \<Rightarrow> 'w machine" where
  [instr_defs]: "BMI m =
     (if GET_FLAG FLAG_N m then take_branch (EA m) m else m)"

definition BVC :: "'w machine \<Rightarrow> 'w machine" where
  [instr_defs]: "BVC m =
     (if \<not> GET_FLAG FLAG_V m then take_branch (EA m) m else m)"

definition BVS :: "'w machine \<Rightarrow> 'w machine" where
  [instr_defs]: "BVS m =
     (if GET_FLAG FLAG_V m then take_branch (EA m) m else m)"

definition BCC :: "'w machine \<Rightarrow> 'w machine" where
  [instr_defs]: "BCC m =
     (if \<not> GET_FLAG FLAG_C m then take_branch (EA m) m else m)"

definition BCS :: "'w machine \<Rightarrow> 'w machine" where
  [instr_defs]: "BCS m =
     (if GET_FLAG FLAG_C m then take_branch (EA m) m else m)"

definition BNE :: "'w machine \<Rightarrow> 'w machine" where
  [instr_defs]: "BNE m =
     (if \<not> GET_FLAG FLAG_Z m then take_branch (EA m) m else m)"

definition BEQ :: "'w machine \<Rightarrow> 'w machine" where
  [instr_defs]: "BEQ m =
     (if GET_FLAG FLAG_Z m then take_branch (EA m) m else m)"

definition LDX :: "'w machine \<Rightarrow> 'w machine" where
  [instr_defs]: "LDX m =
     (let (v, m) = operand m; m = set_X v m in set_zn (X_of m) m)"

definition LDY :: "'w machine \<Rightarrow> 'w machine" where
  [instr_defs]: "LDY m =
     (let (v, m) = operand m; m = set_Y v m in set_zn (Y_of m) m)"

definition STX :: "'w machine \<Rightarrow> 'w machine" where
  [instr_defs]: "STX m =
     bus_write (EA m) (X_of m) m"

definition STY :: "'w machine \<Rightarrow> 'w machine" where
  [instr_defs]: "STY m =
     bus_write (EA m) (Y_of m) m"

subsection \<open>Transfers, stack, increments\<close>

definition TAX :: "'w machine \<Rightarrow> 'w machine" where
  [instr_defs]: "TAX m =
     (let m = set_X (A_of m) m in set_zn (X_of m) m)"

definition TXA :: "'w machine \<Rightarrow> 'w machine" where
  [instr_defs]: "TXA m =
     (let m = set_A (X_of m) m in set_zn (A_of m) m)"

definition TAY :: "'w machine \<Rightarrow> 'w machine" where
  [instr_defs]: "TAY m =
     (let m = set_Y (A_of m) m in set_zn (Y_of m) m)"

definition TYA :: "'w machine \<Rightarrow> 'w machine" where
  [instr_defs]: "TYA m =
     (let m = set_A (Y_of m) m in set_zn (A_of m) m)"

definition TSX :: "'w machine \<Rightarrow> 'w machine" where
  [instr_defs]: "TSX m =
     (let m = set_X (S_of m) m in set_zn (X_of m) m)"

definition TXS :: "'w machine \<Rightarrow> 'w machine" where
  [instr_defs]: "TXS m =
     set_S (X_of m) m"

definition PHA :: "'w machine \<Rightarrow> 'w machine" where
  [instr_defs]: "PHA m =
     push8 (A_of m) m"

definition PLA :: "'w machine \<Rightarrow> 'w machine" where
  [instr_defs]: "PLA m =
     (let (v, m) = pop8 m; m = set_A v m in set_zn (A_of m) m)"

definition PHP :: "'w machine \<Rightarrow> 'w machine" where
  [instr_defs]: "PHP m =
     push8 (P_of m OR FLAG_B OR FLAG_U) m"

definition PLP :: "'w machine \<Rightarrow> 'w machine" where
  [instr_defs]: "PLP m =
     (let (v, m) = pop8 m in set_P (v AND NOT FLAG_B OR FLAG_U) m)"

definition INX :: "'w machine \<Rightarrow> 'w machine" where
  [instr_defs]: "INX m =
     (let m = set_X (X_of m + 1) m in set_zn (X_of m) m)"

definition DEX :: "'w machine \<Rightarrow> 'w machine" where
  [instr_defs]: "DEX m =
     (let m = set_X (X_of m - 1) m in set_zn (X_of m) m)"

definition INY :: "'w machine \<Rightarrow> 'w machine" where
  [instr_defs]: "INY m =
     (let m = set_Y (Y_of m + 1) m in set_zn (Y_of m) m)"

definition DEY :: "'w machine \<Rightarrow> 'w machine" where
  [instr_defs]: "DEY m =
     (let m = set_Y (Y_of m - 1) m in set_zn (Y_of m) m)"

definition INC :: "'w machine \<Rightarrow> 'w machine" where
  [instr_defs]: "INC m =
     (let (v, m) = bus_read (EA m) m; v = v + 1; m = bus_write (EA m) v m in set_zn v m)"

definition DEC :: "'w machine \<Rightarrow> 'w machine" where
  [instr_defs]: "DEC m =
     (let (v, m) = bus_read (EA m) m; v = v - 1; m = bus_write (EA m) v m in set_zn v m)"

definition INC_A :: "'w machine \<Rightarrow> 'w machine" where
  [instr_defs]: "INC_A m =
     (let m = set_A (A_of m + 1) m in set_zn (A_of m) m)"

definition DEC_A :: "'w machine \<Rightarrow> 'w machine" where
  [instr_defs]: "DEC_A m =
     (let m = set_A (A_of m - 1) m in set_zn (A_of m) m)"

subsection \<open>Logic and arithmetic\<close>

definition AND_instr :: "'w machine \<Rightarrow> 'w machine" where
  [instr_defs]: "AND_instr m =
     (let (data, m) = operand m; m = set_A (A_of m AND data) m in set_zn (A_of m) m)"

definition ORA :: "'w machine \<Rightarrow> 'w machine" where
  [instr_defs]: "ORA m =
     (let (data, m) = operand m; m = set_A (A_of m OR data) m in set_zn (A_of m) m)"

definition EOR :: "'w machine \<Rightarrow> 'w machine" where
  [instr_defs]: "EOR m =
     (let (data, m) = operand m; m = set_A (A_of m XOR data) m in set_zn (A_of m) m)"

text \<open>
  The two arithmetic cores. \<open>unsigned\<close> is 32 bits wide; the nibbles of decimal subtraction
  are C \<open>int\<close>s of small magnitude, where \<open>&\<close> on a negative value is two's complement.
\<close>

definition adc_core :: "MEM_WORD \<Rightarrow> 'w machine \<Rightarrow> 'w machine" where
  "adc_core v m =
     (if \<not> GET_FLAG FLAG_D m then
        (let a = (ucast (A_of m) :: uint32);
             c = (if GET_FLAG FLAG_C m then 1 else 0);
             sum = a + ucast v + c;
             m = set_A (ucast (sum AND 0xFF)) m;
             m = PUT_FLAG FLAG_C (sum > 0xFF) m;
             m = PUT_FLAG FLAG_V (NOT (a XOR ucast v) AND (a XOR sum) AND 0x80 \<noteq> 0) m
         in set_zn (A_of m) m)
      else
        (let a = (ucast (A_of m) :: uint32);
             c = (if GET_FLAG FLAG_C m then 1 else 0);
             binary_sum = a + ucast v + c;
             al = (a AND 0x0F) + (ucast v AND 0x0F) + c;
             ah = drop_bit 4 a + drop_bit 4 (ucast v);
             (al, ah) = (if al \<ge> 0x0A then (al + 0x06 AND 0x0F, ah + 1) else (al, ah));
             ah = (if ah \<ge> 0x0A then ah + 0x06 else ah);
             m = PUT_FLAG FLAG_C (ah \<ge> 0x10) m;
             m = set_A (ucast (push_bit 4 (ah AND 0x0F) OR (al AND 0x0F))) m;
             m = (if cpu_get_variant m = CPU_VARIANT_CMOS_65C02 then set_zn (A_of m) m
                  else set_zn (ucast (binary_sum AND 0xFF)) m)
         in PUT_FLAG FLAG_V (NOT (a XOR ucast v) AND (a XOR binary_sum) AND 0x80 \<noteq> 0) m))"

definition sbc_core :: "MEM_WORD \<Rightarrow> 'w machine \<Rightarrow> 'w machine" where
  "sbc_core v m =
     (if \<not> GET_FLAG FLAG_D m then
        (let a = (ucast (A_of m) :: uint32);
             c = (if GET_FLAG FLAG_C m then 1 else 0);
             sub = a + (ucast v XOR 0xFF) + c;
             m = set_A (ucast (sub AND 0xFF)) m;
             m = PUT_FLAG FLAG_C (sub > 0xFF) m;
             m = PUT_FLAG FLAG_V ((a XOR ucast v) AND (a XOR sub) AND 0x80 \<noteq> 0) m
         in set_zn (A_of m) m)
      else
        (let a = (ucast (A_of m) :: uint32);
             c = (if GET_FLAG FLAG_C m then 1 else 0);
             binary_sub = a + (ucast v XOR 0xFF) + c;
             al = uint (a AND 0x0F) - uint (v AND 0x0F) - (if c \<noteq> 0 then 0 else 1);
             ah = uint (drop_bit 4 a) - uint (drop_bit 4 v);
             (al, ah) = (if al < 0 then (al - 0x06 AND 0x0F, ah - 1) else (al, ah));
             ah = (if ah < 0 then ah - 0x06 AND 0x0F else ah);
             m = PUT_FLAG FLAG_C (binary_sub > 0xFF) m;
             m = set_A (word_of_int (push_bit 4 (ah AND 0x0F) OR (al AND 0x0F))) m;
             m = (if cpu_get_variant m = CPU_VARIANT_CMOS_65C02 then set_zn (A_of m) m
                  else set_zn (ucast (binary_sub AND 0xFF)) m)
         in PUT_FLAG FLAG_V ((a XOR ucast v) AND (a XOR binary_sub) AND 0x80 \<noteq> 0) m))"

definition ADC :: "'w machine \<Rightarrow> 'w machine" where
  [instr_defs]: "ADC m =
     (let (data, m) = operand m in adc_core data m)"

definition SBC :: "'w machine \<Rightarrow> 'w machine" where
  [instr_defs]: "SBC m =
     (let (data, m) = operand m in sbc_core data m)"

subsection \<open>Flags, jumps and returns\<close>

definition CLC :: "'w machine \<Rightarrow> 'w machine" where
  [instr_defs]: "CLC m =
     CLR_FLAG FLAG_C m"

definition SEC :: "'w machine \<Rightarrow> 'w machine" where
  [instr_defs]: "SEC m =
     SET_FLAG FLAG_C m"

definition CLI :: "'w machine \<Rightarrow> 'w machine" where
  [instr_defs]: "CLI m =
     CLR_FLAG FLAG_I m"

definition SEI :: "'w machine \<Rightarrow> 'w machine" where
  [instr_defs]: "SEI m =
     SET_FLAG FLAG_I m"

definition CLD :: "'w machine \<Rightarrow> 'w machine" where
  [instr_defs]: "CLD m =
     CLR_FLAG FLAG_D m"

definition SED :: "'w machine \<Rightarrow> 'w machine" where
  [instr_defs]: "SED m =
     SET_FLAG FLAG_D m"

definition CLV :: "'w machine \<Rightarrow> 'w machine" where
  [instr_defs]: "CLV m =
     CLR_FLAG FLAG_V m"

definition NOP :: "'w machine \<Rightarrow> 'w machine" where
  [instr_defs]: "NOP m =
     m"

definition BRK :: "'w machine \<Rightarrow> 'w machine" where
  [instr_defs]: "BRK m =
     snd (interrupt_step_cycle (interrupt_begin INT_BRK m))"

definition JMP :: "'w machine \<Rightarrow> 'w machine" where
  [instr_defs]: "JMP m =
     (let m = set_PC (EA m) m in
      if cpu_get_variant m = CPU_VARIANT_CMOS_65C02 \<and> OPCODE m = 0x6C
      then m\<lparr>CYCLES := CYCLES m + 1\<rparr> else m)"

definition JSR :: "'w machine \<Rightarrow> 'w machine" where
  [instr_defs]: "JSR m =
     (let m = push16 (PC_of m - 1) m in set_PC (EA m) m)"

definition RTS :: "'w machine \<Rightarrow> 'w machine" where
  [instr_defs]: "RTS m =
     (let (v, m) = pop16 m in set_PC (v + 1) m)"

definition RTI :: "'w machine \<Rightarrow> 'w machine" where
  [instr_defs]: "RTI m =
     (let (p, m) = pop8 m; m = set_P (p AND NOT (FLAG_B OR FLAG_U)) m; (v, m) = pop16 m
      in set_PC v m)"

subsection \<open>Shifts, comparisons, BIT\<close>

definition ASL :: "'w machine \<Rightarrow> 'w machine" where
  [instr_defs]: "ASL m =
     (if HAS_EA m = 0 then
        (let m = shift_carry (A_of m AND 0x80 \<noteq> 0) m; m = set_A (push_bit 1 (A_of m)) m
         in set_zn (A_of m) m)
      else
        (let (v, m) = bus_read (EA m) m; m = shift_carry (v AND 0x80 \<noteq> 0) m;
             v = push_bit 1 v; m = bus_write (EA m) v m
         in set_zn v m))"

definition LSR :: "'w machine \<Rightarrow> 'w machine" where
  [instr_defs]: "LSR m =
     (if HAS_EA m = 0 then
        (let m = shift_carry (A_of m AND 0x01 \<noteq> 0) m; m = set_A (drop_bit 1 (A_of m)) m
         in set_zn (A_of m) m)
      else
        (let (v, m) = bus_read (EA m) m; m = shift_carry (v AND 0x01 \<noteq> 0) m;
             v = drop_bit 1 v; m = bus_write (EA m) v m
         in set_zn v m))"

definition ROL :: "'w machine \<Rightarrow> 'w machine" where
  [instr_defs]: "ROL m =
     (let carry = carry_in m in
      if HAS_EA m = 0 then
        (let m = shift_carry (A_of m AND 0x80 \<noteq> 0) m;
             m = set_A (push_bit 1 (A_of m) OR carry) m
         in set_zn (A_of m) m)
      else
        (let (v, m) = bus_read (EA m) m; m = shift_carry (v AND 0x80 \<noteq> 0) m;
             v = push_bit 1 v OR carry; m = bus_write (EA m) v m
         in set_zn v m))"

definition ROR :: "'w machine \<Rightarrow> 'w machine" where
  [instr_defs]: "ROR m =
     (let carry = carry_in m in
      if HAS_EA m = 0 then
        (let m = shift_carry (A_of m AND 0x01 \<noteq> 0) m;
             m = set_A (drop_bit 1 (A_of m) OR push_bit 7 carry) m
         in set_zn (A_of m) m)
      else
        (let (v, m) = bus_read (EA m) m; m = shift_carry (v AND 0x01 \<noteq> 0) m;
             v = drop_bit 1 v OR push_bit 7 carry; m = bus_write (EA m) v m
         in set_zn v m))"

definition CMP :: "'w machine \<Rightarrow> 'w machine" where
  [instr_defs]: "CMP m =
     (let (data, m) = operand m; m = PUT_FLAG FLAG_C (A_of m \<ge> data) m
      in set_zn (A_of m - data) m)"

definition CPX :: "'w machine \<Rightarrow> 'w machine" where
  [instr_defs]: "CPX m =
     (let (data, m) = operand m; m = PUT_FLAG FLAG_C (X_of m \<ge> data) m
      in set_zn (X_of m - data) m)"

definition CPY :: "'w machine \<Rightarrow> 'w machine" where
  [instr_defs]: "CPY m =
     (let (data, m) = operand m; m = PUT_FLAG FLAG_C (Y_of m \<ge> data) m
      in set_zn (Y_of m - data) m)"

definition BIT :: "'w machine \<Rightarrow> 'w machine" where
  [instr_defs]: "BIT m =
     (let (data, m) = operand m; result = A_of m AND data;
          m = PUT_FLAG FLAG_Z (result = 0) m
      in if OPCODE m \<noteq> 0x89 then
           (let m = PUT_FLAG FLAG_N (data AND 0x80 \<noteq> 0) m
            in PUT_FLAG FLAG_V (data AND 0x40 \<noteq> 0) m)
         else m)"

subsection \<open>Undocumented opcodes\<close>

definition LAX :: "'w machine \<Rightarrow> 'w machine" where
  [instr_defs]: "LAX m =
     (let (data, m) = operand m; m = set_A data m; m = set_X data m in set_zn (A_of m) m)"

definition SAX :: "'w machine \<Rightarrow> 'w machine" where
  [instr_defs]: "SAX m =
     bus_write (EA m) (A_of m AND X_of m) m"

definition DCP :: "'w machine \<Rightarrow> 'w machine" where
  [instr_defs]: "DCP m =
     (let (v, m) = bus_read (EA m) m; v = v - 1; m = bus_write (EA m) v m;
          m = PUT_FLAG FLAG_C (A_of m \<ge> v) m
      in set_zn (A_of m - v) m)"

definition ISC :: "'w machine \<Rightarrow> 'w machine" where
  [instr_defs]: "ISC m =
     (let (v, m) = bus_read (EA m) m; v = v + 1; m = bus_write (EA m) v m in sbc_core v m)"

definition SLO :: "'w machine \<Rightarrow> 'w machine" where
  [instr_defs]: "SLO m =
     (let (v, m) = bus_read (EA m) m; m = shift_carry (v AND 0x80 \<noteq> 0) m;
          v = push_bit 1 v; m = bus_write (EA m) v m;
          m = set_A (A_of m OR v) m
      in set_zn (A_of m) m)"

definition RLA :: "'w machine \<Rightarrow> 'w machine" where
  [instr_defs]: "RLA m =
     (let carry = carry_in m; (v, m) = bus_read (EA m) m; m = shift_carry (v AND 0x80 \<noteq> 0) m;
          v = push_bit 1 v OR carry; m = bus_write (EA m) v m;
          m = set_A (A_of m AND v) m
      in set_zn (A_of m) m)"

definition SRE :: "'w machine \<Rightarrow> 'w machine" where
  [instr_defs]: "SRE m =
     (let (v, m) = bus_read (EA m) m; m = shift_carry (v AND 0x01 \<noteq> 0) m;
          v = drop_bit 1 v; m = bus_write (EA m) v m;
          m = set_A (A_of m XOR v) m
      in set_zn (A_of m) m)"

definition RRA :: "'w machine \<Rightarrow> 'w machine" where
  [instr_defs]: "RRA m =
     (let carry = carry_in m; (v, m) = bus_read (EA m) m; m = shift_carry (v AND 0x01 \<noteq> 0) m;
          v = drop_bit 1 v OR push_bit 7 carry; m = bus_write (EA m) v m
      in adc_core v m)"

definition ANC :: "'w machine \<Rightarrow> 'w machine" where
  [instr_defs]: "ANC m =
     (let (data, m) = operand m; m = set_A (A_of m AND data) m; m = set_zn (A_of m) m
      in PUT_FLAG FLAG_C (A_of m AND 0x80 \<noteq> 0) m)"

definition ALR :: "'w machine \<Rightarrow> 'w machine" where
  [instr_defs]: "ALR m =
     (let (data, m) = operand m; m = set_A (A_of m AND data) m;
          m = shift_carry (A_of m AND 0x01 \<noteq> 0) m; m = set_A (drop_bit 1 (A_of m)) m
      in set_zn (A_of m) m)"

definition ARR :: "'w machine \<Rightarrow> 'w machine" where
  [instr_defs]: "ARR m =
     (let (data, m) = operand m; m = set_A (A_of m AND data) m; carry = carry_in m;
          m = set_A (drop_bit 1 (A_of m) OR push_bit 7 carry) m; m = set_zn (A_of m) m;
          m = PUT_FLAG FLAG_C (A_of m AND 0x40 \<noteq> 0) m
      in PUT_FLAG FLAG_V ((drop_bit 6 (A_of m) XOR drop_bit 5 (A_of m)) AND 1 \<noteq> 0) m)"

definition ALT_SBC :: "'w machine \<Rightarrow> 'w machine" where
  [instr_defs]: "ALT_SBC m =
     (let (data, m) = operand m in sbc_core data m)"

definition op_kil :: "'w machine \<Rightarrow> 'w machine" where
  [instr_defs]: "op_kil m =
     cpu_set_stopped 1 m"

definition NOP_READ :: "'w machine \<Rightarrow> 'w machine" where
  [instr_defs]: "NOP_READ m =
     (if HAS_EA m \<noteq> 0 then snd (bus_read (EA m) m) else m)"

definition op_illegal :: "'w machine \<Rightarrow> 'w machine" where
  [instr_defs]: "op_illegal m =
     m"

subsection \<open>65C02 instructions\<close>

definition BRA :: "'w machine \<Rightarrow> 'w machine" where
  [instr_defs]: "BRA m =
     take_branch (EA m) m"

definition PHX :: "'w machine \<Rightarrow> 'w machine" where
  [instr_defs]: "PHX m =
     push8 (X_of m) m"

definition PHY :: "'w machine \<Rightarrow> 'w machine" where
  [instr_defs]: "PHY m =
     push8 (Y_of m) m"

definition PLX :: "'w machine \<Rightarrow> 'w machine" where
  [instr_defs]: "PLX m =
     (let (v, m) = pop8 m; m = set_X v m in set_zn (X_of m) m)"

definition PLY :: "'w machine \<Rightarrow> 'w machine" where
  [instr_defs]: "PLY m =
     (let (v, m) = pop8 m; m = set_Y v m in set_zn (Y_of m) m)"

definition STZ :: "'w machine \<Rightarrow> 'w machine" where
  [instr_defs]: "STZ m =
     bus_write (EA m) 0x00 m"

definition TRB :: "'w machine \<Rightarrow> 'w machine" where
  [instr_defs]: "TRB m =
     (let (data, m) = bus_read (EA m) m; result = A_of m AND data;
          m = PUT_FLAG FLAG_Z (result = 0) m
      in bus_write (EA m) (data AND NOT (A_of m)) m)"

definition TSB :: "'w machine \<Rightarrow> 'w machine" where
  [instr_defs]: "TSB m =
     (let (data, m) = bus_read (EA m) m; result = A_of m AND data;
          m = PUT_FLAG FLAG_Z (result = 0) m
      in bus_write (EA m) (data OR A_of m) m)"

definition WAI :: "'w machine \<Rightarrow> 'w machine" where
  [instr_defs]: "WAI m =
     cpu_set_waiting 1 m"

definition STP :: "'w machine \<Rightarrow> 'w machine" where
  [instr_defs]: "STP m =
     cpu_set_stopped 1 m"

definition RMB :: "'w machine \<Rightarrow> 'w machine" where
  [instr_defs]: "RMB m =
     (let b = opcode_bit m; (data, m) = bus_read (EA m) m
      in bus_write (EA m) (data AND NOT (push_bit b 1)) m)"

definition SMB :: "'w machine \<Rightarrow> 'w machine" where
  [instr_defs]: "SMB m =
     (let b = opcode_bit m; (data, m) = bus_read (EA m) m
      in bus_write (EA m) (data OR push_bit b 1) m)"

definition BBR :: "'w machine \<Rightarrow> 'w machine" where
  [instr_defs]: "BBR m =
     (let b = opcode_bit m; (data, m) = bus_read (EA m) m
      in if data AND push_bit b 1 = 0 then take_branch (PC_of m + scast (REL_OFFSET m)) m else m)"

definition BBS :: "'w machine \<Rightarrow> 'w machine" where
  [instr_defs]: "BBS m =
     (let b = opcode_bit m; (data, m) = bus_read (EA m) m
      in if data AND push_bit b 1 \<noteq> 0 then take_branch (PC_of m + scast (REL_OFFSET m)) m
         else m)"

end
