(* ===== verification/Alu_Spec.thy ===== *)
theory Alu_Spec
  imports Instructions
begin

text \<open>
  What the arithmetic, comparison and shift instructions compute, stated on numbers: unsigned
  and signed values of bytes, pairs of decimal digits, and flags as truth values. The 32-bit
  and nibble arithmetic of the code is shown equal to these.
\<close>

subsection \<open>Bytes as numbers\<close>

lemma bit7_unat: "bit (w :: MEM_WORD) 7 = (128 \<le> unat w)"
proof -
  have "bit w 7 = bit (unat w) 7" by (simp add: bit_unsigned_iff)
  also have "\<dots> = odd (unat w div 128)" by (simp add: bit_iff_odd)
  also have "unat w div 128 = (if 128 \<le> unat w then 1 else 0)"
    using unat_byte_less [of w] by (simp add: div_nat_eqI)
  finally show ?thesis by simp
qed

lemma sint_byte:
  "sint (w :: MEM_WORD) = (if 128 \<le> unat w then int (unat w) - 256 else int (unat w))"
proof -
  have "uint w < 2 ^ LENGTH(8)" by (rule unsigned_less)
  then show ?thesis
    by (simp add: sint_uint signed_take_bit_eq_take_bit_minus bit_uint_iff take_bit_eq_mod
        flip: bit7_unat)
qed

lemma unat_byte_32 [simp]: "unat (ucast (w :: MEM_WORD) :: uint32) = unat w"
  using unat_byte_less [of w] by (simp add: unsigned_ucast_eq take_bit_eq_mod)

lemma ucast_low_byte: "(ucast ((s :: uint32) AND 0xFF) :: MEM_WORD) = ucast s"
proof -
  have "s AND 0xFF = take_bit 8 s" by (simp add: take_bit_eq_mask mask_eq_exp_minus_1)
  then show ?thesis by (auto intro!: bit_word_eqI simp: bit_simps)
qed

lemma unat_ucast_32_8: "unat (ucast (s :: uint32) :: MEM_WORD) = unat s mod 256"
  by (simp add: unsigned_ucast_eq take_bit_eq_mod)

lemma and_and_0x80:
  "((x :: uint32) AND y AND 0x80 \<noteq> 0) = (bit x 7 \<and> bit y 7)"
  using and_exp_eq_0_iff_not_bit [of "x AND y" 7] by (simp add: and.assoc bit_and_iff)

lemma bit7_ucast: "bit (ucast (w :: MEM_WORD) :: uint32) 7 = bit w 7"
  and bit7_of_32: "bit (s :: uint32) 7 = bit (ucast s :: MEM_WORD) 7"
  by (simp_all add: bit_simps)

subsection \<open>Addition and subtraction\<close>

definition add_carry :: "MEM_WORD \<Rightarrow> MEM_WORD \<Rightarrow> bool \<Rightarrow> bool" where
  "add_carry a v c = (256 \<le> unat a + unat v + of_bool c)"

definition signed_range :: "int \<Rightarrow> bool" where
  "signed_range i = (- 128 \<le> i \<and> i \<le> 127)"

definition add_overflow :: "MEM_WORD \<Rightarrow> MEM_WORD \<Rightarrow> bool \<Rightarrow> bool" where
  "add_overflow a v c = (\<not> signed_range (sint a + sint v + of_bool c))"

definition sub_overflow :: "MEM_WORD \<Rightarrow> MEM_WORD \<Rightarrow> bool \<Rightarrow> bool" where
  "sub_overflow a v c = (\<not> signed_range (sint a - sint v - of_bool (\<not> c)))"

text \<open>The status byte with N and Z from \<open>r\<close>, V and C as given, the other bits of \<open>p\<close>.\<close>

definition arith_P :: "bool \<Rightarrow> bool \<Rightarrow> MEM_WORD \<Rightarrow> MEM_WORD \<Rightarrow> MEM_WORD" where
  "arith_P carry overflow r p =
     put_bit 0x80 (bit r 7) (put_bit 0x02 (r = 0) (put_bit 0x40 overflow (put_bit 0x01 carry p)))"

lemma arith_P_bits [flag_simps]:
  "bit (arith_P c v r p) n =
     (if n = 7 then bit r 7 else if n = 1 then r = 0 else if n = 6 then v
      else if n = 0 then c else bit p n)"
  by (simp add: arith_P_def flag_simps)

lemma sum32:
  "unat ((ucast (a :: MEM_WORD) :: uint32) + ucast (v :: MEM_WORD) + (if c then 1 else 0)) =
     unat a + unat v + of_bool c"
  using unat_byte_less [of a] unat_byte_less [of v] by (simp add: unat_word_ariths)

lemma ucast_sum32:
  "(ucast ((ucast (a :: MEM_WORD) :: uint32) + ucast (v :: MEM_WORD) + (if c then 1 else 0))
     :: MEM_WORD) = a + v + of_bool c"
  by (simp only: word_unat_eq_iff unat_ucast_32_8 sum32)
    (simp add: unat_word_ariths mod_simps)

lemma overflow_bits:
  "(bit a 7 = bit v 7 \<and> bit a 7 \<noteq> bit (a + v + of_bool c) 7) = add_overflow a v c"
proof -
  have arith: "((128 \<le> x) = (128 \<le> y) \<and> (128 \<le> x) \<noteq> (128 \<le> (x + y + d) mod 256)) =
      (\<not> signed_range ((if 128 \<le> x then int x - 256 else int x) +
        (if 128 \<le> y then int y - 256 else int y) + int d))"
    if "x < 256" "y < 256" "d \<le> 1" for x y d :: nat
    using that by (auto simp: signed_range_def mod_if)
  have "unat (a + v + of_bool c) = (unat a + unat v + of_bool c) mod 256"
    by (simp add: unat_word_ariths mod_simps)
  then show ?thesis
    using arith [of "unat a" "unat v" "of_bool c"] unat_byte_less [of a] unat_byte_less [of v]
    by (simp add: bit7_unat add_overflow_def sint_byte)
qed

lemma overflow32:
  "(NOT ((ucast (a :: MEM_WORD) :: uint32) XOR ucast (v :: MEM_WORD)) AND
     (ucast a XOR (ucast a + ucast v + (if c then 1 else 0))) AND 0x80 \<noteq> 0) =
   add_overflow a v c"
proof -
  let ?s = "(ucast a :: uint32) + ucast v + (if c then 1 else 0)"
  have r: "ucast ?s = a + v + of_bool c" by (rule ucast_sum32)
  have "(NOT ((ucast a :: uint32) XOR ucast v) AND (ucast a XOR ?s) AND 0x80 \<noteq> 0) =
      (bit a 7 = bit v 7 \<and> bit a 7 \<noteq> bit (a + v + of_bool c) 7)"
    unfolding and_and_0x80 r [symmetric] bit7_of_32 [symmetric]
    by (auto simp: bit_not_iff bit_xor_iff bit7_ucast)
  then show ?thesis by (simp only: overflow_bits)
qed

lemma adc_core_binary:
  assumes "\<not> bit (P_of m) 3"
  shows "adc_core v m =
    set_A (A_of m + v + of_bool (bit (P_of m) 0))
      (set_P (arith_P (add_carry (A_of m) v (bit (P_of m) 0))
                (add_overflow (A_of m) v (bit (P_of m) 0))
                (A_of m + v + of_bool (bit (P_of m) 0)) (P_of m)) m)"
proof -
  let ?a = "A_of m" and ?c = "bit (P_of m) 0"
  let ?s = "(ucast ?a :: uint32) + ucast v + (if ?c then 1 else 0)"
  have carry: "(?s > 0xFF) = add_carry ?a v ?c"
    by (simp only: word_less_nat_alt sum32 add_carry_def) auto
  show ?thesis
    using assms
    by (simp only: adc_core_def GET_FLAG_bit FLAG_D_def FLAG_C_def Let_def simp_thms if_True
        ucast_low_byte ucast_sum32 carry overflow32)
      (simp add: PUT_FLAG_eq set_zn_eq FLAG_V_def arith_P_def o_def)
qed

text \<open>Binary subtraction is addition of the complement.\<close>

lemma complement32: "(ucast (v :: MEM_WORD) :: uint32) XOR 0xFF = ucast (NOT v)"
proof -
  have "(0xFF :: uint32) = mask 8" by (simp add: mask_eq_exp_minus_1)
  then have b: "bit (0xFF :: uint32) n = (n < 8)" for n
    by (simp only: bit_mask_iff) auto
  show ?thesis
  proof (rule bit_word_eqI)
    fix n
    assume "n < LENGTH(32)"
    then show "bit (ucast v XOR 0xFF :: uint32) n = bit (ucast (NOT v) :: uint32) n"
      by (simp only: b bit_xor_iff) (auto simp: bit_simps dest: bit_imp_le_length)
  qed
qed

lemma sbc_core_complement:
  assumes "\<not> bit (P_of m) 3"
  shows "sbc_core v m = adc_core (NOT v) m"
proof -
  let ?a = "ucast (A_of m) :: uint32"
  have "((?a XOR ucast v) AND (?a XOR x) AND 0x80 \<noteq> 0) =
      (NOT (?a XOR ucast (NOT v)) AND (?a XOR x) AND 0x80 \<noteq> 0)" for x
    unfolding and_and_0x80 by (auto simp: bit_not_iff bit_xor_iff bit7_ucast)
  then show ?thesis
    using assms
    by (simp only: sbc_core_def adc_core_def GET_FLAG_bit FLAG_D_def Let_def simp_thms if_True
        complement32)
qed

lemma unat_not_byte: "unat (NOT (v :: MEM_WORD)) = 255 - unat v"
proof -
  have "NOT v = 255 - v" by (simp add: not_eq_complement)
  moreover have "v \<le> 255" by (simp add: word_le_nat_alt) (use unat_byte_less [of v] in simp)
  ultimately show ?thesis by (simp add: unat_sub)
qed

lemma add_carry_not: "add_carry a (NOT v) c = (unat v + of_bool (\<not> c) \<le> unat a)"
  using unat_byte_less [of v] by (auto simp: add_carry_def unat_not_byte of_bool_def)

lemma add_overflow_not: "add_overflow a (NOT v) c = sub_overflow a v c"
proof -
  have "sint (NOT v) = - sint v - 1"
    using unat_byte_less [of v] by (simp add: sint_byte unat_not_byte) arith
  then show ?thesis
    by (cases c) (auto simp: add_overflow_def sub_overflow_def signed_range_def)
qed

lemma sbc_core_binary:
  assumes "\<not> bit (P_of m) 3"
  shows "sbc_core v m =
    set_A (A_of m - v - of_bool (\<not> bit (P_of m) 0))
      (set_P (arith_P (unat v + of_bool (\<not> bit (P_of m) 0) \<le> unat (A_of m))
                (sub_overflow (A_of m) v (bit (P_of m) 0))
                (A_of m - v - of_bool (\<not> bit (P_of m) 0)) (P_of m)) m)"
proof -
  have "A_of m + NOT v + of_bool (bit (P_of m) 0) = A_of m - v - of_bool (\<not> bit (P_of m) 0)"
    by (simp add: not_eq_complement of_bool_def)
  then show ?thesis
    unfolding sbc_core_complement [OF assms] adc_core_binary [OF assms]
    by (simp only: add_carry_not add_overflow_not)
qed

subsection \<open>Decimal mode\<close>

text \<open>A byte as two decimal digits.\<close>

definition bcd_ok :: "MEM_WORD \<Rightarrow> bool" where
  "bcd_ok b = (unat b div 16 \<le> 9 \<and> unat b mod 16 \<le> 9)"

definition bcd :: "MEM_WORD \<Rightarrow> nat" where
  "bcd b = 10 * (unat b div 16) + unat b mod 16"

definition to_bcd :: "nat \<Rightarrow> MEM_WORD" where
  "to_bcd n = of_nat (16 * (n div 10) + n mod 10)"

lemma unat_to_bcd: "n < 100 \<Longrightarrow> unat (to_bcd n) = 16 * (n div 10) + n mod 10"
proof -
  assume "n < 100"
  then have "n div 10 \<le> 9" and "n mod 10 < 10" by simp_all
  then have "16 * (n div 10) + n mod 10 < 256" by linarith
  then show ?thesis by (simp only: to_bcd_def unat_of_nat) simp
qed

lemma bcd_to_bcd:
  assumes "n < 100"
  shows "bcd_ok (to_bcd n)" and "bcd (to_bcd n) = n"
proof -
  have r: "n mod 10 < 10" and q: "n div 10 \<le> 9" using assms by simp_all
  have "(16 * (n div 10) + n mod 10) div 16 = n div 10"
    and "(16 * (n div 10) + n mod 10) mod 16 = n mod 10"
    using r by (simp_all add: div_add1_eq)
  then show "bcd_ok (to_bcd n)" and "bcd (to_bcd n) = n"
    using r q by (simp_all add: bcd_ok_def bcd_def unat_to_bcd [OF assms])
qed

lemma unat_join_nibbles:
  "unat (ucast (push_bit 4 ((h :: uint32) AND 0x0F) OR (l AND 0x0F)) :: MEM_WORD) =
     16 * (unat h mod 16) + unat l mod 16"
proof -
  have "push_bit 4 (h AND 0x0F) OR (l AND 0x0F) = push_bit 4 (h AND 0x0F) + (l AND 0x0F)"
    unfolding nibble_mask by (rule disjunctive_add [symmetric]) (auto simp: bit_simps)
  moreover have "unat h mod 16 < 16" "unat l mod 16 < 16" by simp_all
  ultimately show ?thesis
    by (simp add: unat_ucast_32_8 push_bit_eq_mult unat_word_ariths unat_low_nibble)
qed


text \<open>Two digits plus two digits plus carry, digit by digit as the code does it.\<close>

lemma two_digits:
  fixes h l :: nat
  assumes "l < 10"
  shows "(10 * h + l) mod 10 = l" and "(10 * h + l) div 10 = h"
    and "h < 10 \<Longrightarrow> (10 * h + l) mod 100 = 10 * h + l"
    and "10 \<le> h \<Longrightarrow> h < 20 \<Longrightarrow> (10 * h + l) mod 100 = 10 * (h - 10) + l"
    and "(100 \<le> 10 * h + l) = (10 \<le> h)"
proof -
  show "(10 * h + l) mod 10 = l" and "(10 * h + l) div 10 = h"
    and "h < 10 \<Longrightarrow> (10 * h + l) mod 100 = 10 * h + l"
    using assms by simp_all
  show "(100 \<le> 10 * h + l) = (10 \<le> h)" using assms by linarith
  assume "10 \<le> h" and "h < 20"
  then obtain k where "h = 10 + k" and "k < 10" by (auto simp: le_iff_add)
  then have "10 * h + l = 100 + (10 * (h - 10) + l)" and "10 * (h - 10) + l < 100"
    using assms by simp_all
  then show "(10 * h + l) mod 100 = 10 * (h - 10) + l" by (metis mod_add_self1 mod_less)
qed

lemma decimal_add_digits:
  fixes a b c d k :: nat
  assumes "a \<le> 9" "b \<le> 9" "c \<le> 9" "d \<le> 9" "k \<le> 1"
  defines "al \<equiv> b + d + k"
  defines "ah \<equiv> (if 10 \<le> al then a + c + 1 else a + c)"
  defines "n \<equiv> 10 * a + b + (10 * c + d) + k"
  shows "(if 10 \<le> al then (al + 6) mod 16 else al) mod 16 = n mod 100 mod 10"
    and "(if 10 \<le> ah then ah + 6 else ah) mod 16 = n mod 100 div 10"
    and "(16 \<le> (if 10 \<le> ah then ah + 6 else ah)) = (100 \<le> n)"
proof -
  define l where "l = (if 10 \<le> al then al - 10 else al)"
  have al: "al < 20" and ah: "ah < 20" and l: "l < 10"
    using assms(1-5) by (auto simp: al_def ah_def l_def)
  have n: "n = 10 * ah + l"
    by (simp add: n_def ah_def al_def l_def)
  have m: "n mod 100 = 10 * (if 10 \<le> ah then ah - 10 else ah) + l"
    using ah l unfolding n by (simp add: two_digits)
  have "n mod 100 mod 10 = l" unfolding m by (rule two_digits(1) [OF l])
  moreover have "(if 10 \<le> al then (al + 6) mod 16 else al) mod 16 = l"
    using al by (simp add: l_def le_mod_geq)
  ultimately show "(if 10 \<le> al then (al + 6) mod 16 else al) mod 16 = n mod 100 mod 10"
    by simp
  have "n mod 100 div 10 = (if 10 \<le> ah then ah - 10 else ah)"
    unfolding m by (rule two_digits(2) [OF l])
  then show "(if 10 \<le> ah then ah + 6 else ah) mod 16 = n mod 100 div 10"
    using ah by (simp add: le_mod_geq)
  show "(16 \<le> (if 10 \<le> ah then ah + 6 else ah)) = (100 \<le> n)"
    using ah l unfolding n by (simp add: two_digits(5))
qed

text \<open>N and Z of a decimal result: of the result on the 65C02, of the binary sum on NMOS.\<close>

definition decimal_zn_source ::
  "CPU_VARIANT \<Rightarrow> MEM_WORD \<Rightarrow> MEM_WORD \<Rightarrow> MEM_WORD" where
  "decimal_zn_source v r b = (if v = CPU_VARIANT_CMOS_65C02 then r else b)"

lemma let_pair_if:
  "(case (if P then (a, b) else (c, d)) of (x, y) \<Rightarrow> f x y) =
     f (if P then a else c) (if P then b else d)"
  by simp

lemma set_zn_arith_P:
  "put_bit 0x40 ov (put_bit 0x80 (bit z 7) (put_bit 0x02 (z = 0) (put_bit 0x01 c p))) =
     arith_P c ov z p"
  by (simp add: byte_eq_bits flag_simps)

lemma adc_core_decimal:
  assumes "bit (P_of m) 3" and "bcd_ok (A_of m)" and "bcd_ok v"
  defines "n \<equiv> bcd (A_of m) + bcd v + of_bool (bit (P_of m) 0)"
  shows "adc_core v m =
    set_A (to_bcd (n mod 100))
      (set_P (arith_P (100 \<le> n) (add_overflow (A_of m) v (bit (P_of m) 0))
                (decimal_zn_source (CPU_VARIANT_MODE m) (to_bcd (n mod 100))
                  (A_of m + v + of_bool (bit (P_of m) 0))) (P_of m)) m)"
proof -
  let ?c = "bit (P_of m) 0"
  let ?k = "if ?c then 1 else (0 :: uint32)"
  let ?s = "(ucast (A_of m) :: uint32) + ucast v + ?k"
  define a b c d where "a = unat (A_of m) div 16" and "b = unat (A_of m) mod 16"
    and "c = unat v div 16" and "d = unat v mod 16"
  note digits = a_def b_def c_def d_def
  have le: "a \<le> 9" "b \<le> 9" "c \<le> 9" "d \<le> 9" "of_bool ?c \<le> (1 :: nat)"
    using assms(2,3) by (simp_all add: bcd_ok_def digits)
  let ?al = "(ucast (A_of m) AND 0x0F :: uint32) + (ucast v AND 0x0F) + ?k"
  let ?ah = "drop_bit 4 (ucast (A_of m) :: uint32) + drop_bit 4 (ucast v)"
  let ?al2 = "if ?al \<ge> 0x0A then ?al + 0x06 AND 0x0F else ?al"
  let ?ah1 = "if ?al \<ge> 0x0A then ?ah + 1 else ?ah"
  let ?ah2 = "if ?ah1 \<ge> 0x0A then ?ah1 + 0x06 else ?ah1"
  have al: "unat ?al = b + d + of_bool ?c" and ah: "unat ?ah = a + c"
    using le by (simp_all add: unat_word_ariths unat_low_nibble digits)
  have al2: "unat ?al2 = (if 10 \<le> b + d + of_bool ?c then (b + d + of_bool ?c + 6) mod 16
      else b + d + of_bool ?c)"
    using le al by (simp add: word_le_nat_alt unat_low_nibble unat_word_ariths)
  have ah1: "unat ?ah1 = (if 10 \<le> b + d + of_bool ?c then a + c + 1 else a + c)"
    using le al ah by (simp add: word_le_nat_alt unat_word_ariths)
  have ah2: "unat ?ah2 = (if 10 \<le> unat ?ah1 then unat ?ah1 + 6 else unat ?ah1)"
    using le ah1 by (simp add: word_le_nat_alt unat_word_ariths)
  have n: "n = 10 * a + b + (10 * c + d) + of_bool ?c"
    by (simp add: n_def bcd_def digits)
  note add = decimal_add_digits [OF le, folded n]
  have res: "ucast (push_bit 4 (?ah2 AND 0x0F) OR (?al2 AND 0x0F)) = to_bcd (n mod 100)"
    unfolding word_unat_eq_iff unat_join_nibbles ah2 ah1 al2 add by (simp add: unat_to_bcd)
  have carry: "(?ah2 \<ge> 0x10) = (100 \<le> n)"
    unfolding word_le_nat_alt [of "0x10" ?ah2] ah2 ah1 using add(3) by simp
  show ?thesis
    using assms(1)
    by (simp only: adc_core_def GET_FLAG_bit FLAG_D_def FLAG_C_def Let_def let_pair_if
        simp_thms if_False carry res ucast_low_byte ucast_sum32 overflow32)
      (simp add: PUT_FLAG_eq set_zn_eq FLAG_V_def o_def decimal_zn_source_def set_zn_arith_P)
qed

text \<open>Subtraction with borrow, digit by digit on C \<open>int\<close>s.\<close>

lemma and_15_int: "(i :: int) AND 0x0F = i mod 16"
proof -
  have "i AND 0x0F = take_bit 4 i" by (simp add: take_bit_eq_mask mask_eq_exp_minus_1)
  then show ?thesis by (simp add: take_bit_eq_mod)
qed

lemma decimal_sub_digits:
  fixes a b c d k :: int
  assumes "0 \<le> a" "a \<le> 9" "0 \<le> b" "b \<le> 9" "0 \<le> c" "c \<le> 9" "0 \<le> d" "d \<le> 9"
    and "0 \<le> k" "k \<le> 1"
  defines "al \<equiv> b - d - k"
  defines "ah \<equiv> (if al < 0 then a - c - 1 else a - c)"
  defines "n \<equiv> 10 * a + b - (10 * c + d) - k"
  shows "(if al < 0 then (al - 6) mod 16 else al) mod 16 = n mod 100 mod 10"
    and "(if ah < 0 then (ah - 6) mod 16 else ah) mod 16 = n mod 100 div 10"
    and "(0 \<le> n) = (0 \<le> ah)"
proof -
  define l h where "l = (if al < 0 then al + 10 else al)" and "h = (if ah < 0 then ah + 10 else ah)"
  have l: "0 \<le> l" "l < 10" and h: "0 \<le> h" "h < 10"
    using assms(1-10) by (auto simp: l_def h_def al_def ah_def)
  have n: "n = 10 * ah + l"
    by (simp add: n_def ah_def al_def l_def)
  then show "(0 \<le> n) = (0 \<le> ah)" using l by auto
  have "n mod 100 = (10 * h + l) mod 100"
    unfolding n h_def
    by (simp add: distrib_left) (metis add.commute add.left_commute mod_add_self2)
  also have "\<dots> = 10 * h + l" using l h by (intro mod_pos_pos_trivial) auto
  finally have m: "n mod 100 = 10 * h + l" .
  have al6: "(al - 6) mod 16 = al + 10" if "al < 0"
    using that l by (simp add: l_def flip: mod_add_self2 [of "al - 6" 16])
  have ah6: "(ah - 6) mod 16 = ah + 10" if "ah < 0"
    using that h by (simp add: h_def flip: mod_add_self2 [of "ah - 6" 16])
  show "(if al < 0 then (al - 6) mod 16 else al) mod 16 = n mod 100 mod 10"
    using l al6 unfolding m by (auto simp: l_def)
  show "(if ah < 0 then (ah - 6) mod 16 else ah) mod 16 = n mod 100 div 10"
    using l h ah6 unfolding m by (auto simp: h_def)
qed

lemma join_nibbles_int:
  assumes "0 \<le> h" "h < 16" "0 \<le> l" "l < 16"
  shows "push_bit 4 h OR l = 16 * h + (l :: int)"
proof -
  have "l = take_bit 4 l" using assms by (simp add: take_bit_int_eq_self)
  then have "push_bit 4 h OR l = push_bit 4 h + l"
    by (metis (mono_tags, lifting) disjunctive_add bit_push_bit_iff bit_take_bit_iff leD)
  then show ?thesis by (simp add: push_bit_eq_mult)
qed

lemma bcd_less:
  assumes "bcd_ok a" and "bcd_ok v" and "k \<le> 1"
  shows "(unat v + k \<le> unat a) = (bcd v + k \<le> bcd a)"
proof -
  have digits: "unat x = 16 * (unat x div 16) + unat x mod 16" for x :: MEM_WORD by simp
  have "(16 * c + d + k \<le> 16 * a + b) = (10 * c + d + k \<le> 10 * a + b)"
    if "a \<le> 9" "b \<le> 9" "c \<le> 9" "d \<le> 9" for a b c d :: nat
    using that assms(3) by (cases a c rule: linorder_cases) auto
  then show ?thesis
    using assms digits [of a] digits [of v] unfolding bcd_ok_def bcd_def by metis
qed

text \<open>Carry and overflow of the subtraction, as the 32-bit expressions of the code.\<close>

lemma borrow32:
  "(ucast a + (ucast v XOR 0xFF :: uint32) + (if c then 1 else 0) > 0xFF) = add_carry a (NOT v) c"
  for a v :: MEM_WORD
  by (simp only: complement32 word_less_nat_alt sum32 add_carry_def) auto

lemma sub_overflow32:
  "((ucast a XOR ucast v) AND
      (ucast a XOR (ucast a + (ucast v XOR 0xFF :: uint32) + (if c then 1 else 0))) AND 0x80 \<noteq> 0) =
    sub_overflow a v c"
  for a v :: MEM_WORD
proof -
  have "((ucast a XOR ucast v) AND (ucast a XOR x) AND 0x80 \<noteq> 0) =
      (NOT (ucast a XOR ucast (NOT v)) AND (ucast a XOR x) AND 0x80 \<noteq> 0)" for x :: uint32
    unfolding and_and_0x80 by (auto simp: bit_not_iff bit_xor_iff bit7_ucast)
  then show ?thesis by (simp only: complement32 overflow32 add_overflow_not)
qed

lemma sbc_core_decimal:
  assumes "bit (P_of m) 3" and "bcd_ok (A_of m)" and "bcd_ok v"
  defines "n \<equiv> int (bcd (A_of m)) - int (bcd v) - of_bool (\<not> bit (P_of m) 0)"
  shows "sbc_core v m =
    set_A (to_bcd (nat (n mod 100)))
      (set_P (arith_P (0 \<le> n) (sub_overflow (A_of m) v (bit (P_of m) 0))
                (decimal_zn_source (CPU_VARIANT_MODE m) (to_bcd (nat (n mod 100)))
                  (A_of m - v - of_bool (\<not> bit (P_of m) 0))) (P_of m)) m)"
proof -
  let ?c = "bit (P_of m) 0"
  let ?k = "if ?c then 1 else (0 :: uint32)"
  define a b c d where "a = int (unat (A_of m) div 16)" and "b = int (unat (A_of m) mod 16)"
    and "c = int (unat v div 16)" and "d = int (unat v mod 16)"
  note digits = a_def b_def c_def d_def
  have le: "0 \<le> a" "a \<le> 9" "0 \<le> b" "b \<le> 9" "0 \<le> c" "c \<le> 9" "0 \<le> d" "d \<le> 9"
      "0 \<le> (of_bool (\<not> ?c) :: int)" "of_bool (\<not> ?c) \<le> (1 :: int)"
    using assms(2,3) by (simp_all add: bcd_ok_def digits)
  have n: "n = 10 * a + b - (10 * c + d) - of_bool (\<not> ?c)"
    by (simp add: n_def bcd_def digits)
  note sub = decimal_sub_digits [OF le, folded n]
  let ?al = "uint (ucast (A_of m) AND 0x0F :: uint32) - uint (v AND 0x0F) -
    (if ?k \<noteq> 0 then 0 else 1)"
  let ?ah = "uint (drop_bit 4 (ucast (A_of m) :: uint32)) - uint (drop_bit 4 v)"
  have al: "?al = b - d - of_bool (\<not> ?c)" and ah: "?ah = a - c"
    by (simp_all only: uint_nat unat_low_nibble unat_nibbles unat_byte_32 digits) simp_all
  define N where "N = nat (n mod 100)"
  have N: "n mod 100 div 10 = int (N div 10)" "n mod 100 mod 10 = int (N mod 10)"
    by (simp_all add: N_def zdiv_int zmod_int)
  have "N < 100" by (simp add: N_def nat_less_iff)
  have 15: "x AND 15 = x mod 16" for x :: int by (rule and_15_int)
  have res: "word_of_int (push_bit 4 ((if (if ?al < 0 then ?ah - 1 else ?ah) < 0
        then (if ?al < 0 then ?ah - 1 else ?ah) - 0x06 AND 0x0F
        else (if ?al < 0 then ?ah - 1 else ?ah)) AND 0x0F) OR
      ((if ?al < 0 then ?al - 0x06 AND 0x0F else ?al) AND 0x0F)) = to_bcd (nat (n mod 100))"
    unfolding al ah 15 sub N N_def [symmetric]
    using \<open>N < 100\<close> by (subst join_nibbles_int) (simp_all add: to_bcd_def)
  have k: "of_bool (\<not> ?c) \<le> (1 :: nat)" by simp
  have carry: "(ucast (A_of m) + (ucast v XOR 0xFF :: uint32) + ?k > 0xFF) = (0 \<le> n)"
    unfolding borrow32 add_carry_not bcd_less [OF assms(2,3) k] n_def by (auto simp: of_bool_def)
  define z where "z = A_of m - v - of_bool (\<not> ?c)"
  have bin: "ucast (ucast (A_of m) + (ucast v XOR 0xFF :: uint32) + ?k) = z"
    unfolding complement32 ucast_sum32 z_def by (simp add: not_eq_complement of_bool_def)
  show ?thesis
    unfolding z_def [symmetric]
    using assms(1)
    by (simp only: sbc_core_def GET_FLAG_bit FLAG_D_def FLAG_C_def Let_def let_pair_if
        simp_thms if_False carry res ucast_low_byte bin sub_overflow32)
      (simp add: PUT_FLAG_eq set_zn_eq FLAG_V_def o_def decimal_zn_source_def set_zn_arith_P)
qed

end
