(* ===== verification/Shift_Spec.thy ===== *)
theory Shift_Spec
  imports Alu_Spec
begin

text \<open>
  Comparisons, shifts and rotates, and the undocumented read-modify-write instructions:
  comparisons are subtractions that keep only flags, shifts and rotates are arithmetic on the
  nine-bit number made of the carry and the operand, and each undocumented instruction is, on
  RAM, the composition of the two documented ones its name stands for.
\<close>

subsection \<open>Comparisons\<close>

definition cmp_P :: "MEM_WORD \<Rightarrow> MEM_WORD \<Rightarrow> MEM_WORD \<Rightarrow> MEM_WORD" where
  "cmp_P r v p =
     put_bit 0x80 (bit (r - v) 7) (put_bit 0x02 (r = v) (put_bit 0x01 (v \<le> r) p))"

lemma cmp_P_bits [flag_simps]:
  "bit (cmp_P r v p) n =
     (if n = 7 then bit (r - v) 7 else if n = 1 then r = v else if n = 0 then v \<le> r
      else bit p n)"
  by (simp add: cmp_P_def flag_simps)

lemma operand_REG [simp]: "REG (snd (operand m)) = REG m"
  by (simp add: operand_def bus_read_eq)

lemma operand_fields [simp]:
  "OPCODE (snd (operand m)) = OPCODE m"
  "CPU_VARIANT_MODE (snd (operand m)) = CPU_VARIANT_MODE m"
  by (simp_all add: operand_def bus_read_eq)

lemma compare_eq:
  "CMP m = set_P (cmp_P (A_of m) (fst (operand m)) (P_of m)) (snd (operand m))"
  "CPX m = set_P (cmp_P (X_of m) (fst (operand m)) (P_of m)) (snd (operand m))"
  "CPY m = set_P (cmp_P (Y_of m) (fst (operand m)) (P_of m)) (snd (operand m))"
  by (simp_all add: CMP_def CPX_def CPY_def case_prod_beta Let_def PUT_FLAG_eq set_zn_eq
      FLAG_C_def cmp_P_def o_def cong: machine.fold_congs T_REGISTER.fold_congs)

text \<open>A comparison is a binary subtraction with carry set that drops the result and V.\<close>

lemma compare_is_subtraction:
  assumes "\<not> bit (P_of m) 3" and "bit (P_of m) 0"
  shows "cmp_P (A_of m) v (P_of m) = put_bit 0x40 (bit (P_of m) 6) (P_of (sbc_core v m))"
  unfolding sbc_core_binary [OF assms(1)]
  using assms(2) by (intro byte_eqI) (auto simp: flag_simps word_le_nat_alt)

subsection \<open>Shifts and rotates\<close>

definition shift_P :: "bool \<Rightarrow> MEM_WORD \<Rightarrow> MEM_WORD \<Rightarrow> MEM_WORD" where
  "shift_P c r p = put_bit 0x80 (bit r 7) (put_bit 0x02 (r = 0) (put_bit 0x01 c p))"

lemma shift_P_bits [flag_simps]:
  "bit (shift_P c r p) n =
     (if n = 7 then bit r 7 else if n = 1 then r = 0 else if n = 0 then c else bit p n)"
  by (simp add: shift_P_def flag_simps)

lemma put_bit_twice: "put_bit 0x01 True (put_bit 0x01 False p) = put_bit 0x01 True p"
  by (simp add: byte_eq_bits flag_simps)

lemma shift_carry_eq: "shift_carry c = REG_update (rP_update (put_bit 0x01 c))"
  by (rule ext)
    (simp add: shift_carry_def flag_eqs Let_def FLAG_C_def put_bit_twice o_def)

lemma carry_in_eq: "carry_in m = (if bit (P_of m) 0 then 1 else 0)"
  by (simp add: carry_in_def GET_FLAG_bit FLAG_C_def)

text \<open>What a shift makes of a byte and the carry, and the carry it produces.\<close>

datatype shift_op = S_ASL | S_LSR | S_ROL | S_ROR

fun shift_result :: "shift_op \<Rightarrow> bool \<Rightarrow> MEM_WORD \<Rightarrow> MEM_WORD" where
  "shift_result S_ASL c v = push_bit 1 v"
| "shift_result S_LSR c v = drop_bit 1 v"
| "shift_result S_ROL c v = push_bit 1 v OR (if c then 1 else 0)"
| "shift_result S_ROR c v = drop_bit 1 v OR push_bit 7 (if c then 1 else 0)"

fun shift_out :: "shift_op \<Rightarrow> MEM_WORD \<Rightarrow> bool" where
  "shift_out S_ASL v = bit v 7"
| "shift_out S_LSR v = bit v 0"
| "shift_out S_ROL v = bit v 7"
| "shift_out S_ROR v = bit v 0"

fun shift_instr :: "shift_op \<Rightarrow> 'w machine \<Rightarrow> 'w machine" where
  "shift_instr S_ASL = ASL"
| "shift_instr S_LSR = LSR"
| "shift_instr S_ROL = ROL"
| "shift_instr S_ROR = ROR"

lemmas shift_defs = ASL_def LSR_def ROL_def ROR_def

lemma shift_accumulator:
  assumes "HAS_EA m = 0"
  shows "shift_instr f m =
    set_A (shift_result f (bit (P_of m) 0) (A_of m))
      (set_P (shift_P (shift_out f (A_of m)) (shift_result f (bit (P_of m) 0) (A_of m)) (P_of m)) m)"
  using assms
  by (cases f)
    (simp_all add: shift_defs shift_carry_eq set_zn_eq carry_in_eq Let_def byte_mask_bits
      shift_P_def o_def cong: machine.fold_congs T_REGISTER.fold_congs)

lemma shift_memory:
  assumes "HAS_EA m \<noteq> 0"
  shows "shift_instr f m =
    (let (v, m1) = bus_read (EA m) m; r = shift_result f (bit (P_of m) 0) v
     in set_P (shift_P (shift_out f v) r (P_of m)) (bus_write (EA m) r m1))"
  using assms
  by (cases f)
    (simp_all add: shift_defs shift_carry_eq set_zn_eq carry_in_eq Let_def byte_mask_bits bus_eqs
      shift_P_def o_def cong: machine.fold_congs T_REGISTER.fold_congs)

text \<open>
  On the nine bits made of carry and byte: ASL and ROL double, LSR and ROR halve, with the
  carry entering and leaving at the ends.
\<close>

lemma unat_push_1: "256 * of_bool (bit v 7) + unat (push_bit 1 (v :: MEM_WORD)) = 2 * unat v"
  using unat_byte_less [of v] by (simp add: push_bit_eq_mult unat_word_ariths bit7_unat le_mod_geq)

lemma unat_drop_1: "2 * unat (drop_bit 1 (v :: MEM_WORD)) + of_bool (bit v 0) = unat v"
proof -
  have "bit v 0 = bit (unat v) 0" by (simp only: bit_unsigned_iff) simp
  then have "bit v 0 = odd (unat v)" by (simp only: bit_0)
  moreover have "unat (drop_bit 1 v) = unat v div 2"
    by (simp only: unat_drop_bit_eq) (simp add: drop_bit_eq_div)
  ultimately show ?thesis by (simp add: mod_2_eq_odd [symmetric])
qed

lemma shift_numeric:
  "256 * of_bool (shift_out S_ASL v) + unat (shift_result S_ASL c v) = 2 * unat v"
  "256 * of_bool (shift_out S_ROL v) + unat (shift_result S_ROL c v) = 2 * unat v + of_bool c"
  "2 * unat (shift_result S_LSR c v) + of_bool (shift_out S_LSR v) = unat v"
  "2 * unat (shift_result S_ROR c v) + of_bool (shift_out S_ROR v) = 256 * of_bool c + unat v"
proof -
  have l: "push_bit 1 v OR (if c then 1 else 0) = push_bit 1 v + (if c then 1 else 0)"
    by (rule disjunctive_add [symmetric], simp only: bit_push_bit_iff) (auto simp: bit_1_iff)
  have r: "drop_bit 1 v OR push_bit 7 (if c then 1 else 0) =
      drop_bit 1 v + push_bit 7 (if c then 1 else 0)"
    by (rule disjunctive_add [symmetric], simp only: bit_push_bit_iff bit_drop_bit_eq o_def)
      (auto simp: bit_1_iff dest: bit_imp_le_length)
  have "unat (push_bit 1 v) < 255" using unat_push_1 [of v] unat_byte_less [of v]
    unat_byte_less [of "push_bit 1 v"] by presburger
  then have L: "unat (push_bit 1 v + (if c then 1 else 0)) = unat (push_bit 1 v) + of_bool c"
    by (simp add: unat_word_ariths)
  have "unat (drop_bit 1 v) < 128" using unat_drop_1 [of v] unat_byte_less [of v] by presburger
  then have R: "unat (drop_bit 1 v + push_bit 7 (if c then 1 else 0)) =
      unat (drop_bit 1 v) + 128 * of_bool c"
    by (simp add: unat_word_ariths push_bit_eq_mult)
  show "256 * of_bool (shift_out S_ASL v) + unat (shift_result S_ASL c v) = 2 * unat v"
    using unat_push_1 [of v] by simp
  show "256 * of_bool (shift_out S_ROL v) + unat (shift_result S_ROL c v) = 2 * unat v + of_bool c"
    using unat_push_1 [of v] by (simp only: shift_out.simps shift_result.simps l L)
  show "2 * unat (shift_result S_LSR c v) + of_bool (shift_out S_LSR v) = unat v"
    using unat_drop_1 [of v] by simp
  show "2 * unat (shift_result S_ROR c v) + of_bool (shift_out S_ROR v) = 256 * of_bool c + unat v"
    unfolding shift_out.simps shift_result.simps r R
    using unat_drop_1 [of v] by (cases c) simp_all
qed

text \<open>Rotating there and back.\<close>

lemma rotate_back:
  "shift_result S_ROR (shift_out S_ROL v) (shift_result S_ROL c v) = v"
  "shift_out S_ROR (shift_result S_ROL c v) = c"
  "shift_result S_ROL (shift_out S_ROR v) (shift_result S_ROR c v) = v"
  "shift_out S_ROL (shift_result S_ROR c v) = c"
proof -
  have halve: "x = y \<and> p = q" if "2 * x + of_bool p = 2 * y + (of_bool q :: nat)" for x y p q
    using that by (cases p; cases q) (simp_all, presburger+)
  have nine: "x = y \<and> p = q"
    if "256 * of_bool p + x = 256 * of_bool q + (y :: nat)" "x < 256" "y < 256" for x y p q
    using that by (cases p; cases q) simp_all
  show "shift_result S_ROR (shift_out S_ROL v) (shift_result S_ROL c v) = v"
    "shift_out S_ROR (shift_result S_ROL c v) = c"
    using shift_numeric(4) [of "shift_out S_ROL v" "shift_result S_ROL c v"]
      shift_numeric(2) [of v c]
    by (metis halve word_unat_eq_iff)+
  show "shift_result S_ROL (shift_out S_ROR v) (shift_result S_ROR c v) = v"
    "shift_out S_ROL (shift_result S_ROR c v) = c"
    using shift_numeric(2) [of "shift_result S_ROR c v" "shift_out S_ROR v"]
      shift_numeric(4) [of c v]
    by (metis nine unat_byte_less word_unat_eq_iff)+
qed

subsection \<open>Undocumented instructions are compositions\<close>

datatype undocumented = U_SLO | U_RLA | U_SRE | U_RRA | U_DCP | U_ISC

fun undocumented_instr :: "undocumented \<Rightarrow> 'w machine \<Rightarrow> 'w machine" where
  "undocumented_instr U_SLO = SLO"
| "undocumented_instr U_RLA = RLA"
| "undocumented_instr U_SRE = SRE"
| "undocumented_instr U_RRA = RRA"
| "undocumented_instr U_DCP = DCP"
| "undocumented_instr U_ISC = ISC"

text \<open>The documented instruction run first, on memory, and the one run on its result.\<close>

fun documented_pair :: "undocumented \<Rightarrow> 'w machine \<Rightarrow> 'w machine" where
  "documented_pair U_SLO m = ORA (ASL m)"
| "documented_pair U_RLA m = AND_instr (ROL m)"
| "documented_pair U_SRE m = EOR (LSR m)"
| "documented_pair U_RRA m = ADC (ROR m)"
| "documented_pair U_DCP m = CMP (DEC m)"
| "documented_pair U_ISC m = SBC (INC m)"

definition ram_operand ::
  "'w bus_read_fn \<Rightarrow> 'w bus_write_fn \<Rightarrow> ('w \<Rightarrow> bool) \<Rightarrow> ('w \<Rightarrow> MEM_TWO_WORDS set) \<Rightarrow>
   'w machine \<Rightarrow> bool" where
  "ram_operand rd wr ok ramset m =
     (wired rd wr m \<and> ok (bus_world m) \<and> HAS_EA m \<noteq> 0 \<and> EA m \<in> ramset (bus_world m))"

context memory_bus
begin

lemma ram_bus_rd:
  assumes "ram_operand rd wr inv ram m"
  shows "bus_rd (BUS m) (EA m) (bus_world m) = (peek (EA m) m, bus_world m)"
    and "bus_rd (BUS m) (EA m) (bus_wr (BUS m) (EA m) d (bus_world m)) =
      (d, bus_wr (BUS m) (EA m) d (bus_world m))"
proof -
  have w: "wired rd wr m" and ok: "inv (bus_world m)" and r: "EA m \<in> ram (bus_world m)"
    using assms by (simp_all add: ram_operand_def)
  then have p: "EA m \<in> plain (bus_world m)" using ram_plain by blast
  have "snd (rd (EA m) c (bus_world m)) = bus_world m" for c
    using ok p by (rule rd_plain)
  moreover have "rd (EA m) c (wr (EA m) d c (bus_world m)) = (d, wr (EA m) d c (bus_world m))" for c
    using rd_wr [OF ok r p] rd_plain [OF wr_inv [OF ok], of "EA m" "EA m" d c c] ok p
    by (simp add: prod_eq_iff plain_wr)
  ultimately show "bus_rd (BUS m) (EA m) (bus_world m) = (peek (EA m) m, bus_world m)"
    and "bus_rd (BUS m) (EA m) (bus_wr (BUS m) (EA m) d (bus_world m)) =
      (d, bus_wr (BUS m) (EA m) d (bus_world m))"
    using w by (simp_all add: bus_rd_def bus_wr_def wired_def peek_eq prod_eq_iff)
qed

lemma ram_bus_read:
  assumes "ram_operand rd wr inv ram m"
  shows "bus_read (EA m) m = (peek (EA m) m, m)"
  using assms bus_read_plain [of m "EA m"] ram_plain by (auto simp: ram_operand_def)

text \<open>After a memory shift on RAM the operand cell holds the result.\<close>

lemma shift_ram:
  assumes "ram_operand rd wr inv ram m"
  shows "shift_instr f m =
    (let v = peek (EA m) m; r = shift_result f (bit (P_of m) 0) v
     in set_P (shift_P (shift_out f v) r (P_of m)) (bus_write (EA m) r m))"
  using assms
  by (subst shift_memory) (simp_all add: ram_operand_def ram_bus_read [OF assms] Let_def)

end

text \<open>The arithmetic cores overwrite N and Z without reading them.\<close>

definition same_but_zn :: "MEM_WORD \<Rightarrow> MEM_WORD \<Rightarrow> bool" where
  "same_but_zn p q = (\<forall>n \<in> {0, 2, 3, 4, 5, 6}. bit p n = bit q n)"

lemma core_ignores_zn:
  assumes "same_but_zn p q"
  shows "adc_core v (set_P p m) = adc_core v (set_P q m)"
    and "sbc_core v (set_P p m) = sbc_core v (set_P q m)"
proof -
  have P: "put_bit 0x80 n (put_bit 0x02 z (put_bit 0x40 ov (put_bit 0x01 c p))) =
      put_bit 0x80 n (put_bit 0x02 z (put_bit 0x40 ov (put_bit 0x01 c q)))"
    "put_bit 0x40 ov (put_bit 0x80 n (put_bit 0x02 z (put_bit 0x01 c p))) =
      put_bit 0x40 ov (put_bit 0x80 n (put_bit 0x02 z (put_bit 0x01 c q)))" for n z ov c
    using assms by (simp_all add: byte_eq_bits flag_simps same_but_zn_def)
  have F: "bit p 0 = bit q 0" "bit p 3 = bit q 3"
    using assms by (simp_all add: same_but_zn_def)
  show "adc_core v (set_P p m) = adc_core v (set_P q m)"
    unfolding adc_core_def GET_FLAG_bit FLAG_D_def FLAG_C_def FLAG_V_def Let_def let_pair_if
    by (simp add: PUT_FLAG_eq set_zn_eq F P o_def)
  show "sbc_core v (set_P p m) = sbc_core v (set_P q m)"
    unfolding sbc_core_def GET_FLAG_bit FLAG_D_def FLAG_C_def FLAG_V_def Let_def let_pair_if
    by (simp add: PUT_FLAG_eq set_zn_eq F P o_def)
qed

lemma core_after_zn:
  "P_of m = p \<Longrightarrow> adc_core v (set_P (shift_P c r p) m) =
     adc_core v (REG_update (rP_update (put_bit 0x01 c)) m)"
  "sbc_core v (REG_update (rP_update (\<lambda>p. put_bit 0x80 n (put_bit 0x02 z p))) m) = sbc_core v m"
proof -
  have rP: "REG_update (rP_update f) m = set_P (f (P_of m)) m" for f
    by (cases m; cases "REG m") simp
  have self: "m = set_P (P_of m) m"
    by (cases m; cases "REG m") simp
  show "adc_core v (set_P (shift_P c r p) m) =
      adc_core v (REG_update (rP_update (put_bit 0x01 c)) m)" if "P_of m = p"
    unfolding rP [of "put_bit 0x01 c"] using that
    by (intro core_ignores_zn(1)) (simp add: same_but_zn_def flag_simps)
  show "sbc_core v (REG_update (rP_update (\<lambda>p. put_bit 0x80 n (put_bit 0x02 z p))) m) =
      sbc_core v m"
    unfolding rP [of "\<lambda>p. put_bit 0x80 n (put_bit 0x02 z p)"]
    using core_ignores_zn(2) [of "put_bit 0x80 n (put_bit 0x02 z (P_of m))" "P_of m" v m] self
    by (simp add: same_but_zn_def flag_simps)
qed

context memory_bus
begin

lemma ram_operand_write:
  assumes "ram_operand rd wr inv ram m"
  shows "operand (REG_update f (bus_write (EA m) d m)) = (d, REG_update f (bus_write (EA m) d m))"
proof -
  have "bus_read (EA m) (REG_update f (bus_write (EA m) d m)) =
      (d, REG_update f (bus_write (EA m) d m))"
    unfolding bus_read_eq bus_write_eq using ram_bus_rd(2) [OF assms, of d]
    by (cases m) simp
  then show ?thesis using assms by (simp add: operand_def ram_operand_def bus_write_eq)
qed

lemma rmw_composition:
  assumes "ram_operand rd wr inv ram m"
  shows "SLO m = ORA (ASL m)" "RLA m = AND_instr (ROL m)" "SRE m = EOR (LSR m)"
    "RRA m = ADC (ROR m)" "DCP m = CMP (DEC m)" "ISC m = SBC (INC m)"
proof -
  note rd = ram_bus_read [OF assms] and op = ram_operand_write [OF assms]
  note sh = shift_ram [OF assms, of S_ASL, unfolded shift_instr.simps]
    shift_ram [OF assms, of S_LSR, unfolded shift_instr.simps]
    shift_ram [OF assms, of S_ROL, unfolded shift_instr.simps]
    shift_ram [OF assms, of S_ROR, unfolded shift_instr.simps]
  have zn: "put_bit 0x80 n (put_bit 0x02 z (shift_P c r p)) =
      put_bit 0x80 n (put_bit 0x02 z (put_bit 0x01 c p))" for n z c r p
    by (simp add: byte_eq_bits flag_simps)
  have cmp: "put_bit 0x80 n (put_bit 0x02 z (put_bit 0x01 c (put_bit 0x80 n' (put_bit 0x02 z' p)))) =
      put_bit 0x80 n (put_bit 0x02 z (put_bit 0x01 c p))" for n z c n' z' p
    by (simp add: byte_eq_bits flag_simps)
  note eqs = rd op Let_def shift_carry_eq set_zn_eq carry_in_eq bus_write_REG byte_mask_bits
    sh zn cmp PUT_FLAG_eq FLAG_C_def
  show "SLO m = ORA (ASL m)" by (simp add: SLO_def ORA_def eqs o_def)
  show "RLA m = AND_instr (ROL m)" by (simp add: RLA_def AND_instr_def eqs o_def)
  show "SRE m = EOR (LSR m)" by (simp add: SRE_def EOR_def eqs o_def)
  show "DCP m = CMP (DEC m)" by (simp add: DCP_def CMP_def DEC_def eqs o_def)
  show "RRA m = ADC (ROR m)"
    by (simp add: RRA_def ADC_def eqs core_after_zn)
  show "ISC m = SBC (INC m)"
    by (simp add: ISC_def SBC_def INC_def eqs core_after_zn o_def)
qed

lemma undocumented_composition:
  "ram_operand rd wr inv ram m \<Longrightarrow> undocumented_instr u m = documented_pair u m"
  by (cases u) (simp_all only: undocumented_instr.simps documented_pair.simps rmw_composition)

end

end
