(* ===== verification/Handlers.thy ===== *)
theory Handlers
  imports Instr_Table Shift_Spec
begin

text \<open>
  src/instructions_handlers.c: the type \<open>instr_fn\<close> of pointers to the handlers, as a datatype
  with one constructor per handler and its meaning \<open>call_instr\<close>; the two dispatch tables and
  \<open>instr_dispatch\<close>. An entry absent from \<open>NMOS_HANDLER\<close> is NULL.
\<close>

datatype (plugins only:) instr_fn =
    F_LDA | F_STA | F_BPL | F_BMI | F_BVC | F_BVS | F_BCC | F_BCS | F_BNE | F_BEQ | F_LDX
  | F_LDY | F_STX | F_STY | F_TAX | F_TXA | F_TAY | F_TYA | F_TSX | F_TXS | F_PHA | F_PLA
  | F_PHP | F_PLP | F_INX | F_DEX | F_INY | F_DEY | F_INC | F_DEC | F_INC_A | F_DEC_A
  | F_AND | F_ORA | F_EOR | F_ADC | F_SBC | F_CLC | F_SEC | F_CLI | F_SEI | F_CLD | F_SED
  | F_CLV | F_NOP | F_BRK | F_JMP | F_JSR | F_RTS | F_RTI | F_ASL | F_LSR | F_ROL | F_ROR
  | F_CMP | F_CPX | F_CPY | F_BIT | F_LAX | F_SAX | F_DCP | F_ISC | F_SLO | F_RLA | F_SRE
  | F_RRA | F_ANC | F_ALR | F_ARR | F_ALT_SBC | F_op_kil | F_NOP_READ | F_BRA | F_PHX
  | F_PHY | F_PLX | F_PLY | F_STZ | F_TRB | F_TSB | F_WAI | F_STP | F_RMB | F_SMB | F_BBR
  | F_BBS | F_op_illegal

primrec call_instr :: "instr_fn \<Rightarrow> 'w machine \<Rightarrow> 'w machine" where
  "call_instr F_LDA = LDA"
| "call_instr F_STA = STA"
| "call_instr F_BPL = BPL"
| "call_instr F_BMI = BMI"
| "call_instr F_BVC = BVC"
| "call_instr F_BVS = BVS"
| "call_instr F_BCC = BCC"
| "call_instr F_BCS = BCS"
| "call_instr F_BNE = BNE"
| "call_instr F_BEQ = BEQ"
| "call_instr F_LDX = LDX"
| "call_instr F_LDY = LDY"
| "call_instr F_STX = STX"
| "call_instr F_STY = STY"
| "call_instr F_TAX = TAX"
| "call_instr F_TXA = TXA"
| "call_instr F_TAY = TAY"
| "call_instr F_TYA = TYA"
| "call_instr F_TSX = TSX"
| "call_instr F_TXS = TXS"
| "call_instr F_PHA = PHA"
| "call_instr F_PLA = PLA"
| "call_instr F_PHP = PHP"
| "call_instr F_PLP = PLP"
| "call_instr F_INX = INX"
| "call_instr F_DEX = DEX"
| "call_instr F_INY = INY"
| "call_instr F_DEY = DEY"
| "call_instr F_INC = INC"
| "call_instr F_DEC = DEC"
| "call_instr F_INC_A = INC_A"
| "call_instr F_DEC_A = DEC_A"
| "call_instr F_AND = AND_instr"
| "call_instr F_ORA = ORA"
| "call_instr F_EOR = EOR"
| "call_instr F_ADC = ADC"
| "call_instr F_SBC = SBC"
| "call_instr F_CLC = CLC"
| "call_instr F_SEC = SEC"
| "call_instr F_CLI = CLI"
| "call_instr F_SEI = SEI"
| "call_instr F_CLD = CLD"
| "call_instr F_SED = SED"
| "call_instr F_CLV = CLV"
| "call_instr F_NOP = NOP"
| "call_instr F_BRK = BRK"
| "call_instr F_JMP = JMP"
| "call_instr F_JSR = JSR"
| "call_instr F_RTS = RTS"
| "call_instr F_RTI = RTI"
| "call_instr F_ASL = ASL"
| "call_instr F_LSR = LSR"
| "call_instr F_ROL = ROL"
| "call_instr F_ROR = ROR"
| "call_instr F_CMP = CMP"
| "call_instr F_CPX = CPX"
| "call_instr F_CPY = CPY"
| "call_instr F_BIT = BIT"
| "call_instr F_LAX = LAX"
| "call_instr F_SAX = SAX"
| "call_instr F_DCP = DCP"
| "call_instr F_ISC = ISC"
| "call_instr F_SLO = SLO"
| "call_instr F_RLA = RLA"
| "call_instr F_SRE = SRE"
| "call_instr F_RRA = RRA"
| "call_instr F_ANC = ANC"
| "call_instr F_ALR = ALR"
| "call_instr F_ARR = ARR"
| "call_instr F_ALT_SBC = ALT_SBC"
| "call_instr F_op_kil = op_kil"
| "call_instr F_NOP_READ = NOP_READ"
| "call_instr F_BRA = BRA"
| "call_instr F_PHX = PHX"
| "call_instr F_PHY = PHY"
| "call_instr F_PLX = PLX"
| "call_instr F_PLY = PLY"
| "call_instr F_STZ = STZ"
| "call_instr F_TRB = TRB"
| "call_instr F_TSB = TSB"
| "call_instr F_WAI = WAI"
| "call_instr F_STP = STP"
| "call_instr F_RMB = RMB"
| "call_instr F_SMB = SMB"
| "call_instr F_BBR = BBR"
| "call_instr F_BBS = BBS"
| "call_instr F_op_illegal = op_illegal"

definition INSTR_HANDLERS :: "instr_fn list" where
  "INSTR_HANDLERS =
    [F_BRK, F_ORA, F_NOP, F_NOP, F_TSB, F_ORA, F_ASL, F_RMB, F_PHP, F_ORA, F_ASL, F_NOP,
     F_TSB, F_ORA, F_ASL, F_BBR, F_BPL, F_ORA, F_ORA, F_NOP, F_TRB, F_ORA, F_ASL, F_RMB,
     F_CLC, F_ORA, F_INC_A, F_NOP, F_TRB, F_ORA, F_ASL, F_BBR, F_JSR, F_AND, F_NOP, F_NOP,
     F_BIT, F_AND, F_ROL, F_RMB, F_PLP, F_AND, F_ROL, F_NOP, F_BIT, F_AND, F_ROL, F_BBR,
     F_BMI, F_AND, F_AND, F_NOP, F_BIT, F_AND, F_ROL, F_RMB, F_SEC, F_AND, F_DEC_A, F_NOP,
     F_BIT, F_AND, F_ROL, F_BBR, F_RTI, F_EOR, F_NOP, F_NOP, F_NOP_READ, F_EOR, F_LSR,
     F_RMB, F_PHA, F_EOR, F_LSR, F_NOP, F_JMP, F_EOR, F_LSR, F_BBR, F_BVC, F_EOR, F_EOR,
     F_NOP, F_NOP_READ, F_EOR, F_LSR, F_RMB, F_CLI, F_EOR, F_PHY, F_NOP, F_NOP_READ, F_EOR,
     F_LSR, F_BBR, F_RTS, F_ADC, F_NOP, F_NOP, F_STZ, F_ADC, F_ROR, F_RMB, F_PLA, F_ADC,
     F_ROR, F_NOP, F_JMP, F_ADC, F_ROR, F_BBR, F_BVS, F_ADC, F_ADC, F_NOP, F_STZ, F_ADC,
     F_ROR, F_RMB, F_SEI, F_ADC, F_PLY, F_NOP, F_JMP, F_ADC, F_ROR, F_BBR, F_BRA, F_STA,
     F_NOP, F_NOP, F_STY, F_STA, F_STX, F_SMB, F_DEY, F_BIT, F_TXA, F_NOP, F_STY, F_STA,
     F_STX, F_BBS, F_BCC, F_STA, F_STA, F_NOP, F_STY, F_STA, F_STX, F_SMB, F_TYA, F_STA,
     F_TXS, F_NOP, F_STZ, F_STA, F_STZ, F_BBS, F_LDY, F_LDA, F_LDX, F_NOP, F_LDY, F_LDA,
     F_LDX, F_SMB, F_TAY, F_LDA, F_TAX, F_NOP, F_LDY, F_LDA, F_LDX, F_BBS, F_BCS, F_LDA,
     F_LDA, F_NOP, F_LDY, F_LDA, F_LDX, F_SMB, F_CLV, F_LDA, F_TSX, F_NOP, F_LDY, F_LDA,
     F_LDX, F_BBS, F_CPY, F_CMP, F_NOP, F_NOP, F_CPY, F_CMP, F_DEC, F_SMB, F_INY, F_CMP,
     F_DEX, F_WAI, F_CPY, F_CMP, F_DEC, F_BBS, F_BNE, F_CMP, F_CMP, F_NOP, F_NOP_READ,
     F_CMP, F_DEC, F_SMB, F_CLD, F_CMP, F_PHX, F_STP, F_NOP_READ, F_CMP, F_DEC, F_BBS,
     F_CPX, F_SBC, F_NOP, F_NOP, F_CPX, F_SBC, F_INC, F_SMB, F_INX, F_SBC, F_NOP, F_NOP,
     F_CPX, F_SBC, F_INC, F_BBS, F_BEQ, F_SBC, F_SBC, F_NOP, F_NOP_READ, F_SBC, F_INC,
     F_SMB, F_SED, F_SBC, F_PLX, F_NOP, F_NOP_READ, F_SBC, F_INC, F_BBS]"

definition NMOS_HANDLER :: "(MEM_WORD \<times> instr_fn) list" where
  "NMOS_HANDLER =
    [(0x02, F_op_kil), (0x12, F_op_kil), (0x22, F_op_kil), (0x32, F_op_kil),
     (0x42, F_op_kil), (0x52, F_op_kil), (0x62, F_op_kil), (0x72, F_op_kil),
     (0x92, F_op_kil), (0xB2, F_op_kil), (0xD2, F_op_kil), (0xF2, F_op_kil), (0x03, F_SLO),
     (0x13, F_SLO), (0x23, F_RLA), (0x33, F_RLA), (0x43, F_SRE), (0x53, F_SRE),
     (0x63, F_RRA), (0x73, F_RRA), (0x83, F_SAX), (0x93, F_NOP_READ), (0xA3, F_LAX),
     (0xB3, F_LAX), (0xC3, F_DCP), (0xD3, F_DCP), (0xE3, F_ISC), (0xF3, F_ISC),
     (0x04, F_NOP_READ), (0x0C, F_NOP_READ), (0x14, F_NOP_READ), (0x1C, F_NOP_READ),
     (0x64, F_NOP_READ), (0x74, F_NOP_READ), (0x34, F_NOP_READ), (0x3C, F_NOP_READ),
     (0x07, F_SLO), (0x17, F_SLO), (0x27, F_RLA), (0x37, F_RLA), (0x47, F_SRE),
     (0x57, F_SRE), (0x67, F_RRA), (0x77, F_RRA), (0x87, F_SAX), (0x97, F_SAX),
     (0xA7, F_LAX), (0xB7, F_LAX), (0xC7, F_DCP), (0xD7, F_DCP), (0xE7, F_ISC),
     (0xF7, F_ISC), (0x0B, F_ANC), (0x1B, F_SLO), (0x2B, F_ANC), (0x3B, F_RLA),
     (0x4B, F_ALR), (0x5B, F_SRE), (0x6B, F_ARR), (0x7B, F_RRA), (0x8B, F_op_illegal),
     (0x9B, F_op_illegal), (0xAB, F_op_illegal), (0xBB, F_op_illegal),
     (0xCB, F_op_illegal), (0xDB, F_op_illegal), (0xEB, F_ALT_SBC), (0xFB, F_ISC),
     (0x0F, F_SLO), (0x1F, F_SLO), (0x2F, F_RLA), (0x3F, F_RLA), (0x4F, F_SRE),
     (0x5F, F_SRE), (0x6F, F_RRA), (0x7F, F_RRA), (0x8F, F_SAX), (0x9F, F_op_illegal),
     (0xAF, F_LAX), (0xBF, F_LAX), (0xCF, F_DCP), (0xDF, F_DCP), (0xEF, F_ISC),
     (0xFF, F_ISC), (0x1A, F_NOP), (0x3A, F_NOP), (0x5A, F_NOP), (0x7A, F_NOP),
     (0x7C, F_NOP_READ), (0x89, F_NOP), (0xDA, F_NOP), (0xFA, F_NOP)]"

text \<open>The handler \<open>instr_dispatch\<close> calls.\<close>

definition handler_of :: "CPU_VARIANT \<Rightarrow> MEM_WORD \<Rightarrow> instr_fn" where
  "handler_of v op =
     (case v of
        CPU_VARIANT_NMOS_6502 \<Rightarrow>
          (case map_of NMOS_HANDLER op of
             Some h \<Rightarrow> h
           | None \<Rightarrow> INSTR_HANDLERS ! unat op)
      | CPU_VARIANT_CMOS_65C02 \<Rightarrow> INSTR_HANDLERS ! unat op)"

definition instr_dispatch :: "'w machine \<Rightarrow> 'w machine" where
  "instr_dispatch m = call_instr (handler_of (cpu_get_variant m) (OPCODE m)) m"

lemma length_INSTR_HANDLERS: "length INSTR_HANDLERS = 256"
  by (simp add: INSTR_HANDLERS_def)

end
