(* ===== verification/Handler_Facts.thy ===== *)
theory Handler_Facts
  imports Handlers
begin

text \<open>
  What every one of the 87 handlers leaves alone: each touches the outside world through the
  bus only, and the control state of the emulator (cycle counter, interrupt controller,
  trace output, waiting and stopped) is changed by the few instructions whose job that is.
\<close>

text \<open>BRK is interrupt entry.\<close>

lemma BRK_eq: "BRK m = interrupt_entry INT_BRK m"
  unfolding BRK_def by (subst sequence_is_entry) (simp_all add: taken_def)

declare BRK_def [instr_defs del] BRK_eq [instr_defs]

lemmas handler_eqs =
  instr_defs bus_eqs push8_def push16_def pop8_def pop16_def operand_def take_branch_def
  shift_carry_def flag_eqs set_zn_eq Let_def case_prod_beta

lemma core_fields:
  "BUS (adc_core v m) = BUS m" "bus_world (adc_core v m) = bus_world m"
  "BUS (sbc_core v m) = BUS m" "bus_world (sbc_core v m) = bus_world m"
  "CPU_VARIANT_MODE (adc_core v m) = CPU_VARIANT_MODE m"
  "CPU_VARIANT_MODE (sbc_core v m) = CPU_VARIANT_MODE m"
  "trace_enabled (adc_core v m) = trace_enabled m"
  "trace_enabled (sbc_core v m) = trace_enabled m"
  "ic (adc_core v m) = ic m" "ic (sbc_core v m) = ic m"
  "CYCLES (adc_core v m) = CYCLES m" "CYCLES (sbc_core v m) = CYCLES m"
  "OPCODE (adc_core v m) = OPCODE m" "OPCODE (sbc_core v m) = OPCODE m"
  "global_cycle_count (adc_core v m) = global_cycle_count m"
  "global_cycle_count (sbc_core v m) = global_cycle_count m"
  "HAS_EA (adc_core v m) = HAS_EA m" "HAS_EA (sbc_core v m) = HAS_EA m"
  "EA (adc_core v m) = EA m" "EA (sbc_core v m) = EA m"
  "out (adc_core v m) = out m" "out (sbc_core v m) = out m"
  "CPU_WAITING (adc_core v m) = CPU_WAITING m" "CPU_WAITING (sbc_core v m) = CPU_WAITING m"
  "CPU_STOPPED (adc_core v m) = CPU_STOPPED m" "CPU_STOPPED (sbc_core v m) = CPU_STOPPED m"
  "PAGE_CROSS (adc_core v m) = PAGE_CROSS m" "PAGE_CROSS (sbc_core v m) = PAGE_CROSS m"
  "BRANCH_TAKEN (adc_core v m) = BRANCH_TAKEN m" "BRANCH_TAKEN (sbc_core v m) = BRANCH_TAKEN m"
  "BRANCH_PAGE_CROSS (adc_core v m) = BRANCH_PAGE_CROSS m"
  "BRANCH_PAGE_CROSS (sbc_core v m) = BRANCH_PAGE_CROSS m"
  "PC_of (adc_core v m) = PC_of m" "PC_of (sbc_core v m) = PC_of m"
  "S_of (adc_core v m) = S_of m" "S_of (sbc_core v m) = S_of m"
  "X_of (adc_core v m) = X_of m" "X_of (sbc_core v m) = X_of m"
  "Y_of (adc_core v m) = Y_of m" "Y_of (sbc_core v m) = Y_of m"
  by (simp_all add: adc_core_def sbc_core_def Let_def let_pair_if PUT_FLAG_eq set_zn_eq)

lemma touches_call_instr [touch_intros]: "touches m (call_instr f m)"
proof (cases "f = F_BRK")
  case True
  then show ?thesis by (simp add: BRK_eq touches_interrupt_entry)
next
  case False
  then show ?thesis
    by (cases f) (simp_all add: touches_def handler_eqs core_fields bus_run.intros)
qed

subsection \<open>The control state across a handler\<close>

lemma call_instr_ic:
  "ic (call_instr f m) =
     (if f = F_BRK then
        entry_ic INT_BRK \<lparr>ev_type = INT_BRK, ev_pc = PC_of m, ev_p = P_of m,
                         ev_cycle = global_cycle_count m\<rparr> (ic m)
      else ic m)"
  by (cases f) (simp_all add: handler_eqs core_fields)

lemma call_instr_CYCLES:
  "CYCLES (call_instr f m) =
     (if f = F_JMP \<and> CPU_VARIANT_MODE m = CPU_VARIANT_CMOS_65C02 \<and> OPCODE m = 0x6C
      then CYCLES m + 1 else CYCLES m)"
  by (cases f) (simp_all add: handler_eqs core_fields)

lemma call_instr_STOPPED:
  "CPU_STOPPED (call_instr f m) = (if f = F_op_kil \<or> f = F_STP then 1 else CPU_STOPPED m)"
  by (cases f) (simp_all add: handler_eqs core_fields)

lemma call_instr_WAITING:
  "CPU_WAITING (call_instr f m) =
     (if f = F_WAI then 1 else if f = F_BRK then 0 else CPU_WAITING m)"
  by (cases f) (simp_all add: handler_eqs core_fields)

lemma call_instr_fields:
  "OPCODE (call_instr f m) = OPCODE m"
  "PAGE_CROSS (call_instr f m) = PAGE_CROSS m"
  "out (call_instr f m) = out m"
  "global_cycle_count (call_instr f m) = global_cycle_count m"
  "HAS_EA (call_instr f m) = HAS_EA m"
  "EA (call_instr f m) = EA m"
  by (cases f; simp add: handler_eqs core_fields)+

end
