(* ===== verification/Cpu.thy ===== *)
theory Cpu
  imports Handler_Facts
begin

text \<open>
  src/trace.c and src/cpu.c: tracing, cycle tables, reset, the per-variant addressing-mode
  overrides, \<open>cpu_step\<close> and the \<open>cpu_run\<close> loop. The global \<open>META\<close> is a pointer into
  \<open>INST_TABLE\<close> and appears as the value it points at.
\<close>

subsection \<open>trace.c\<close>

definition trace_set_enabled :: "int \<Rightarrow> 'w machine \<Rightarrow> 'w machine" where
  "trace_set_enabled e m = m\<lparr>trace_enabled := e\<rparr>"

definition trace_before :: "MEM_TWO_WORDS \<Rightarrow> MEM_WORD \<Rightarrow> 'w machine \<Rightarrow> 'w machine" where
  "trace_before pc op m =
     (if trace_enabled m = 0 then m
      else m\<lparr>out := out m @ [Trace_Line pc op (CMD (META_of op)) (REG m)]\<rparr>)"

definition trace_after :: "'w machine \<Rightarrow> 'w machine" where
  "trace_after m = (if trace_enabled m = 0 then m else m\<lparr>out := out m @ [Trace_Newline]\<rparr>)"

subsection \<open>Cycle tables\<close>

definition CYCLE_BASE :: "MEM_WORD list" where
  "CYCLE_BASE =
    [7, 6, 0, 8, 3, 3, 5, 5, 3, 2, 2, 2, 4, 4, 6, 6,
     2, 5, 5, 8, 4, 4, 6, 6, 2, 4, 2, 7, 4, 4, 7, 7,
     6, 6, 0, 8, 3, 3, 5, 5, 4, 2, 2, 2, 4, 4, 6, 6,
     2, 5, 5, 8, 4, 4, 6, 6, 2, 4, 2, 7, 4, 4, 7, 7,
     6, 6, 0, 8, 3, 3, 5, 5, 3, 2, 2, 2, 3, 4, 6, 6,
     2, 5, 5, 8, 4, 4, 6, 6, 2, 4, 2, 7, 4, 4, 7, 7,
     6, 6, 0, 8, 3, 3, 5, 5, 4, 2, 2, 2, 5, 4, 6, 6,
     2, 5, 5, 8, 4, 4, 6, 6, 2, 4, 2, 7, 6, 4, 7, 7,
     2, 6, 2, 6, 3, 3, 3, 3, 2, 2, 2, 2, 4, 4, 4, 4,
     2, 6, 5, 6, 4, 4, 4, 4, 2, 5, 2, 5, 5, 5, 5, 5,
     2, 6, 2, 6, 3, 3, 3, 3, 2, 2, 2, 2, 4, 4, 4, 4,
     2, 5, 5, 5, 4, 4, 4, 4, 2, 4, 2, 4, 4, 4, 4, 4,
     2, 6, 2, 8, 3, 3, 5, 5, 2, 2, 2, 2, 4, 4, 6, 6,
     2, 5, 5, 8, 4, 4, 6, 6, 2, 4, 2, 7, 4, 4, 7, 7,
     2, 6, 2, 8, 3, 3, 5, 5, 2, 2, 2, 2, 4, 4, 6, 6,
     2, 5, 5, 8, 4, 4, 6, 6, 2, 4, 2, 7, 4, 4, 7, 7]"

text \<open>Cycle counts of the 65C02 where they differ from the table; 0 means "use the table".\<close>

definition cy65_cycle :: "MEM_WORD \<Rightarrow> int" where
  "cy65_cycle op =
    (if op = 0x04 then 5
     else if op = 0x0C then 6
     else if op = 0x14 then 5
     else if op = 0x1C then 6
     else if op \<in> {0x02, 0x22, 0x42, 0x62} then 2
     else if op \<in> {0x0F, 0x1F, 0x2F, 0x3F, 0x4F, 0x5F, 0x6F, 0x7F, 0x8F, 0x9F, 0xAF, 0xBF,
         0xCF, 0xDF, 0xEF, 0xFF} then 5
     else if op = 0xCB then 3
     else if op = 0xDB then 3
     else if op = 0xDA then 3
     else if op = 0x5A then 3
     else if op = 0xFA then 4
     else if op = 0x7A then 4
     else if op = 0x9C then 4
     else if op = 0xDC then 5
     else if op = 0xFC then 5
     else 0)"

definition op_suppresses_pagecross :: "MEM_WORD \<Rightarrow> int" where
  "op_suppresses_pagecross op =
    (if op \<in> {0x9D, 0x99, 0x9E, 0x91, 0x1E, 0x5E, 0x3E, 0x7E, 0xFE, 0xDE} then 1
     else 0)"

definition apply_cycle_adjustments :: "int \<Rightarrow> int \<Rightarrow> int \<Rightarrow> 'w machine \<Rightarrow> 'w machine" where
  "apply_cycle_adjustments page_cross branch_taken branch_page_cross m =
     (let m = (if page_cross \<noteq> 0 \<and> op_suppresses_pagecross (OPCODE m) = 0
               then m\<lparr>CYCLES := CYCLES m + 1\<rparr> else m);
          m = (if branch_taken \<noteq> 0 then m\<lparr>CYCLES := CYCLES m + 1\<rparr> else m)
      in if branch_page_cross \<noteq> 0 then m\<lparr>CYCLES := CYCLES m + 1\<rparr> else m)"

subsection \<open>Initialisation and reset\<close>

definition cpu_init :: "'w machine \<Rightarrow> 'w machine" where
  "cpu_init m = interrupt_init m"

definition cpu_reset :: "'w machine \<Rightarrow> 'w machine" where
  "cpu_reset m =
     (let m = set_A 0 m; m = set_X 0 m; m = set_Y 0 m;
          m = set_S CPU_RESET_STACK_POINTER m;
          m = set_P CPU_RESET_STATUS m;
          (v, m) = bus_read16 CPU_RESET_VECTOR_ADDRESS m;
          m = set_PC v m;
          m = cpu_set_waiting 0 m;
          m = cpu_set_stopped 0 m
      in m\<lparr>CYCLES := CYCLES m + 7\<rparr>)"

subsection \<open>Addressing modes per variant\<close>

text \<open>\<open>ADDR_NONE\<close> means "use the table's mode".\<close>

definition nmos_addr_override :: "MEM_WORD \<Rightarrow> ADDR_MODE" where
  "nmos_addr_override op =
    (if op \<in> {0x03, 0x23, 0x43, 0x63, 0x83, 0xA3, 0xC3, 0xE3} then ADDR_INDX
     else if op \<in> {0x13, 0x33, 0x53, 0x73, 0xB3, 0xD3, 0xF3} then ADDR_INDY
     else if op = 0x93 then ADDR_ABSY
     else if op \<in> {0x07, 0x27, 0x47, 0x67, 0x87, 0xA7, 0xC7, 0xE7} then ADDR_ZP
     else if op \<in> {0x17, 0x37, 0x57, 0x77, 0xD7, 0xF7} then ADDR_ZPX
     else if op \<in> {0x97, 0xB7} then ADDR_ZPY
     else if op \<in> {0x0B, 0x2B, 0x4B, 0x6B, 0xEB} then ADDR_IMM
     else if op \<in> {0x1B, 0x3B, 0x5B, 0x7B, 0xDB, 0xFB} then ADDR_ABSY
     else if op \<in> {0x0F, 0x2F, 0x4F, 0x6F, 0x8F, 0xAF, 0xCF, 0xEF} then ADDR_ABS
     else if op \<in> {0x1F, 0x3F, 0x5F, 0x7F, 0xDF, 0xFF} then ADDR_ABSX
     else if op \<in> {0x9F, 0xBF} then ADDR_ABSY
     else if op \<in> {0x14, 0x34, 0x54, 0x74, 0xD4, 0xF4} then ADDR_ZPX
     else if op \<in> {0x1C, 0x3C, 0x5C, 0x7C, 0xDC, 0xFC} then ADDR_ABSX
     else if op \<in> {0x82, 0xC2, 0xE2} then ADDR_IMM
     else ADDR_NONE)"

text \<open>The out-parameter and return value as an option.\<close>

definition cmos_addr_override :: "MEM_WORD \<Rightarrow> ADDR_MODE option" where
  "cmos_addr_override op =
     (if op \<in> {0x0B, 0x1B, 0x2B, 0x3B, 0x4B, 0x5B, 0x6B, 0x7B,
         0x8B, 0x9B, 0xAB, 0xBB, 0xEB, 0xFB}
      then Some ADDR_NONE else None)"

text \<open>The mode and the cycles \<open>cpu_step\<close> computes from the opcode.\<close>

definition mode_of :: "CPU_VARIANT \<Rightarrow> MEM_WORD \<Rightarrow> ADDR_MODE" where
  "mode_of v op =
     (let mode = ADDR (META_of op) in
      if v = CPU_VARIANT_NMOS_6502 then
        (let ov = nmos_addr_override op in if ov \<noteq> ADDR_NONE then ov else mode)
      else (case cmos_addr_override op of Some ov \<Rightarrow> ov | None \<Rightarrow> mode))"

definition cycles_of :: "CPU_VARIANT \<Rightarrow> MEM_WORD \<Rightarrow> uint32" where
  "cycles_of v op =
     (if v = CPU_VARIANT_CMOS_65C02 then
        (let c = cy65_cycle op in if c \<noteq> 0 then word_of_int c else ucast (CYCLE_BASE ! unat op))
      else ucast (CYCLE_BASE ! unat op))"

subsection \<open>One step\<close>

definition cpu_step :: "'w machine \<Rightarrow> 'w machine" where
  "cpu_step m =
     (let (t, m) = interrupt_poll m in
      if t \<noteq> INT_NONE then
        (let m = interrupt_begin t m in snd (interrupt_step_cycle m))
      else if CPU_STOPPED m \<noteq> 0 then m
      else if CPU_WAITING m \<noteq> 0 then m
      else
        (let pc_before = PC_of m;
             (op, m) = bus_read (PC_of m) (set_PC (PC_of m + 1) m);
             m = m\<lparr>OPCODE := op\<rparr>;
             m = trace_before pc_before (OPCODE m) m;
             m = m\<lparr>CYCLES := CYCLES m + cycles_of (cpu_get_variant m) (OPCODE m)\<rparr>;
             mode = mode_of (cpu_get_variant m) (OPCODE m);
             (ea, m) = addr_resolve mode (m\<lparr>HAS_EA := 1\<rparr>);
             m = m\<lparr>EA := ea\<rparr>;
             m = m\<lparr>BRANCH_TAKEN := 0, BRANCH_PAGE_CROSS := 0\<rparr>;
             m = instr_dispatch m;
             m = apply_cycle_adjustments (PAGE_CROSS m) (BRANCH_TAKEN m)
                   (BRANCH_PAGE_CROSS m) m
         in trace_after m))"

text \<open>
  The loop of \<open>cpu_run\<close>; None when it does not return. \<open>CYCLES - start_cycles\<close> wraps at 32
  bits, as the code's does.
\<close>

partial_function (option) run_loop :: "uint32 \<Rightarrow> uint32 \<Rightarrow> 'w machine \<Rightarrow> 'w machine option" where
  "run_loop start_cycles max_cycles m =
     (if CYCLES m - start_cycles < max_cycles
      then run_loop start_cycles max_cycles (cpu_step m) else Some m)"

definition cpu_run :: "uint32 \<Rightarrow> 'w machine \<Rightarrow> 'w machine option" where
  "cpu_run max_cycles m = run_loop (CYCLES m) max_cycles m"

end
