(* ===== verification/Decode.thy ===== *)
theory Decode
  imports Cpu
begin

text \<open>
  Consistency of the decode tables, checked opcode by opcode for both variants: the handler
  an opcode is dispatched to and the addressing mode it is decoded with agree, and the base
  cycle counts are in range.
\<close>

definition opcodes :: "MEM_WORD list" where
  "opcodes =
    [0x00, 0x01, 0x02, 0x03, 0x04, 0x05, 0x06, 0x07, 0x08, 0x09, 0x0A, 0x0B, 0x0C, 0x0D, 0x0E, 0x0F,
     0x10, 0x11, 0x12, 0x13, 0x14, 0x15, 0x16, 0x17, 0x18, 0x19, 0x1A, 0x1B, 0x1C, 0x1D, 0x1E, 0x1F,
     0x20, 0x21, 0x22, 0x23, 0x24, 0x25, 0x26, 0x27, 0x28, 0x29, 0x2A, 0x2B, 0x2C, 0x2D, 0x2E, 0x2F,
     0x30, 0x31, 0x32, 0x33, 0x34, 0x35, 0x36, 0x37, 0x38, 0x39, 0x3A, 0x3B, 0x3C, 0x3D, 0x3E, 0x3F,
     0x40, 0x41, 0x42, 0x43, 0x44, 0x45, 0x46, 0x47, 0x48, 0x49, 0x4A, 0x4B, 0x4C, 0x4D, 0x4E, 0x4F,
     0x50, 0x51, 0x52, 0x53, 0x54, 0x55, 0x56, 0x57, 0x58, 0x59, 0x5A, 0x5B, 0x5C, 0x5D, 0x5E, 0x5F,
     0x60, 0x61, 0x62, 0x63, 0x64, 0x65, 0x66, 0x67, 0x68, 0x69, 0x6A, 0x6B, 0x6C, 0x6D, 0x6E, 0x6F,
     0x70, 0x71, 0x72, 0x73, 0x74, 0x75, 0x76, 0x77, 0x78, 0x79, 0x7A, 0x7B, 0x7C, 0x7D, 0x7E, 0x7F,
     0x80, 0x81, 0x82, 0x83, 0x84, 0x85, 0x86, 0x87, 0x88, 0x89, 0x8A, 0x8B, 0x8C, 0x8D, 0x8E, 0x8F,
     0x90, 0x91, 0x92, 0x93, 0x94, 0x95, 0x96, 0x97, 0x98, 0x99, 0x9A, 0x9B, 0x9C, 0x9D, 0x9E, 0x9F,
     0xA0, 0xA1, 0xA2, 0xA3, 0xA4, 0xA5, 0xA6, 0xA7, 0xA8, 0xA9, 0xAA, 0xAB, 0xAC, 0xAD, 0xAE, 0xAF,
     0xB0, 0xB1, 0xB2, 0xB3, 0xB4, 0xB5, 0xB6, 0xB7, 0xB8, 0xB9, 0xBA, 0xBB, 0xBC, 0xBD, 0xBE, 0xBF,
     0xC0, 0xC1, 0xC2, 0xC3, 0xC4, 0xC5, 0xC6, 0xC7, 0xC8, 0xC9, 0xCA, 0xCB, 0xCC, 0xCD, 0xCE, 0xCF,
     0xD0, 0xD1, 0xD2, 0xD3, 0xD4, 0xD5, 0xD6, 0xD7, 0xD8, 0xD9, 0xDA, 0xDB, 0xDC, 0xDD, 0xDE, 0xDF,
     0xE0, 0xE1, 0xE2, 0xE3, 0xE4, 0xE5, 0xE6, 0xE7, 0xE8, 0xE9, 0xEA, 0xEB, 0xEC, 0xED, 0xEE, 0xEF,
     0xF0, 0xF1, 0xF2, 0xF3, 0xF4, 0xF5, 0xF6, 0xF7, 0xF8, 0xF9, 0xFA, 0xFB, 0xFC, 0xFD, 0xFE, 0xFF]"

lemma opcodes_eq: "opcodes = map word_of_nat [0..<256]"
  unfolding opcodes_def by code_simp

text \<open>
  A property of an opcode and its entry in a table of 256 is checked by going through the
  opcodes and the table side by side.
\<close>

lemma all_entries:
  assumes "list_all (\<lambda>(op, x). P op x) (zip opcodes xs)" and "length xs = 256"
  shows "P op (xs ! unat op)"
proof -
  have i: "unat op < 256" using unat_byte_less [of op] by simp
  then have "zip opcodes xs ! unat op = (op, xs ! unat op)"
    using assms(2) by (simp add: opcodes_eq)
  moreover have "zip opcodes xs ! unat op \<in> set (zip opcodes xs)"
    using i assms(2) by (intro nth_mem) (simp add: opcodes_eq)
  ultimately show ?thesis using assms(1) by (auto simp: list_all_iff)
qed

definition table_modes :: "ADDR_MODE list" where
  "table_modes = map ADDR (concat INST_TABLE)"

lemma length_table_modes: "length table_modes = 256"
  by (simp add: table_modes_def length_concat INST_TABLE_def row_defs)

lemma table_modes_eq:
  "ADDR (META_of op) = table_modes ! unat op"
  using length_table_modes unat_byte_less [of op] by (simp add: META_of_nth table_modes_def)

lemmas table_modes_list = table_modes_def [unfolded INST_TABLE_def row_defs, simplified]

text \<open>What an instruction does with its operand, and the addressing modes that serve it.\<close>

datatype kind = Branch | Bit_Branch | Jump | Return | Memory | Operand | Shift | No_Effect | Implied

primrec kind_of :: "instr_fn \<Rightarrow> kind" where
  "kind_of F_LDA = Operand"
| "kind_of F_STA = Memory"
| "kind_of F_BPL = Branch"
| "kind_of F_BMI = Branch"
| "kind_of F_BVC = Branch"
| "kind_of F_BVS = Branch"
| "kind_of F_BCC = Branch"
| "kind_of F_BCS = Branch"
| "kind_of F_BNE = Branch"
| "kind_of F_BEQ = Branch"
| "kind_of F_LDX = Operand"
| "kind_of F_LDY = Operand"
| "kind_of F_STX = Memory"
| "kind_of F_STY = Memory"
| "kind_of F_TAX = Implied"
| "kind_of F_TXA = Implied"
| "kind_of F_TAY = Implied"
| "kind_of F_TYA = Implied"
| "kind_of F_TSX = Implied"
| "kind_of F_TXS = Implied"
| "kind_of F_PHA = Implied"
| "kind_of F_PLA = Implied"
| "kind_of F_PHP = Implied"
| "kind_of F_PLP = Implied"
| "kind_of F_INX = Implied"
| "kind_of F_DEX = Implied"
| "kind_of F_INY = Implied"
| "kind_of F_DEY = Implied"
| "kind_of F_INC = Memory"
| "kind_of F_DEC = Memory"
| "kind_of F_INC_A = Implied"
| "kind_of F_DEC_A = Implied"
| "kind_of F_AND = Operand"
| "kind_of F_ORA = Operand"
| "kind_of F_EOR = Operand"
| "kind_of F_ADC = Operand"
| "kind_of F_SBC = Operand"
| "kind_of F_CLC = Implied"
| "kind_of F_SEC = Implied"
| "kind_of F_CLI = Implied"
| "kind_of F_SEI = Implied"
| "kind_of F_CLD = Implied"
| "kind_of F_SED = Implied"
| "kind_of F_CLV = Implied"
| "kind_of F_NOP = No_Effect"
| "kind_of F_BRK = Return"
| "kind_of F_JMP = Jump"
| "kind_of F_JSR = Jump"
| "kind_of F_RTS = Return"
| "kind_of F_RTI = Return"
| "kind_of F_ASL = Shift"
| "kind_of F_LSR = Shift"
| "kind_of F_ROL = Shift"
| "kind_of F_ROR = Shift"
| "kind_of F_CMP = Operand"
| "kind_of F_CPX = Operand"
| "kind_of F_CPY = Operand"
| "kind_of F_BIT = Operand"
| "kind_of F_LAX = Operand"
| "kind_of F_SAX = Memory"
| "kind_of F_DCP = Memory"
| "kind_of F_ISC = Memory"
| "kind_of F_SLO = Memory"
| "kind_of F_RLA = Memory"
| "kind_of F_SRE = Memory"
| "kind_of F_RRA = Memory"
| "kind_of F_ANC = Operand"
| "kind_of F_ALR = Operand"
| "kind_of F_ARR = Operand"
| "kind_of F_ALT_SBC = Operand"
| "kind_of F_op_kil = No_Effect"
| "kind_of F_NOP_READ = No_Effect"
| "kind_of F_BRA = Branch"
| "kind_of F_PHX = Implied"
| "kind_of F_PHY = Implied"
| "kind_of F_PLX = Implied"
| "kind_of F_PLY = Implied"
| "kind_of F_STZ = Memory"
| "kind_of F_TRB = Memory"
| "kind_of F_TSB = Memory"
| "kind_of F_WAI = Implied"
| "kind_of F_STP = Implied"
| "kind_of F_RMB = Memory"
| "kind_of F_SMB = Memory"
| "kind_of F_BBR = Bit_Branch"
| "kind_of F_BBS = Bit_Branch"
| "kind_of F_op_illegal = No_Effect"

definition memory_mode :: "ADDR_MODE \<Rightarrow> bool" where
  "memory_mode mode = (mode_has_ea mode \<and> mode \<noteq> ADDR_ZPREL)"

fun fits :: "ADDR_MODE \<Rightarrow> kind \<Rightarrow> bool" where
  "fits mode Branch = (mode = ADDR_REL)"
| "fits mode Bit_Branch = (mode = ADDR_ZPREL)"
| "fits mode Jump = memory_mode mode"
| "fits mode Memory = memory_mode mode"
| "fits mode Operand = (memory_mode mode \<or> mode = ADDR_IMM)"
| "fits mode Shift = (memory_mode mode \<or> mode = ADDR_ACC)"
| "fits mode No_Effect = (mode \<noteq> ADDR_REL \<and> mode \<noteq> ADDR_ZPREL)"
| "fits mode Return = (mode = ADDR_NONE)"
| "fits mode Implied = (mode = ADDR_NONE \<or> mode = ADDR_ACC)"

lemma base_modes_CMOS:
  "fits (mode_of CPU_VARIANT_CMOS_65C02 op) (kind_of (INSTR_HANDLERS ! unat op))"
proof -
  have "list_all (\<lambda>(op, m, h).
      fits (case cmos_addr_override op of Some ov \<Rightarrow> ov | None \<Rightarrow> m) (kind_of h))
    (zip opcodes (zip table_modes INSTR_HANDLERS))"
    by (simp add: opcodes_def table_modes_list cmos_addr_override_def INSTR_HANDLERS_def
        memory_mode_def mode_has_ea_def)
  from all_entries [OF this, of op] show ?thesis
    using unat_byte_less [of op]
    by (simp add: mode_of_def table_modes_eq length_table_modes length_INSTR_HANDLERS)
qed

definition nmos_key :: "MEM_WORD \<Rightarrow> bool" where
  "nmos_key op = (op \<in> fst ` set NMOS_HANDLER)"

lemma nmos_keys: "list_all nmos_key (map fst NMOS_HANDLER)"
  by (simp add: list_all_iff nmos_key_def)

lemmas nmos_key_facts = nmos_keys [unfolded NMOS_HANDLER_def, simplified]

lemma base_modes_NMOS:
  "if fits (mode_of CPU_VARIANT_NMOS_6502 op) (kind_of (INSTR_HANDLERS ! unat op)) then True
   else nmos_key op"
proof -
  have "list_all (\<lambda>(op, m, h).
      if fits (let ov = nmos_addr_override op in if ov \<noteq> ADDR_NONE then ov else m) (kind_of h)
      then True else nmos_key op)
    (zip opcodes (zip table_modes INSTR_HANDLERS))"
    by (simp add: opcodes_def table_modes_list nmos_addr_override_def INSTR_HANDLERS_def
        nmos_key_facts memory_mode_def mode_has_ea_def)
  from all_entries [OF this, of op] show ?thesis
    using unat_byte_less [of op]
    by (simp add: mode_of_def table_modes_eq length_table_modes length_INSTR_HANDLERS)
qed

lemma override_modes_NMOS:
  "list_all (\<lambda>(op, h). fits (mode_of CPU_VARIANT_NMOS_6502 op) (kind_of h)) NMOS_HANDLER"
  by (simp add: mode_of_def table_modes_eq table_modes_list nmos_addr_override_def
      NMOS_HANDLER_def memory_mode_def mode_has_ea_def)

lemma decode_fits: "fits (mode_of v op) (kind_of (handler_of v op))"
proof (cases v)
  case CPU_VARIANT_NMOS_6502
  show ?thesis
  proof (cases "map_of NMOS_HANDLER op")
    case None
    then show ?thesis
      using base_modes_NMOS [of op] CPU_VARIANT_NMOS_6502
      by (simp add: handler_of_def) (simp add: map_of_eq_None_iff nmos_key_def split: if_splits)
  next
    case (Some h)
    then show ?thesis
      using override_modes_NMOS CPU_VARIANT_NMOS_6502
      by (auto simp: handler_of_def list_all_iff dest: map_of_SomeD)
  qed
next
  case CPU_VARIANT_CMOS_65C02
  then show ?thesis by (simp add: handler_of_def base_modes_CMOS)
qed

subsection \<open>Base cycle counts\<close>

text \<open>The undocumented KIL opcodes whose table entry is 0.\<close>

definition zero_cycle_ops :: "MEM_WORD set" where
  "zero_cycle_ops = {0x02, 0x22, 0x42, 0x62}"

lemma length_CYCLE_BASE: "length CYCLE_BASE = 256"
  by (simp add: CYCLE_BASE_def)

lemma CYCLE_BASE_range:
  "if CYCLE_BASE ! unat op = 0 then op \<in> zero_cycle_ops else CYCLE_BASE ! unat op \<in> {2..8}"
proof -
  have "list_all (\<lambda>(op, c). if c = 0 then op \<in> zero_cycle_ops else c \<in> {2..8})
    (zip opcodes CYCLE_BASE)"
    by (simp add: opcodes_def CYCLE_BASE_def zero_cycle_ops_def)
  from all_entries [OF this length_CYCLE_BASE] show ?thesis .
qed

lemma if_mem: "a \<in> S \<Longrightarrow> b \<in> S \<Longrightarrow> (if c then a else b) \<in> S"
  by simp

lemma cy65_range: "cy65_cycle op \<in> {0, 2, 3, 4, 5, 6}"
  unfolding cy65_cycle_def by (intro if_mem) simp_all

lemma cy65_zero: "op \<in> zero_cycle_ops \<Longrightarrow> cy65_cycle op = 2"
  unfolding zero_cycle_ops_def by (elim insertE emptyE) (simp_all add: cy65_cycle_def)

lemma zero_cycle_kil:
  "op \<in> zero_cycle_ops \<Longrightarrow> handler_of CPU_VARIANT_NMOS_6502 op = F_op_kil"
  unfolding zero_cycle_ops_def
  by (elim insertE emptyE) (simp_all add: handler_of_def NMOS_HANDLER_def)

lemma cycles_range:
  "unat (cycles_of v op) \<in> {2..8} \<or> cycles_of v op = 0 \<and> handler_of v op = F_op_kil"
proof -
  have base: "unat (ucast (CYCLE_BASE ! unat op) :: uint32) \<in> {2..8}"
    if "op \<notin> zero_cycle_ops"
    using that CYCLE_BASE_range [of op] by (auto simp: word_le_nat_alt split: if_splits)
  show ?thesis
  proof (cases v)
    case CPU_VARIANT_NMOS_6502
    show ?thesis
    proof (cases "op \<in> zero_cycle_ops")
      case True
      then have "CYCLE_BASE ! unat op = 0" by (auto simp: zero_cycle_ops_def CYCLE_BASE_def)
      then show ?thesis using zero_cycle_kil [OF True] CPU_VARIANT_NMOS_6502
        by (simp add: cycles_of_def)
    next
      case False
      then show ?thesis using base CPU_VARIANT_NMOS_6502 by (simp add: cycles_of_def)
    qed
  next
    case CPU_VARIANT_CMOS_65C02
    show ?thesis
    proof (cases "cy65_cycle op = 0")
      case True
      then show ?thesis using base cy65_zero [of op] CPU_VARIANT_CMOS_65C02
        by (auto simp: cycles_of_def)
    next
      case False
      then show ?thesis using cy65_range [of op] CPU_VARIANT_CMOS_65C02
        by (auto simp: cycles_of_def)
    qed
  qed
qed

lemma cycles_bound: "unat (cycles_of v op) \<le> 8"
  using cycles_range [of v op] by auto

end
