(* ===== verification/Cpu_Spec.thy ===== *)
theory Cpu_Spec
  imports Decode
begin

text \<open>
  What one \<open>cpu_step\<close> does: it services an interrupt, idles, or executes one instruction. The
  execution is split at the call of the handler, so that facts about handlers lift to steps:
  program counter, cycles, outside world, and the invariants of the controller.
\<close>

subsection \<open>The three kinds of step\<close>

definition pending :: "'w machine \<Rightarrow> INTERRUPT_TYPE" where
  "pending m = fst (interrupt_poll m)"

definition idle :: "'w machine \<Rightarrow> bool" where
  "idle m = (pending m = INT_NONE \<and> (CPU_STOPPED m \<noteq> 0 \<or> CPU_WAITING m \<noteq> 0))"

definition executes :: "'w machine \<Rightarrow> bool" where
  "executes m = (pending m = INT_NONE \<and> CPU_STOPPED m = 0 \<and> CPU_WAITING m = 0)"

lemma pending_eq:
  "pending m =
     (if nmi_pending (ic m) \<noteq> 0 then INT_NMI
      else if irq_line (ic m) \<noteq> 0 \<and> \<not> bit (P_of m) 2 then INT_IRQ else INT_NONE)"
  by (simp add: pending_def poll_type)

lemma taken_pending: "pending m \<noteq> INT_NONE \<Longrightarrow> taken (pending m)"
  by (auto simp: pending_eq taken_def)

text \<open>The opcode the step fetches, and the machine at the call of its handler.\<close>

abbreviation next_op :: "'w machine \<Rightarrow> MEM_WORD" where
  "next_op m \<equiv> peek (PC_of m) m"

abbreviation next_mode :: "'w machine \<Rightarrow> ADDR_MODE" where
  "next_mode m \<equiv> mode_of (CPU_VARIANT_MODE m) (next_op m)"

abbreviation next_handler :: "'w machine \<Rightarrow> instr_fn" where
  "next_handler m \<equiv> handler_of (CPU_VARIANT_MODE m) (next_op m)"

definition fetched :: "'w machine \<Rightarrow> 'w machine" where
  "fetched m =
     (let m = snd (interrupt_poll m);
          pc_before = PC_of m;
          (op, m) = bus_read (PC_of m) (set_PC (PC_of m + 1) m);
          m = trace_before pc_before op (m\<lparr>OPCODE := op\<rparr>)
      in m\<lparr>CYCLES := CYCLES m + cycles_of (CPU_VARIANT_MODE m) op, HAS_EA := 1\<rparr>)"

definition decoded :: "'w machine \<Rightarrow> 'w machine" where
  "decoded m =
     (let (ea, m) = addr_resolve (next_mode m) (fetched m)
      in m\<lparr>EA := ea, BRANCH_TAKEN := 0, BRANCH_PAGE_CROSS := 0\<rparr>)"

definition finish :: "'w machine \<Rightarrow> 'w machine" where
  "finish m = trace_after
     (apply_cycle_adjustments (PAGE_CROSS m) (BRANCH_TAKEN m) (BRANCH_PAGE_CROSS m) m)"

lemma poll_fields [simp]:
  "REG (snd (interrupt_poll m)) = REG m" "BUS (snd (interrupt_poll m)) = BUS m"
  "bus_world (snd (interrupt_poll m)) = bus_world m" "ic (snd (interrupt_poll m)) = ic m"
  "CPU_VARIANT_MODE (snd (interrupt_poll m)) = CPU_VARIANT_MODE m"
  "CYCLES (snd (interrupt_poll m)) = CYCLES m"
  "CPU_STOPPED (snd (interrupt_poll m)) = CPU_STOPPED m"
  "CPU_WAITING (snd (interrupt_poll m)) = CPU_WAITING m"
  "trace_enabled (snd (interrupt_poll m)) = trace_enabled m"
  "out (snd (interrupt_poll m)) = out m"
  by (simp_all add: poll_state)

lemma fetched_fields [simp]:
  "REG (fetched m) = rPC_update (\<lambda>_. PC_of m + 1) (REG m)"
  "BUS (fetched m) = BUS m" "CPU_VARIANT_MODE (fetched m) = CPU_VARIANT_MODE m"
  "trace_enabled (fetched m) = trace_enabled m" "ic (fetched m) = ic m"
  "OPCODE (fetched m) = next_op m"
  "CYCLES (fetched m) = CYCLES m + cycles_of (CPU_VARIANT_MODE m) (next_op m)"
  "CPU_STOPPED (fetched m) = CPU_STOPPED m" "CPU_WAITING (fetched m) = CPU_WAITING m"
  "bus_world (fetched m) = snd (bus_rd (BUS m) (PC_of m) (bus_world m))"
  by (simp_all add: fetched_def bus_read_eq trace_before_def Let_def peek_eq)

lemma addr_resolve_wiring [simp]:
  "BUS (snd (addr_resolve mode m)) = BUS m"
  "CPU_VARIANT_MODE (snd (addr_resolve mode m)) = CPU_VARIANT_MODE m"
  "trace_enabled (snd (addr_resolve mode m)) = trace_enabled m"
  using touches_addr_resolve [of m mode] by (simp_all add: touches_def)

lemma touches_step_cycle [touch_intros]: "touches m (snd (interrupt_step_cycle m))"
  by (simp add: touches_def interrupt_step_cycle_def sequence_done_def push8_def push16_def
      bus_eqs Let_def case_prod_beta flag_eqs bus_run.intros
      split: INTERRUPT_TYPE.split option.split)

lemma trace_before_fields:
  "OPCODE (trace_before pc op m) = OPCODE m"
  "CPU_VARIANT_MODE (trace_before pc op m) = CPU_VARIANT_MODE m"
  by (simp_all add: trace_before_def)

lemma cpu_step_executes:
  assumes "executes m"
  shows "cpu_step m = finish (call_instr (next_handler m) (decoded m))"
proof -
  have nochange: "\<not> fst (interrupt_poll m) \<noteq> INT_NONE"
    "\<not> CPU_STOPPED (snd (interrupt_poll m)) \<noteq> 0" "\<not> CPU_WAITING (snd (interrupt_poll m)) \<noteq> 0"
    using assms by (simp_all add: executes_def pending_def)
  have "cpu_step m =
    (let m1 = fetched m; (ea, m2) = addr_resolve (mode_of (CPU_VARIANT_MODE m1) (OPCODE m1)) m1;
         m3 = instr_dispatch (m2\<lparr>EA := ea, BRANCH_TAKEN := 0, BRANCH_PAGE_CROSS := 0\<rparr>)
     in finish m3)"
    unfolding cpu_step_def case_prod_beta Let_def finish_def fetched_def if_not_P [OF nochange(1)]
      if_not_P [OF nochange(2)] if_not_P [OF nochange(3)]
    by (simp add: trace_before_fields)
  then show ?thesis
    by (simp add: Let_def case_prod_beta decoded_def instr_dispatch_def)
qed

lemma cpu_step_idle: "idle m \<Longrightarrow> cpu_step m = snd (interrupt_poll m)"
  by (auto simp: idle_def pending_def cpu_step_def Let_def case_prod_beta)

lemma cpu_step_interrupt:
  assumes "pending m \<noteq> INT_NONE" and "interrupt_in_progress (ic m) = 0"
  shows "cpu_step m = interrupt_entry (pending m) (snd (interrupt_poll m))"
  using assms sequence_is_entry [OF taken_pending [OF assms(1)], of "snd (interrupt_poll m)"]
  by (simp add: pending_def cpu_step_def Let_def case_prod_beta)

lemma step_cases:
  obtains (interrupt) "pending m \<noteq> INT_NONE" | (idle) "idle m" | (execute) "executes m"
  by (auto simp: idle_def executes_def)

lemma decoded_fields [simp]:
  "BUS (decoded m) = BUS m" "CPU_VARIANT_MODE (decoded m) = CPU_VARIANT_MODE m"
  "trace_enabled (decoded m) = trace_enabled m" "ic (decoded m) = ic m"
  "OPCODE (decoded m) = next_op m"
  "CYCLES (decoded m) = CYCLES m + cycles_of (CPU_VARIANT_MODE m) (next_op m)"
  "CPU_STOPPED (decoded m) = CPU_STOPPED m" "CPU_WAITING (decoded m) = CPU_WAITING m"
  "BRANCH_TAKEN (decoded m) = 0" "BRANCH_PAGE_CROSS (decoded m) = 0"
  "REG (decoded m) = rPC_update (\<lambda>_. PC_of m + 1 + of_nat (operand_length (next_mode m))) (REG m)"
  "EA (decoded m) = fst (addr_resolve (next_mode m) (fetched m))"
  "HAS_EA (decoded m) = of_bool (mode_has_ea (next_mode m))"
  by (simp_all add: decoded_def case_prod_beta Let_def addr_resolve_REG addr_resolve_HAS_EA)

lemma decoded_PAGE_CROSS: "PAGE_CROSS (decoded m) = 0 \<or> PAGE_CROSS (decoded m) = 1"
  using addr_resolve_PAGE_CROSS [of "next_mode m" "fetched m"]
  by (auto simp: decoded_def case_prod_beta Let_def)

lemma finish_fields [simp]:
  "REG (finish m) = REG m" "BUS (finish m) = BUS m" "bus_world (finish m) = bus_world m"
  "CPU_VARIANT_MODE (finish m) = CPU_VARIANT_MODE m" "trace_enabled (finish m) = trace_enabled m"
  "ic (finish m) = ic m" "CPU_STOPPED (finish m) = CPU_STOPPED m"
  "CPU_WAITING (finish m) = CPU_WAITING m"
  by (simp_all add: finish_def apply_cycle_adjustments_def trace_after_def Let_def)

lemma touches_decoded: "touches m (decoded m)"
proof -
  have "touches m (fetched m)"
    by (simp add: touches_def bus_run.intros)
  moreover have "touches (fetched m) (decoded m)"
    using touches_addr_resolve [of "fetched m" "next_mode m"]
    by (simp add: touches_def decoded_def case_prod_beta Let_def)
  ultimately show ?thesis by (rule touches_trans)
qed

lemma touches_cpu_step [touch_intros]: "touches m (cpu_step m)"
proof (cases rule: step_cases [of m])
  case interrupt
  have "touches m (interrupt_begin t (snd (interrupt_poll m)))" for t
    by (rule touches_trans [OF touches_interrupt(1) touches_interrupt(2)])
  with interrupt show ?thesis
    by (auto simp: cpu_step_def pending_def Let_def case_prod_beta intro: touches_trans
        touches_step_cycle)
next
  case idle
  then show ?thesis by (simp add: cpu_step_idle touches_interrupt)
next
  case execute
  have "touches m (call_instr (next_handler m) (decoded m))"
    by (rule touches_trans [OF touches_decoded touches_call_instr])
  then show ?thesis using execute by (simp add: cpu_step_executes touches_def)
qed

subsection \<open>Program counter and branches\<close>

text \<open>Instructions that are not control transfers leave PC behind their operand.\<close>

definition transfers :: "instr_fn \<Rightarrow> bool" where
  "transfers f = (kind_of f \<in> {Branch, Bit_Branch, Jump, Return})"

lemma call_instr_PC:
  "\<not> transfers f \<Longrightarrow> PC_of (call_instr f m) = PC_of m"
  by (cases f) (simp_all add: transfers_def handler_eqs core_fields)

text \<open>The condition of each branch.\<close>

fun branch_condition :: "instr_fn \<Rightarrow> 'w machine \<Rightarrow> bool" where
  "branch_condition F_BPL m = (\<not> bit (P_of m) 7)"
| "branch_condition F_BMI m = bit (P_of m) 7"
| "branch_condition F_BVC m = (\<not> bit (P_of m) 6)"
| "branch_condition F_BVS m = bit (P_of m) 6"
| "branch_condition F_BCC m = (\<not> bit (P_of m) 0)"
| "branch_condition F_BCS m = bit (P_of m) 0"
| "branch_condition F_BNE m = (\<not> bit (P_of m) 1)"
| "branch_condition F_BEQ m = bit (P_of m) 1"
| "branch_condition F_BRA m = True"
| "branch_condition _ m = False"

lemma take_branch_fields:
  "BRANCH_TAKEN (take_branch t m) = 1"
  "BRANCH_PAGE_CROSS (take_branch t m) = crosses (PC_of m) t"
  "REG (take_branch t m) = rPC_update (\<lambda>_. t) (REG m)"
  by (simp_all add: take_branch_def Let_def)

lemmas flag_values = GET_FLAG_bit [folded FLAG_C_def FLAG_Z_def FLAG_V_def FLAG_N_def]

lemma call_instr_branch:
  "kind_of f = Branch \<Longrightarrow>
    call_instr f m = (if branch_condition f m then take_branch (EA m) m else m)"
  by (cases f) (simp_all add: instr_defs flag_values)

lemma call_instr_BRANCH_TAKEN:
  "kind_of f \<noteq> Branch \<Longrightarrow> kind_of f \<noteq> Bit_Branch \<Longrightarrow>
    BRANCH_TAKEN (call_instr f m) = BRANCH_TAKEN m \<and>
    BRANCH_PAGE_CROSS (call_instr f m) = BRANCH_PAGE_CROSS m"
  by (cases f) (simp_all add: handler_eqs core_fields)

subsection \<open>Cycles\<close>

definition step_cost :: "'w machine \<Rightarrow> uint32" where
  "step_cost m = CYCLES (cpu_step m) - CYCLES m"

lemma CYCLES_finish:
  "CYCLES (finish m) = CYCLES m
     + of_bool (PAGE_CROSS m \<noteq> 0 \<and> op_suppresses_pagecross (OPCODE m) = 0)
     + of_bool (BRANCH_TAKEN m \<noteq> 0) + of_bool (BRANCH_PAGE_CROSS m \<noteq> 0)"
  by (simp add: finish_def apply_cycle_adjustments_def trace_after_def Let_def)

lemma step_cost_executes:
  assumes "executes m"
  defines "m' \<equiv> call_instr (next_handler m) (decoded m)"
  shows "step_cost m = cycles_of (CPU_VARIANT_MODE m) (next_op m)
     + of_bool (next_handler m = F_JMP \<and> CPU_VARIANT_MODE m = CPU_VARIANT_CMOS_65C02 \<and>
                next_op m = 0x6C)
     + of_bool (PAGE_CROSS (decoded m) \<noteq> 0 \<and> op_suppresses_pagecross (next_op m) = 0)
     + of_bool (BRANCH_TAKEN m' \<noteq> 0) + of_bool (BRANCH_PAGE_CROSS m' \<noteq> 0)"
  unfolding step_cost_def cpu_step_executes [OF assms(1)] CYCLES_finish m'_def
  by (simp add: call_instr_CYCLES call_instr_fields) auto

lemma step_cost_interrupt:
  "pending m \<noteq> INT_NONE \<Longrightarrow> interrupt_in_progress (ic m) = 0 \<Longrightarrow> step_cost m = 7"
  by (simp add: step_cost_def cpu_step_interrupt pending_eq)

lemma step_cost_idle: "idle m \<Longrightarrow> step_cost m = 0"
  by (simp add: step_cost_def cpu_step_idle)

text \<open>A page crossing, a taken branch and the slow indirect jump exclude each other.\<close>

lemma decoded_no_cross:
  "\<not> mode_indexed (next_mode m) \<Longrightarrow> PAGE_CROSS (decoded m) = 0"
  using addr_resolve_PAGE_CROSS [of "next_mode m" "fetched m"]
  by (auto simp: decoded_def case_prod_beta Let_def)

lemma branch_modes:
  assumes "kind_of (handler_of v op) = Branch \<or> kind_of (handler_of v op) = Bit_Branch"
  shows "\<not> mode_indexed (mode_of v op)"
  using decode_fits [of v op] assms by (auto simp: mode_indexed_def)

definition extra_cycles :: "'w machine \<Rightarrow> nat" where
  "extra_cycles m =
     (let m' = call_instr (next_handler m) (decoded m) in
      of_bool (next_handler m = F_JMP \<and> CPU_VARIANT_MODE m = CPU_VARIANT_CMOS_65C02 \<and>
               next_op m = 0x6C)
      + of_bool (PAGE_CROSS (decoded m) \<noteq> 0 \<and> op_suppresses_pagecross (next_op m) = 0)
      + of_bool (BRANCH_TAKEN m' \<noteq> 0) + of_bool (BRANCH_PAGE_CROSS m' \<noteq> 0))"

lemma extra_cycles_le: "extra_cycles m \<le> 2"
proof (cases "kind_of (next_handler m) = Branch \<or> kind_of (next_handler m) = Bit_Branch")
  case True
  then have "PAGE_CROSS (decoded m) = 0" and "next_handler m \<noteq> F_JMP"
    using branch_modes decoded_no_cross by auto
  then show ?thesis by (simp add: extra_cycles_def Let_def)
next
  case False
  then show ?thesis by (simp add: extra_cycles_def Let_def call_instr_BRANCH_TAKEN)
qed

lemma step_cost_unat:
  assumes "executes m"
  shows "unat (step_cost m) = unat (cycles_of (CPU_VARIANT_MODE m) (next_op m)) + extra_cycles m"
proof -
  have small: "unat (c + of_nat k) = unat c + k" if "unat c \<le> 8" "k \<le> 2" for c :: uint32 and k
    using that by (simp add: unat_word_ariths unat_of_nat)
  have "step_cost m = cycles_of (CPU_VARIANT_MODE m) (next_op m) + of_nat (extra_cycles m)"
    unfolding step_cost_executes [OF assms] extra_cycles_def Let_def by simp
  then show ?thesis by (simp only: small cycles_bound extra_cycles_le)
qed

lemma step_cost_le:
  assumes "interrupt_in_progress (ic m) = 0"
  shows "unat (step_cost m) \<le> 10"
proof (cases rule: step_cases [of m])
  case execute
  then show ?thesis
    using cycles_bound [of "CPU_VARIANT_MODE m" "next_op m"] extra_cycles_le [of m]
    by (simp add: step_cost_unat)
qed (simp_all add: step_cost_interrupt step_cost_idle assms)

text \<open>Only KIL is free, and it leaves the machine idle.\<close>

lemma step_cost_zero:
  assumes "interrupt_in_progress (ic m) = 0" and "step_cost m = 0" and "\<not> idle m"
  shows "idle (cpu_step m)"
proof (cases rule: step_cases [of m])
  case execute
  then have "unat (cycles_of (CPU_VARIANT_MODE m) (next_op m)) = 0"
    using step_cost_unat [of m] assms(2) by simp
  then have kil: "next_handler m = F_op_kil"
    using cycles_range [of "CPU_VARIANT_MODE m" "next_op m"] by auto
  have "pending (cpu_step m) = pending m"
    using execute by (simp add: cpu_step_executes kil pending_eq op_kil_def)
  then show ?thesis
    using execute by (simp add: idle_def executes_def cpu_step_executes kil op_kil_def)
qed (use assms in \<open>simp_all add: step_cost_interrupt\<close>)

subsection \<open>Invariants of the controller\<close>

lemma ic_idle_cpu_step:
  assumes "ic_idle m"
  shows "ic_idle (cpu_step m)"
proof (cases rule: step_cases [of m])
  case interrupt
  moreover have "interrupt_in_progress (ic m) = 0" using assms by (simp add: ic_idle_def)
  ultimately show ?thesis using assms by (simp add: cpu_step_interrupt ic_idle_entry)
next
  case idle
  then show ?thesis using assms by (simp add: cpu_step_idle)
next
  case execute
  then have "ic (cpu_step m) = ic m \<or> (\<exists>e. ic (cpu_step m) = entry_ic INT_BRK e (ic m))"
    by (auto simp: cpu_step_executes call_instr_ic)
  then show ?thesis
    using assms by (auto simp: ic_idle_def ic_wf_entry_ic) (simp_all add: entry_ic_def)
qed

lemma ic_idle_steps: "ic_idle m \<Longrightarrow> ic_idle ((cpu_step ^^ n) m)"
  by (induction n) (simp_all add: ic_idle_cpu_step)

lemma touches_steps: "touches m ((cpu_step ^^ n) m)"
  by (induction n) (auto intro: touches_trans touches_cpu_step)

subsection \<open>The run loop\<close>

lemma idle_step: "idle m \<Longrightarrow> idle (cpu_step m) \<and> CYCLES (cpu_step m) = CYCLES m"
  by (simp add: cpu_step_idle) (auto simp: idle_def pending_eq split: if_splits)

text \<open>The cycles spent in the first \<open>n\<close> steps, as the loop counts them.\<close>

definition elapsed :: "'w machine \<Rightarrow> nat \<Rightarrow> uint32" where
  "elapsed m n = CYCLES ((cpu_step ^^ n) m) - CYCLES m"

text \<open>The machine goes idle while the budget is not used up.\<close>

definition stalls :: "uint32 \<Rightarrow> 'w machine \<Rightarrow> bool" where
  "stalls k m = (\<exists>n. idle ((cpu_step ^^ n) m) \<and> (\<forall>i\<le>n. elapsed m i < k))"

lemma run_loop_steps:
  "(\<And>i. i < n \<Longrightarrow> CYCLES ((cpu_step ^^ i) m) - s < k) \<Longrightarrow>
    run_loop s k m = run_loop s k ((cpu_step ^^ n) m)"
proof (induction n arbitrary: m)
  case (Suc n)
  have "run_loop s k m = run_loop s k (cpu_step m)"
    using Suc.prems [of 0] by (subst run_loop.simps) simp
  also have "\<dots> = run_loop s k ((cpu_step ^^ n) (cpu_step m))"
    using Suc.prems [of "Suc _"] by (intro Suc.IH) (simp add: funpow_swap1)
  finally show ?case by (simp add: funpow_swap1)
qed simp

text \<open>What the loop returns: the first machine whose cycles use up the budget.\<close>

lemma run_first:
  assumes "\<And>i. i < n \<Longrightarrow> elapsed m i < k" and "\<not> elapsed m n < k"
  shows "cpu_run k m = Some ((cpu_step ^^ n) m)"
proof -
  have "cpu_run k m = run_loop (CYCLES m) k ((cpu_step ^^ n) m)"
    unfolding cpu_run_def by (rule run_loop_steps) (use assms(1) in \<open>simp add: elapsed_def\<close>)
  then show ?thesis using assms(2) by (subst (asm) run_loop.simps) (simp add: elapsed_def)
qed

lemma run_returns_only:
  assumes "run_loop s k m = Some r"
  shows "\<exists>n. r = (cpu_step ^^ n) m \<and> \<not> CYCLES r - s < k"
proof (rule run_loop.raw_induct
    [where P = "\<lambda>s k m r. \<exists>n. r = (cpu_step ^^ n) m \<and> \<not> CYCLES r - s < k", OF _ assms])
  fix f :: "uint32 \<Rightarrow> uint32 \<Rightarrow> 'a machine \<Rightarrow> 'a machine option" and s k m r
  assume IH: "\<And>s k m r. f s k m = Some r \<Longrightarrow> \<exists>n. r = (cpu_step ^^ n) m \<and> \<not> CYCLES r - s < k"
    and eq: "(if CYCLES m - s < k then f s k (cpu_step m) else Some m) = Some r"
  show "\<exists>n. r = (cpu_step ^^ n) m \<and> \<not> CYCLES r - s < k"
  proof (cases "CYCLES m - s < k")
    case True
    then have "f s k (cpu_step m) = Some r" using eq by simp
    from IH [OF this] obtain n where "r = (cpu_step ^^ n) (cpu_step m)" "\<not> CYCLES r - s < k"
      by blast
    then show ?thesis by (intro exI [of _ "Suc n"]) (simp add: funpow_swap1)
  next
    case False
    with eq show ?thesis by (intro exI [of _ 0]) simp
  qed
qed

lemma idle_steps:
  "idle m \<Longrightarrow> idle ((cpu_step ^^ n) m) \<and> CYCLES ((cpu_step ^^ n) m) = CYCLES m"
  by (induction n) (simp_all add: idle_step)

text \<open>Every step that neither idles nor leads to idling spends between 1 and 10 cycles.\<close>

lemma elapsed_step:
  assumes "ic_idle m" and "unat (elapsed m n) + 10 < 2 ^ 32"
  shows "unat (elapsed m (Suc n)) \<le> unat (elapsed m n) + 10"
    and "\<not> idle ((cpu_step ^^ n) m) \<Longrightarrow> \<not> idle ((cpu_step ^^ Suc n) m) \<Longrightarrow>
      unat (elapsed m n) < unat (elapsed m (Suc n))"
proof -
  let ?m = "(cpu_step ^^ n) m"
  have i: "interrupt_in_progress (ic ?m) = 0"
    using ic_idle_steps [OF assms(1)] by (simp add: ic_idle_def)
  have le: "unat (step_cost ?m) \<le> 10" by (rule step_cost_le [OF i])
  have "elapsed m (Suc n) = elapsed m n + step_cost ?m"
    by (simp add: elapsed_def step_cost_def)
  then have sum: "unat (elapsed m (Suc n)) = unat (elapsed m n) + unat (step_cost ?m)"
    using le assms(2) by (simp add: unat_word_ariths(1))
  then show "unat (elapsed m (Suc n)) \<le> unat (elapsed m n) + 10" using le by simp
  assume "\<not> idle ?m" and "\<not> idle ((cpu_step ^^ Suc n) m)"
  then have "step_cost ?m \<noteq> 0" using step_cost_zero [OF i] by auto
  then show "unat (elapsed m n) < unat (elapsed m (Suc n))"
    using sum by (simp add: unat_gt_0)
qed

lemma elapsed_0 [simp]: "elapsed m 0 = 0"
  by (simp add: elapsed_def)

text \<open>A machine that stays inside the budget for ever goes idle.\<close>

lemma inside_budget_idles:
  assumes "ic_idle m" and "unat k + 10 < 2 ^ 32" and "\<And>n. elapsed m n < k"
  shows "\<exists>n. idle ((cpu_step ^^ n) m)"
proof (rule ccontr)
  assume never: "\<nexists>n. idle ((cpu_step ^^ n) m)"
  have lt: "unat (elapsed m n) < unat k" for n
    using assms(3) by (simp add: word_less_nat_alt)
  have "n \<le> unat (elapsed m n)" for n
  proof (induction n)
    case (Suc n)
    have "\<not> idle ((cpu_step ^^ n) m)" and "\<not> idle ((cpu_step ^^ Suc n) m)"
      using never by blast+
    then have "unat (elapsed m n) < unat (elapsed m (Suc n))"
      using lt [of n] assms(2) by (intro elapsed_step(2) [OF assms(1)]) simp_all
    then show ?case using Suc by simp
  qed simp
  from this [of "unat k"] lt [of "unat k"] show False by simp
qed

lemma run_None_iff:
  assumes "ic_idle m" and "unat k + 10 < 2 ^ 32"
  shows "cpu_run k m = None \<longleftrightarrow> stalls k m"
proof
  assume none: "cpu_run k m = None"
  have inside: "elapsed m n < k" for n
  proof (rule ccontr)
    assume "\<not> elapsed m n < k"
    then obtain N where "\<not> elapsed m N < k" "\<And>i. i < N \<Longrightarrow> elapsed m i < k"
      using exists_least_iff [of "\<lambda>n. \<not> elapsed m n < k"] by blast
    then show False using run_first [of N m k] none by simp
  qed
  then show "stalls k m"
    using inside_budget_idles [OF assms] by (auto simp: stalls_def)
next
  assume "stalls k m"
  then obtain n where n: "idle ((cpu_step ^^ n) m)" "\<And>i. i \<le> n \<Longrightarrow> elapsed m i < k"
    by (auto simp: stalls_def)
  have all: "elapsed m i < k" for i
  proof (cases "i \<le> n")
    case False
    have "(cpu_step ^^ (i - n + n)) m = (cpu_step ^^ (i - n)) ((cpu_step ^^ n) m)"
      by (simp only: funpow_add o_apply)
    then have "(cpu_step ^^ i) m = (cpu_step ^^ (i - n)) ((cpu_step ^^ n) m)"
      using False by simp
    then show ?thesis using idle_steps [OF n(1)] n(2) [of n] by (simp add: elapsed_def)
  qed (rule n(2))
  show "cpu_run k m = None"
  proof (cases "cpu_run k m")
    case (Some r)
    then show ?thesis
      using run_returns_only [of "CYCLES m" k m r] all by (auto simp: cpu_run_def elapsed_def)
  qed
qed

lemma run_overshoot:
  assumes "ic_idle m" and "unat k + 10 < 2 ^ 32" and "cpu_run k m = Some r" and "0 < k"
  shows "\<exists>n. r = (cpu_step ^^ n) m \<and> unat k \<le> unat (elapsed m n) \<and>
    unat (elapsed m n) < unat k + 10"
proof -
  obtain n where "\<not> elapsed m n < k"
    using run_returns_only [OF assms(3) [unfolded cpu_run_def]] by (auto simp: elapsed_def)
  then obtain N where N: "\<not> elapsed m N < k" "\<And>i. i < N \<Longrightarrow> elapsed m i < k"
    using exists_least_iff [of "\<lambda>n. \<not> elapsed m n < k"] by blast
  have r: "r = (cpu_step ^^ N) m" using run_first [of N m k] N assms(3) by simp
  obtain j where j: "N = Suc j" using N(1) assms(4) by (cases N) simp_all
  then have "unat (elapsed m j) < unat k" using N(2) [of j] by (simp add: word_less_nat_alt)
  moreover from this have "unat (elapsed m N) \<le> unat (elapsed m j) + 10"
    unfolding j using assms(2) by (intro elapsed_step(1) [OF assms(1)]) simp
  ultimately show ?thesis
    using r N(1) by (intro exI [of _ N]) (simp add: word_less_nat_alt not_less)
qed

end
