(* ===== verification/Trace_Spec.thy ===== *)
theory Trace_Spec
  imports Cpu_Spec
begin

text \<open>
  Tracing is transparent: the trace switch and the output produced so far influence nothing
  but the output. Every primitive, handler and step is shown to commute with setting them.
\<close>

named_theorems trace_comm

definition with_trace :: "int \<Rightarrow> out_event list \<Rightarrow> 'w machine \<Rightarrow> 'w machine" where
  "with_trace e o' m = m\<lparr>trace_enabled := e, out := o'\<rparr>"

lemma with_trace_fields [trace_comm]:
  "REG (with_trace e l m) = REG m" "BUS (with_trace e l m) = BUS m"
  "bus_world (with_trace e l m) = bus_world m" "ic (with_trace e l m) = ic m"
  "CPU_VARIANT_MODE (with_trace e l m) = CPU_VARIANT_MODE m"
  "CYCLES (with_trace e l m) = CYCLES m" "OPCODE (with_trace e l m) = OPCODE m"
  "HAS_EA (with_trace e l m) = HAS_EA m" "EA (with_trace e l m) = EA m"
  "REL_OFFSET (with_trace e l m) = REL_OFFSET m"
  "PAGE_CROSS (with_trace e l m) = PAGE_CROSS m"
  "BRANCH_TAKEN (with_trace e l m) = BRANCH_TAKEN m"
  "BRANCH_PAGE_CROSS (with_trace e l m) = BRANCH_PAGE_CROSS m"
  "CPU_WAITING (with_trace e l m) = CPU_WAITING m"
  "CPU_STOPPED (with_trace e l m) = CPU_STOPPED m"
  "global_cycle_count (with_trace e l m) = global_cycle_count m"
  by (simp_all add: with_trace_def)

lemma with_trace_updates [trace_comm]:
  "REG_update f (with_trace e l m) = with_trace e l (REG_update f m)"
  "bus_world_update g (with_trace e l m) = with_trace e l (bus_world_update g m)"
  "CYCLES_update h (with_trace e l m) = with_trace e l (CYCLES_update h m)"
  "CPU_WAITING_update i (with_trace e l m) = with_trace e l (CPU_WAITING_update i m)"
  "CPU_STOPPED_update i (with_trace e l m) = with_trace e l (CPU_STOPPED_update i m)"
  "BRANCH_TAKEN_update i (with_trace e l m) = with_trace e l (BRANCH_TAKEN_update i m)"
  "BRANCH_PAGE_CROSS_update i (with_trace e l m) = with_trace e l (BRANCH_PAGE_CROSS_update i m)"
  "PAGE_CROSS_update i (with_trace e l m) = with_trace e l (PAGE_CROSS_update i m)"
  "HAS_EA_update i (with_trace e l m) = with_trace e l (HAS_EA_update i m)"
  "EA_update j (with_trace e l m) = with_trace e l (EA_update j m)"
  "OPCODE_update k (with_trace e l m) = with_trace e l (OPCODE_update k m)"
  "REL_OFFSET_update k (with_trace e l m) = with_trace e l (REL_OFFSET_update k m)"
  "ic_update c (with_trace e l m) = with_trace e l (ic_update c m)"
  "global_cycle_count_update n (with_trace e l m) = with_trace e l (global_cycle_count_update n m)"
  by (simp_all add: with_trace_def)

lemma with_trace_prims [trace_comm]:
  "PUT_FLAG b c (with_trace e l m) = with_trace e l (PUT_FLAG b c m)"
  "set_zn v (with_trace e l m) = with_trace e l (set_zn v m)"
  "GET_FLAG b (with_trace e l m) = GET_FLAG b m"
  "bus_write a d (with_trace e l m) = with_trace e l (bus_write a d m)"
  "bus_read a (with_trace e l m) = apsnd (with_trace e l) (bus_read a m)"
  "bus_read16 a (with_trace e l m) = apsnd (with_trace e l) (bus_read16 a m)"
  "carry_in (with_trace e l m) = carry_in m" "opcode_bit (with_trace e l m) = opcode_bit m"
  "SET_FLAG b (with_trace e l m) = with_trace e l (SET_FLAG b m)"
  "CLR_FLAG b (with_trace e l m) = with_trace e l (CLR_FLAG b m)"
  by (simp_all add: PUT_FLAG_eq set_zn_eq GET_FLAG_def bus_eqs carry_in_def opcode_bit_def
      flag_eqs Let_def trace_comm)

lemma if_with_trace:
  "(if c then with_trace e l a else with_trace e l b) = with_trace e l (if c then a else b)"
  by simp

lemma with_trace_idioms [trace_comm]:
  "push8 d (with_trace e l m) = with_trace e l (push8 d m)"
  "push16 w (with_trace e l m) = with_trace e l (push16 w m)"
  "pop8 (with_trace e l m) = apsnd (with_trace e l) (pop8 m)"
  "pop16 (with_trace e l m) = apsnd (with_trace e l) (pop16 m)"
  "fetch8 (with_trace e l m) = apsnd (with_trace e l) (fetch8 m)"
  "fetch16 (with_trace e l m) = apsnd (with_trace e l) (fetch16 m)"
  "operand (with_trace e l m) = apsnd (with_trace e l) (operand m)"
  "take_branch w (with_trace e l m) = with_trace e l (take_branch w m)"
  "shift_carry c (with_trace e l m) = with_trace e l (shift_carry c m)"
  by (simp_all add: push8_def push16_def pop8_def pop16_def fetch8_def fetch16_def operand_def
      take_branch_def shift_carry_def Let_def case_prod_beta trace_comm)

lemma PUT_variant [simp]: "CPU_VARIANT_MODE (PUT_FLAG b c m) = CPU_VARIANT_MODE m"
  by (simp add: PUT_FLAG_eq)

lemma core_with_trace [trace_comm]:
  "adc_core v (with_trace e l m) = with_trace e l (adc_core v m)"
  "sbc_core v (with_trace e l m) = with_trace e l (sbc_core v m)"
  by (cases "GET_FLAG FLAG_D m"; cases "CPU_VARIANT_MODE m";
      simp add: adc_core_def sbc_core_def Let_def trace_comm let_pair_if)+

lemma entry_with_trace [trace_comm]:
  "interrupt_entry t (with_trace e l m) = with_trace e l (interrupt_entry t m)"
  by (simp add: interrupt_entry_def Let_def case_prod_beta trace_comm)

lemma call_instr_with_trace [trace_comm]:
  "call_instr f (with_trace e l m) = with_trace e l (call_instr f m)"
  by (cases f) (simp_all add: instr_defs Let_def case_prod_beta trace_comm)

lemma addr_resolve_with_trace [trace_comm]:
  "addr_resolve mode (with_trace e l m) = apsnd (with_trace e l) (addr_resolve mode m)"
  by (cases mode) (simp_all add: addr_resolve_def mode_defs Let_def case_prod_beta trace_comm)

lemma apply_cycles_with_trace [trace_comm]:
  "apply_cycle_adjustments p b c (with_trace e l m) =
     with_trace e l (apply_cycle_adjustments p b c m)"
  by (simp add: apply_cycle_adjustments_def Let_def trace_comm)

lemma poll_with_trace [trace_comm]:
  "interrupt_poll (with_trace e l m) = apsnd (with_trace e l) (interrupt_poll m)"
  by (simp add: interrupt_poll_def Let_def trace_comm)

lemma step_cycle_with_trace [trace_comm]:
  "interrupt_step_cycle (with_trace e l m) = apsnd (with_trace e l) (interrupt_step_cycle m)"
  by (cases "current_interrupt (ic m)"; cases "CPU_VARIANT_MODE m")
    (simp_all add: interrupt_step_cycle_def sequence_done_def Let_def case_prod_beta trace_comm)

text \<open>The machine with its trace output forgotten.\<close>

abbreviation strip :: "'w machine \<Rightarrow> 'w machine" where
  "strip m \<equiv> with_trace 0 [] m"

lemma with_trace_twice [simp]: "with_trace e l (with_trace e' l' m) = with_trace e l m"
  by (simp add: with_trace_def)

lemma with_trace_self: "with_trace (trace_enabled m) (out m) m = m"
  by (simp add: with_trace_def)

text \<open>Producing output is one more way of setting the trace state.\<close>

lemma out_update_with_trace:
  "out_update f m = with_trace (trace_enabled m) (f (out m)) m"
  by (simp add: with_trace_def)

lemma strip_trace [simp]:
  "strip (trace_before pc op m) = strip m" "strip (trace_after m) = strip m"
  by (simp_all add: trace_before_def trace_after_def out_update_with_trace)

lemma strip_lift:
  assumes "\<And>e l m. F (with_trace e l m) = with_trace e l (F m)" and "strip m = strip m'"
  shows "strip (F m) = strip (F m')"
  by (metis assms with_trace_self with_trace_twice)

lemma strip_begin:
  "strip (interrupt_begin t (with_trace e l m)) = strip (interrupt_begin t m)"
proof -
  let ?enter = "ic_update (\<lambda>c. c\<lparr>interrupt_in_progress := 1, current_interrupt := t,
                             interrupt_cycle := 0\<rparr>)"
  let ?rec = "\<lambda>m. record_interrupt t (PC_of (?enter m)) (P_of (?enter m)) (?enter m)"
  have rec: "?rec (with_trace e l m) = with_trace e l (?rec m)" for e l and m :: "'a machine"
    unfolding record_interrupt_def by (simp only: trace_comm)
  show ?thesis
    unfolding interrupt_begin_def Let_def
    by (rule strip_lift [where F = ?rec, OF rec]) (simp add: trace_comm out_update_with_trace)
qed

lemma strip_fetched:
  "strip (fetched (with_trace e l m)) = strip (fetched m)"
proof -
  let ?g = "\<lambda>m. m\<lparr>CYCLES := CYCLES m + cycles_of (CPU_VARIANT_MODE m) (OPCODE m), HAS_EA := 1\<rparr>"
  let ?b = "\<lambda>m. (let (op, m) = bus_read (PC_of m) (set_PC (PC_of m + 1) (snd (interrupt_poll m)))
      in m\<lparr>OPCODE := op\<rparr>)"
  have g: "?g (with_trace e l m) = with_trace e l (?g m)" for e l and m :: "'a machine"
    by (simp add: trace_comm)
  have b: "?b (with_trace e l m) = with_trace e l (?b m)"
    by (simp add: trace_comm case_prod_beta)
  have f: "fetched m = ?g (trace_before (PC_of m) (next_op m) (?b m))" for m :: "'a machine"
    by (simp add: fetched_def Let_def case_prod_beta trace_before_fields bus_read_eq peek_eq)
  show ?thesis
    unfolding f by (intro strip_lift [where F = ?g] g) (simp add: b)
qed

lemma peek_with_trace [trace_comm]: "peek a (with_trace e l m) = peek a m"
  by (simp add: peek_eq trace_comm)

lemma same_next:
  "pending (with_trace e l m) = pending m"
  "executes (with_trace e l m) = executes m" "idle (with_trace e l m) = idle m"
  by (simp_all add: trace_comm pending_eq executes_def idle_def)

text \<open>One step, any number of steps and the run loop.\<close>

lemma strip_cpu_step: "strip (cpu_step (with_trace e l m)) = strip (cpu_step m)"
proof (cases rule: step_cases [of m])
  case interrupt
  then have "fst (interrupt_poll m) \<noteq> INT_NONE" by (simp add: pending_def)
  then show ?thesis
    unfolding cpu_step_def case_prod_beta Let_def
    by (simp add: trace_comm)
      (rule strip_lift [where F = "\<lambda>m. snd (interrupt_step_cycle m)"],
       simp_all add: trace_comm strip_begin)
next
  case idle
  then show ?thesis by (simp add: cpu_step_idle same_next trace_comm)
next
  case execute
  let ?f = "\<lambda>m1. call_instr (next_handler m)
    (let (ea, m2) = addr_resolve (next_mode m) m1
     in m2\<lparr>EA := ea, BRANCH_TAKEN := 0, BRANCH_PAGE_CROSS := 0\<rparr>)"
  let ?g = "\<lambda>m. apply_cycle_adjustments (PAGE_CROSS m) (BRANCH_TAKEN m) (BRANCH_PAGE_CROSS m) m"
  have f: "?g (?f (with_trace e l m1)) = with_trace e l (?g (?f m1))" for e l m1
    by (simp add: trace_comm case_prod_beta Let_def)
  have "cpu_step m' = trace_after (?g (?f (fetched m')))"
    if "m' = m \<or> m' = with_trace e l m" for m'
    using that execute
    by (auto simp: cpu_step_executes same_next trace_comm finish_def decoded_def)
  then show ?thesis
    using strip_lift [of "\<lambda>m1. ?g (?f m1)", OF f strip_fetched] by simp
qed

lemma strip_step_cong: "strip m = strip m' \<Longrightarrow> strip (cpu_step m) = strip (cpu_step m')"
  by (metis strip_cpu_step with_trace_self with_trace_twice)

lemma strip_steps: "strip ((cpu_step ^^ n) (with_trace e l m)) = strip ((cpu_step ^^ n) m)"
proof (induction n)
  case (Suc n)
  then show ?case by (simp only: funpow.simps o_apply strip_step_cong [OF Suc.IH])
qed simp

lemma strip_run:
  "map_option strip (cpu_run k (with_trace e l m)) = map_option strip (cpu_run k m)"
proof -
  have CYCLES: "CYCLES ((cpu_step ^^ n) (with_trace e l m)) = CYCLES ((cpu_step ^^ n) m)" for n
    using strip_steps [of n e l m] with_trace_fields(6) by metis
  then have same: "elapsed (with_trace e l m) n = elapsed m n" for n
    by (simp add: elapsed_def trace_comm)
  show ?thesis
  proof (cases "\<exists>n. \<not> elapsed m n < k")
    case True
    then obtain N where "\<not> elapsed m N < k" "\<And>i. i < N \<Longrightarrow> elapsed m i < k"
      using exists_least_iff [of "\<lambda>n. \<not> elapsed m n < k"] by blast
    then show ?thesis
      using run_first [of N m k] run_first [of N "with_trace e l m" k] strip_steps
      by (simp add: same)
  next
    case False
    have "cpu_run k m' = None" if "m' = m \<or> m' = with_trace e l m" for m'
    proof (cases "cpu_run k m'")
      case (Some r)
      then show ?thesis
        using run_returns_only [of "CYCLES m'" k m' r] that False same
        by (auto simp: cpu_run_def elapsed_def trace_comm CYCLES)
    qed
    then show ?thesis by simp
  qed
qed

end
