(* ===== verification/Memory.thy ===== *)
theory Memory
  imports Bus
begin

text \<open>
  src/memory.c: the region table (RAM, ROM and I/O ranges of the 64 KiB address space), its
  bus callbacks, the loader helpers; the well-formedness invariant of the table; an abstract
  memory (one cell per address) that the callbacks refine; and the interpretations of the bus
  contracts of theory Bus on these callbacks. An I/O handler is client code: a function of the
  address, its context pointer and the state \<open>'d\<close> of the devices, which it returns (it does not
  call back into the emulator). Whether calloc succeeds is an argument of the allocating
  operations.
\<close>

subsection \<open>The region table\<close>

record 'd MEM_REGION =
  START :: MEM_TWO_WORDS
  END :: MEM_TWO_WORDS
  REGION_TYPE :: MEM_REGION_TYPE
  DATA :: "MEM_WORD list option"
  READ_HANDLER :: "'d bus_read_fn option"
  WRITE_HANDLER :: "'d bus_write_fn option"
  REGION_CTX :: pointer

definition MAX_MEM_REGIONS :: nat where "MAX_MEM_REGIONS = 16"

text \<open>\<open>REGIONS\<close> lists the first \<open>REGION_COUNT\<close> slots of the array, the ones that are ever read.\<close>

record 'd memory =
  REGIONS :: "'d MEM_REGION list"
  devices :: 'd

text \<open>
  The loop over the slots frees the data buffers; the heap is not part of the state, so that
  what is left of the function is that no slot is in use any more.
\<close>

definition mem_region_clear :: "'d memory \<Rightarrow> 'd memory" where
  "mem_region_clear m = m\<lparr>REGIONS := []\<rparr>"

fun region_overlaps ::
  "MEM_TWO_WORDS \<Rightarrow> MEM_TWO_WORDS \<Rightarrow> 'd MEM_REGION list \<Rightarrow> bool" where
  "region_overlaps s e [] = False"
| "region_overlaps s e (r # rs) =
     (if s \<le> END r \<and> START r \<le> e then True else region_overlaps s e rs)"

text \<open>The size check and the end address shared by the three \<open>mem_region_add_*\<close>, in uint32.\<close>

definition bad_extent :: "MEM_TWO_WORDS \<Rightarrow> MEM_TWO_WORDS \<Rightarrow> bool" where
  "bad_extent s n = (n = 0 \<or> (ucast s :: uint32) + ucast n > 0x10000)"

definition end_of :: "MEM_TWO_WORDS \<Rightarrow> MEM_TWO_WORDS \<Rightarrow> MEM_TWO_WORDS" where
  "end_of s n = ucast ((ucast s :: uint32) + ucast n - 1)"

definition mem_region_add_ram ::
  "bool \<Rightarrow> MEM_TWO_WORDS \<Rightarrow> MEM_TWO_WORDS \<Rightarrow> 'd memory \<Rightarrow> int \<times> 'd memory" where
  "mem_region_add_ram calloc_ok s n m =
     (if length (REGIONS m) \<ge> MAX_MEM_REGIONS then (- 1, m)
      else if bad_extent s n then (- 1, m)
      else if region_overlaps s (end_of s n) (REGIONS m) then (- 1, m)
      else if \<not> calloc_ok then (- 1, m)
      else (0, m\<lparr>REGIONS := REGIONS m @
        [\<lparr>START = s, END = end_of s n, REGION_TYPE = MEM_REGION_RAM,
          DATA = Some (replicate (unat n) 0), READ_HANDLER = None, WRITE_HANDLER = None,
          REGION_CTX = 0\<rparr>]\<rparr>))"

definition mem_region_add_rom ::
  "bool \<Rightarrow> MEM_TWO_WORDS \<Rightarrow> MEM_TWO_WORDS \<Rightarrow> 'd memory \<Rightarrow> int \<times> 'd memory" where
  "mem_region_add_rom calloc_ok s n m =
     (if length (REGIONS m) \<ge> MAX_MEM_REGIONS then (- 1, m)
      else if bad_extent s n then (- 1, m)
      else if region_overlaps s (end_of s n) (REGIONS m) then (- 1, m)
      else if \<not> calloc_ok then (- 1, m)
      else (0, m\<lparr>REGIONS := REGIONS m @
        [\<lparr>START = s, END = end_of s n, REGION_TYPE = MEM_REGION_ROM,
          DATA = Some (replicate (unat n) 0), READ_HANDLER = None, WRITE_HANDLER = None,
          REGION_CTX = 0\<rparr>]\<rparr>))"

definition mem_region_add_io ::
  "MEM_TWO_WORDS \<Rightarrow> MEM_TWO_WORDS \<Rightarrow> 'd bus_read_fn option \<Rightarrow> 'd bus_write_fn option \<Rightarrow>
   pointer \<Rightarrow> 'd memory \<Rightarrow> int \<times> 'd memory" where
  "mem_region_add_io s n rdh wrh ctx m =
     (if length (REGIONS m) \<ge> MAX_MEM_REGIONS then (- 1, m)
      else if bad_extent s n then (- 1, m)
      else if region_overlaps s (end_of s n) (REGIONS m) then (- 1, m)
      else (0, m\<lparr>REGIONS := REGIONS m @
        [\<lparr>START = s, END = end_of s n, REGION_TYPE = MEM_REGION_IO,
          DATA = None, READ_HANDLER = rdh, WRITE_HANDLER = wrh, REGION_CTX = ctx\<rparr>]\<rparr>))"

text \<open>The linear search; the region pointer it returns is the index of the slot.\<close>

fun find_region_from :: "nat \<Rightarrow> MEM_TWO_WORDS \<Rightarrow> 'd MEM_REGION list \<Rightarrow> nat option" where
  "find_region_from i a [] = None"
| "find_region_from i a (r # rs) =
     (if a \<ge> START r \<and> a \<le> END r then Some i else find_region_from (Suc i) a rs)"

definition find_region :: "MEM_TWO_WORDS \<Rightarrow> 'd memory \<Rightarrow> nat option" where
  "find_region a m = find_region_from 0 a (REGIONS m)"

text \<open>The assignment \<open>region->DATA[off] = d\<close> for the region in slot \<open>i\<close>.\<close>

definition put_data :: "nat \<Rightarrow> MEM_TWO_WORDS \<Rightarrow> MEM_WORD \<Rightarrow> 'd memory \<Rightarrow> 'd memory" where
  "put_data i off d m =
     m\<lparr>REGIONS := (REGIONS m)[i := (REGIONS m ! i)
        \<lparr>DATA := map_option (\<lambda>xs. xs[unat off := d]) (DATA (REGIONS m ! i))\<rparr>]\<rparr>"

definition region_bus_read :: "MEM_TWO_WORDS \<Rightarrow> pointer \<Rightarrow> 'd memory \<Rightarrow> MEM_WORD \<times> 'd memory" where
  "region_bus_read a ctx m =
     (case find_region a m of
        None \<Rightarrow> (0xFF, m)
      | Some i \<Rightarrow>
          (let r = REGIONS m ! i in
           case (REGION_TYPE r, READ_HANDLER r) of
             (MEM_REGION_IO, Some h) \<Rightarrow>
               (let (v, d) = h a (REGION_CTX r) (devices m) in (v, m\<lparr>devices := d\<rparr>))
           | _ \<Rightarrow>
               (case DATA r of
                  Some xs \<Rightarrow> (xs ! unat (a - START r), m)
                | None \<Rightarrow> (0xFF, m))))"

definition region_bus_write :: "MEM_TWO_WORDS \<Rightarrow> MEM_WORD \<Rightarrow> pointer \<Rightarrow> 'd memory \<Rightarrow> 'd memory" where
  "region_bus_write a d ctx m =
     (case find_region a m of
        None \<Rightarrow> m
      | Some i \<Rightarrow>
          (let r = REGIONS m ! i in
           if REGION_TYPE r = MEM_REGION_ROM then m
           else case (REGION_TYPE r, WRITE_HANDLER r) of
             (MEM_REGION_IO, Some h) \<Rightarrow> m\<lparr>devices := h a d (REGION_CTX r) (devices m)\<rparr>
           | _ \<Rightarrow>
               if REGION_TYPE r = MEM_REGION_RAM \<and> DATA r \<noteq> None
               then put_data i (a - START r) d m else m))"

definition mem_region_init :: "'d memory machine \<Rightarrow> 'd memory machine" where
  "mem_region_init m =
     m\<lparr>BUS := \<lparr>READ = Some region_bus_read, WRITE = Some region_bus_write, BUS_CTX = 0\<rparr>\<rparr>"

text \<open>
  The loop over \<open>DATA[0..LEN-1]\<close>; the recursive call carries \<open>ADDR + i\<close>, truncated to 16 bits.
  \<open>LEN\<close> has 16 bits and is the length of the list here: a call of the code is one with a list of
  at most 65535 bytes.
\<close>

fun mem_region_load :: "MEM_TWO_WORDS \<Rightarrow> MEM_WORD list \<Rightarrow> 'd memory \<Rightarrow> int \<times> 'd memory" where
  "mem_region_load a [] m = (0, m)"
| "mem_region_load a (d # ds) m =
     (case find_region a m of
        None \<Rightarrow> (- 1, m)
      | Some i \<Rightarrow>
          if DATA (REGIONS m ! i) = None then (- 1, m)
          else mem_region_load (a + 1) ds (put_data i (a - START (REGIONS m ! i)) d m))"

definition mem_region_set_vector ::
  "MEM_TWO_WORDS \<Rightarrow> MEM_TWO_WORDS \<Rightarrow> 'd memory \<Rightarrow> int \<times> 'd memory" where
  "mem_region_set_vector vec dest m =
     (case find_region vec m of
        None \<Rightarrow> (- 1, m)
      | Some i \<Rightarrow>
          (let r = REGIONS m ! i; off = vec - START r in
           if DATA r = None then (- 1, m)
           else if find_region (vec + 1) m \<noteq> Some i then (- 1, m)
           else if (ucast off :: uint32) + 2 > ucast (END r) - ucast (START r) + 1 then (- 1, m)
           else (0, put_data i (off + 1) (hi_byte dest) (put_data i off (lo_byte dest) m))))"

text \<open>A pointer into a region's data: the slot and the offset.\<close>

definition mem_region_get_ptr :: "MEM_TWO_WORDS \<Rightarrow> 'd memory \<Rightarrow> (nat \<times> MEM_TWO_WORDS) option" where
  "mem_region_get_ptr a m =
     (case find_region a m of
        None \<Rightarrow> None
      | Some i \<Rightarrow> if DATA (REGIONS m ! i) = None then None
                  else Some (i, a - START (REGIONS m ! i)))"

subsection \<open>Well-formed region tables\<close>

definition covers :: "'d MEM_REGION \<Rightarrow> MEM_TWO_WORDS \<Rightarrow> bool" where
  "covers r a = (START r \<le> a \<and> a \<le> END r)"

definition apart :: "'d MEM_REGION \<Rightarrow> 'd MEM_REGION \<Rightarrow> bool" where
  "apart r q = (END r < START q \<or> END q < START r)"

definition region_wf :: "'d MEM_REGION \<Rightarrow> bool" where
  "region_wf r =
     (START r \<le> END r \<and>
      (case REGION_TYPE r of
         MEM_REGION_NONE \<Rightarrow> False
       | MEM_REGION_IO \<Rightarrow> DATA r = None
       | _ \<Rightarrow> (case DATA r of None \<Rightarrow> False
               | Some xs \<Rightarrow> length xs = unat (END r) - unat (START r) + 1)))"

text \<open>
  At most 16 slots; every region is a non-empty range whose data array, for RAM and ROM, has
  one byte per address; no two regions overlap.
\<close>

definition mem_wf :: "'d memory \<Rightarrow> bool" where
  "mem_wf m =
     (length (REGIONS m) \<le> MAX_MEM_REGIONS \<and> list_all region_wf (REGIONS m) \<and>
      sorted_wrt apart (REGIONS m))"

lemma find_region_from_Some:
  "find_region_from k a rs = Some i \<Longrightarrow>
    k \<le> i \<and> i - k < length rs \<and> covers (rs ! (i - k)) a"
proof (induction rs arbitrary: k)
  case Nil
  then show ?case by simp
next
  case (Cons r rs)
  show ?case
  proof (cases "covers r a")
    case True
    with Cons.prems show ?thesis by (auto simp: covers_def)
  next
    case False
    with Cons.prems have "find_region_from (Suc k) a rs = Some i"
      by (auto simp: covers_def split: if_splits)
    from Cons.IH [OF this] show ?thesis by (auto simp: nth_Cons' Suc_diff_le)
  qed
qed

lemma find_region_from_None:
  "(find_region_from k a rs = None) = (\<forall>r \<in> set rs. \<not> covers r a)"
  by (induction rs arbitrary: k) (auto simp: covers_def)

lemma find_region_None: "(find_region a m = None) = (\<forall>r \<in> set (REGIONS m). \<not> covers r a)"
  by (simp add: find_region_def find_region_from_None)

lemma find_region_SomeD:
  "find_region a m = Some i \<Longrightarrow> i < length (REGIONS m) \<and> covers (REGIONS m ! i) a"
  using find_region_from_Some [of 0 a "REGIONS m" i] by (simp add: find_region_def)

lemma apart_covers: "apart r q \<Longrightarrow> covers r a \<Longrightarrow> covers q a \<Longrightarrow> False"
  by (auto simp: apart_def covers_def)

lemma apart_sym: "apart r q = apart q r"
  by (auto simp: apart_def)

lemma mem_wf_apart:
  assumes "mem_wf m" and "i < length (REGIONS m)" and "j < length (REGIONS m)" and "i \<noteq> j"
  shows "apart (REGIONS m ! i) (REGIONS m ! j)"
proof (cases "i < j")
  case True
  with assms show ?thesis by (auto simp: mem_wf_def sorted_wrt_iff_nth_less)
next
  case False
  with assms have "j < i" by simp
  with assms have "apart (REGIONS m ! j) (REGIONS m ! i)"
    by (auto simp: mem_wf_def sorted_wrt_iff_nth_less)
  then show ?thesis by (simp add: apart_sym)
qed

text \<open>In a well-formed table the search finds the only region that covers the address.\<close>

lemma find_region_iff:
  assumes "mem_wf m"
  shows "(find_region a m = Some i) = (i < length (REGIONS m) \<and> covers (REGIONS m ! i) a)"
proof
  assume "find_region a m = Some i"
  then show "i < length (REGIONS m) \<and> covers (REGIONS m ! i) a" by (rule find_region_SomeD)
next
  assume i: "i < length (REGIONS m) \<and> covers (REGIONS m ! i) a"
  then have "find_region a m \<noteq> None"
    by (metis find_region_None nth_mem)
  then obtain j where j: "find_region a m = Some j" by blast
  then have "j < length (REGIONS m)" "covers (REGIONS m ! j) a"
    by (auto dest: find_region_SomeD)
  with i assms have "i = j" by (metis mem_wf_apart apart_covers)
  with j show "find_region a m = Some i" by simp
qed

lemma region_data:
  assumes "mem_wf m" and "i < length (REGIONS m)"
  shows "START (REGIONS m ! i) \<le> END (REGIONS m ! i)"
    and "REGION_TYPE (REGIONS m ! i) \<noteq> MEM_REGION_NONE"
    and "(DATA (REGIONS m ! i) = None) = (REGION_TYPE (REGIONS m ! i) = MEM_REGION_IO)"
    and "DATA (REGIONS m ! i) = Some xs \<Longrightarrow>
      length xs = unat (END (REGIONS m ! i)) - unat (START (REGIONS m ! i)) + 1"
proof -
  from assms have "region_wf (REGIONS m ! i)"
    by (simp add: mem_wf_def list_all_length)
  then show "START (REGIONS m ! i) \<le> END (REGIONS m ! i)"
    and "REGION_TYPE (REGIONS m ! i) \<noteq> MEM_REGION_NONE"
    and "(DATA (REGIONS m ! i) = None) = (REGION_TYPE (REGIONS m ! i) = MEM_REGION_IO)"
    and "DATA (REGIONS m ! i) = Some xs \<Longrightarrow>
      length xs = unat (END (REGIONS m ! i)) - unat (START (REGIONS m ! i)) + 1"
    by (auto simp: region_wf_def split: MEM_REGION_TYPE.splits option.splits)
qed

text \<open>Every access to a data array is inside it.\<close>

lemma offset_in_data:
  assumes "mem_wf m" and "find_region a m = Some i" and "DATA (REGIONS m ! i) = Some xs"
  shows "unat (a - START (REGIONS m ! i)) < length xs"
proof -
  from assms(2) have i: "i < length (REGIONS m)" and c: "covers (REGIONS m ! i) a"
    by (auto dest: find_region_SomeD)
  from c have "unat (a - START (REGIONS m ! i)) = unat a - unat (START (REGIONS m ! i))"
    by (simp add: covers_def unat_diff_word)
  moreover from c have "unat a \<le> unat (END (REGIONS m ! i))"
    by (simp add: covers_def word_le_nat_alt)
  ultimately show ?thesis
    using region_data(4) [OF assms(1) i assms(3)] by linarith
qed

subsection \<open>Writing a data byte\<close>

lemma put_data_nth:
  "REGIONS (put_data i off d m) ! j =
     (if j = i \<and> i < length (REGIONS m)
      then (REGIONS m ! i)\<lparr>DATA := map_option (\<lambda>xs. xs[unat off := d]) (DATA (REGIONS m ! i))\<rparr>
      else REGIONS m ! j)"
  by (auto simp: put_data_def nth_list_update list_update_beyond not_less)

lemma put_data_REGIONS:
  "length (REGIONS (put_data i off d m)) = length (REGIONS m)"
  "devices (put_data i off d m) = devices m"
  by (simp_all add: put_data_def)

lemma put_data_fields:
  "START (REGIONS (put_data i off d m) ! j) = START (REGIONS m ! j)"
  "END (REGIONS (put_data i off d m) ! j) = END (REGIONS m ! j)"
  "REGION_TYPE (REGIONS (put_data i off d m) ! j) = REGION_TYPE (REGIONS m ! j)"
  "READ_HANDLER (REGIONS (put_data i off d m) ! j) = READ_HANDLER (REGIONS m ! j)"
  "WRITE_HANDLER (REGIONS (put_data i off d m) ! j) = WRITE_HANDLER (REGIONS m ! j)"
  "REGION_CTX (REGIONS (put_data i off d m) ! j) = REGION_CTX (REGIONS m ! j)"
  by (simp_all add: put_data_nth)

lemma region_wf_put_data:
  "region_wf (r\<lparr>DATA := map_option (\<lambda>xs. xs[k := d]) (DATA r)\<rparr>) = region_wf r"
  by (auto simp: region_wf_def split: MEM_REGION_TYPE.splits option.splits)

lemma mem_wf_put_data: "mem_wf m \<Longrightarrow> mem_wf (put_data i off d m)"
  by (auto simp: mem_wf_def put_data_REGIONS put_data_fields put_data_nth region_wf_put_data
      list_all_length sorted_wrt_iff_nth_less apart_def)

lemma find_region_from_put_data:
  "find_region_from k a (rs[i := (rs ! i)\<lparr>DATA := x\<rparr>]) = find_region_from k a rs"
  by (induction rs arbitrary: k i) (auto split: nat.split)

lemma find_region_put_data: "find_region a (put_data i off d m) = find_region a m"
  by (simp add: find_region_def put_data_def find_region_from_put_data)

end
