(* ===== verification/Memory_Spec.thy ===== *)
theory Memory_Spec
  imports Memory
begin

text \<open>
  The abstract memory behind the region table: one cell per address, open bus, a RAM byte, a
  ROM byte, or an address of the I/O region in some slot. The callbacks, the loader helpers and
  the region constructors of theory Memory are shown to implement operations on cells, and
  every operation to keep the table well-formed.
\<close>

datatype cell = Unmapped | Ram MEM_WORD | Rom MEM_WORD | Io nat

definition cell_of :: "nat \<Rightarrow> 'd MEM_REGION \<Rightarrow> MEM_TWO_WORDS \<Rightarrow> cell" where
  "cell_of i r a =
     (case (REGION_TYPE r, DATA r) of
        (MEM_REGION_RAM, Some xs) \<Rightarrow> Ram (xs ! unat (a - START r))
      | (MEM_REGION_ROM, Some xs) \<Rightarrow> Rom (xs ! unat (a - START r))
      | _ \<Rightarrow> Io i)"

definition view :: "'d memory \<Rightarrow> MEM_TWO_WORDS \<Rightarrow> cell" where
  "view m a =
     (case find_region a m of None \<Rightarrow> Unmapped | Some i \<Rightarrow> cell_of i (REGIONS m ! i) a)"

text \<open>Storing a byte whatever the write protection, as the loader does.\<close>

fun set_cell :: "MEM_WORD \<Rightarrow> cell \<Rightarrow> cell" where
  "set_cell d (Ram v) = Ram d"
| "set_cell d (Rom v) = Rom d"
| "set_cell d c = c"

fun has_data :: "cell \<Rightarrow> bool" where
  "has_data (Ram v) = True"
| "has_data (Rom v) = True"
| "has_data c = False"

lemma view_cases:
  assumes "mem_wf m" and "find_region a m = Some i"
  obtains (ram) xs where "REGION_TYPE (REGIONS m ! i) = MEM_REGION_RAM"
      "DATA (REGIONS m ! i) = Some xs" "view m a = Ram (xs ! unat (a - START (REGIONS m ! i)))"
  | (rom) xs where "REGION_TYPE (REGIONS m ! i) = MEM_REGION_ROM"
      "DATA (REGIONS m ! i) = Some xs" "view m a = Rom (xs ! unat (a - START (REGIONS m ! i)))"
  | (io) "REGION_TYPE (REGIONS m ! i) = MEM_REGION_IO"
      "DATA (REGIONS m ! i) = None" "view m a = Io i"
proof -
  have "i < length (REGIONS m)" using assms(2) by (auto dest: find_region_SomeD)
  note rd = region_data [OF assms(1) this]
  show ?thesis
    using rd(2,3) assms(2) that
    by (cases "REGION_TYPE (REGIONS m ! i)"; cases "DATA (REGIONS m ! i)")
      (simp_all add: view_def cell_of_def)
qed

lemma view_Unmapped:
  assumes "mem_wf m"
  shows "(view m a = Unmapped) = (find_region a m = None)"
proof (cases "find_region a m")
  case (Some i)
  then show ?thesis by (cases rule: view_cases [OF assms Some]) simp_all
qed (simp add: view_def)

lemma has_data_view:
  assumes "mem_wf m"
  shows "has_data (view m a) =
     (\<exists>i. find_region a m = Some i \<and> DATA (REGIONS m ! i) \<noteq> None)"
proof (cases "find_region a m")
  case (Some i)
  then show ?thesis by (cases rule: view_cases [OF assms Some]) simp_all
qed (simp add: view_def)

text \<open>Writing a data byte changes the cell of its address and no other.\<close>

lemma view_put_data:
  assumes wf: "mem_wf m" and a: "find_region a m = Some i" and d: "DATA (REGIONS m ! i) = Some xs"
  shows "view (put_data i (a - START (REGIONS m ! i)) v m) = (view m)(a := set_cell v (view m a))"
proof
  fix b
  let ?m = "put_data i (a - START (REGIONS m ! i)) v m"
  have i: "i < length (REGIONS m)" using a by (auto dest: find_region_SomeD)
  have off: "unat (a - START (REGIONS m ! i)) < length xs" by (rule offset_in_data [OF wf a d])
  show "view ?m b = ((view m)(a := set_cell v (view m a))) b"
  proof (cases "find_region b m = Some i")
    case True
    then show ?thesis
      using wf a d i off
      by (cases rule: view_cases [OF wf True])
        (auto simp: view_def cell_of_def find_region_put_data put_data_nth nth_list_update_word)
  next
    case False
    with a have "b \<noteq> a" by auto
    with False show ?thesis
      by (auto simp: view_def find_region_put_data put_data_nth split: option.split)
  qed
qed

subsection \<open>The bus callbacks\<close>

lemma region_bus_read_view:
  assumes "mem_wf m"
  shows "region_bus_read a c m =
    (case view m a of
       Unmapped \<Rightarrow> (0xFF, m)
     | Ram v \<Rightarrow> (v, m)
     | Rom v \<Rightarrow> (v, m)
     | Io i \<Rightarrow> (case READ_HANDLER (REGIONS m ! i) of
         Some h \<Rightarrow> (fst (h a (REGION_CTX (REGIONS m ! i)) (devices m)),
                    m\<lparr>devices := snd (h a (REGION_CTX (REGIONS m ! i)) (devices m))\<rparr>)
       | None \<Rightarrow> (0xFF, m)))"
proof (cases "find_region a m")
  case None
  then show ?thesis by (simp add: region_bus_read_def view_def)
next
  case (Some i)
  then show ?thesis
    by (cases rule: view_cases [OF assms Some])
      (simp_all add: region_bus_read_def case_prod_beta Let_def split: option.split)
qed

lemma region_bus_write_devices:
  assumes "mem_wf m"
  shows "region_bus_write a d c m =
    (case view m a of
       Ram v \<Rightarrow> put_data (the (find_region a m))
         (a - START (REGIONS m ! the (find_region a m))) d m
     | Io i \<Rightarrow> (case WRITE_HANDLER (REGIONS m ! i) of
         Some h \<Rightarrow> m\<lparr>devices := h a d (REGION_CTX (REGIONS m ! i)) (devices m)\<rparr>
       | None \<Rightarrow> m)
     | _ \<Rightarrow> m)"
proof (cases "find_region a m")
  case None
  then show ?thesis by (simp add: region_bus_write_def view_def)
next
  case (Some i)
  then show ?thesis
    by (cases rule: view_cases [OF assms Some])
      (simp_all add: region_bus_write_def Let_def split: option.split)
qed

lemma view_devices [simp]: "view (m\<lparr>devices := d\<rparr>) = view m"
  by (rule ext) (simp add: view_def find_region_def split: option.split)

lemma mem_wf_devices [simp]: "mem_wf (m\<lparr>devices := d\<rparr>) = mem_wf m"
  by (simp add: mem_wf_def)

lemma mem_wf_region_bus_read: "mem_wf m \<Longrightarrow> mem_wf (snd (region_bus_read a c m))"
  by (simp add: region_bus_read_view split: cell.split option.split)

lemma mem_wf_region_bus_write: "mem_wf m \<Longrightarrow> mem_wf (region_bus_write a d c m)"
  by (simp add: region_bus_write_devices mem_wf_put_data split: cell.split option.split)

lemma view_region_bus_read: "mem_wf m \<Longrightarrow> view (snd (region_bus_read a c m)) = view m"
  by (simp add: region_bus_read_view split: cell.split option.split)

text \<open>A bus write is a store into a RAM cell and nothing anywhere else.\<close>

lemma view_region_bus_write:
  assumes "mem_wf m"
  shows "view (region_bus_write a d c m) =
    (case view m a of Ram v \<Rightarrow> (view m)(a := Ram d) | _ \<Rightarrow> view m)"
proof (cases "view m a")
  case (Ram v)
  then obtain i where i: "find_region a m = Some i"
    using view_Unmapped [OF assms] by (metis cell.distinct(1) option.exhaust)
  then obtain xs where "DATA (REGIONS m ! i) = Some xs"
    using Ram by (cases rule: view_cases [OF assms i]) auto
  from view_put_data [OF assms i this] Ram i show ?thesis
    by (simp add: region_bus_write_devices assms)
qed (simp_all add: region_bus_write_devices assms split: option.split)

subsection \<open>Adding regions\<close>

lemma bad_extent_iff: "bad_extent s n = (n = 0 \<or> 0x10000 < unat s + unat n)"
proof -
  have "unat s + unat n < 2 ^ 32"
    using unat_word16_less [of s] unat_word16_less [of n] by simp
  then have "unat ((ucast s :: uint32) + ucast n) = unat s + unat n"
    by (simp add: unat_word_ariths)
  then show ?thesis by (simp add: bad_extent_def word_less_nat_alt)
qed

lemma unat_end_of:
  assumes "\<not> bad_extent s n"
  shows "unat (end_of s n) = unat s + unat n - 1"
proof -
  from assms have n: "0 < unat n" and b: "unat s + unat n \<le> 0x10000"
    by (auto simp: bad_extent_iff unat_gt_0)
  have sum: "unat ((ucast s :: uint32) + ucast n) = unat s + unat n"
    using b by (simp add: unat_word_ariths)
  have "(1 :: uint32) \<le> ucast s + ucast n"
    using sum n by (simp add: word_le_nat_alt)
  then have "unat ((ucast s :: uint32) + ucast n - 1) = unat s + unat n - 1"
    by (simp add: unat_sub sum)
  then show ?thesis
    using b n by (simp add: end_of_def unat_ucast_word)
qed

lemma region_overlaps_iff: "region_overlaps s e rs = (\<exists>r \<in> set rs. s \<le> END r \<and> START r \<le> e)"
  by (induction rs) auto

text \<open>A table with one more region at its end, when the checks of \<open>mem_region_add_*\<close> passed.\<close>

lemma mem_wf_append:
  assumes "mem_wf m" and "length (REGIONS m) < MAX_MEM_REGIONS" and "region_wf r"
    and "\<not> region_overlaps (START r) (END r) (REGIONS m)"
  shows "mem_wf (m\<lparr>REGIONS := REGIONS m @ [r]\<rparr>)"
  using assms
  by (auto simp: mem_wf_def sorted_wrt_append apart_def region_overlaps_iff not_le)

lemma find_region_from_append:
  "find_region_from k a (rs @ [r]) =
     (case find_region_from k a rs of
        Some i \<Rightarrow> Some i
      | None \<Rightarrow> if covers r a then Some (k + length rs) else None)"
  by (induction rs arbitrary: k) (auto simp: covers_def split: option.split)

lemma view_append:
  assumes "\<not> region_overlaps (START r) (END r) (REGIONS m)"
  shows "view (m\<lparr>REGIONS := REGIONS m @ [r]\<rparr>) a =
    (if covers r a then cell_of (length (REGIONS m)) r a else view m a)"
proof (cases "find_region a m")
  case None
  then show ?thesis
    by (simp add: view_def find_region_def find_region_from_append)
next
  case (Some i)
  then have i: "i < length (REGIONS m)" and c: "covers (REGIONS m ! i) a"
    by (auto dest: find_region_SomeD)
  then have "\<not> covers r a"
    using assms by (force simp: region_overlaps_iff covers_def in_set_conv_nth)
  with Some i show ?thesis
    by (simp add: view_def find_region_def find_region_from_append nth_append)
qed

text \<open>When the three \<open>mem_region_add_*\<close> succeed: the condition all of them test.\<close>

definition can_add :: "MEM_TWO_WORDS \<Rightarrow> MEM_TWO_WORDS \<Rightarrow> 'd memory \<Rightarrow> bool" where
  "can_add s n m =
     (length (REGIONS m) < 16 \<and> n \<noteq> 0 \<and> unat s + unat n \<le> 0x10000 \<and>
      (\<forall>a. unat s \<le> unat a \<and> unat a < unat s + unat n \<longrightarrow> view m a = Unmapped))"

lemma in_extent:
  assumes "\<not> bad_extent s n"
  shows "(s \<le> a \<and> a \<le> end_of s n) = (unat s \<le> unat a \<and> unat a < unat s + unat n)"
proof -
  have "0 < unat n" using assms by (auto simp: bad_extent_def unat_gt_0)
  then show ?thesis
    by (auto simp: word_le_nat_alt unat_end_of [OF assms])
qed

lemma meet_of_ranges:
  fixes s e p q :: "'a::linorder"
  assumes "s \<le> e" and "p \<le> q"
  shows "(s \<le> q \<and> p \<le> e) = (\<exists>a. s \<le> a \<and> a \<le> e \<and> p \<le> a \<and> a \<le> q)"
proof
  assume "s \<le> q \<and> p \<le> e"
  with assms have "s \<le> max s p \<and> max s p \<le> e \<and> p \<le> max s p \<and> max s p \<le> q" by auto
  then show "\<exists>a. s \<le> a \<and> a \<le> e \<and> p \<le> a \<and> a \<le> q" by blast
next
  assume "\<exists>a. s \<le> a \<and> a \<le> e \<and> p \<le> a \<and> a \<le> q"
  then show "s \<le> q \<and> p \<le> e" using order_trans by blast
qed

text \<open>The overlap test asks whether some address of the new range is already mapped.\<close>

lemma overlap_view:
  assumes wf: "mem_wf m" and ext: "\<not> bad_extent s n"
  shows "region_overlaps s (end_of s n) (REGIONS m) =
    (\<exists>a. s \<le> a \<and> a \<le> end_of s n \<and> view m a \<noteq> Unmapped)"
proof -
  have se: "s \<le> end_of s n"
    using in_extent [OF ext, of s] ext by (simp add: bad_extent_def unat_gt_0)
  have "region_overlaps s (end_of s n) (REGIONS m) =
      (\<exists>r \<in> set (REGIONS m). \<exists>a. s \<le> a \<and> a \<le> end_of s n \<and> covers r a)"
    unfolding region_overlaps_iff covers_def
  proof (rule bex_cong [OF refl])
    fix r
    assume "r \<in> set (REGIONS m)"
    then have "START r \<le> END r" using wf by (auto simp: mem_wf_def list_all_iff region_wf_def)
    then show "(s \<le> END r \<and> START r \<le> end_of s n) =
        (\<exists>a. s \<le> a \<and> a \<le> end_of s n \<and> START r \<le> a \<and> a \<le> END r)"
      by (rule meet_of_ranges [OF se])
  qed
  also have "\<dots> = (\<exists>a. s \<le> a \<and> a \<le> end_of s n \<and> view m a \<noteq> Unmapped)"
    unfolding view_Unmapped [OF wf] find_region_None by blast
  finally show ?thesis .
qed

lemma can_add_iff:
  assumes "mem_wf m"
  shows "can_add s n m =
    (length (REGIONS m) < MAX_MEM_REGIONS \<and> \<not> bad_extent s n \<and>
     \<not> region_overlaps s (end_of s n) (REGIONS m))"
proof (cases "bad_extent s n")
  case True
  then show ?thesis by (auto simp: can_add_def bad_extent_iff)
next
  case False
  then have n: "n \<noteq> 0" "unat s + unat n \<le> 0x10000" by (simp_all add: bad_extent_iff)
  have "(\<forall>a. unat s \<le> unat a \<and> unat a < unat s + unat n \<longrightarrow> view m a = Unmapped) =
      (\<not> region_overlaps s (end_of s n) (REGIONS m))"
    unfolding overlap_view [OF assms False] in_extent [OF False, symmetric] by blast
  with False n show ?thesis
    by (simp add: can_add_def MAX_MEM_REGIONS_def)
qed

lemma add_ram_eq:
  assumes "mem_wf m"
  shows "mem_region_add_ram ok s n m =
    (if can_add s n m \<and> ok
     then (0, m\<lparr>REGIONS := REGIONS m @ [\<lparr>START = s, END = end_of s n,
        REGION_TYPE = MEM_REGION_RAM, DATA = Some (replicate (unat n) 0), READ_HANDLER = None,
        WRITE_HANDLER = None, REGION_CTX = 0\<rparr>]\<rparr>)
     else (- 1, m))"
  by (auto simp: mem_region_add_ram_def can_add_iff [OF assms])

lemma add_rom_eq:
  assumes "mem_wf m"
  shows "mem_region_add_rom ok s n m =
    (if can_add s n m \<and> ok
     then (0, m\<lparr>REGIONS := REGIONS m @ [\<lparr>START = s, END = end_of s n,
        REGION_TYPE = MEM_REGION_ROM, DATA = Some (replicate (unat n) 0), READ_HANDLER = None,
        WRITE_HANDLER = None, REGION_CTX = 0\<rparr>]\<rparr>)
     else (- 1, m))"
  by (auto simp: mem_region_add_rom_def can_add_iff [OF assms])

lemma add_io_eq:
  assumes "mem_wf m"
  shows "mem_region_add_io s n rdh wrh c m =
    (if can_add s n m
     then (0, m\<lparr>REGIONS := REGIONS m @ [\<lparr>START = s, END = end_of s n,
        REGION_TYPE = MEM_REGION_IO, DATA = None, READ_HANDLER = rdh,
        WRITE_HANDLER = wrh, REGION_CTX = c\<rparr>]\<rparr>)
     else (- 1, m))"
  by (auto simp: mem_region_add_io_def can_add_iff [OF assms])

text \<open>Appending a region that passed the checks: the invariant and the new cells.\<close>

lemma append_region:
  assumes wf: "mem_wf m" and can: "can_add s n m"
    and r: "START r = s" "END r = end_of s n"
    and data: "(REGION_TYPE r = MEM_REGION_IO \<and> DATA r = None) \<or>
      (REGION_TYPE r \<in> {MEM_REGION_RAM, MEM_REGION_ROM} \<and> DATA r = Some (replicate (unat n) 0))"
  shows "mem_wf (m\<lparr>REGIONS := REGIONS m @ [r]\<rparr>)"
    and "view (m\<lparr>REGIONS := REGIONS m @ [r]\<rparr>) a =
      (if unat s \<le> unat a \<and> unat a < unat s + unat n
       then (case REGION_TYPE r of MEM_REGION_RAM \<Rightarrow> Ram 0 | MEM_REGION_ROM \<Rightarrow> Rom 0
             | _ \<Rightarrow> Io (length (REGIONS m)))
       else view m a)"
proof -
  from can_add_iff [OF wf] can have len: "length (REGIONS m) < MAX_MEM_REGIONS"
    and ext: "\<not> bad_extent s n" and ov: "\<not> region_overlaps (START r) (END r) (REGIONS m)"
    by (auto simp: r)
  from ext have n: "0 < unat n" by (simp add: bad_extent_def unat_gt_0)
  then have "region_wf r"
    using data in_extent [OF ext, of s] unat_end_of [OF ext]
    by (auto simp: region_wf_def r)
  then show "mem_wf (m\<lparr>REGIONS := REGIONS m @ [r]\<rparr>)"
    using wf len ov by (intro mem_wf_append) auto
  have "cell_of i r a = (case REGION_TYPE r of MEM_REGION_RAM \<Rightarrow> Ram 0 | MEM_REGION_ROM \<Rightarrow> Rom 0
      | _ \<Rightarrow> Io i)" if "covers r a" for i
  proof -
    from that have "s \<le> a \<and> unat a < unat s + unat n"
      using in_extent [OF ext, of a] by (simp add: covers_def r)
    then have "unat (a - s) < unat n" by (simp add: unat_diff_word word_le_nat_alt) linarith
    with data show ?thesis by (auto simp: cell_of_def r)
  qed
  then show "view (m\<lparr>REGIONS := REGIONS m @ [r]\<rparr>) a =
      (if unat s \<le> unat a \<and> unat a < unat s + unat n
       then (case REGION_TYPE r of MEM_REGION_RAM \<Rightarrow> Ram 0 | MEM_REGION_ROM \<Rightarrow> Rom 0
             | _ \<Rightarrow> Io (length (REGIONS m)))
       else view m a)"
    using in_extent [OF ext, of a]
    by (simp add: view_append [OF ov] covers_def r)
qed

subsection \<open>Loading data\<close>

fun load_cells ::
  "MEM_TWO_WORDS \<Rightarrow> MEM_WORD list \<Rightarrow> (MEM_TWO_WORDS \<Rightarrow> cell) \<Rightarrow> int \<times> (MEM_TWO_WORDS \<Rightarrow> cell)" where
  "load_cells a [] V = (0, V)"
| "load_cells a (d # ds) V =
     (if has_data (V a) then load_cells (a + 1) ds (V(a := set_cell d (V a))) else (- 1, V))"

text \<open>The loader implements \<open>load_cells\<close>, the bytes stored before a failure included.\<close>

lemma load_refines:
  assumes "mem_wf m"
  shows "fst (mem_region_load a ds m) = fst (load_cells a ds (view m)) \<and>
    view (snd (mem_region_load a ds m)) = snd (load_cells a ds (view m)) \<and>
    mem_wf (snd (mem_region_load a ds m))"
  using assms
proof (induction a ds m rule: mem_region_load.induct)
  case (1 a m)
  then show ?case by simp
next
  case (2 a d ds m)
  show ?case
  proof (cases "find_region a m")
    case None
    with 2 show ?thesis by (simp add: has_data_view)
  next
    case (Some i)
    show ?thesis
    proof (cases "DATA (REGIONS m ! i)")
      case None
      with 2 Some show ?thesis by (simp add: has_data_view)
    next
      case (Some xs)
      with 2 \<open>find_region a m = Some i\<close> show ?thesis
        by (simp add: has_data_view view_put_data mem_wf_put_data)
    qed
  qed
qed

lemma has_data_set_cell [simp]: "has_data (set_cell d c) = has_data c"
  by (cases c) auto

lemma unat_minus_1: "(w :: 'a::len word) \<noteq> 0 \<Longrightarrow> unat w = Suc (unat (w - 1))"
  by (simp add: unat_minus_one unat_gt_0)

text \<open>Where every target byte has data, all of the bytes arrive, and nothing else changes.\<close>

lemma load_cells_all:
  assumes "length ds \<le> 0x10000"
    and "\<And>i. i < length ds \<Longrightarrow> has_data (V (a + of_nat i))"
  shows "load_cells a ds V =
    (0, \<lambda>b. if unat (b - a) < length ds then set_cell (ds ! unat (b - a)) (V b) else V b)"
  using assms
proof (induction ds arbitrary: a V)
  case Nil
  then show ?case by simp
next
  case (Cons d ds)
  let ?V = "V(a := set_cell d (V a))"
  from Cons.prems(2) [of 0] have a: "has_data (V a)" by simp
  moreover have "load_cells (a + 1) ds ?V =
      (0, \<lambda>b. if unat (b - (a + 1)) < length ds then set_cell (ds ! unat (b - (a + 1))) (?V b)
             else ?V b)"
  proof (rule Cons.IH)
    show "length ds \<le> 0x10000" using Cons.prems(1) by simp
    fix i
    assume "i < length ds"
    with Cons.prems(2) [of "Suc i"] have "has_data (V (a + 1 + of_nat i))"
      by (simp add: add.assoc)
    with a show "has_data (?V (a + 1 + of_nat i))" by (simp add: fun_upd_def)
  qed
  moreover have "(if unat (b - (a + 1)) < length ds then set_cell (ds ! unat (b - (a + 1))) (?V b)
      else ?V b) =
    (if unat (b - a) < length (d # ds) then set_cell ((d # ds) ! unat (b - a)) (V b) else V b)" for b
  proof (cases "b = a")
    case True
    have "unat (- 1 :: MEM_TWO_WORDS) = 65535"
      by (simp add: unsigned_minus_1_eq_mask mask_eq_exp_minus_1)
    then show ?thesis using True Cons.prems(1) by simp
  next
    case False
    then have "unat (b - a) = Suc (unat (b - (a + 1)))"
      using unat_minus_1 [of "b - a"] by (simp add: diff_diff_eq)
    with False show ?thesis by simp
  qed
  ultimately show ?case by simp
qed

subsection \<open>Setting a vector\<close>

lemma word16_Suc: "(v :: MEM_TWO_WORDS) \<noteq> 0xFFFF \<Longrightarrow> unat (v + 1) = Suc (unat v)"
proof -
  assume "v \<noteq> 0xFFFF"
  then have "v + 1 \<noteq> 0" by (auto simp: add_eq_0_iff2)
  then show ?thesis using unat_minus_1 [of "v + 1"] by simp
qed

text \<open>The last guard of \<open>mem_region_set_vector\<close> only rejects a vector at $FFFF.\<close>

lemma vector_fits:
  assumes c: "s \<le> v" "v \<le> e" and c1: "s \<le> v + 1" "v + 1 \<le> e"
  shows "((ucast (v - s) :: uint32) + 2 > ucast e - ucast s + 1) = (v = (0xFFFF :: MEM_TWO_WORDS))"
proof -
  have le: "unat s \<le> unat v" "unat v \<le> unat e" using c by (simp_all add: word_le_nat_alt)
  note b = unat_word16_less [of e]
  have l: "unat ((ucast (v - s) :: uint32) + 2) = unat v - unat s + 2"
    using le b unat_word16_less [of "v - s"]
    by (simp add: unat_word_ariths unat_diff_word [OF c(1)])
  have "(ucast s :: uint32) \<le> ucast e" using le by (simp add: word_le_nat_alt)
  then have r: "unat ((ucast e :: uint32) - ucast s + 1) = unat e - unat s + 1"
    using le b by (simp add: unat_word_ariths unat_diff_word)
  have eq: "((ucast (v - s) :: uint32) + 2 > ucast e - ucast s + 1) = (unat e < unat v + 1)"
    unfolding word_less_nat_alt l r using le by linarith
  show ?thesis
  proof (cases "v = 0xFFFF")
    case True
    with le b eq show ?thesis by simp
  next
    case False
    then have "unat v + 1 \<le> unat e" using c1(2) word16_Suc [OF False] by (simp add: word_le_nat_alt)
    with False eq show ?thesis by simp
  qed
qed

lemma set_vector_eq:
  assumes wf: "mem_wf m"
  shows "mem_region_set_vector vec dest m =
    (case find_region vec m of
       None \<Rightarrow> (- 1, m)
     | Some i \<Rightarrow>
         if DATA (REGIONS m ! i) \<noteq> None \<and> find_region (vec + 1) m = Some i \<and> vec \<noteq> 0xFFFF
         then (0, put_data i (vec + 1 - START (REGIONS m ! i)) (hi_byte dest)
                    (put_data i (vec - START (REGIONS m ! i)) (lo_byte dest) m))
         else (- 1, m))"
proof (cases "find_region vec m")
  case None
  then show ?thesis by (simp add: mem_region_set_vector_def)
next
  case (Some i)
  show ?thesis
  proof (cases "find_region (vec + 1) m = Some i")
    case True
    have "START (REGIONS m ! i) \<le> vec" "vec \<le> END (REGIONS m ! i)"
      "START (REGIONS m ! i) \<le> vec + 1" "vec + 1 \<le> END (REGIONS m ! i)"
      using Some True by (auto dest!: find_region_SomeD simp: covers_def)
    from vector_fits [OF this] show ?thesis
      using Some True
      by (auto simp: mem_region_set_vector_def Let_def diff_add_eq)
  next
    case False
    with Some show ?thesis by (simp add: mem_region_set_vector_def Let_def)
  qed
qed

lemma set_vector_view:
  assumes wf: "mem_wf m" and ok: "mem_region_set_vector vec dest m = (0, m')"
  shows "mem_wf m'"
    and "view m' = (view m)(vec := set_cell (lo_byte dest) (view m vec),
      vec + 1 := set_cell (hi_byte dest) (view m (vec + 1)))"
    and "has_data (view m vec)" and "has_data (view m (vec + 1))"
proof -
  from ok obtain i xs where i: "find_region vec m = Some i" "find_region (vec + 1) m = Some i"
    and d: "DATA (REGIONS m ! i) = Some xs"
    and m': "m' = put_data i (vec + 1 - START (REGIONS m ! i)) (hi_byte dest)
      (put_data i (vec - START (REGIONS m ! i)) (lo_byte dest) m)"
    by (auto simp: set_vector_eq [OF wf] split: option.splits if_splits)
  let ?n = "put_data i (vec - START (REGIONS m ! i)) (lo_byte dest) m"
  have wfn: "mem_wf ?n" using wf by (rule mem_wf_put_data)
  have "i < length (REGIONS m)" using i(1) by (auto dest: find_region_SomeD)
  then have dn: "DATA (REGIONS ?n ! i) = Some (xs[unat (vec - START (REGIONS m ! i)) := lo_byte dest])"
    using d by (simp add: put_data_nth)
  have "find_region (vec + 1) ?n = Some i" using i by (simp add: find_region_put_data)
  from view_put_data [OF wfn this dn, of "hi_byte dest"]
  have "view m' = (view ?n)(vec + 1 := set_cell (hi_byte dest) (view ?n (vec + 1)))"
    by (simp add: m' put_data_fields)
  then show "view m' = (view m)(vec := set_cell (lo_byte dest) (view m vec),
      vec + 1 := set_cell (hi_byte dest) (view m (vec + 1)))"
    by (simp add: view_put_data [OF wf i(1) d])
  show "mem_wf m'" unfolding m' by (intro mem_wf_put_data wf)
  show "has_data (view m vec)" "has_data (view m (vec + 1))"
    using i d by (auto simp: has_data_view [OF wf])
qed

subsection \<open>The default memory of main.c\<close>

text \<open>
  The table main.c builds without options: 32 KiB of RAM at $0000, then 32 KiB of ROM at $8000.
\<close>

definition default_memory :: "'d \<Rightarrow> 'd memory" where
  "default_memory dev =
     snd (mem_region_add_rom True 0x8000 0x8000
       (snd (mem_region_add_ram True 0x0000 0x8000
         (mem_region_clear \<lparr>REGIONS = [], devices = dev\<rparr>))))"

lemma view_no_regions [simp]: "view \<lparr>REGIONS = [], devices = dev\<rparr> a = Unmapped"
  by (simp add: view_def find_region_def)

lemma mem_wf_no_regions [simp]: "mem_wf \<lparr>REGIONS = [], devices = dev\<rparr>"
  by (simp add: mem_wf_def)

lemma default_ram:
  fixes dev
  defines "m \<equiv> snd (mem_region_add_ram True 0x0000 0x8000 \<lparr>REGIONS = [], devices = dev\<rparr>)"
  shows "mem_wf m" and "view m a = (if unat a < 0x8000 then Ram 0 else Unmapped)"
    and "length (REGIONS m) = 1" and "devices m = dev"
proof -
  have can: "can_add 0x0000 0x8000 \<lparr>REGIONS = [], devices = dev\<rparr>" by (simp add: can_add_def)
  show "mem_wf m"
    unfolding m_def add_ram_eq [OF mem_wf_no_regions]
    by (simp add: can append_region(1) [OF mem_wf_no_regions can, simplified])
  show "view m a = (if unat a < 0x8000 then Ram 0 else Unmapped)"
    unfolding m_def add_ram_eq [OF mem_wf_no_regions]
    by (simp add: can append_region(2) [OF mem_wf_no_regions can, simplified])
  show "length (REGIONS m) = 1" and "devices m = dev"
    unfolding m_def add_ram_eq [OF mem_wf_no_regions] by (simp_all add: can)
qed

lemma default_memory_facts:
  shows "mem_wf (default_memory dev)"
    and "view (default_memory dev) a = (if unat a < 0x8000 then Ram 0 else Rom 0)"
    and "devices (default_memory dev) = dev"
proof -
  let ?m = "snd (mem_region_add_ram True 0x0000 0x8000 \<lparr>REGIONS = [], devices = dev\<rparr>)"
  note m = default_ram [of dev]
  have can: "can_add 0x8000 0x8000 ?m" using m by (simp add: can_add_def)
  have eq: "default_memory dev = snd (mem_region_add_rom True 0x8000 0x8000 ?m)"
    by (simp add: default_memory_def mem_region_clear_def)
  show "mem_wf (default_memory dev)"
    unfolding eq add_rom_eq [OF m(1)]
    by (simp add: can append_region(1) [OF m(1) can])
  show "view (default_memory dev) a = (if unat a < 0x8000 then Ram 0 else Rom 0)"
    unfolding eq add_rom_eq [OF m(1)] using unat_word16_less [of a] m(2) [of a]
    by (simp add: can append_region(2) [OF m(1) can])
  show "devices (default_memory dev) = dev"
    unfolding eq add_rom_eq [OF m(1)] using m(4) by (simp add: can)
qed

end
