(* ===== verification/Returns.thy ===== *)
theory Returns
  imports Cpu_Spec
begin

text \<open>
  Subroutines and interrupts return: over any bus that satisfies the memory contract, RTS
  undoes JSR and RTI undoes the entry of an interrupt, registers and stack pointer included.
\<close>

lemma pushed_bits:
  "bit FLAG_B n = (n = 4)" "bit FLAG_U n = (n = 5)"
proof -
  have e: "FLAG_B = 2 ^ 4" "FLAG_U = 2 ^ 5" by (simp_all add: FLAG_B_def FLAG_U_def)
  show "bit FLAG_B n = (n = 4)" unfolding e by (simp only: bit_exp_iff) auto
  show "bit FLAG_U n = (n = 5)" unfolding e by (simp only: bit_exp_iff) auto
qed

context memory_bus
begin

lemma stack_ok_world:
  "BUS m' = BUS m \<Longrightarrow> bus_world m' = bus_world m \<Longrightarrow> stack_ok m' = stack_ok m"
  by (simp add: stack_ready_def wired_def)

lemma RTS_JSR:
  assumes "stack_ok m"
  shows "RTS (JSR m) = set_S (S_of m) (set_PC (PC_of m) (push16 (PC_of m - 1) m))"
proof -
  have sok: "stack_ok (push16 (PC_of m - 1) m)" by (rule stack_ok_push16 [OF assms])
  have "pop16 (set_PC (EA (push16 (PC_of m - 1) m)) (push16 (PC_of m - 1) m)) =
      (PC_of m - 1, set_S (S_of m)
        (set_PC (EA (push16 (PC_of m - 1) m)) (push16 (PC_of m - 1) m)))"
    using sok by (simp add: pop16_eq peek_push16 stack_addr_plain assms)
  then show ?thesis
    by (simp add: RTS_def JSR_def Let_def)
qed

lemma RTI_entry:
  assumes q: "quiet rd wr inv plain m" and s: "stack_ok m"
  shows "REG (RTI (interrupt_entry t m)) =
      (REG m)\<lparr>rPC := entry_return t (PC_of m), rP := P_of m AND NOT (FLAG_B OR FLAG_U)\<rparr>"
proof -
  let ?p = "entry_pushed_P t (P_of m)" and ?r = "entry_return t (PC_of m)"
  let ?n = "push8 ?p (push16 ?r m)" and ?m = "interrupt_entry t m"
  have world: "BUS ?m = BUS ?n" "bus_world ?m = bus_world ?n" "S_of ?m = S_of m - 3"
    using interrupt_entry_quiet [OF q s, of t] by simp_all
  have sok: "stack_ok ?m"
    using stack_ok_world [OF world(1,2)] by (simp add: stack_ok_push8 stack_ok_push16 s)
  have peek: "peek a ?m = peek a ?n" for a by (simp add: peek_eq world)
  have pl: "stack_addr x \<in> plain (bus_world m)" for x by (rule stack_addr_plain [OF s])
  have slots: "peek (stack_addr (S_of m - 2)) ?m = ?p"
    "peek (stack_addr (S_of m - 1)) ?m = lo_byte ?r" "peek (stack_addr (S_of m)) ?m = hi_byte ?r"
    unfolding peek by (simp_all add: peek_push8 peek_push16 stack_ok_push16 s plain_push16 pl)
  have "?p AND NOT (FLAG_B OR FLAG_U) = P_of m AND NOT (FLAG_B OR FLAG_U)"
    by (rule byte_eqI) (auto simp: bit_and_iff bit_not_iff bit_or_iff entry_pushed_P_def bit_put_bit pushed_bits)
  moreover obtain pc where "REG ?m =
      \<lparr>rPC = pc, rA = A_of m, rP = entry_P (CPU_VARIANT_MODE m) (P_of m), rS = S_of m - 3,
       rX = X_of m, rY = Y_of m\<rparr>"
    using REG_interrupt_entry by blast
  ultimately show ?thesis
    using slots sok by (cases "REG m") (simp add: RTI_def pop8_eq pop16_eq Let_def)
qed

end

end
