(* ===== verification/Memory_Bus.thy ===== *)
theory Memory_Bus
  imports Memory_Spec Returns
begin

text \<open>
  The region table as the provider of the bus contracts: its callbacks behave like memory at
  every address that is not behind an I/O handler, and keep ROM and the memory map.
\<close>

definition plain_of :: "'d memory \<Rightarrow> MEM_TWO_WORDS set" where
  "plain_of m = {a. \<forall>i. view m a \<noteq> Io i}"

definition ram_of :: "'d memory \<Rightarrow> MEM_TWO_WORDS set" where
  "ram_of m = {a. \<exists>v. view m a = Ram v}"

definition rom_of :: "'d memory \<Rightarrow> MEM_TWO_WORDS \<Rightarrow> MEM_WORD option" where
  "rom_of m a = (case view m a of Rom v \<Rightarrow> Some v | _ \<Rightarrow> None)"

interpretation region_mem: memory_bus
  "region_bus_read :: MEM_TWO_WORDS \<Rightarrow> pointer \<Rightarrow> 'd memory \<Rightarrow> MEM_WORD \<times> 'd memory"
  region_bus_write mem_wf plain_of ram_of
proof unfold_locales
  fix w :: "'d memory" and a b c d
  assume wf: "mem_wf w"
  show "mem_wf (snd (region_bus_read a c w))" using wf by (rule mem_wf_region_bus_read)
  show "mem_wf (region_bus_write a d c w)" using wf by (rule mem_wf_region_bus_write)
  show "ram_of w \<subseteq> plain_of w" by (auto simp: ram_of_def plain_of_def)
  show "plain_of (region_bus_write a d c w) = plain_of w"
    using wf by (auto simp: plain_of_def view_region_bus_write split: cell.split)
  show "ram_of (region_bus_write a d c w) = ram_of w"
    using wf by (auto simp: ram_of_def view_region_bus_write split: cell.splits)
  show "snd (region_bus_read a c w) = w" if "a \<in> plain_of w"
    using wf that by (auto simp: region_bus_read_view plain_of_def split: cell.splits)
  show "fst (region_bus_read b c (region_bus_write a d c w)) =
      (if b = a then d else fst (region_bus_read b c w))"
    if "a \<in> ram_of w" and "b \<in> plain_of w"
    using wf that
    by (auto simp: region_bus_read_view mem_wf_region_bus_write view_region_bus_write
        ram_of_def plain_of_def split: cell.splits)
qed

text \<open>The contents of ROM are an invariant of every bus access, for any contents.\<close>

lemma rom_of_region_bus_write: "mem_wf m \<Longrightarrow> rom_of (region_bus_write a d c m) = rom_of m"
  by (cases "view m a"; rule ext) (auto simp: rom_of_def view_region_bus_write)

lemma rom_of_region_bus_read: "mem_wf m \<Longrightarrow> rom_of (snd (region_bus_read a c m)) = rom_of m"
  by (rule ext) (simp add: rom_of_def view_region_bus_read)

interpretation region_rom: bus_invariant
  "region_bus_read :: MEM_TWO_WORDS \<Rightarrow> pointer \<Rightarrow> 'd memory \<Rightarrow> MEM_WORD \<times> 'd memory"
  region_bus_write "\<lambda>w. mem_wf w \<and> rom_of w = R" for R
  by unfold_locales
    (auto simp: mem_wf_region_bus_read mem_wf_region_bus_write rom_of_region_bus_write
      rom_of_region_bus_read)

text \<open>Which addresses are RAM never changes either.\<close>

lemma ram_of_region_bus_read: "mem_wf m \<Longrightarrow> ram_of (snd (region_bus_read a c m)) = ram_of m"
  by (simp add: ram_of_def view_region_bus_read)

interpretation region_layout: bus_invariant
  "region_bus_read :: MEM_TWO_WORDS \<Rightarrow> pointer \<Rightarrow> 'd memory \<Rightarrow> MEM_WORD \<times> 'd memory"
  region_bus_write "\<lambda>w. mem_wf w \<and> ram_of w = R" for R
  by unfold_locales
    (auto simp: mem_wf_region_bus_read mem_wf_region_bus_write ram_of_region_bus_read
      region_mem.ram_wr)

text \<open>Nor which addresses are behind an I/O handler.\<close>

lemma plain_of_region_bus_read: "mem_wf m \<Longrightarrow> plain_of (snd (region_bus_read a c m)) = plain_of m"
  by (simp add: plain_of_def view_region_bus_read)

interpretation region_plain: bus_invariant
  "region_bus_read :: MEM_TWO_WORDS \<Rightarrow> pointer \<Rightarrow> 'd memory \<Rightarrow> MEM_WORD \<times> 'd memory"
  region_bus_write "\<lambda>w. mem_wf w \<and> plain_of w = R" for R
  by unfold_locales
    (auto simp: mem_wf_region_bus_read mem_wf_region_bus_write plain_of_region_bus_read
      region_mem.plain_wr)

end
