(* ===== verification/Emulator.thy ===== *)
theory Emulator
  imports Trace_Spec Memory_Bus
begin

text \<open>
  The emulator assembled as main.c assembles it: the CPU of src/cpu.c on the region memory of
  src/memory.c. The state in which the program starts, the conditions under which the facts
  about CPU and memory combine, and the facts of the assembled machine.
\<close>

subsection \<open>The state before main\<close>

text \<open>All globals of the program have static storage and start as zero; no region is mapped.\<close>

definition power_on :: "'d \<Rightarrow> 'd memory machine" where
  "power_on dev =
     \<lparr>REG = \<lparr>rPC = 0, rA = 0, rP = 0, rS = 0, rX = 0, rY = 0\<rparr>,
      BUS = \<lparr>READ = None, WRITE = None, BUS_CTX = 0\<rparr>,
      CYCLES = 0, OPCODE = 0, REL_OFFSET = 0, CPU_VARIANT_MODE = CPU_VARIANT_NMOS_6502,
      CPU_WAITING = 0, CPU_STOPPED = 0, EA = 0, HAS_EA = 0, PAGE_CROSS = 0,
      BRANCH_TAKEN = 0, BRANCH_PAGE_CROSS = 0,
      ic = \<lparr>irq_line = 0, irq_line_prev = 0, nmi_line = 0, nmi_line_prev = 0, nmi_pending = 0,
        interrupt_in_progress = 0, current_interrupt = INT_NONE, interrupt_cycle = 0,
        history = replicate 32 zero_event, history_count = 0, history_index = 0,
        total_irqs = 0, total_nmis = 0, total_brks = 0\<rparr>,
      global_cycle_count = 0, trace_enabled = 0, out = [],
      bus_world = \<lparr>REGIONS = [], devices = dev\<rparr>\<rparr>"

text \<open>\<open>cpu_init\<close>, which main.c does not call, would change nothing.\<close>

lemma cpu_init_power_on: "cpu_init (power_on dev) = power_on dev"
  by (simp add: cpu_init_def interrupt_init_def power_on_def)

subsection \<open>The conditions\<close>

text \<open>The CPU is wired to the region table, and the table is well-formed.\<close>

definition on_regions :: "'d memory machine \<Rightarrow> bool" where
  "on_regions m = (wired region_bus_read region_bus_write m \<and> mem_wf (bus_world m))"

text \<open>No address is behind an I/O handler.\<close>

definition no_io :: "'d memory machine \<Rightarrow> bool" where
  "no_io m = (on_regions m \<and> (\<forall>a i. view (bus_world m) a \<noteq> Io i))"

text \<open>The stack page is RAM.\<close>

definition stack_mapped :: "'d memory machine \<Rightarrow> bool" where
  "stack_mapped m = (on_regions m \<and> (\<forall>s. \<exists>v. view (bus_world m) (stack_addr s) = Ram v))"

lemma no_io_quiet:
  "no_io m \<Longrightarrow> quiet region_bus_read region_bus_write mem_wf plain_of m"
  by (auto simp: no_io_def on_regions_def quiet_def plain_of_def)

lemma stack_mapped_ready:
  "stack_mapped m \<Longrightarrow> stack_ready region_bus_read region_bus_write mem_wf ram_of m"
  by (auto simp: stack_mapped_def on_regions_def stack_ready_def stack_in_def ram_of_def)

lemma on_regions_touches: "touches m m' \<Longrightarrow> on_regions m \<Longrightarrow> on_regions m'"
  by (simp add: on_regions_def wired_touches region_mem.touches_inv)

lemma on_regions_steps: "on_regions m \<Longrightarrow> on_regions ((cpu_step ^^ n) m)"
  by (rule on_regions_touches [OF touches_steps])

text \<open>Bytes the CPU sees are the cells of the abstract memory; open bus reads as $FF.\<close>

fun cell_byte :: "cell \<Rightarrow> MEM_WORD" where
  "cell_byte Unmapped = 0xFF"
| "cell_byte (Ram v) = v"
| "cell_byte (Rom v) = v"
| "cell_byte (Io i) = 0xFF"

lemma peek_cell:
  assumes "on_regions m" and "\<And>i. view (bus_world m) a \<noteq> Io i"
  shows "peek a m = cell_byte (view (bus_world m) a)"
  using assms
  by (auto simp: peek_eq bus_rd_def on_regions_def wired_def region_bus_read_view
      split: cell.split)

text \<open>Without I/O, fetching an opcode changes registers and counters only.\<close>

lemma fetched_no_io:
  assumes "no_io m"
  shows "bus_world (fetched m) = bus_world m" and "no_io (fetched m)"
    and "peek a (fetched m) = peek a m"
proof -
  show w: "bus_world (fetched m) = bus_world m"
    using region_mem.quiet_bus_rd [OF no_io_quiet [OF assms]] by simp
  show "no_io (fetched m)"
    using assms unfolding no_io_def on_regions_def wired_def w by simp
  show "peek a (fetched m) = peek a m" unfolding peek_eq w by simp
qed

lemma decoded_EA_no_io:
  assumes "no_io m"
  shows "EA (decoded m) =
    mode_address (CPU_VARIANT_MODE m) (\<lambda>a. peek a m) (rPC_update (\<lambda>_. PC_of m + 1) (REG m)) (next_mode m)"
  using region_mem.addr_resolve_quiet(1) [OF no_io_quiet [OF fetched_no_io(2) [OF assms]]]
  by (simp add: fetched_no_io [OF assms])

subsection \<open>What execution cannot change\<close>

lemma steps_keep_memory_map:
  assumes "on_regions m"
  shows "mem_wf (bus_world ((cpu_step ^^ n) m))"
    and "rom_of (bus_world ((cpu_step ^^ n) m)) = rom_of (bus_world m)"
    and "ram_of (bus_world ((cpu_step ^^ n) m)) = ram_of (bus_world m)"
  using assms region_rom.touches_inv [OF touches_steps, of m "rom_of (bus_world m)" n]
    region_layout.touches_inv [OF touches_steps, of m "ram_of (bus_world m)" n]
  by (simp_all add: on_regions_def)

lemma no_io_plain: "no_io m \<longleftrightarrow> on_regions m \<and> plain_of (bus_world m) = UNIV"
  by (auto simp: no_io_def plain_of_def)

lemma no_io_steps: "no_io m \<Longrightarrow> no_io ((cpu_step ^^ n) m)"
  using region_plain.touches_inv [OF touches_steps, of m UNIV n] on_regions_steps [of m n]
  by (simp add: no_io_plain on_regions_def)

lemma no_io_step: "no_io m \<Longrightarrow> no_io (cpu_step m)"
  using no_io_steps [of m 1] by simp

subsection \<open>A machine to evaluate on\<close>

text \<open>
  The default memory map of main.c, with the given registers and variant.
\<close>

definition machine_at :: "CPU_VARIANT \<Rightarrow> T_REGISTER \<Rightarrow> unit memory machine" where
  "machine_at v r = mem_region_init
     ((power_on ())\<lparr>bus_world := default_memory (), REG := r, CPU_VARIANT_MODE := v\<rparr>)"

lemma machine_at_fields [simp]:
  "REG (machine_at v r) = r" "CPU_VARIANT_MODE (machine_at v r) = v"
  "bus_world (machine_at v r) = default_memory ()"
  "CPU_STOPPED (machine_at v r) = 0" "CPU_WAITING (machine_at v r) = 0"
  "CYCLES (machine_at v r) = 0" "ic (machine_at v r) = ic (power_on ())"
  "HAS_EA (machine_at v r) = 0" "EA (machine_at v r) = 0"
  by (simp_all add: machine_at_def mem_region_init_def power_on_def)

lemma machine_at_wired [simp]: "wired region_bus_read region_bus_write (machine_at v r)"
  by (simp add: machine_at_def mem_region_init_def wired_def)

lemma wired_update [simp]:
  "wired rd wr (m\<lparr>HAS_EA := i\<rparr>) = wired rd wr m" "wired rd wr (m\<lparr>EA := a\<rparr>) = wired rd wr m"
  "wired rd wr (m\<lparr>ic := c\<rparr>) = wired rd wr m"
  "wired rd wr (m\<lparr>CPU_STOPPED := i\<rparr>) = wired rd wr m"
  by (simp_all add: wired_def)

lemma machine_at_regions [simp]:
  "on_regions (machine_at v r)" "no_io (machine_at v r)" "stack_mapped (machine_at v r)"
proof -
  show on: "on_regions (machine_at v r)"
    by (simp add: on_regions_def default_memory_facts)
  then show "no_io (machine_at v r)"
    by (simp add: no_io_def default_memory_facts)
  have "unat (stack_addr s) < 0x8000" for s
    using unat_byte_less [of s] by (simp add: unat_stack_addr)
  then show "stack_mapped (machine_at v r)"
    using on by (simp add: stack_mapped_def default_memory_facts)
qed

lemma ic_idle_power_on [simp]: "ic_wf (ic (power_on dev))"
  "interrupt_in_progress (ic (power_on dev)) = 0" "nmi_pending (ic (power_on dev)) = 0"
  "irq_line (ic (power_on dev)) = 0"
  by (simp_all add: power_on_def ic_wf_def)

lemma machine_at_idle [simp]: "ic_idle (machine_at v r)"
  by (simp add: ic_idle_def)

lemma machine_at_executes [simp]: "executes (machine_at v r)"
  by (simp add: executes_def pending_eq)

text \<open>The default map holds zeros: opcode $00, BRK, everywhere.\<close>

lemma machine_at_peek [simp]: "peek a (machine_at v r) = 0"
  using peek_cell [of "machine_at v r" a] by (simp add: default_memory_facts)

text \<open>The same machine with a program loaded where PC points.\<close>

definition machine_with :: "CPU_VARIANT \<Rightarrow> T_REGISTER \<Rightarrow> MEM_WORD list \<Rightarrow> unit memory machine" where
  "machine_with v r code =
     (machine_at v r)\<lparr>bus_world := snd (mem_region_load (rPC r) code (default_memory ()))\<rparr>"

lemma machine_with_fields [simp]:
  "REG (machine_with v r code) = r" "CPU_VARIANT_MODE (machine_with v r code) = v"
  "CPU_STOPPED (machine_with v r code) = 0" "CPU_WAITING (machine_with v r code) = 0"
  "CYCLES (machine_with v r code) = 0" "ic (machine_with v r code) = ic (power_on ())"
  by (simp_all add: machine_with_def)

lemma machine_with_wired [simp]:
  "wired region_bus_read region_bus_write (machine_with v r code)"
  using machine_at_wired [of v r] by (simp add: machine_with_def wired_def)

lemma default_has_data: "has_data (view (default_memory dev) a)"
  by (simp add: default_memory_facts)

lemma machine_with_view:
  assumes "length code \<le> 0x100"
  shows "mem_wf (bus_world (machine_with v r code))"
    and "view (bus_world (machine_with v r code)) a =
      (if unat (a - rPC r) < length code
       then set_cell (code ! unat (a - rPC r)) (view (default_memory ()) a)
       else view (default_memory ()) a)"
proof -
  note load = load_refines [OF default_memory_facts(1), of "rPC r" code "()"]
  note cells = load_cells_all [of code "view (default_memory ())" "rPC r"]
  show "mem_wf (bus_world (machine_with v r code))"
    using load by (simp add: machine_with_def)
  show "view (bus_world (machine_with v r code)) a =
      (if unat (a - rPC r) < length code
       then set_cell (code ! unat (a - rPC r)) (view (default_memory ()) a)
       else view (default_memory ()) a)"
    using load cells assms by (simp add: machine_with_def default_has_data)
qed

lemma machine_with_regions [simp]:
  assumes "length code \<le> 0x100"
  shows "on_regions (machine_with v r code)" and "no_io (machine_with v r code)"
    and "peek a (machine_with v r code) =
      (if unat (a - rPC r) < length code then code ! unat (a - rPC r) else 0)"
proof -
  show on: "on_regions (machine_with v r code)"
    by (simp add: on_regions_def machine_with_view assms)
  show "no_io (machine_with v r code)"
    using on by (simp add: no_io_def machine_with_view assms default_memory_facts)
  then show "peek a (machine_with v r code) =
      (if unat (a - rPC r) < length code then code ! unat (a - rPC r) else 0)"
    using peek_cell [OF on, of a]
    by (simp add: no_io_def machine_with_view assms default_memory_facts)
qed

lemma machine_with_idle [simp]:
  "ic_idle (machine_with v r code)" "executes (machine_with v r code)"
  by (simp_all add: ic_idle_def executes_def pending_eq)

end
