(* ===== verification/Instr_Properties.thy ===== *)
theory Instr_Properties
  imports Emulator
begin

text \<open>
  The properties of decoding, operand fetch and the instructions, stated for the machine of
  theory Emulator or for any bus.
\<close>

lemmas start_defs = machine_at_def power_on_def mem_region_init_def

abbreviation regs :: "MEM_TWO_WORDS \<Rightarrow> MEM_WORD \<Rightarrow> MEM_WORD \<Rightarrow> MEM_WORD \<Rightarrow> T_REGISTER" where
  "regs pc a p x \<equiv> \<lparr>rPC = pc, rA = a, rP = p, rS = 0xFD, rX = x, rY = 0\<rparr>"

lemma machine_at_operand:
  "operand (machine_at v r) = (0, machine_at v r)"
  "operand ((machine_at v r)\<lparr>EA := e\<rparr>) = (ucast e, (machine_at v r)\<lparr>EA := e\<rparr>)"
  by (simp_all add: operand_def)

subsection \<open>Operands\<close>

text \<open>
  C3. Effective addresses: on the region memory with no I/O handler mapped, every addressing
  mode computes the address the reference definition gives for the bytes in memory (zero-page
  pointers wrap in page zero, an NMOS indirect jump fetches inside the pointer's page), reports
  a page crossing exactly when an indexed address leaves its base's page, advances PC by the
  operand bytes of the mode and leaves memory alone.
\<close>

theorem addressing_matches_reference:
  fixes m :: "'d memory machine" and mode
  assumes "no_io m"
  defines "mem \<equiv> \<lambda>a. cell_byte (view (bus_world m) a)"
    and "m' \<equiv> snd (addr_resolve mode m)"
  shows "fst (addr_resolve mode m) = mode_address (CPU_VARIANT_MODE m) mem (REG m) mode \<and>
    PAGE_CROSS m' = of_bool (mode_indexed mode \<and>
      hi_byte (mode_base mem (REG m) mode) \<noteq> hi_byte (fst (addr_resolve mode m))) \<and>
    REG m' = rPC_update (\<lambda>pc. pc + of_nat (operand_length mode)) (REG m) \<and>
    bus_world m' = bus_world m"
proof -
  have mem: "mem = (\<lambda>a. peek a m)"
    using assms(1) by (auto simp: mem_def no_io_def peek_cell)
  note ref = region_mem.addr_resolve_quiet [OF no_io_quiet [OF assms(1)], folded mem]
  have "\<not> mode_indexed mode \<Longrightarrow> PAGE_CROSS m' = 0"
    using addr_resolve_PAGE_CROSS [of mode m] by (auto simp: m'_def)
  then show ?thesis
    using ref by (cases "mode_indexed mode") (simp_all add: m'_def addr_resolve_REG)
qed

theorem addressing_matches_reference_witness:
  "fst (addr_resolve ADDR_ABSX (machine_at CPU_VARIANT_NMOS_6502 (regs 0x200 0 0 7))) = 7"
  using addressing_matches_reference
    [of "machine_at CPU_VARIANT_NMOS_6502 (regs 0x200 0 0 7)" ADDR_ABSX]
  by (simp add: default_memory_facts mode_address.simps word_of_bytes_def)

text \<open>
  C11. The decode tables agree: for either variant and any opcode, the addressing mode the
  opcode is decoded with is one its handler can execute (relative for branches, an effective
  address for memory instructions, accumulator or address for shifts), and its base cycle
  count is between 2 and 8, or 0 for a KIL that halts the machine.
\<close>

theorem decode_tables_agree:
  "fits (mode_of v op) (kind_of (handler_of v op)) \<and>
   (unat (cycles_of v op) \<in> {2..8} \<or> cycles_of v op = 0 \<and> handler_of v op = F_op_kil)"
  using decode_fits cycles_range by simp

subsection \<open>Arithmetic\<close>

text \<open>
  C5. Binary ADC and SBC: with D clear, A becomes the operand added to (subtracted from) it
  with the carry (the inverted carry as borrow), C tells whether the unsigned result fits (or
  no borrow was needed), V whether the signed result leaves -128..127, N and Z describe the
  result, and no other flag or register changes.
\<close>

theorem binary_arithmetic:
  assumes "\<not> bit (P_of m) 3"
  defines "a \<equiv> A_of m" and "c \<equiv> bit (P_of m) 0" and "v \<equiv> fst (operand m)"
  shows "ADC m = set_A (a + v + of_bool c)
      (set_P (arith_P (add_carry a v c) (add_overflow a v c) (a + v + of_bool c) (P_of m))
        (snd (operand m))) \<and>
    SBC m = set_A (a - v - of_bool (\<not> c))
      (set_P (arith_P (unat v + of_bool (\<not> c) \<le> unat a) (sub_overflow a v c)
                (a - v - of_bool (\<not> c)) (P_of m)) (snd (operand m)))"
  using assms(1) adc_core_binary [of "snd (operand m)" v] sbc_core_binary [of "snd (operand m)" v]
  by (simp add: ADC_def SBC_def case_prod_beta a_def c_def v_def)

theorem binary_arithmetic_witness:
  "A_of (ADC (machine_at CPU_VARIANT_NMOS_6502 (regs 0 0x7F 0x01 0))) = 0x80 \<and>
   bit (P_of (ADC (machine_at CPU_VARIANT_NMOS_6502 (regs 0 0x7F 0x01 0)))) 6"
  using binary_arithmetic [of "machine_at CPU_VARIANT_NMOS_6502 (regs 0 0x7F 0x01 0)"]
  by (simp add: machine_at_operand arith_P_bits add_overflow_def signed_range_def)

text \<open>
  C4. Decimal ADC and SBC: with D set and both operands valid packed decimals, A becomes the
  packed decimal sum or difference modulo 100 and C the decimal carry (no borrow); V follows
  the binary operation; N and Z describe the decimal result on the 65C02 and the binary one
  on the NMOS part.
\<close>

theorem decimal_arithmetic:
  assumes "bit (P_of m) 3" and "bcd_ok (A_of m)" and "bcd_ok (fst (operand m))"
  defines "a \<equiv> A_of m" and "c \<equiv> bit (P_of m) 0" and "v \<equiv> fst (operand m)"
  defines "s \<equiv> bcd a + bcd v + of_bool c" and "d \<equiv> int (bcd a) - int (bcd v) - of_bool (\<not> c)"
  shows "ADC m = set_A (to_bcd (s mod 100))
      (set_P (arith_P (100 \<le> s) (add_overflow a v c)
                (decimal_zn_source (CPU_VARIANT_MODE m) (to_bcd (s mod 100)) (a + v + of_bool c))
                (P_of m)) (snd (operand m))) \<and>
    SBC m = set_A (to_bcd (nat (d mod 100)))
      (set_P (arith_P (0 \<le> d) (sub_overflow a v c)
                (decimal_zn_source (CPU_VARIANT_MODE m) (to_bcd (nat (d mod 100)))
                  (a - v - of_bool (\<not> c))) (P_of m)) (snd (operand m)))"
  using adc_core_decimal [of "snd (operand m)" v] sbc_core_decimal [of "snd (operand m)" v]
    assms(1-3)
  by (simp add: ADC_def SBC_def case_prod_beta a_def c_def v_def s_def d_def)

theorem decimal_arithmetic_witness:
  "A_of (ADC (machine_at CPU_VARIANT_CMOS_65C02 (regs 0 0x99 0x09 0))) = 0x00 \<and>
   bit (P_of (ADC (machine_at CPU_VARIANT_CMOS_65C02 (regs 0 0x99 0x09 0)))) 0"
  using decimal_arithmetic [of "machine_at CPU_VARIANT_CMOS_65C02 (regs 0 0x99 0x09 0)"]
  by (simp add: machine_at_operand arith_P_bits bcd_ok_def bcd_def to_bcd_def)

text \<open>
  C23. CMP, CPX and CPY set N, Z and C from the register and the operand as the comparison
  needs them (C is "register is not below", Z is "equal", N is bit 7 of the difference), and
  change nothing else; after CMP these flags are the ones a binary SBC without borrow leaves.
\<close>

theorem compare_flags:
  "CMP m = set_P (cmp_P (A_of m) (fst (operand m)) (P_of m)) (snd (operand m)) \<and>
   CPX m = set_P (cmp_P (X_of m) (fst (operand m)) (P_of m)) (snd (operand m)) \<and>
   CPY m = set_P (cmp_P (Y_of m) (fst (operand m)) (P_of m)) (snd (operand m)) \<and>
   (\<not> bit (P_of m) 3 \<and> bit (P_of m) 0 \<longrightarrow>
      P_of (CMP m) = put_bit 0x40 (bit (P_of m) 6) (P_of (SBC m)))"
proof -
  have "P_of (CMP m) = put_bit 0x40 (bit (P_of m) 6) (P_of (SBC m))"
    if "\<not> bit (P_of m) 3" and "bit (P_of m) 0"
    using that compare_is_subtraction [of "snd (operand m)" "fst (operand m)"]
    by (simp add: compare_eq SBC_def case_prod_beta)
  then show ?thesis by (simp add: compare_eq)
qed

theorem compare_flags_witness:
  "put_bit 0x40 False (P_of (SBC (machine_at CPU_VARIANT_NMOS_6502 (regs 0 0x42 0x01 0)))) =
     cmp_P 0x42 0 0x01"
proof -
  let ?m = "machine_at CPU_VARIANT_NMOS_6502 (regs 0 0x42 0x01 0)"
  have "put_bit 0x40 False (P_of (SBC ?m)) = P_of (CMP ?m)"
    using compare_flags [of ?m, THEN conjunct2, THEN conjunct2, THEN conjunct2, THEN mp] by simp
  also have "\<dots> = cmp_P 0x42 0 0x01"
    by (simp add: compare_eq machine_at_operand)
  finally show ?thesis .
qed

subsection \<open>Shifts, rotates and the undocumented compositions\<close>

text \<open>
  C24. Shifts and rotates of the accumulator are arithmetic on the nine-bit number made of
  carry and byte: ASL and ROL double it, LSR and ROR halve it, the carry (or 0) entering at
  the free end, and Z and N describe the byte.
\<close>

theorem shifts_are_nine_bit_arithmetic:
  assumes "HAS_EA m = 0"
  defines "a \<equiv> unat (A_of m)" and "c \<equiv> of_bool (bit (P_of m) 0) :: nat"
  shows "256 * of_bool (bit (P_of (ASL m)) 0) + unat (A_of (ASL m)) = 2 * a \<and>
    256 * of_bool (bit (P_of (ROL m)) 0) + unat (A_of (ROL m)) = 2 * a + c \<and>
    2 * unat (A_of (LSR m)) + of_bool (bit (P_of (LSR m)) 0) = a \<and>
    2 * unat (A_of (ROR m)) + of_bool (bit (P_of (ROR m)) 0) = 256 * c + a \<and>
    bit (P_of (shift_instr f m)) 1 = (A_of (shift_instr f m) = 0) \<and>
    bit (P_of (shift_instr f m)) 7 = bit (A_of (shift_instr f m)) 7"
proof -
  have acc: "A_of (shift_instr g m) = shift_result g (bit (P_of m) 0) (A_of m)"
    "P_of (shift_instr g m) =
      shift_P (shift_out g (A_of m)) (shift_result g (bit (P_of m) 0) (A_of m)) (P_of m)" for g
    by (simp_all add: shift_accumulator assms(1))
  note num = shift_numeric [where v = "A_of m" and c = "bit (P_of m) 0"]
  show ?thesis
    using num acc [of S_ASL] acc [of S_ROL] acc [of S_LSR] acc [of S_ROR]
    by (simp del: shift_result.simps shift_out.simps add: acc shift_P_bits a_def c_def)
qed

theorem shifts_are_nine_bit_arithmetic_witness:
  "2 * unat (A_of (ROR (machine_at CPU_VARIANT_NMOS_6502 (regs 0 0x81 0x01 0)))) +
     of_bool (bit (P_of (ROR (machine_at CPU_VARIANT_NMOS_6502 (regs 0 0x81 0x01 0)))) 0) = 385"
  using shifts_are_nine_bit_arithmetic
    [of "machine_at CPU_VARIANT_NMOS_6502 (regs 0 0x81 0x01 0)" S_ROR]
  by simp

text \<open>
  Rotating the accumulator left and then right, or right and then left, restores both the
  accumulator and the carry.
\<close>

theorem rotate_round_trip:
  assumes "HAS_EA m = 0"
  shows "A_of (ROR (ROL m)) = A_of m \<and> bit (P_of (ROR (ROL m))) 0 = bit (P_of m) 0 \<and>
    A_of (ROL (ROR m)) = A_of m \<and> bit (P_of (ROL (ROR m))) 0 = bit (P_of m) 0"
proof -
  have acc: "A_of (shift_instr g n) = shift_result g (bit (P_of n) 0) (A_of n) \<and>
      bit (P_of (shift_instr g n)) 0 = shift_out g (A_of n) \<and> HAS_EA (shift_instr g n) = 0"
    if "HAS_EA n = 0" for g and n :: "'a machine"
    using that by (simp add: shift_accumulator shift_P_bits)
  note one = acc [OF assms]
  note left = acc [OF one [THEN conjunct2, THEN conjunct2, of S_ROL], of S_ROR]
    and right = acc [OF one [THEN conjunct2, THEN conjunct2, of S_ROR], of S_ROL]
  show ?thesis
    using one [of S_ROL] one [of S_ROR] left right rotate_back [where v = "A_of m" and c = "bit (P_of m) 0"]
    by (simp del: shift_result.simps shift_out.simps)
qed

theorem rotate_round_trip_witness:
  "A_of (ROR (ROL (machine_at CPU_VARIANT_NMOS_6502 (regs 0 0x81 0x00 0)))) = 0x81"
  using rotate_round_trip [of "machine_at CPU_VARIANT_NMOS_6502 (regs 0 0x81 0x00 0)"]
  by simp

text \<open>
  C6. On a RAM operand each undocumented read-modify-write instruction does what the two
  documented instructions it is named after do one after the other: SLO is ASL then ORA, RLA
  is ROL then AND, SRE is LSR then EOR, RRA is ROR then ADC, DCP is DEC then CMP, ISC is INC
  then SBC, in memory, registers and flags, in decimal mode too.
\<close>

theorem undocumented_are_compositions:
  assumes "on_regions m" and "HAS_EA m \<noteq> 0" and "view (bus_world m) (EA m) = Ram b"
  shows "undocumented_instr u m = documented_pair u m"
  using assms
  by (intro region_mem.undocumented_composition)
    (auto simp: ram_operand_def on_regions_def ram_of_def)

theorem undocumented_are_compositions_witness:
  "\<exists>m :: unit memory machine. HAS_EA m = 1 \<and> EA m = 0x10 \<and> A_of m = 0x0F \<and>
     undocumented_instr U_DCP m = CMP (DEC m)"
proof -
  let ?m = "(machine_at CPU_VARIANT_NMOS_6502 (regs 0 0x0F 0 0))\<lparr>HAS_EA := 1, EA := 0x10\<rparr>"
  have "undocumented_instr U_DCP ?m = documented_pair U_DCP ?m"
    by (rule undocumented_are_compositions [where b = 0])
      (simp_all add: on_regions_def default_memory_facts)
  then show ?thesis by (intro exI [of _ ?m]) simp
qed

end
