(* ===== verification/Memory_Properties.thy ===== *)
theory Memory_Properties
  imports Emulator
begin

text \<open>
  The properties of the region memory of src/memory.c, over the abstract memory of theory
  Memory_Spec: one cell per address.
\<close>

text \<open>
  C1. Execution cannot change ROM or the memory map: however many instructions and interrupts
  the CPU executes on a well-formed region table, whatever the program and the I/O handlers
  do, the table stays well-formed, every ROM byte keeps its value and the RAM addresses stay
  the same.
\<close>

theorem execution_keeps_rom:
  fixes m :: "'d memory machine" and n :: nat
  assumes "on_regions m"
  defines "w \<equiv> bus_world ((cpu_step ^^ n) m)"
  shows "mem_wf w \<and> rom_of w = rom_of (bus_world m) \<and> ram_of w = ram_of (bus_world m)"
  using steps_keep_memory_map [OF assms(1)] by (simp add: w_def)

theorem execution_keeps_rom_witness:
  "rom_of (bus_world ((cpu_step ^^ 4)
     (machine_at CPU_VARIANT_NMOS_6502 \<lparr>rPC = 0, rA = 0, rP = 0, rS = 0, rX = 0, rY = 0\<rparr>)))
     0x8000 = Some 0"
  using execution_keeps_rom
    [of "machine_at CPU_VARIANT_NMOS_6502 \<lparr>rPC = 0, rA = 0, rP = 0, rS = 0, rX = 0, rY = 0\<rparr>" 4]
  by (simp add: rom_of_def default_memory_facts)

text \<open>
  C12. The bus callbacks implement the abstract memory: on a well-formed table a read returns
  the byte of a RAM or ROM cell and $FF for open bus, and has no side effect there; a write
  replaces a RAM cell and changes no cell anywhere else, so writes to ROM and open bus are
  ignored; both keep the table well-formed.
\<close>

theorem bus_implements_cells:
  assumes "mem_wf m"
  shows "region_bus_read a c m =
      (case view m a of
         Unmapped \<Rightarrow> (0xFF, m)
       | Ram v \<Rightarrow> (v, m)
       | Rom v \<Rightarrow> (v, m)
       | Io i \<Rightarrow> (case READ_HANDLER (REGIONS m ! i) of
           Some h \<Rightarrow> (fst (h a (REGION_CTX (REGIONS m ! i)) (devices m)),
                      m\<lparr>devices := snd (h a (REGION_CTX (REGIONS m ! i)) (devices m))\<rparr>)
         | None \<Rightarrow> (0xFF, m))) \<and>
    view (snd (region_bus_read a c m)) = view m \<and>
    view (region_bus_write a d c m) =
      (case view m a of Ram v \<Rightarrow> (view m)(a := Ram d) | _ \<Rightarrow> view m) \<and>
    devices (region_bus_write a d c m) =
      (case view m a of
         Io i \<Rightarrow> (case WRITE_HANDLER (REGIONS m ! i) of
           Some h \<Rightarrow> h a d (REGION_CTX (REGIONS m ! i)) (devices m) | None \<Rightarrow> devices m)
       | _ \<Rightarrow> devices m) \<and>
    mem_wf (region_bus_write a d c m) \<and> mem_wf (snd (region_bus_read a c m))"
proof (intro conjI)
  show "devices (region_bus_write a d c m) =
      (case view m a of
         Io i \<Rightarrow> (case WRITE_HANDLER (REGIONS m ! i) of
           Some h \<Rightarrow> h a d (REGION_CTX (REGIONS m ! i)) (devices m) | None \<Rightarrow> devices m)
       | _ \<Rightarrow> devices m)"
    by (simp add: region_bus_write_devices [OF assms] put_data_REGIONS
        split: cell.split option.split)
qed (rule region_bus_read_view view_region_bus_read view_region_bus_write mem_wf_region_bus_write
    mem_wf_region_bus_read, rule assms)+

theorem bus_implements_cells_witness:
  "region_bus_read 0x9000 0 (default_memory ()) = (0, default_memory ())"
  using bus_implements_cells [where a = "0x9000" and c = 0 and m = "default_memory ()"]
  by (simp add: default_memory_facts)

text \<open>
  C13. Memory safety of the callbacks: in a well-formed table the region found for an address
  is the only one that covers it, and the offset the code indexes its data array with is
  inside the array.
\<close>

theorem data_accesses_in_bounds:
  assumes "mem_wf m" and "find_region a m = Some i"
  shows "i < length (REGIONS m) \<and> length (REGIONS m) \<le> 16 \<and> covers (REGIONS m ! i) a \<and>
    {j. j < length (REGIONS m) \<and> covers (REGIONS m ! j) a} = {i} \<and>
    (case DATA (REGIONS m ! i) of None \<Rightarrow> REGION_TYPE (REGIONS m ! i) = MEM_REGION_IO
     | Some xs \<Rightarrow> unat (a - START (REGIONS m ! i)) < length xs)"
proof -
  have i: "i < length (REGIONS m) \<and> covers (REGIONS m ! i) a"
    using assms(2) by (rule find_region_SomeD)
  moreover have "{j. j < length (REGIONS m) \<and> covers (REGIONS m ! j) a} = {i}"
    unfolding find_region_iff [OF assms(1), symmetric] assms(2) by auto
  moreover have "length (REGIONS m) \<le> 16"
    using assms(1) by (simp add: mem_wf_def MAX_MEM_REGIONS_def)
  moreover have "case DATA (REGIONS m ! i) of None \<Rightarrow> REGION_TYPE (REGIONS m ! i) = MEM_REGION_IO
     | Some xs \<Rightarrow> unat (a - START (REGIONS m ! i)) < length xs"
    using i region_data(3) [OF assms(1), of i] offset_in_data [OF assms]
    by (simp split: option.split)
  ultimately show ?thesis by blast
qed

lemma default_find: "find_region 0x0010 (default_memory ()) \<noteq> None"
  using view_Unmapped [OF default_memory_facts(1), of "()" "0x0010"]
  by (simp add: default_memory_facts)

theorem data_accesses_in_bounds_witness:
  "\<exists>i. find_region 0x0010 (default_memory ()) = Some i \<and> i < 16"
proof -
  obtain i where "find_region 0x0010 (default_memory ()) = Some i" using default_find by blast
  with data_accesses_in_bounds [OF default_memory_facts(1) this] show ?thesis by auto
qed

text \<open>
  C14. Adding a RAM, ROM or I/O region succeeds exactly when a slot is free, the range is not
  empty, ends inside the 64 KiB and meets no mapped address (and, for RAM and ROM, the
  allocation succeeds); it then maps exactly that range, zero-filled, in a well-formed table;
  otherwise it returns -1 and changes nothing.
\<close>

theorem add_region_outcome:
  fixes m :: "'d memory" and s n :: MEM_TWO_WORDS and ok and rdh wrh and ctx :: pointer
  assumes "mem_wf m"
  defines "ram \<equiv> mem_region_add_ram ok s n m" and "rom \<equiv> mem_region_add_rom ok s n m"
    and "io \<equiv> mem_region_add_io s n rdh wrh ctx m"
    and "put \<equiv> \<lambda>c a. if unat s \<le> unat a \<and> unat a < unat s + unat n then c else view m a"
  shows "fst ram = (if can_add s n m \<and> ok then 0 else - 1) \<and>
    fst rom = (if can_add s n m \<and> ok then 0 else - 1) \<and>
    fst io = (if can_add s n m then 0 else - 1) \<and>
    (if fst ram = 0 then mem_wf (snd ram) \<and> view (snd ram) = put (Ram 0) else snd ram = m) \<and>
    (if fst rom = 0 then mem_wf (snd rom) \<and> view (snd rom) = put (Rom 0) else snd rom = m) \<and>
    (if fst io = 0 then mem_wf (snd io) \<and> view (snd io) = put (Io (length (REGIONS m)))
     else snd io = m)"
  by (auto simp: ram_def rom_def io_def put_def add_ram_eq add_rom_eq add_io_eq append_region assms(1))

theorem add_region_outcome_witness:
  "fst (mem_region_add_ram True 0x7FFF 1 (default_memory ())) = - 1 \<and>
   fst (mem_region_add_rom True 0xFF00 0x200 \<lparr>REGIONS = [], devices = ()\<rparr>) = - 1 \<and>
   fst (mem_region_add_io 0xD000 0x10 None None 0 \<lparr>REGIONS = [], devices = ()\<rparr>) = 0"
proof -
  let ?none = "\<lparr>REGIONS = [], devices = ()\<rparr>"
  have "\<not> can_add 0x7FFF 1 (default_memory ())"
    by (auto simp: can_add_def default_memory_facts intro!: exI [of _ "0x7FFF"])
  moreover have "\<not> can_add 0xFF00 0x200 ?none" and "can_add 0xD000 0x10 ?none"
    by (simp_all add: can_add_def)
  ultimately show ?thesis
    using add_region_outcome [OF default_memory_facts(1) [of "()"], where s = "0x7FFF" and n = 1]
      add_region_outcome [of ?none, where s = "0xFF00" and n = "0x200"]
      add_region_outcome [of ?none, where s = "0xD000" and n = "0x10"]
    by simp
qed

text \<open>
  C15. Loading a block stores it: \<open>mem_region_load\<close> implements the store of the bytes one after
  the other, into RAM and ROM alike, stopping with -1 at the first address without data, the
  bytes before it written; when all addresses of a block that does not overlap itself have
  data it returns 0 and each byte is found at its address.
\<close>

theorem load_stores_block:
  fixes m :: "'d memory" and a :: MEM_TWO_WORDS and ds :: "MEM_WORD list"
  assumes "mem_wf m"
  defines "r \<equiv> mem_region_load a ds m"
  shows "fst r = fst (load_cells a ds (view m)) \<and> view (snd r) = snd (load_cells a ds (view m)) \<and>
    mem_wf (snd r) \<and>
    (length ds \<le> 0x10000 \<and> (\<forall>i < length ds. has_data (view m (a + of_nat i))) \<longrightarrow>
       fst r = 0 \<and> view (snd r) = (\<lambda>b. if unat (b - a) < length ds
         then set_cell (ds ! unat (b - a)) (view m b) else view m b))"
  using load_refines [OF assms(1), of a ds] load_cells_all [of ds "view m" a] by (simp add: r_def)

theorem load_stores_block_witness:
  "view (snd (mem_region_load 0x8000 [0xA9, 0x42] (default_memory ()))) 0x8001 = Rom 0x42"
  using load_stores_block [OF default_memory_facts(1) [of "()"], of "0x8000" "[0xA9, 0x42]"]
    default_has_data by (simp add: default_memory_facts)

text \<open>
  \<open>mem_region_set_vector\<close> stores a little-endian word, write-protected or not, and succeeds
  exactly when both bytes lie in one region with data and the word does not wrap past $FFFF;
  a failure changes nothing.
\<close>

theorem set_vector_outcome:
  fixes m :: "'d memory" and vec dest :: MEM_TWO_WORDS
  assumes "mem_wf m"
  defines "r \<equiv> mem_region_set_vector vec dest m"
  shows "fst r = (case find_region vec m of
        Some i \<Rightarrow> if DATA (REGIONS m ! i) \<noteq> None \<and> find_region (vec + 1) m = Some i \<and> vec \<noteq> 0xFFFF
                  then 0 else - 1
      | None \<Rightarrow> - 1) \<and>
    (if fst r = 0 then mem_wf (snd r) \<and>
       view (snd r) = (view m)(vec := set_cell (lo_byte dest) (view m vec),
                               vec + 1 := set_cell (hi_byte dest) (view m (vec + 1)))
     else snd r = m)"
proof (cases "fst r = 0")
  case True
  then have "mem_region_set_vector vec dest m = (0, snd r)"
    by (metis r_def prod.collapse)
  then show ?thesis
    using True set_vector_view [OF assms(1)]
    by (auto simp: r_def set_vector_eq [OF assms(1)] split: option.splits if_splits)
next
  case False
  then show ?thesis
    by (auto simp: r_def set_vector_eq [OF assms(1)] split: option.splits)
qed

theorem set_vector_outcome_witness:
  "fst (mem_region_set_vector 0xFFFF 0x8000 (default_memory ())) = - 1"
  using set_vector_outcome [OF default_memory_facts(1) [of "()"], of "0xFFFF" "0x8000"]
  by (auto split: option.splits)

end
