(* ===== verification/Cpu_Properties.thy ===== *)
theory Cpu_Properties
  imports Instr_Properties
begin

text \<open>
  The properties of stepping, running, interrupts, the stack and tracing.
\<close>

subsection \<open>Recording a sequence of events\<close>

definition event_at :: "uint64 \<Rightarrow> INTERRUPT_TYPE \<times> MEM_TWO_WORDS \<times> MEM_WORD \<Rightarrow> INTERRUPT_EVENT" where
  "event_at n = (\<lambda>(t, pc, p). \<lparr>ev_type = t, ev_pc = pc, ev_p = p, ev_cycle = n\<rparr>)"

definition record_all ::
  "(INTERRUPT_TYPE \<times> MEM_TWO_WORDS \<times> MEM_WORD) list \<Rightarrow> 'w machine \<Rightarrow> 'w machine" where
  "record_all = fold (\<lambda>(t, pc, p). record_interrupt t pc p)"

lemma recent_totals:
  "recent (c\<lparr>total_irqs := i\<rparr>) = recent c" "recent (c\<lparr>total_nmis := i\<rparr>) = recent c"
  "recent (c\<lparr>total_brks := i\<rparr>) = recent c"
  "ic_wf (c\<lparr>total_irqs := i\<rparr>) = ic_wf c" "ic_wf (c\<lparr>total_nmis := i\<rparr>) = ic_wf c"
  "ic_wf (c\<lparr>total_brks := i\<rparr>) = ic_wf c"
  by (simp_all add: recent_def interrupt_dump_history_def ic_wf_def)

lemma recent_record:
  assumes "ic_wf (ic m)"
  shows "ic_wf (ic (record_interrupt t pc p m))"
    and "recent (ic (record_interrupt t pc p m)) =
      newest 32 (recent (ic m) @ [event_at (global_cycle_count m) (t, pc, p)])"
    and "global_cycle_count (record_interrupt t pc p m) = global_cycle_count m"
  by (cases t; simp add: record_interrupt_def Let_def recent_totals event_log.put_ok
      event_log.entries_put assms event_at_def)+

lemma recent_record_all:
  "ic_wf (ic m) \<Longrightarrow> recent (ic m) = newest 32 hs \<Longrightarrow>
    recent (ic (record_all es m)) = newest 32 (hs @ map (event_at (global_cycle_count m)) es)"
proof (induction es arbitrary: m hs)
  case (Cons e es)
  obtain t pc p where e: "e = (t, pc, p)" by (cases e)
  note r = recent_record [OF Cons.prems(1), of t pc p]
  have "recent (ic (record_interrupt t pc p m)) =
      newest 32 (hs @ [event_at (global_cycle_count m) e])"
    by (simp add: r(2) e Cons.prems(2) newest_snoc)
  from Cons.IH [OF r(1) this] show ?case by (simp add: record_all_def e r(3))
qed (simp add: record_all_def)

subsection \<open>Steps\<close>

text \<open>
  C2. What one \<open>cpu_step\<close> does, between instructions: a latched NMI is serviced first, then an
  IRQ unless I masks it, even when the CPU is stopped or waiting; otherwise a stopped or
  waiting CPU does nothing but advance the poll counter; otherwise one instruction is fetched,
  decoded, executed by the handler of its opcode and charged.
\<close>

theorem step_priority:
  assumes "interrupt_in_progress (ic m) = 0"
  defines "m' \<equiv> m\<lparr>global_cycle_count := global_cycle_count m + 1\<rparr>"
  shows "cpu_step m =
    (if nmi_pending (ic m) \<noteq> 0 then interrupt_entry INT_NMI m'
     else if irq_line (ic m) \<noteq> 0 \<and> \<not> bit (P_of m) 2 then interrupt_entry INT_IRQ m'
     else if CPU_STOPPED m \<noteq> 0 \<or> CPU_WAITING m \<noteq> 0 then m'
     else finish (call_instr (handler_of (CPU_VARIANT_MODE m) (peek (PC_of m) m)) (decoded m)))"
proof -
  have m': "m' = snd (interrupt_poll m)" by (simp add: m'_def poll_state)
  show ?thesis
    using cpu_step_interrupt [of m] cpu_step_idle [of m] cpu_step_executes [of m] assms(1)
    unfolding m' by (auto simp: pending_eq idle_def executes_def split: if_splits)
qed

theorem step_priority_witness:
  "cpu_step ((machine_at CPU_VARIANT_NMOS_6502 (regs 0x200 0 0 0))\<lparr>CPU_STOPPED := 1\<rparr>) =
   (machine_at CPU_VARIANT_NMOS_6502 (regs 0x200 0 0 0))\<lparr>CPU_STOPPED := 1, global_cycle_count := 1\<rparr>"
  using step_priority [of "(machine_at CPU_VARIANT_NMOS_6502 (regs 0x200 0 0 0))\<lparr>CPU_STOPPED := 1\<rparr>"]
  by (simp add: start_defs)

text \<open>
  C17. Cycle accounting: a step charges 7 cycles for a hardware interrupt, none while the CPU
  is stopped or waiting, and otherwise the base cycles of the opcode plus at most two
  adjustments (page crossing, taken branch and its page crossing, 65C02 indirect jump), never
  more than 10, so that the 32-bit counter advances by exactly that number.
\<close>

theorem step_cycles:
  assumes "interrupt_in_progress (ic m) = 0"
  shows "unat (CYCLES (cpu_step m) - CYCLES m) =
      (if pending m \<noteq> INT_NONE then 7 else if idle m then 0
       else unat (cycles_of (CPU_VARIANT_MODE m) (peek (PC_of m) m)) + extra_cycles m) \<and>
    extra_cycles m \<le> 2 \<and> unat (CYCLES (cpu_step m) - CYCLES m) \<le> 10"
proof -
  have "executes m" if "pending m = INT_NONE" "\<not> idle m"
    using that by (simp add: executes_def idle_def)
  then show ?thesis
    using step_cost_interrupt [of m] step_cost_idle [of m] step_cost_unat [of m] step_cost_le [OF assms]
      extra_cycles_le [of m] assms by (simp add: step_cost_def)
qed

theorem step_cycles_witness:
  "unat (CYCLES (cpu_step (machine_at CPU_VARIANT_NMOS_6502 (regs 0x200 0 0 0)))) \<le> 10"
  using step_cycles [of "machine_at CPU_VARIANT_NMOS_6502 (regs 0x200 0 0 0)"] by simp

text \<open>
  C18. The controller's invariant: between steps no interrupt sequence is under way, the
  history index is inside the array and agrees with the count; every step keeps this, for
  any number of steps, on any bus.
\<close>

theorem controller_invariant:
  assumes "ic_idle m"
  shows "ic_idle ((cpu_step ^^ n) m)"
  using assms by (rule ic_idle_steps)

theorem controller_invariant_witness:
  "ic_idle ((cpu_step ^^ 3) (machine_at CPU_VARIANT_NMOS_6502 (regs 0x200 0 0 0)))"
  by (rule controller_invariant) simp

text \<open>
  C16. Instructions other than branches, jumps and returns leave PC behind their operand
  bytes; a branch goes to the address after it plus its signed offset exactly when its flag
  has the value it tests, and otherwise to the next instruction.
\<close>

theorem program_counter:
  assumes "executes m" and "no_io m"
  defines "f \<equiv> handler_of (CPU_VARIANT_MODE m) (peek (PC_of m) m)"
    and "mode \<equiv> mode_of (CPU_VARIANT_MODE m) (peek (PC_of m) m)"
  shows "(\<not> transfers f \<longrightarrow>
      PC_of (cpu_step m) = PC_of m + 1 + of_nat (operand_length mode)) \<and>
    (kind_of f = Branch \<longrightarrow>
      PC_of (cpu_step m) = PC_of m + 2 +
        (if branch_condition f m then scast (peek (PC_of m + 1) m) else 0))"
proof -
  have cond: "branch_condition g (decoded m) = branch_condition g m" for g
    by (cases g) simp_all
  have mode: "kind_of f = Branch \<Longrightarrow> mode = ADDR_REL"
    using decode_fits [of "CPU_VARIANT_MODE m" "peek (PC_of m) m"] by (simp add: f_def mode_def)
  have "PC_of (cpu_step m) = PC_of m + 2 +
        (if branch_condition f m then scast (peek (PC_of m + 1) m) else 0)"
    if "kind_of f = Branch"
    using that assms(1) call_instr_branch [of f "decoded m"] mode [OF that]
    by (simp add: cpu_step_executes cond take_branch_fields f_def mode_def
        decoded_EA_no_io [OF assms(2)] mode_address.simps del: decoded_fields(12))
  then show ?thesis
    using assms(1) call_instr_PC [of f "decoded m"] by (simp add: cpu_step_executes f_def mode_def)
qed

theorem program_counter_witness:
  "PC_of (cpu_step (machine_with CPU_VARIANT_NMOS_6502 (regs 0x200 0 0x02 0) [0xF0, 0xFE])) = 0x200"
  using program_counter [of "machine_with CPU_VARIANT_NMOS_6502 (regs 0x200 0 0x02 0) [0xF0, 0xFE]"]
  by (simp add: handler_of_def NMOS_HANDLER_def INSTR_HANDLERS_def)

subsection \<open>The run loop\<close>

text \<open>
  C7. \<open>cpu_run\<close> returns exactly when the CPU does not go idle (stopped or waiting with no
  interrupt to service) before its budget is spent: a stalled CPU makes it loop for ever.
\<close>

theorem run_terminates_unless_stalled:
  assumes "ic_idle m" and "unat k + 10 < 2 ^ 32"
  shows "(\<exists>r. cpu_run k m = Some r) \<longleftrightarrow> \<not> stalls k m"
  using run_None_iff [OF assms] by (cases "cpu_run k m") auto

theorem run_terminates_unless_stalled_witness:
  "cpu_run 5 ((machine_at CPU_VARIANT_NMOS_6502 (regs 0x200 0 0 0))\<lparr>CPU_STOPPED := 1\<rparr>) = None"
proof -
  let ?m = "(machine_at CPU_VARIANT_NMOS_6502 (regs 0x200 0 0 0))\<lparr>CPU_STOPPED := 1\<rparr>"
  have i: "ic_idle ?m" by (simp add: ic_idle_def)
  have "stalls 5 ?m"
    unfolding stalls_def by (intro exI [of _ 0]) (simp add: idle_def pending_eq)
  then have "\<not> (\<exists>r. cpu_run 5 ?m = Some r)"
    using run_terminates_unless_stalled [OF i, of 5] by simp
  then show ?thesis by simp
qed

text \<open>
  C8. When \<open>cpu_run\<close> returns, it has executed whole steps, has used up its budget, and has
  overshot it by less than 10 cycles.
\<close>

theorem run_spends_its_budget:
  assumes "ic_idle m" and "unat k + 10 < 2 ^ 32" and "0 < k" and "cpu_run k m = Some r"
  shows "\<exists>n. r = (cpu_step ^^ n) m \<and> unat k \<le> unat (CYCLES r - CYCLES m) \<and>
    unat (CYCLES r - CYCLES m) < unat k + 10"
  using run_overshoot [OF assms(1,2,4,3)] by (auto simp: elapsed_def)

lemma run_one_step:
  assumes "CYCLES (cpu_step m) = CYCLES m + 7"
  shows "cpu_run 5 m = Some (cpu_step m)"
  using run_first [of 1 m 5] assms by (simp add: elapsed_def)

theorem run_spends_its_budget_witness:
  "\<exists>r n. cpu_run 5 (machine_at CPU_VARIANT_NMOS_6502 (regs 0x200 0 0 0)) = Some r \<and>
     r = (cpu_step ^^ n) (machine_at CPU_VARIANT_NMOS_6502 (regs 0x200 0 0 0)) \<and>
     unat (CYCLES r) < 15"
proof -
  let ?m = "machine_at CPU_VARIANT_NMOS_6502 (regs 0x200 0 0 0)"
  have h: "handler_of CPU_VARIANT_NMOS_6502 0 = F_BRK"
    by (simp add: handler_of_def NMOS_HANDLER_def INSTR_HANDLERS_def)
  have "step_cost ?m = 7"
    by (subst step_cost_executes)
      (simp_all add: h BRK_eq op_suppresses_pagecross_def cycles_of_def CYCLE_BASE_def
        decoded_no_cross mode_indexed_def mode_of_def nmos_addr_override_def table_modes_eq
        table_modes_list)
  then have "cpu_run 5 ?m = Some (cpu_step ?m)"
    by (intro run_one_step) (simp add: step_cost_def)
  then show ?thesis
    using run_spends_its_budget [of ?m 5 "cpu_step ?m"] by auto
qed

text \<open>
  C22. Tracing is transparent: switching the trace on or off and whatever was printed before
  change nothing of a run but the output, neither whether it returns nor the state it reaches.
\<close>

theorem tracing_is_transparent:
  "map_option strip (cpu_run k (m\<lparr>trace_enabled := e, out := l\<rparr>)) =
   map_option strip (cpu_run k m) \<and>
   strip ((cpu_step ^^ n) (m\<lparr>trace_enabled := e, out := l\<rparr>)) = strip ((cpu_step ^^ n) m)"
  using strip_run [of k e l m] strip_steps [of n e l m] by (simp add: with_trace_def)

subsection \<open>The stack and returns\<close>

text \<open>
  The stack: a pushed byte or word is popped again, pushing a byte writes the slot S
  points at in page one and no other address, and S wraps inside the page.
\<close>

theorem stack_round_trip:
  assumes "stack_mapped m"
  shows "pop8 (push8 d m) = (d, set_S (S_of m) (push8 d m)) \<and>
    pop16 (push16 w m) = (w, set_S (S_of m) (push16 w m)) \<and>
    view (bus_world (push8 d m)) = (view (bus_world m))(0x100 + ucast (S_of m) := Ram d) \<and>
    REG (push8 d m) = rS_update (\<lambda>s. s - 1) (REG m)"
proof -
  from assms obtain v where "view (bus_world m) (stack_addr (S_of m)) = Ram v"
    by (auto simp: stack_mapped_def)
  then have "view (bus_world (push8 d m)) = (view (bus_world m))(stack_addr (S_of m) := Ram d)"
    using assms
    by (simp add: push8_def bus_write_eq bus_wr_def stack_mapped_def on_regions_def wired_def
        view_region_bus_write)
  then show ?thesis
    using region_mem.pop8_push8 [OF stack_mapped_ready [OF assms]]
      region_mem.pop16_push16 [OF stack_mapped_ready [OF assms]]
    by (simp add: stack_addr_def)
qed

theorem stack_round_trip_witness:
  "fst (pop16 (push16 0x1234 (machine_at CPU_VARIANT_NMOS_6502
     \<lparr>rPC = 0, rA = 0, rP = 0, rS = 0, rX = 0, rY = 0\<rparr>))) = 0x1234"
  using stack_round_trip [where d = 0 and w = "0x1234" and m = "machine_at CPU_VARIANT_NMOS_6502
     \<lparr>rPC = 0, rA = 0, rP = 0, rS = 0, rX = 0, rY = 0\<rparr>"]
  by simp

text \<open>
  C21. RTS undoes JSR: it resumes after the JSR with the stack pointer and all other registers
  as they were, whatever the target of the call.
\<close>

theorem rts_undoes_jsr:
  assumes "stack_mapped m"
  shows "REG (RTS (JSR m)) = REG m"
  using region_mem.RTS_JSR [OF stack_mapped_ready [OF assms]] by simp

theorem rts_undoes_jsr_witness:
  "PC_of (RTS (JSR (machine_at CPU_VARIANT_NMOS_6502 (regs 0x203 0 0 0)))) = 0x203"
  using rts_undoes_jsr [of "machine_at CPU_VARIANT_NMOS_6502 (regs 0x203 0 0 0)"] by simp

text \<open>
  C10. RTI undoes a hardware interrupt or a BRK: it resumes at the interrupted instruction
  (after BRK's signature byte), with all registers and flags as they were except the two
  status bits that exist on the stack only, which read as zero.
\<close>

theorem rti_undoes_interrupt:
  assumes "no_io m" and "stack_mapped m" and "interrupt_in_progress (ic m) = 0" and "taken t"
  shows "REG (RTI (snd (interrupt_step_cycle (interrupt_begin t m)))) =
    (REG m)\<lparr>rPC := (if t = INT_BRK then PC_of m + 1 else PC_of m),
            rP := P_of m AND NOT (FLAG_B OR FLAG_U)\<rparr>"
  using region_mem.RTI_entry [OF no_io_quiet stack_mapped_ready, OF assms(1,2), of t]
    sequence_is_entry [of t m] assms(3,4)
  by (simp add: entry_return_def)

theorem rti_undoes_interrupt_witness:
  "REG (RTI (snd (interrupt_step_cycle (interrupt_begin INT_NMI
     (machine_at CPU_VARIANT_CMOS_65C02 (regs 0x203 1 0x88 2)))))) = regs 0x203 1 0x88 2"
  using rti_undoes_interrupt [of "machine_at CPU_VARIANT_CMOS_65C02 (regs 0x203 1 0x88 2)" INT_NMI]
  by (simp add: taken_def FLAG_B_def FLAG_U_def)

subsection \<open>Interrupts\<close>

text \<open>
  C9. The interrupt sequence implements its specification: BRK, and a hardware interrupt that
  starts with no sequence under way, push the return address and the status (B set for BRK
  only), load PC from the vector, set I (and clear D on the 65C02), wake a waiting CPU,
  charge 7 cycles to hardware interrupts, log the event, count it and leave the controller idle.
\<close>

theorem interrupt_refines_entry:
  assumes "taken t" and "interrupt_in_progress (ic m) = 0"
  shows "interrupt_step_cycle (interrupt_begin t m) = (1, interrupt_entry t m) \<and>
    BRK m = interrupt_entry INT_BRK m"
  using sequence_is_entry [of t m] assms BRK_eq by simp

theorem interrupt_refines_entry_witness:
  "CYCLES (snd (interrupt_step_cycle (interrupt_begin INT_IRQ
     (machine_at CPU_VARIANT_NMOS_6502 (regs 0x200 0 0 0))))) = 7"
  using interrupt_refines_entry [of INT_IRQ "machine_at CPU_VARIANT_NMOS_6502 (regs 0x200 0 0 0)"]
  by (simp add: taken_def)

text \<open>
  C19. The NMI input is edge-triggered: after any sequence of levels from the initial state an
  NMI is latched exactly when the line fell from 1 to 0 somewhere in the sequence.
\<close>

theorem nmi_is_edge_triggered:
  "nmi_pending (ic (fold interrupt_set_nmi ls (interrupt_init m))) \<noteq> 0 \<longleftrightarrow>
    (\<exists>us vs. 0 # ls = us @ [1, 0] @ vs)"
  using nmi_pending_fold [of ls "interrupt_init m"] by (simp add: interrupt_init_def)

text \<open>
  C20. The event history: whatever is recorded after initialisation, \<open>interrupt_dump_history\<close>
  prints the newest 32 events, oldest first, as a ring buffer of 32 entries should.
\<close>

theorem history_keeps_newest:
  "recent (ic (record_all es (interrupt_init m))) =
   newest 32 (map (event_at (global_cycle_count m)) es)"
  using recent_record_all [of "interrupt_init m" "[]" es]
  by simp (simp add: interrupt_init_def)

end
