(* ===== verification/Slots.thy ===== *)
theory Slots
  imports Prelude
begin

text \<open>
  The contract of a fixed-size array of slots with a count, as src/debugger.c keeps its
  breakpoints and watchpoints and src/tui_monitor.c its memory watches: entries are appended
  until the array is full and removed by index, closing the gap.
\<close>

subsection \<open>Closing the gap\<close>

text \<open>\<open>for (i = index; i < n - 1; i++) xs[i] = xs[i + 1];\<close>\<close>

function shift_down :: "nat \<Rightarrow> nat \<Rightarrow> 'a list \<Rightarrow> 'a list" where
  "shift_down i n xs = (if i + 1 < n then shift_down (i + 1) n (xs[i := xs ! (i + 1)]) else xs)"
  by auto
termination by (relation "measure (\<lambda>(i, n, xs). n - i)") auto

declare shift_down.simps [simp del]

lemma shift_down_live:
  assumes "i < n" and "n \<le> length xs"
  shows "length (shift_down i n xs) = length xs \<and>
    take (n - 1) (shift_down i n xs) = take i xs @ drop (i + 1) (take n xs)"
  using assms
proof (induction i n xs rule: shift_down.induct)
  case (1 i n xs)
  show ?case
  proof (cases "i + 1 < n")
    case True
    let ?ys = "xs[i := xs ! (i + 1)]"
    have "take (i + 1) ?ys @ drop (i + 2) (take n ?ys) =
        take i xs @ [xs ! (i + 1)] @ drop (i + 2) (take n xs)"
      using True 1(3) by (simp add: take_Suc_conv_app_nth take_update_swap list_update_append)
    also have "[xs ! (i + 1)] @ drop (i + 2) (take n xs) = drop (i + 1) (take n xs)"
      using True 1(3) Cons_nth_drop_Suc [of "i + 1" "take n xs"] by simp
    finally show ?thesis
      using 1(1) [OF True] True 1(3) by (simp add: shift_down.simps [of i n xs])
  next
    case False
    with 1(2) have "n = i + 1" by simp
    with 1(3) show ?thesis by (simp add: shift_down.simps [of i "Suc i"])
  qed
qed

text \<open>Updating the slots one after the other.\<close>

lemma map_prefix_update:
  assumes "n < length xs"
  shows "(map g (take n xs) @ drop n xs)[n := g (xs ! n)] = map g (take (Suc n) xs) @ drop (Suc n) xs"
  using assms
  by (simp add: list_update_append take_Suc_conv_app_nth Cons_nth_drop_Suc [symmetric] min_def)

text \<open>The list without its \<open>i\<close>-th entry.\<close>

definition without :: "nat \<Rightarrow> 'a list \<Rightarrow> 'a list" where
  "without i xs = take i xs @ drop (i + 1) xs"

lemma length_without [simp]: "i < length xs \<Longrightarrow> length (without i xs) = length xs - 1"
  by (simp add: without_def)

lemma without_last [simp]: "without (length xs) (xs @ [x]) = xs"
  by (simp add: without_def)

lemma without_snoc: "i < length xs \<Longrightarrow> without i (xs @ [x]) = without i xs @ [x]"
  by (simp add: without_def)

lemma shift_down_without:
  "i < n \<Longrightarrow> n \<le> length xs \<Longrightarrow> take (n - 1) (shift_down i n xs) = without i (take n xs)"
  using shift_down_live [of i n xs] by (simp add: without_def min_def)

subsection \<open>The interfaces\<close>

text \<open>Appending: \<open>mk a s\<close> is the entry that adding \<open>a\<close> makes in state \<open>s\<close>.\<close>

locale slot_adder =
  fixes ok :: "'s \<Rightarrow> bool"
    and live :: "'s \<Rightarrow> 'e list"
    and cap :: nat
    and mk :: "'a \<Rightarrow> 's \<Rightarrow> 'e"
    and add :: "'a \<Rightarrow> 's \<Rightarrow> int \<times> 's"
  assumes live_cap: "ok s \<Longrightarrow> length (live s) \<le> cap"
    and add_ok: "ok s \<Longrightarrow> ok (snd (add a s))"
    and add_full: "ok s \<Longrightarrow> length (live s) = cap \<Longrightarrow>
      fst (add a s) = - 1 \<and> live (snd (add a s)) = live s"
    and add_room: "ok s \<Longrightarrow> length (live s) < cap \<Longrightarrow>
      fst (add a s) = int (length (live s)) \<and> live (snd (add a s)) = live s @ [mk a s]"
begin

lemma add_result:
  assumes "ok s"
  shows "(if length (live s) < cap
      then fst (add a s) = int (length (live s)) \<and> live (snd (add a s)) = live s @ [mk a s]
      else fst (add a s) = - 1 \<and> live (snd (add a s)) = live s)"
  using assms live_cap [of s] add_full [of s a] add_room [of s a] by auto

text \<open>However many entries are added, the first ones that fit are kept.\<close>

lemma adds_bounded:
  "ok s \<Longrightarrow> \<exists>es. live (fold (\<lambda>a s. snd (add a s)) as s) = live s @ es \<and>
    length es = min (cap - length (live s)) (length as) \<and>
    ok (fold (\<lambda>a s. snd (add a s)) as s)"
proof (induction as arbitrary: s)
  case (Cons a as)
  have "ok (snd (add a s))" using Cons.prems by (rule add_ok)
  from Cons.IH [OF this] show ?case
    using add_result [OF Cons.prems, of a] by (auto split: if_splits)
qed simp

end

text \<open>Removal by index.\<close>

locale slot_table = slot_adder ok live cap mk add
  for ok :: "'s \<Rightarrow> bool"
    and live :: "'s \<Rightarrow> 'e list"
    and cap :: nat
    and mk :: "'a \<Rightarrow> 's \<Rightarrow> 'e"
    and add :: "'a \<Rightarrow> 's \<Rightarrow> int \<times> 's" +
  fixes remove :: "int \<Rightarrow> 's \<Rightarrow> int \<times> 's"
  assumes remove_ok: "ok s \<Longrightarrow> ok (snd (remove i s))"
    and remove_bad: "ok s \<Longrightarrow> i < 0 \<or> int (length (live s)) \<le> i \<Longrightarrow> remove i s = (- 1, s)"
    and remove_good: "ok s \<Longrightarrow> 0 \<le> i \<Longrightarrow> i < int (length (live s)) \<Longrightarrow>
      fst (remove i s) = 0 \<and> live (snd (remove i s)) = without (nat i) (live s)"
begin

text \<open>Removing the entry just added, by the index the add returned, undoes the add.\<close>

lemma remove_added:
  assumes "ok s" and "length (live s) < cap"
  shows "live (snd (remove (fst (add a s)) (snd (add a s)))) = live s"
  using add_room [OF assms, of a] remove_good [OF add_ok [OF assms(1)], of "fst (add a s)" a]
  by simp

text \<open>A removal frees a slot: an add after it succeeds.\<close>

lemma remove_then_add:
  assumes "ok s" and "0 \<le> i" and "i < int (length (live s))"
  shows "live (snd (add a (snd (remove i s)))) =
    without (nat i) (live s) @ [mk a (snd (remove i s))]"
proof -
  have "nat i < length (live s)" using assms(2,3) by linarith
  then show ?thesis
    using remove_good [OF assms] remove_ok [OF assms(1), of i] live_cap [OF assms(1)]
      add_room [of "snd (remove i s)" a] by simp
qed

end

end
