(* ===== verification/Debugger.thy ===== *)
theory Debugger
  imports Slots Cpu
begin

text \<open>
  src/debugger.c: breakpoints, watchpoints, the profiler, the memory inspection commands and
  the memory search. The arrays keep their declared sizes; a label is a copied string, None
  for NULL, and whether \<open>malloc\<close> gives memory is an argument of the operations that call it.
  What the functions print is appended to \<open>console\<close> as one event per line, with the values
  the line shows. Functions that read the bus take and return the machine.
\<close>

subsection \<open>The data (debugger.h)\<close>

definition MAX_BREAKPOINTS :: nat where [simp]: "MAX_BREAKPOINTS = 32"
definition MAX_WATCHPOINTS :: nat where [simp]: "MAX_WATCHPOINTS = 16"

datatype BP_TYPE = BP_TYPE_EXEC | BP_TYPE_READ | BP_TYPE_WRITE | BP_TYPE_ACCESS

record BREAKPOINT =
  bp_enabled :: int
  bp_type :: BP_TYPE
  bp_addr :: MEM_TWO_WORDS
  bp_label :: "string option"

record WATCHPOINT =
  wp_enabled :: int
  wp_addr :: MEM_TWO_WORDS
  wp_old_value :: MEM_WORD
  wp_label :: "string option"

text \<open>The two arrays of counters are functions of their index type.\<close>

record PROFILING_DATA =
  total_cycles :: uint64
  instruction_counts :: "MEM_WORD \<Rightarrow> uint64"
  address_exec_counts :: "MEM_TWO_WORDS \<Rightarrow> uint64"

datatype (plugins only:) dbg_event =
    Bp_Full | Bp_No_Memory | Bp_Set nat MEM_TWO_WORDS "string option"
  | Bp_Hit nat MEM_TWO_WORDS "string option"
  | Bp_Header nat | Bp_Line nat bool MEM_TWO_WORDS string "string option" | Bp_Cleared
  | Wp_Full | Wp_No_Memory | Wp_Set nat MEM_TWO_WORDS MEM_WORD "string option"
  | Wp_Triggered nat MEM_TWO_WORDS MEM_WORD MEM_WORD "string option"
  | Wp_Header nat | Wp_Line nat bool MEM_TWO_WORDS MEM_WORD "string option" | Wp_Cleared
  | Prof_Header uint64 | Prof_Line MEM_WORD string uint64 | Prof_Reset
  | Hot_Header int | Hot_None | Hot_No_Memory | Hot_Line MEM_TWO_WORDS uint64
  | Hex_Header MEM_TWO_WORDS MEM_TWO_WORDS
  | Hex_Line MEM_TWO_WORDS "MEM_WORD option list" string
  | Dis_Header MEM_TWO_WORDS | Dis_Line MEM_TWO_WORDS MEM_WORD "MEM_WORD list" string
  | Regs MEM_TWO_WORDS MEM_WORD MEM_WORD MEM_WORD MEM_WORD MEM_WORD string
  | Stack_Header MEM_WORD | Stack_Line MEM_TWO_WORDS MEM_WORD
  | Interactive_On
  | Search_Header MEM_TWO_WORDS MEM_TWO_WORDS | Search_Hit MEM_TWO_WORDS | Search_Found int

record debugger =
  breakpoints :: "BREAKPOINT list"
  watchpoints :: "WATCHPOINT list"
  breakpoint_count :: nat
  watchpoint_count :: nat
  prof_data :: PROFILING_DATA
  profiling_enabled :: int
  interactive_mode :: int
  debugger_paused :: int
  console :: "dbg_event list"

definition say :: "dbg_event \<Rightarrow> debugger \<Rightarrow> debugger" where
  "say e d = d\<lparr>console := console d @ [e]\<rparr>"

definition zero_bp :: BREAKPOINT where
  "zero_bp = \<lparr>bp_enabled = 0, bp_type = BP_TYPE_EXEC, bp_addr = 0, bp_label = None\<rparr>"

definition zero_wp :: WATCHPOINT where
  "zero_wp = \<lparr>wp_enabled = 0, wp_addr = 0, wp_old_value = 0, wp_label = None\<rparr>"

definition zero_prof :: PROFILING_DATA where
  "zero_prof = \<lparr>total_cycles = 0, instruction_counts = (\<lambda>_. 0), address_exec_counts = (\<lambda>_. 0)\<rparr>"

text \<open>\<open>_strdup\<close>, and the label an add stores.\<close>

definition strdup :: "bool \<Rightarrow> string \<Rightarrow> string option" where
  "strdup malloc_ok src = (if \<not> malloc_ok then None else Some src)"

definition copy_label :: "bool \<Rightarrow> string option \<Rightarrow> string option" where
  "copy_label malloc_ok label = (case label of Some s \<Rightarrow> strdup malloc_ok s | None \<Rightarrow> None)"

subsection \<open>Initialization and cleanup\<close>

definition profiler_init :: "debugger \<Rightarrow> debugger" where
  "profiler_init d = d\<lparr>prof_data := zero_prof, profiling_enabled := 1\<rparr>"

definition debugger_init :: "debugger \<Rightarrow> debugger" where
  "debugger_init d = profiler_init
     (d\<lparr>breakpoints := replicate MAX_BREAKPOINTS zero_bp,
        watchpoints := replicate MAX_WATCHPOINTS zero_wp,
        breakpoint_count := 0, watchpoint_count := 0\<rparr>)"

definition debugger_cleanup :: "debugger \<Rightarrow> debugger" where
  "debugger_cleanup d = d\<lparr>
     breakpoints := map (bp_label_update (\<lambda>_. None)) (take (breakpoint_count d) (breakpoints d))
       @ drop (breakpoint_count d) (breakpoints d),
     watchpoints := map (wp_label_update (\<lambda>_. None)) (take (watchpoint_count d) (watchpoints d))
       @ drop (watchpoint_count d) (watchpoints d),
     breakpoint_count := 0, watchpoint_count := 0\<rparr>"

subsection \<open>Breakpoints\<close>

definition debugger_add_breakpoint ::
  "bool \<Rightarrow> BP_TYPE \<Rightarrow> MEM_TWO_WORDS \<Rightarrow> string option \<Rightarrow> debugger \<Rightarrow> int \<times> debugger" where
  "debugger_add_breakpoint malloc_ok type addr label d =
     (if breakpoint_count d \<ge> MAX_BREAKPOINTS then (- 1, say Bp_Full d)
      else
        (let i = breakpoint_count d;
             bp = \<lparr>bp_enabled = 1, bp_type = type, bp_addr = addr,
                   bp_label = copy_label malloc_ok label\<rparr>;
             d = d\<lparr>breakpoints := (breakpoints d)[i := bp]\<rparr>;
             d = (if label \<noteq> None \<and> bp_label bp = None then say Bp_No_Memory d else d);
             d = say (Bp_Set i addr label) d
         in (int i, d\<lparr>breakpoint_count := breakpoint_count d + 1\<rparr>)))"

definition debugger_remove_breakpoint :: "int \<Rightarrow> debugger \<Rightarrow> int \<times> debugger" where
  "debugger_remove_breakpoint index d =
     (if index < 0 \<or> index \<ge> int (breakpoint_count d) then (- 1, d)
      else (0, d\<lparr>breakpoints := shift_down (nat index) (breakpoint_count d) (breakpoints d),
                 breakpoint_count := breakpoint_count d - 1\<rparr>))"

definition debugger_enable_breakpoint :: "int \<Rightarrow> int \<Rightarrow> debugger \<Rightarrow> int \<times> debugger" where
  "debugger_enable_breakpoint index enabled d =
     (if index < 0 \<or> index \<ge> int (breakpoint_count d) then (- 1, d)
      else (0, d\<lparr>breakpoints := (breakpoints d)[nat index :=
                   (breakpoints d ! nat index)\<lparr>bp_enabled := enabled\<rparr>]\<rparr>))"

text \<open>The scan of \<open>debugger_check_breakpoint\<close> over the slots in use, from index \<open>i\<close> on.\<close>

fun check_from ::
  "nat \<Rightarrow> BP_TYPE \<Rightarrow> MEM_TWO_WORDS \<Rightarrow> BREAKPOINT list \<Rightarrow> (nat \<times> BREAKPOINT) option" where
  "check_from i type addr [] = None"
| "check_from i type addr (bp # bps) =
     (if bp_enabled bp = 0 then check_from (i + 1) type addr bps
      else if bp_addr bp = addr \<and> (bp_type bp = type \<or> bp_type bp = BP_TYPE_ACCESS)
      then Some (i, bp)
      else check_from (i + 1) type addr bps)"

definition debugger_check_breakpoint ::
  "BP_TYPE \<Rightarrow> MEM_TWO_WORDS \<Rightarrow> debugger \<Rightarrow> int \<times> debugger" where
  "debugger_check_breakpoint type addr d =
     (case check_from 0 type addr (take (breakpoint_count d) (breakpoints d)) of
        Some (i, bp) \<Rightarrow> (1, say (Bp_Hit i addr (bp_label bp)) d)
      | None \<Rightarrow> (0, d))"

fun bp_type_str :: "BP_TYPE \<Rightarrow> string" where
  "bp_type_str BP_TYPE_READ = ''READ''"
| "bp_type_str BP_TYPE_WRITE = ''WRITE''"
| "bp_type_str BP_TYPE_ACCESS = ''ACCESS''"
| "bp_type_str BP_TYPE_EXEC = ''EXEC''"

definition debugger_list_breakpoints :: "debugger \<Rightarrow> debugger" where
  "debugger_list_breakpoints d =
     fold (\<lambda>i. let bp = breakpoints d ! i in
             say (Bp_Line i (bp_enabled bp \<noteq> 0) (bp_addr bp) (bp_type_str (bp_type bp)) (bp_label bp)))
       [0 ..< breakpoint_count d] (say (Bp_Header (breakpoint_count d)) d)"

definition debugger_clear_breakpoints :: "debugger \<Rightarrow> debugger" where
  "debugger_clear_breakpoints d =
     say Bp_Cleared
       (d\<lparr>breakpoints := replicate MAX_BREAKPOINTS zero_bp, breakpoint_count := 0\<rparr>)"

subsection \<open>Watchpoints\<close>

definition debugger_add_watchpoint ::
  "bool \<Rightarrow> MEM_TWO_WORDS \<Rightarrow> string option \<Rightarrow> debugger \<times> 'w machine
     \<Rightarrow> int \<times> debugger \<times> 'w machine" where
  "debugger_add_watchpoint malloc_ok addr label = (\<lambda>(d, m).
     if watchpoint_count d \<ge> MAX_WATCHPOINTS then (- 1, say Wp_Full d, m)
     else
       (let i = watchpoint_count d;
            (v, m) = bus_read addr m;
            wp = \<lparr>wp_enabled = 1, wp_addr = addr, wp_old_value = v,
                  wp_label = copy_label malloc_ok label\<rparr>;
            d = d\<lparr>watchpoints := (watchpoints d)[i := wp]\<rparr>;
            d = (if label \<noteq> None \<and> wp_label wp = None then say Wp_No_Memory d else d);
            d = say (Wp_Set i addr v label) d
        in (int i, d\<lparr>watchpoint_count := watchpoint_count d + 1\<rparr>, m)))"

definition debugger_remove_watchpoint :: "int \<Rightarrow> debugger \<Rightarrow> int \<times> debugger" where
  "debugger_remove_watchpoint index d =
     (if index < 0 \<or> index \<ge> int (watchpoint_count d) then (- 1, d)
      else (0, d\<lparr>watchpoints := shift_down (nat index) (watchpoint_count d) (watchpoints d),
                 watchpoint_count := watchpoint_count d - 1\<rparr>))"

definition debugger_enable_watchpoint :: "int \<Rightarrow> int \<Rightarrow> debugger \<Rightarrow> int \<times> debugger" where
  "debugger_enable_watchpoint index enabled d =
     (if index < 0 \<or> index \<ge> int (watchpoint_count d) then (- 1, d)
      else (0, d\<lparr>watchpoints := (watchpoints d)[nat index :=
                   (watchpoints d ! nat index)\<lparr>wp_enabled := enabled\<rparr>]\<rparr>))"

text \<open>The body of the loop of \<open>debugger_check_watchpoints\<close>, for slot \<open>i\<close>.\<close>

definition check_watchpoint :: "nat \<Rightarrow> debugger \<times> 'w machine \<Rightarrow> debugger \<times> 'w machine" where
  "check_watchpoint i = (\<lambda>(d, m).
     let wp = watchpoints d ! i in
     if wp_enabled wp = 0 then (d, m)
     else
       (let (new_value, m) = bus_read (wp_addr wp) m in
        if new_value \<noteq> wp_old_value wp
        then ((say (Wp_Triggered i (wp_addr wp) (wp_old_value wp) new_value (wp_label wp)) d)
                \<lparr>watchpoints := (watchpoints d)[i := wp\<lparr>wp_old_value := new_value\<rparr>]\<rparr>, m)
        else (d, m)))"

definition debugger_check_watchpoints :: "debugger \<times> 'w machine \<Rightarrow> debugger \<times> 'w machine" where
  "debugger_check_watchpoints s = fold check_watchpoint [0 ..< watchpoint_count (fst s)] s"

definition list_watchpoint :: "nat \<Rightarrow> debugger \<times> 'w machine \<Rightarrow> debugger \<times> 'w machine" where
  "list_watchpoint i = (\<lambda>(d, m).
     let wp = watchpoints d ! i; (current, m) = bus_read (wp_addr wp) m
     in (say (Wp_Line i (wp_enabled wp \<noteq> 0) (wp_addr wp) current (wp_label wp)) d, m))"

definition debugger_list_watchpoints :: "debugger \<times> 'w machine \<Rightarrow> debugger \<times> 'w machine" where
  "debugger_list_watchpoints = (\<lambda>(d, m).
     fold list_watchpoint [0 ..< watchpoint_count d] (say (Wp_Header (watchpoint_count d)) d, m))"

definition debugger_clear_watchpoints :: "debugger \<Rightarrow> debugger" where
  "debugger_clear_watchpoints d =
     say Wp_Cleared
       (d\<lparr>watchpoints := replicate MAX_WATCHPOINTS zero_wp, watchpoint_count := 0\<rparr>)"

subsection \<open>Profiling\<close>

definition profiler_record_instruction ::
  "MEM_TWO_WORDS \<Rightarrow> MEM_WORD \<Rightarrow> uint32 \<Rightarrow> debugger \<Rightarrow> debugger" where
  "profiler_record_instruction pc opcode cycles d =
     (if profiling_enabled d = 0 then d
      else
        (let p = prof_data d;
             p = p\<lparr>total_cycles := total_cycles p + ucast cycles\<rparr>;
             p = p\<lparr>instruction_counts :=
                     (instruction_counts p)(opcode := instruction_counts p opcode + 1)\<rparr>;
             p = p\<lparr>address_exec_counts :=
                     (address_exec_counts p)(pc := address_exec_counts p pc + 1)\<rparr>
         in d\<lparr>prof_data := p\<rparr>))"

definition profiler_dump_stats :: "debugger \<Rightarrow> debugger" where
  "profiler_dump_stats d =
     fold (\<lambda>i d. let op = word_of_nat i; n = instruction_counts (prof_data d) op in
             if n > 0 then say (Prof_Line op (CMD (META_of op)) n) d else d)
       [0 ..< 256] (say (Prof_Header (total_cycles (prof_data d))) d)"

text \<open>The array of address and count pairs, in address order.\<close>

definition active_addresses :: "(MEM_TWO_WORDS \<Rightarrow> uint64) \<Rightarrow> (MEM_TWO_WORDS \<times> uint64) list" where
  "active_addresses counts =
     map (\<lambda>a. (a, counts a)) (filter (\<lambda>a. counts a > 0) (map word_of_nat [0 ..< 65536]))"

text \<open>The inner loop over \<open>j\<close> and the outer loop over \<open>i\<close>.\<close>

function hot_pass ::
  "nat \<Rightarrow> nat \<Rightarrow> (MEM_TWO_WORDS \<times> uint64) list \<Rightarrow> (MEM_TWO_WORDS \<times> uint64) list" where
  "hot_pass i j xs =
     (if j < length xs then
        hot_pass i (j + 1) (if snd (xs ! j) > snd (xs ! i) then xs[i := xs ! j, j := xs ! i] else xs)
      else xs)"
  by auto
termination by (relation "measure (\<lambda>(i, j, xs). length xs - j)") auto

declare hot_pass.simps [simp del]

lemma length_hot_pass [simp]: "length (hot_pass i j xs) = length xs"
  by (induction i j xs rule: hot_pass.induct) (subst hot_pass.simps, simp)

function hot_sort ::
  "nat \<Rightarrow> int \<Rightarrow> (MEM_TWO_WORDS \<times> uint64) list \<Rightarrow> (MEM_TWO_WORDS \<times> uint64) list" where
  "hot_sort i top_n xs =
     (if i < length xs \<and> int i < top_n then hot_sort (i + 1) top_n (hot_pass i (i + 1) xs) else xs)"
  by auto
termination by (relation "measure (\<lambda>(i, top_n, xs). length xs - i)") auto

declare hot_sort.simps [simp del]

definition hotspots :: "int \<Rightarrow> (MEM_TWO_WORDS \<Rightarrow> uint64) \<Rightarrow> (MEM_TWO_WORDS \<times> uint64) list" where
  "hotspots top_n counts =
     (let xs = hot_sort 0 top_n (active_addresses counts);
          limit = (if top_n < int (length xs) then top_n else int (length xs))
      in take (nat limit) xs)"

definition profiler_dump_hotspots :: "bool \<Rightarrow> int \<Rightarrow> debugger \<Rightarrow> debugger" where
  "profiler_dump_hotspots malloc_ok top_n d =
     (let d = say (Hot_Header top_n) d; counts = address_exec_counts (prof_data d) in
      if active_addresses counts = [] then say Hot_None d
      else if \<not> malloc_ok then say Hot_No_Memory d
      else fold (\<lambda>(a, n). say (Hot_Line a n)) (hotspots top_n counts) d)"

definition profiler_reset :: "debugger \<Rightarrow> debugger" where
  "profiler_reset d = say Prof_Reset (d\<lparr>prof_data := zero_prof\<rparr>)"

definition profiler_get_data :: "debugger \<Rightarrow> PROFILING_DATA" where
  "profiler_get_data d = prof_data d"

subsection \<open>Memory inspection\<close>

text \<open>Reading the bytes at \<open>a, a + 1, ...\<close> (addresses truncated to 16 bits), one by one.\<close>

fun read_bytes :: "nat \<Rightarrow> MEM_TWO_WORDS \<Rightarrow> 'w machine \<Rightarrow> MEM_WORD list \<times> 'w machine" where
  "read_bytes 0 a m = ([], m)"
| "read_bytes (Suc n) a m =
     (let (v, m) = bus_read a m; (vs, m) = read_bytes n (a + 1) m in (v # vs, m))"

text \<open>\<open>(byte >= 32 && byte < 127) ? byte : '.'\<close>\<close>

definition printable :: "MEM_WORD \<Rightarrow> char" where
  "printable b = (if b \<ge> 32 \<and> b < 127 then char_of (unat b) else CHR ''.'')"

text \<open>
  The loop over \<open>done\<close>; each line reads its bytes twice, for the hex and the ASCII column,
  and pads the hex column to 16.
\<close>

function hexdump_lines ::
  "MEM_TWO_WORDS \<Rightarrow> nat \<Rightarrow> nat \<Rightarrow> debugger \<times> 'w machine \<Rightarrow> debugger \<times> 'w machine" where
  "hexdump_lines start_addr len off s =
     (if off < len then
        (let (d, m) = s; addr = start_addr + of_nat off;
             end_off = (if off + 16 > len then len else off + 16);
             (hex, m) = read_bytes (end_off - off) addr m;
             (ascii, m) = read_bytes (end_off - off) addr m
         in hexdump_lines start_addr len (off + 16)
              (say (Hex_Line addr (map Some hex @ replicate (16 - length hex) None)
                     (map printable ascii)) d, m))
      else s)"
  by auto
termination by (relation "measure (\<lambda>(start_addr, len, off, s). len - off)") auto

declare hexdump_lines.simps [simp del]

definition debugger_hexdump ::
  "MEM_TWO_WORDS \<Rightarrow> MEM_TWO_WORDS \<Rightarrow> debugger \<times> 'w machine \<Rightarrow> debugger \<times> 'w machine" where
  "debugger_hexdump start_addr len = (\<lambda>(d, m).
     hexdump_lines start_addr (unat len) 0 (say (Hex_Header start_addr len) d, m))"

definition operand_size :: "ADDR_MODE \<Rightarrow> nat" where
  "operand_size mode =
     (if mode = ADDR_IMM \<or> mode = ADDR_ZP \<or> mode = ADDR_ZPX \<or> mode = ADDR_ZPY \<or>
         mode = ADDR_INDX \<or> mode = ADDR_INDY \<or> mode = ADDR_REL \<or> mode = ADDR_ZP_IND then 1
      else if mode = ADDR_ABS \<or> mode = ADDR_ABSX \<or> mode = ADDR_ABSY \<or> mode = ADDR_IND \<or>
         mode = ADDR_ZPREL \<or> mode = ADDR_ABS_IND_X then 2
      else 0)"

fun disassemble_lines ::
  "nat \<Rightarrow> MEM_TWO_WORDS \<Rightarrow> debugger \<times> 'w machine \<Rightarrow> debugger \<times> 'w machine" where
  "disassemble_lines 0 addr s = s"
| "disassemble_lines (Suc n) addr s =
     (let (d, m) = s;
          (opcode, m) = bus_read addr m;
          meta = META_of opcode;
          size = operand_size (ADDR meta);
          (operands, m) = read_bytes size (addr + 1) m
      in disassemble_lines n (addr + 1 + of_nat size)
           (say (Dis_Line addr opcode operands (CMD meta)) d, m))"

text \<open>A negative number of instructions disassembles none.\<close>

definition debugger_disassemble ::
  "MEM_TWO_WORDS \<Rightarrow> int \<Rightarrow> debugger \<times> 'w machine \<Rightarrow> debugger \<times> 'w machine" where
  "debugger_disassemble start_addr num_instructions = (\<lambda>(d, m).
     disassemble_lines (nat num_instructions) start_addr (say (Dis_Header start_addr) d, m))"

definition flag_char :: "MEM_WORD \<Rightarrow> MEM_WORD \<Rightarrow> char \<Rightarrow> char" where
  "flag_char p b c = (if p AND b \<noteq> 0 then c else CHR ''-'')"

definition debugger_dump_registers :: "'w machine \<Rightarrow> debugger \<Rightarrow> debugger" where
  "debugger_dump_registers m d =
     (let p = P_of m in
      say (Regs (PC_of m) (A_of m) (X_of m) (Y_of m) (S_of m) p
        [flag_char p FLAG_N (CHR ''N''), flag_char p FLAG_V (CHR ''V''),
         flag_char p FLAG_U (CHR ''U''), flag_char p FLAG_B (CHR ''B''),
         flag_char p FLAG_D (CHR ''D''), flag_char p FLAG_I (CHR ''I''),
         flag_char p FLAG_Z (CHR ''Z''), flag_char p FLAG_C (CHR ''C'')]) d)"

text \<open>The loop over \<open>i\<close> with its early exit above $01FF.\<close>

fun stack_lines ::
  "nat list \<Rightarrow> MEM_TWO_WORDS \<Rightarrow> debugger \<times> 'w machine \<Rightarrow> debugger \<times> 'w machine" where
  "stack_lines [] stack_ptr s = s"
| "stack_lines (i # is) stack_ptr s =
     (let addr = stack_ptr + of_nat i + 1 in
      if addr > 0x01FF then s
      else (let (d, m) = s; (v, m) = bus_read addr m
            in stack_lines is stack_ptr (say (Stack_Line addr v) d, m)))"

definition debugger_dump_stack :: "debugger \<times> 'w machine \<Rightarrow> debugger \<times> 'w machine" where
  "debugger_dump_stack = (\<lambda>(d, m).
     stack_lines [0 ..< 16] (0x0100 OR ucast (S_of m)) (say (Stack_Header (S_of m)) d, m))"

subsection \<open>Interactive control\<close>

definition debugger_set_interactive :: "int \<Rightarrow> debugger \<Rightarrow> debugger" where
  "debugger_set_interactive enabled d =
     (let d = d\<lparr>interactive_mode := enabled\<rparr>
      in if enabled \<noteq> 0 then say Interactive_On d else d)"

definition debugger_is_interactive :: "debugger \<Rightarrow> int" where
  "debugger_is_interactive d = interactive_mode d"

definition debugger_step :: "debugger \<Rightarrow> debugger" where
  "debugger_step d = d\<lparr>debugger_paused := 0\<rparr>"

definition debugger_continue :: "debugger \<Rightarrow> debugger" where
  "debugger_continue d = d\<lparr>debugger_paused := 0\<rparr>"

subsection \<open>Memory search\<close>

text \<open>The comparison loop, which stops at the first mismatch.\<close>

fun match_at :: "MEM_TWO_WORDS \<Rightarrow> MEM_WORD list \<Rightarrow> 'w machine \<Rightarrow> bool \<times> 'w machine" where
  "match_at a [] m = (True, m)"
| "match_at a (p # ps) m =
     (let (v, m) = bus_read a m in if v \<noteq> p then (False, m) else match_at (a + 1) ps m)"

text \<open>The loop over the 32-bit \<open>i\<close>, with \<open>found_count\<close> as accumulator.\<close>

function search_loop ::
  "uint32 \<Rightarrow> uint32 \<Rightarrow> MEM_WORD list \<Rightarrow> int \<Rightarrow> debugger \<times> 'w machine
     \<Rightarrow> int \<times> debugger \<times> 'w machine" where
  "search_loop i bound pattern found s =
     (if i \<le> bound \<and> i \<le> 0xFFFF then
        (let (d, m) = s; addr = ucast i; (matches, m) = match_at addr pattern m
         in if matches then search_loop (i + 1) bound pattern (found + 1) (say (Search_Hit addr) d, m)
            else search_loop (i + 1) bound pattern found (d, m))
      else (found, s))"
  by auto
termination
proof (relation "measure (\<lambda>(i, bound, pattern, found, s). 0x10000 - unat i)", goal_cases)
  case (2 i)
  then show ?case by (clarsimp simp: word_le_nat_alt unat_word_ariths) arith
next
  case (3 i)
  then show ?case by (clarsimp simp: word_le_nat_alt unat_word_ariths) arith
qed simp

declare search_loop.simps [simp del]

text \<open>\<open>pattern_len\<close> is the length of the list, which fits in 16 bits.\<close>

definition debugger_search_memory ::
  "MEM_TWO_WORDS \<Rightarrow> MEM_TWO_WORDS \<Rightarrow> MEM_WORD list \<Rightarrow> debugger \<times> 'w machine
     \<Rightarrow> int \<times> debugger \<times> 'w machine" where
  "debugger_search_memory start end_addr pattern = (\<lambda>(d, m).
     let d = say (Search_Header start end_addr) d in
     if length pattern = 0 then (0, say (Search_Found 0) d, m)
     else
       (let bound = (ucast end_addr :: uint32) - of_nat (length pattern) + 1;
            (found, d, m) = search_loop (ucast start) bound pattern 0 (d, m)
        in (found, say (Search_Found found) d, m)))"

end
