(* ===== verification/Debugger_Spec.thy ===== *)
theory Debugger_Spec
  imports Debugger Emulator
begin

text \<open>
  The debugger's invariant and what its commands compute: the two tables as slot tables, the
  breakpoint test, the watchpoint scan, the profiler's counters and hot spots, and the memory
  commands on memory without I/O handlers.
\<close>

subsection \<open>The tables\<close>

definition dbg_wf :: "debugger \<Rightarrow> bool" where
  "dbg_wf d =
     (length (breakpoints d) = 32 \<and> breakpoint_count d \<le> 32 \<and>
      length (watchpoints d) = 16 \<and> watchpoint_count d \<le> 16)"

definition live_bps :: "debugger \<Rightarrow> BREAKPOINT list" where
  "live_bps d = take (breakpoint_count d) (breakpoints d)"

definition live_wps :: "debugger \<Rightarrow> WATCHPOINT list" where
  "live_wps d = take (watchpoint_count d) (watchpoints d)"

lemma say_fields [simp]:
  "breakpoints (say e d) = breakpoints d" "watchpoints (say e d) = watchpoints d"
  "breakpoint_count (say e d) = breakpoint_count d"
  "watchpoint_count (say e d) = watchpoint_count d" "prof_data (say e d) = prof_data d"
  "profiling_enabled (say e d) = profiling_enabled d" "console (say e d) = console d @ [e]"
  by (simp_all add: say_def)

lemma dbg_wf_say [simp]: "dbg_wf (say e d) = dbg_wf d"
  and live_say [simp]: "live_bps (say e d) = live_bps d" "live_wps (say e d) = live_wps d"
  by (simp_all add: dbg_wf_def live_bps_def live_wps_def)

lemma dbg_wf_init: "dbg_wf (debugger_init d)" "live_bps (debugger_init d) = []"
  "live_wps (debugger_init d) = []"
  by (simp_all add: debugger_init_def profiler_init_def dbg_wf_def live_bps_def live_wps_def)

definition bp_add ::
  "bool \<times> BP_TYPE \<times> MEM_TWO_WORDS \<times> string option \<Rightarrow> debugger \<Rightarrow> int \<times> debugger" where
  "bp_add = (\<lambda>(mem, t, a, l). debugger_add_breakpoint mem t a l)"

definition bp_entry ::
  "bool \<times> BP_TYPE \<times> MEM_TWO_WORDS \<times> string option \<Rightarrow> debugger \<Rightarrow> BREAKPOINT" where
  "bp_entry = (\<lambda>(mem, t, a, l) d.
     \<lparr>bp_enabled = 1, bp_type = t, bp_addr = a, bp_label = copy_label mem l\<rparr>)"

lemma length_shift_down: "i < n \<Longrightarrow> n \<le> length xs \<Longrightarrow> length (shift_down i n xs) = length xs"
  by (simp add: shift_down_live)

interpretation bp_table: slot_table dbg_wf live_bps 32 bp_entry bp_add debugger_remove_breakpoint
proof unfold_locales
  fix d :: debugger and a :: "bool \<times> BP_TYPE \<times> MEM_TWO_WORDS \<times> string option" and i :: int
  assume wf: "dbg_wf d"
  obtain mem t ad l where a: "a = (mem, t, ad, l)" by (cases a)
  show "length (live_bps d) \<le> 32" using wf by (simp add: live_bps_def dbg_wf_def)
  show "dbg_wf (snd (bp_add a d))"
    using wf by (auto simp: a bp_add_def debugger_add_breakpoint_def dbg_wf_def Let_def)
  show "fst (bp_add a d) = - 1 \<and> live_bps (snd (bp_add a d)) = live_bps d"
    if "length (live_bps d) = 32"
    using wf that
    by (simp add: a bp_add_def debugger_add_breakpoint_def live_bps_def dbg_wf_def)
  show "fst (bp_add a d) = int (length (live_bps d)) \<and>
      live_bps (snd (bp_add a d)) = live_bps d @ [bp_entry a d]"
    if "length (live_bps d) < 32"
    using wf that
    by (simp add: a bp_add_def bp_entry_def debugger_add_breakpoint_def live_bps_def dbg_wf_def
        Let_def take_Suc_conv_app_nth)
  show "dbg_wf (snd (debugger_remove_breakpoint i d))"
    using wf by (auto simp: debugger_remove_breakpoint_def dbg_wf_def length_shift_down nat_less_iff)
  show "debugger_remove_breakpoint i d = (- 1, d)" if "i < 0 \<or> int (length (live_bps d)) \<le> i"
    using wf that by (auto simp: debugger_remove_breakpoint_def dbg_wf_def live_bps_def)
  show "fst (debugger_remove_breakpoint i d) = 0 \<and>
      live_bps (snd (debugger_remove_breakpoint i d)) = without (nat i) (live_bps d)"
    if "0 \<le> i" "i < int (length (live_bps d))"
    using wf that shift_down_without [of "nat i" "breakpoint_count d" "breakpoints d"]
    by (simp add: debugger_remove_breakpoint_def dbg_wf_def live_bps_def nat_less_iff)
qed

definition wp_add ::
  "bool \<times> MEM_TWO_WORDS \<times> string option \<Rightarrow> debugger \<times> 'w machine \<Rightarrow> int \<times> debugger \<times> 'w machine" where
  "wp_add = (\<lambda>(mem, a, l). debugger_add_watchpoint mem a l)"

definition wp_entry ::
  "bool \<times> MEM_TWO_WORDS \<times> string option \<Rightarrow> debugger \<times> 'w machine \<Rightarrow> WATCHPOINT" where
  "wp_entry = (\<lambda>(mem, a, l) (d, m).
     \<lparr>wp_enabled = 1, wp_addr = a, wp_old_value = peek a m, wp_label = copy_label mem l\<rparr>)"

definition wp_remove :: "int \<Rightarrow> debugger \<times> 'w machine \<Rightarrow> int \<times> debugger \<times> 'w machine" where
  "wp_remove i = (\<lambda>(d, m). let (r, d) = debugger_remove_watchpoint i d in (r, d, m))"

interpretation wp_table: slot_table "dbg_wf \<circ> fst" "live_wps \<circ> fst" 16 wp_entry wp_add wp_remove
proof unfold_locales
  fix s :: "debugger \<times> 'a machine" and a :: "bool \<times> MEM_TWO_WORDS \<times> string option" and i :: int
  obtain d m where s: "s = (d, m)" by (cases s)
  assume "(dbg_wf \<circ> fst) s"
  then have wf: "dbg_wf d" by (simp add: s)
  obtain mem ad l where a: "a = (mem, ad, l)" by (cases a)
  show "length ((live_wps \<circ> fst) s) \<le> 16" using wf by (simp add: s live_wps_def dbg_wf_def)
  show "(dbg_wf \<circ> fst) (snd (wp_add a s))"
    using wf
    by (auto simp: s a wp_add_def debugger_add_watchpoint_def dbg_wf_def Let_def case_prod_beta)
  show "fst (wp_add a s) = - 1 \<and> (live_wps \<circ> fst) (snd (wp_add a s)) = (live_wps \<circ> fst) s"
    if "length ((live_wps \<circ> fst) s) = 16"
    using wf that
    by (simp add: s a wp_add_def debugger_add_watchpoint_def live_wps_def dbg_wf_def)
  show "fst (wp_add a s) = int (length ((live_wps \<circ> fst) s)) \<and>
      (live_wps \<circ> fst) (snd (wp_add a s)) = (live_wps \<circ> fst) s @ [wp_entry a s]"
    if "length ((live_wps \<circ> fst) s) < 16"
    using wf that
    by (simp add: s a wp_add_def wp_entry_def debugger_add_watchpoint_def live_wps_def dbg_wf_def
        Let_def case_prod_beta take_Suc_conv_app_nth peek_def)
  show "(dbg_wf \<circ> fst) (snd (wp_remove i s))"
    using wf
    by (auto simp: s wp_remove_def debugger_remove_watchpoint_def dbg_wf_def length_shift_down
        nat_less_iff)
  show "wp_remove i s = (- 1, s)" if "i < 0 \<or> int (length ((live_wps \<circ> fst) s)) \<le> i"
    using wf that
    by (auto simp: s wp_remove_def debugger_remove_watchpoint_def dbg_wf_def live_wps_def)
  show "fst (wp_remove i s) = 0 \<and>
      (live_wps \<circ> fst) (snd (wp_remove i s)) = without (nat i) ((live_wps \<circ> fst) s)"
    if "0 \<le> i" "i < int (length ((live_wps \<circ> fst) s))"
    using wf that shift_down_without [of "nat i" "watchpoint_count d" "watchpoints d"]
    by (simp add: s wp_remove_def debugger_remove_watchpoint_def dbg_wf_def live_wps_def
        nat_less_iff)
qed

text \<open>Enabling touches one field of one entry.\<close>

lemma enable_breakpoint_live:
  assumes "dbg_wf d"
  shows "live_bps (snd (debugger_enable_breakpoint i e d)) =
      (if 0 \<le> i \<and> i < int (length (live_bps d))
       then (live_bps d)[nat i := (live_bps d ! nat i)\<lparr>bp_enabled := e\<rparr>] else live_bps d)"
    and "dbg_wf (snd (debugger_enable_breakpoint i e d))"
  using assms
  by (auto simp: debugger_enable_breakpoint_def live_bps_def dbg_wf_def take_update_swap nat_less_iff)

subsection \<open>The breakpoint test\<close>

definition bp_hits :: "BP_TYPE \<Rightarrow> MEM_TWO_WORDS \<Rightarrow> BREAKPOINT \<Rightarrow> bool" where
  "bp_hits t a bp =
     (bp_enabled bp \<noteq> 0 \<and> bp_addr bp = a \<and> (bp_type bp = t \<or> bp_type bp = BP_TYPE_ACCESS))"

lemma check_from_find:
  "check_from k t a bps = map_option (\<lambda>i. (k + i, bps ! i))
     (find (\<lambda>i. bp_hits t a (bps ! i)) [0 ..< length bps])"
proof (induction bps arbitrary: k)
  case (Cons bp bps)
  have "find (\<lambda>i. bp_hits t a ((bp # bps) ! i)) [0 ..< length (bp # bps)] =
      (if bp_hits t a bp then Some 0
       else map_option Suc (find (\<lambda>i. bp_hits t a (bps ! i)) [0 ..< length bps]))"
  proof -
    have "find (\<lambda>i. P ((bp # bps) ! i)) (map Suc is) = map_option Suc (find (\<lambda>i. P (bps ! i)) is)"
      for P and "is" :: "nat list"
      by (induction "is") simp_all
    then show ?thesis by (simp add: upt_conv_Cons flip: map_Suc_upt del: upt_Suc)
  qed
  then show ?case
    using Cons.IH [of "k + 1"] by (auto simp: bp_hits_def option.map_comp o_def)
qed simp

lemma check_breakpoint_iff:
  "fst (debugger_check_breakpoint t a d) = (if \<exists>bp \<in> set (live_bps d). bp_hits t a bp then 1 else 0)"
proof -
  have none: "(find (\<lambda>i. bp_hits t a (xs ! i)) [0 ..< length xs] = None) =
      (\<forall>bp \<in> set xs. \<not> bp_hits t a bp)" for xs
    by (auto simp: find_None_iff all_set_conv_all_nth)
  show ?thesis
    unfolding debugger_check_breakpoint_def check_from_find live_bps_def [symmetric]
    using none [of "live_bps d"] by (auto split: option.split)
qed

lemma check_breakpoint_tables:
  "breakpoints (snd (debugger_check_breakpoint t a d)) = breakpoints d"
  "watchpoints (snd (debugger_check_breakpoint t a d)) = watchpoints d"
  "breakpoint_count (snd (debugger_check_breakpoint t a d)) = breakpoint_count d"
  "watchpoint_count (snd (debugger_check_breakpoint t a d)) = watchpoint_count d"
  by (auto simp: debugger_check_breakpoint_def split: option.split)

subsection \<open>The watchpoint scan\<close>

lemma bus_read_no_io: "no_io m \<Longrightarrow> bus_read a m = (peek a m, m)"
  by (rule region_mem.quiet_bus_read [OF no_io_quiet])

text \<open>What the scan makes of an entry, and the line it prints for it.\<close>

definition refreshed :: "'w machine \<Rightarrow> WATCHPOINT \<Rightarrow> WATCHPOINT" where
  "refreshed m wp = (if wp_enabled wp = 0 then wp else wp\<lparr>wp_old_value := peek (wp_addr wp) m\<rparr>)"

definition triggered :: "'w machine \<Rightarrow> nat \<Rightarrow> WATCHPOINT \<Rightarrow> dbg_event list" where
  "triggered m i wp =
     (if wp_enabled wp \<noteq> 0 \<and> peek (wp_addr wp) m \<noteq> wp_old_value wp
      then [Wp_Triggered i (wp_addr wp) (wp_old_value wp) (peek (wp_addr wp) m) (wp_label wp)]
      else [])"

lemma check_watchpoint_eq:
  assumes "no_io m" and "i < length (watchpoints d)"
  shows "check_watchpoint i (d, m) =
    (d\<lparr>watchpoints := (watchpoints d)[i := refreshed m (watchpoints d ! i)],
       console := console d @ triggered m i (watchpoints d ! i)\<rparr>, m)"
  using assms(2)
  by (cases d) (simp add: check_watchpoint_def Let_def bus_read_no_io [OF assms(1)] refreshed_def triggered_def say_def)

lemma check_watchpoints_upto:
  assumes "no_io m" and "n \<le> length (watchpoints d)"
  shows "fold check_watchpoint [0 ..< n] (d, m) =
    (d\<lparr>watchpoints := map (refreshed m) (take n (watchpoints d)) @ drop n (watchpoints d),
       console := console d @ concat (map (\<lambda>i. triggered m i (watchpoints d ! i)) [0 ..< n])\<rparr>, m)"
  using assms(2)
proof (induction n)
  case (Suc n)
  then have len: "n < length (watchpoints d)" by simp
  show ?case
    using Suc len by (simp add: check_watchpoint_eq [OF assms(1)] nth_append map_prefix_update)
qed simp

lemma check_watchpoints_eq:
  assumes "no_io m" and "dbg_wf d"
  shows "debugger_check_watchpoints (d, m) =
    (d\<lparr>watchpoints := map (refreshed m) (live_wps d) @ drop (watchpoint_count d) (watchpoints d),
       console := console d @
         concat (map (\<lambda>i. triggered m i (live_wps d ! i)) [0 ..< length (live_wps d)])\<rparr>, m)"
proof -
  have le: "watchpoint_count d \<le> length (watchpoints d)" using assms(2) by (simp add: dbg_wf_def)
  then have len: "length (live_wps d) = watchpoint_count d"
    and same: "map (\<lambda>i. triggered m i (live_wps d ! i)) [0 ..< watchpoint_count d] =
      map (\<lambda>i. triggered m i (watchpoints d ! i)) [0 ..< watchpoint_count d]"
    by (simp_all add: live_wps_def)
  show ?thesis
    unfolding debugger_check_watchpoints_def fst_conv check_watchpoints_upto [OF assms(1) le]
      len same live_wps_def [symmetric] ..
qed

text \<open>A second scan of the same memory reports nothing and changes nothing.\<close>

lemma check_watchpoints_twice:
  assumes "no_io m" and "dbg_wf d"
  shows "debugger_check_watchpoints (debugger_check_watchpoints (d, m)) =
    debugger_check_watchpoints (d, m)"
proof -
  let ?d = "fst (debugger_check_watchpoints (d, m))"
  have wf: "dbg_wf ?d"
    using assms by (simp add: check_watchpoints_eq dbg_wf_def live_wps_def)
  have live: "live_wps ?d = map (refreshed m) (live_wps d)"
    using assms by (simp add: check_watchpoints_eq [OF assms] dbg_wf_def live_wps_def)
  have "refreshed m (refreshed m wp) = refreshed m wp" "triggered m i (refreshed m wp) = []" for wp i
    by (auto simp: refreshed_def triggered_def)
  then have "debugger_check_watchpoints (?d, m) = (?d\<lparr>watchpoints :=
      live_wps ?d @ drop (watchpoint_count ?d) (watchpoints ?d)\<rparr>, m)"
    by (subst check_watchpoints_eq [OF assms(1) wf]) (simp add: live o_def cong: map_cong)
  also have "\<dots> = (?d, m)" by (simp add: live_wps_def)
  finally show ?thesis
    using check_watchpoints_eq [OF assms] by simp
qed

end
