(* ===== verification/Inspect_Spec.thy ===== *)
theory Inspect_Spec
  imports Debugger_Spec
begin

text \<open>
  The memory commands of src/debugger.c on memory without I/O handlers: the lines of the hex
  dump, of the disassembly and of the stack dump, the matches of the search, and where the
  disassembler's instruction lengths agree with the CPU's.
\<close>

subsection \<open>Reading several bytes\<close>

lemma word_of_nat_Suc_add: "(a :: 'a::len word) + 1 + of_nat i = a + of_nat (Suc i)"
  by simp

lemma read_bytes_no_io:
  assumes "no_io m"
  shows "read_bytes n a m = (map (\<lambda>i. peek (a + of_nat i) m) [0 ..< n], m)"
proof (induction n arbitrary: a)
  case (Suc n)
  have "map (\<lambda>i. peek (a + of_nat i) m) [0 ..< Suc n] =
      peek a m # map (\<lambda>i. peek (a + 1 + of_nat i) m) [0 ..< n]"
    by (simp add: upt_conv_Cons add.assoc flip: map_Suc_upt del: upt_Suc)
  then show ?case using Suc by (simp add: bus_read_no_io [OF assms])
qed simp

lemma match_at_no_io:
  assumes "no_io m"
  shows "match_at a ps m = (\<forall>j < length ps. peek (a + of_nat j) m = ps ! j, m)"
proof (induction ps arbitrary: a)
  case (Cons p ps)
  have "(\<forall>j < length (p # ps). peek (a + of_nat j) m = (p # ps) ! j) =
      (peek a m = p \<and> (\<forall>j < length ps. peek (a + 1 + of_nat j) m = ps ! j))"
    by (auto simp: All_less_Suc2 add.assoc)
  then show ?case using Cons by (simp add: bus_read_no_io [OF assms])
qed simp

subsection \<open>Hex dump\<close>

text \<open>Line \<open>i\<close> of a dump of \<open>len\<close> bytes: up to 16 bytes from \<open>a + 16 i\<close>, in both columns.\<close>

definition hex_line :: "'w machine \<Rightarrow> MEM_TWO_WORDS \<Rightarrow> nat \<Rightarrow> nat \<Rightarrow> dbg_event" where
  "hex_line m a len i =
     (let k = min 16 (len - 16 * i); base = a + of_nat (16 * i);
          bytes = map (\<lambda>j. peek (base + of_nat j) m) [0 ..< k]
      in Hex_Line base (map Some bytes @ replicate (16 - k) None) (map printable bytes))"

lemma hexdump_lines_no_io:
  assumes "no_io m"
  shows "hexdump_lines a len (16 * i) (d, m) =
    (d\<lparr>console := console d @ map (hex_line m a len) [i ..< (len + 15) div 16]\<rparr>, m)"
proof (induction "(len + 15) div 16 - i" arbitrary: i d)
  case 0
  then have "\<not> 16 * i < len" by linarith
  with 0 show ?case by (simp add: hexdump_lines.simps)
next
  case (Suc n)
  then have lt: "i < (len + 15) div 16" "16 * i < len" by linarith+
  have k: "(if 16 * i + 16 > len then len else 16 * i + 16) - 16 * i = min 16 (len - 16 * i)"
    using lt by (simp add: min_def) arith
  have "n = (len + 15) div 16 - (i + 1)" using Suc(2) by linarith
  note IH = Suc(1) [OF this]
  have "hexdump_lines a len (16 * i) (d, m) =
      hexdump_lines a len (16 * (i + 1)) (say (hex_line m a len i) d, m)"
    using lt k
    by (subst hexdump_lines.simps)
      (simp add: read_bytes_no_io [OF assms] Let_def hex_line_def algebra_simps)
  then show ?case
    using IH lt by (simp add: say_def upt_conv_Cons [of i])
qed

lemma hexdump_no_io:
  assumes "no_io m"
  shows "debugger_hexdump a len (d, m) =
    (d\<lparr>console := console d @ Hex_Header a len # map (hex_line m a (unat len)) [0 ..< (unat len + 15) div 16]\<rparr>, m)"
  using hexdump_lines_no_io [OF assms, of a "unat len" 0]
  by (simp add: debugger_hexdump_def say_def)

subsection \<open>Disassembly\<close>

text \<open>The opcodes whose length the disassembler, which knows the table's modes only, gets wrong.\<close>

definition mis_sized :: "CPU_VARIANT \<Rightarrow> MEM_WORD list" where
  "mis_sized v =
     (case v of
        CPU_VARIANT_NMOS_6502 \<Rightarrow>
          [0x03, 0x13, 0x1B, 0x23, 0x33, 0x3B, 0x43, 0x53, 0x5B, 0x63, 0x73, 0x7B, 0x83, 0x93,
           0xA3, 0xB3, 0xC3, 0xD3, 0xDB, 0xE3, 0xF3, 0xFB]
      | CPU_VARIANT_CMOS_65C02 \<Rightarrow> [0x0B, 0x2B, 0x4B, 0x6B, 0xEB])"

lemma operand_size_length: "operand_size mode = operand_length mode"
  by (cases mode) (simp_all add: operand_size_def)

text \<open>The tables are gone through in two halves.\<close>

lemma all_halves:
  assumes "list_all (\<lambda>(op, x). P op x) (zip (take 128 opcodes) (take 128 xs))"
    and "list_all (\<lambda>(op, x). P op x) (zip (drop 128 opcodes) (drop 128 xs))"
    and "length xs = 256"
  shows "P op (xs ! unat op)"
proof -
  have "zip opcodes xs = zip (take 128 opcodes) (take 128 xs) @ zip (drop 128 opcodes) (drop 128 xs)"
    by (simp flip: take_zip drop_zip)
  then have "list_all (\<lambda>(op, x). P op x) (zip opcodes xs)" using assms(1,2) by simp
  from all_entries [OF this assms(3)] show ?thesis .
qed

lemmas opcode_halves =
  arg_cong [OF opcodes_def, of "take 128", simplified] arg_cong [OF opcodes_def, of "drop 128", simplified]
  arg_cong [OF table_modes_list, of "take 128", simplified]
  arg_cong [OF table_modes_list, of "drop 128", simplified]

lemma mis_sized_nmos:
  "(operand_length (table_modes ! unat op) \<noteq>
      operand_length (let ov = nmos_addr_override op in
        if ov \<noteq> ADDR_NONE then ov else table_modes ! unat op)) =
    (op \<in> set (mis_sized CPU_VARIANT_NMOS_6502))"
  (is "?P op (table_modes ! unat op)")
proof (rule all_halves [where P = ?P, OF _ _ length_table_modes])
  show "list_all (\<lambda>(op, m). ?P op m) (zip (take 128 opcodes) (take 128 table_modes))"
    by (simp add: opcode_halves nmos_addr_override_def mis_sized_def)
  show "list_all (\<lambda>(op, m). ?P op m) (zip (drop 128 opcodes) (drop 128 table_modes))"
    by (simp add: opcode_halves nmos_addr_override_def mis_sized_def)
qed

lemma mis_sized_cmos:
  "(operand_length (table_modes ! unat op) \<noteq>
      operand_length (case cmos_addr_override op of
        Some ov \<Rightarrow> ov | None \<Rightarrow> table_modes ! unat op)) =
    (op \<in> set (mis_sized CPU_VARIANT_CMOS_65C02))"
  (is "?P op (table_modes ! unat op)")
proof (rule all_halves [where P = ?P, OF _ _ length_table_modes])
  show "list_all (\<lambda>(op, m). ?P op m) (zip (take 128 opcodes) (take 128 table_modes))"
    by (simp add: opcode_halves cmos_addr_override_def mis_sized_def)
  show "list_all (\<lambda>(op, m). ?P op m) (zip (drop 128 opcodes) (drop 128 table_modes))"
    by (simp add: opcode_halves cmos_addr_override_def mis_sized_def)
qed

lemma mis_sized_iff:
  "(operand_size (ADDR (META_of op)) \<noteq> operand_length (mode_of v op)) = (op \<in> set (mis_sized v))"
  using mis_sized_nmos [of op] mis_sized_cmos [of op]
  by (cases v) (simp_all add: operand_size_length mode_of_def table_modes_eq)

text \<open>The line printed for the instruction at \<open>a\<close>, and the address of the next.\<close>

definition dis_line :: "'w machine \<Rightarrow> MEM_TWO_WORDS \<Rightarrow> dbg_event" where
  "dis_line m a =
     (let op = peek a m in
      Dis_Line a op (map (\<lambda>j. peek (a + 1 + of_nat j) m) [0 ..< operand_length (ADDR (META_of op))])
        (CMD (META_of op)))"

definition dis_next :: "'w machine \<Rightarrow> MEM_TWO_WORDS \<Rightarrow> MEM_TWO_WORDS" where
  "dis_next m a = a + 1 + of_nat (operand_length (ADDR (META_of (peek a m))))"

lemma disassemble_step:
  assumes "no_io m"
  shows "disassemble_lines (Suc n) a (d, m) =
    disassemble_lines n (dis_next m a) (say (dis_line m a) d, m)"
  by (simp add: bus_read_no_io [OF assms] read_bytes_no_io [OF assms] Let_def dis_line_def
      dis_next_def operand_size_length)

lemma disassemble_lines_no_io:
  assumes "no_io m"
  shows "disassemble_lines n a (d, m) =
    (d\<lparr>console := console d @ map (\<lambda>i. dis_line m ((dis_next m ^^ i) a)) [0 ..< n]\<rparr>, m)"
proof (induction n arbitrary: a d)
  case (Suc n)
  have "map (\<lambda>i. dis_line m ((dis_next m ^^ i) a)) [0 ..< Suc n] =
      dis_line m a # map (\<lambda>i. dis_line m ((dis_next m ^^ i) (dis_next m a))) [0 ..< n]"
    by (simp add: upt_conv_Cons funpow_swap1 flip: map_Suc_upt del: upt_Suc)
  then show ?case
    unfolding disassemble_step [OF assms] by (simp add: Suc say_def del: upt_Suc)
qed simp

subsection \<open>Stack dump\<close>

lemma stack_lines_no_io:
  assumes "no_io m" and "a < 0x0200" and "i \<le> 16"
  shows "stack_lines [i ..< 16] a (d, m) =
    (d\<lparr>console := console d @ map (\<lambda>j. Stack_Line (a + of_nat j + 1) (peek (a + of_nat j + 1) m))
        [i ..< max i (min 16 (0x1FF - unat a))]\<rparr>, m)"
  using assms(3)
proof (induction "16 - i" arbitrary: i d)
  case (Suc n)
  then have i: "i < 16" by simp
  have a: "unat a < 0x200" using assms(2) by (simp add: word_less_nat_alt)
  have u: "unat (a + of_nat i + 1) = unat a + i + 1"
    using a i by (simp add: unat_word_ariths unat_of_nat)
  show ?case
  proof (cases "a + of_nat i + 1 > 0x01FF")
    case True
    then have "0x1FF - unat a \<le> i" by (simp add: word_less_nat_alt u)
    then have "[i ..< max i (min 16 (0x1FF - unat a))] = []" by simp
    then show ?thesis using True i by (simp add: upt_conv_Cons [OF i])
  next
    case False
    then have "i < 0x1FF - unat a" by (simp add: word_less_nat_alt u)
    then have r: "max i (min 16 (0x1FF - unat a)) = max (Suc i) (min 16 (0x1FF - unat a))"
      and ne: "i < max (Suc i) (min 16 (0x1FF - unat a))"
      using i by linarith+
    show ?thesis
      using False Suc(1) [of "Suc i"] Suc(2) i
      by (simp add: upt_conv_Cons [OF i] bus_read_no_io [OF assms(1)] Let_def say_def r
          upt_conv_Cons [OF ne])
  qed
qed simp

lemma stack_pointer_word: "(0x0100 OR ucast s :: MEM_TWO_WORDS) = stack_addr s"
proof -
  have "(0x0100 :: MEM_TWO_WORDS) = 2 ^ 8" by simp
  then have "(0x0100 OR ucast s :: MEM_TWO_WORDS) = 0x0100 + ucast s"
    using bit_imp_le_length [of s 8]
    by (intro disjunctive_add [symmetric]) (simp only: bit_exp_iff bit_ucast_iff, auto)
  then show ?thesis by (simp add: stack_addr_def)
qed

subsection \<open>Search\<close>

definition occurs :: "'w machine \<Rightarrow> MEM_WORD list \<Rightarrow> nat \<Rightarrow> bool" where
  "occurs m ps i = (\<forall>j < length ps. peek (of_nat i + of_nat j) m = ps ! j)"

lemma search_loop_no_io:
  assumes "no_io m" and "n \<le> 0x10000"
  shows "search_loop (of_nat n) bound ps found (d, m) =
    (let hits = filter (occurs m ps) [n ..< min 0x10000 (unat bound + 1)] in
     (found + int (length hits), d\<lparr>console := console d @ map (Search_Hit \<circ> of_nat) hits\<rparr>, m))"
  using assms(2)
proof (induction "0x10000 - n" arbitrary: n found d)
  case 0
  then have "n = 0x10000" by simp
  then show ?case by (simp add: search_loop.simps)
next
  case (Suc k)
  then have n: "n < 0x10000" by simp
  have u: "unat (of_nat n :: uint32) = n" using n by (simp add: unat_of_nat)
  show ?case
  proof (cases "(of_nat n :: uint32) \<le> bound")
    case False
    then have "[n ..< min 0x10000 (unat bound + 1)] = []" by (simp add: word_le_nat_alt u)
    then show ?thesis using False by (subst search_loop.simps) simp
  next
    case True
    then have lt: "n < min 0x10000 (unat bound + 1)" using n by (simp add: word_le_nat_alt u)
    have c: "(of_nat n :: uint32) \<le> bound \<and> (of_nat n :: uint32) \<le> 0xFFFF"
      using True n by (simp add: word_le_nat_alt u)
    have a: "(ucast (of_nat n :: uint32) :: MEM_TWO_WORDS) = of_nat n"
      using n by (simp add: word_unat_eq_iff unat_ucast_word unat_of_nat)
    have m: "match_at (of_nat n) ps m = (occurs m ps n, m)"
      by (simp add: match_at_no_io [OF assms(1)] occurs_def)
    have s: "(of_nat n :: uint32) + 1 = of_nat (Suc n)" by simp
    have IH: "search_loop (of_nat (Suc n)) bound ps f (e, m) =
      (let hits = filter (occurs m ps) [Suc n ..< min 0x10000 (unat bound + 1)] in
       (f + int (length hits), e\<lparr>console := console e @ map (Search_Hit \<circ> of_nat) hits\<rparr>, m))" for f e
      using Suc n by (intro Suc(1)) simp_all
    have "search_loop (of_nat n) bound ps found (d, m) =
      (if occurs m ps n
       then search_loop (of_nat (Suc n)) bound ps (found + 1) (say (Search_Hit (of_nat n)) d, m)
       else search_loop (of_nat (Suc n)) bound ps found (d, m))"
      by (subst search_loop.simps) (simp only: c m s a Let_def split simp_thms if_True)
    then show ?thesis
      by (simp only: IH Let_def upt_conv_Cons [OF lt]) (simp add: say_def)
  qed
qed

text \<open>How far the search goes: to the last place the pattern fits, when it fits at all.\<close>

definition search_limit :: "MEM_TWO_WORDS \<Rightarrow> nat \<Rightarrow> nat" where
  "search_limit e len = (if len \<le> unat e + 1 then unat e + 2 - len else 0x10000)"

lemma search_bound:
  fixes e :: MEM_TWO_WORDS
  assumes "0 < len" and "len < 0x10000"
  shows "min 0x10000 (unat ((ucast e :: uint32) - of_nat len + 1) + 1) = search_limit e len"
proof -
  have l: "unat (of_nat len :: uint32) = len" using assms(2) by (simp add: unat_of_nat)
  have e: "unat (ucast e :: uint32) = unat e" "unat e < 0x10000" by (simp_all add: unat_word16_less)
  show ?thesis
  proof (cases "len \<le> unat e + 1")
    case True
    have "(ucast e :: uint32) - of_nat len + 1 = of_nat (unat e + 1 - len)"
      using True by (simp add: of_nat_diff)
    then have "unat ((ucast e :: uint32) - of_nat len + 1) = unat e + 1 - len"
      using e(2) by (simp add: unat_of_nat)
    then show ?thesis using True assms(1) e(2) by (simp add: search_limit_def)
  next
    case False
    define k where "k = len - (unat e + 1)"
    have k: "0 < k" "k < 0x10000" using False assms(2) by (simp_all add: k_def)
    have "(of_nat (2 ^ 32 - k) :: uint32) = of_nat (2 ^ 32) - of_nat k"
      using k(2) by (intro of_nat_diff) simp
    also have "\<dots> = (ucast e :: uint32) - of_nat len + 1"
      using False by (simp add: k_def of_nat_diff)
    finally have w: "(ucast e :: uint32) - of_nat len + 1 = of_nat (2 ^ 32 - k)" by simp
    have "unat ((ucast e :: uint32) - of_nat len + 1) = 2 ^ 32 - k"
      unfolding w using k(1) by (simp only: unat_of_nat) simp
    then show ?thesis using False k by (simp add: search_limit_def)
  qed
qed

lemma search_memory_no_io:
  fixes s e :: MEM_TWO_WORDS
  assumes "no_io m" and "length ps < 0x10000"
  defines "hits \<equiv> (if ps = [] then []
    else filter (occurs m ps) [unat s ..< search_limit e (length ps)])"
  shows "debugger_search_memory s e ps (d, m) =
    (int (length hits), d\<lparr>console := console d @ Search_Header s e #
       map (Search_Hit \<circ> of_nat) hits @ [Search_Found (int (length hits))]\<rparr>, m)"
proof (cases "ps = []")
  case True
  then show ?thesis by (simp add: debugger_search_memory_def hits_def say_def)
next
  case False
  have s: "(ucast s :: uint32) = of_nat (unat s)" by simp
  have le: "unat s \<le> 0x10000" using unat_word16_less [of s] by simp
  have b: "min 0x10000 (unat ((ucast e :: uint32) - of_nat (length ps) + 1) + 1) =
      search_limit e (length ps)"
    using False assms(2) by (intro search_bound) simp_all
  show ?thesis
    unfolding debugger_search_memory_def split Let_def s search_loop_no_io [OF assms(1) le] b hits_def
    using False by (simp add: say_def)
qed

end
