(* ===== verification/Profiler_Spec.thy ===== *)
theory Profiler_Spec
  imports Debugger "HOL-Library.Multiset"
begin

text \<open>
  The profiler of src/debugger.c: the counters count what was recorded, and the partial
  exchange sort of \<open>profiler_dump_hotspots\<close> brings the most executed addresses to the front.
\<close>

subsection \<open>The counters\<close>

definition record_run ::
  "(MEM_TWO_WORDS \<times> MEM_WORD \<times> uint32) list \<Rightarrow> debugger \<Rightarrow> debugger" where
  "record_run = fold (\<lambda>(pc, opcode, cycles). profiler_record_instruction pc opcode cycles)"

lemma record_run_counts:
  assumes "profiling_enabled d \<noteq> 0"
  shows "total_cycles (prof_data (record_run es d)) =
      total_cycles (prof_data d) + sum_list (map (\<lambda>(pc, op, c). ucast c) es)"
    and "instruction_counts (prof_data (record_run es d)) op =
      instruction_counts (prof_data d) op + of_nat (length (filter (\<lambda>(pc, o', c). o' = op) es))"
    and "address_exec_counts (prof_data (record_run es d)) a =
      address_exec_counts (prof_data d) a + of_nat (length (filter (\<lambda>(pc, o', c). pc = a) es))"
  using assms
  by (induction es arbitrary: d)
    (auto simp: record_run_def profiler_record_instruction_def Let_def)

subsection \<open>The exchange sort\<close>

abbreviation hot :: "MEM_TWO_WORDS \<times> uint64 \<Rightarrow> uint64" where "hot \<equiv> snd"

text \<open>One pass over \<open>j\<close> puts a maximum of the rest at \<open>i\<close>.\<close>

lemma hot_pass_facts:
  assumes "i < j" and "i < length xs" and "\<And>k. i < k \<Longrightarrow> k < j \<Longrightarrow> k < length xs \<Longrightarrow> hot (xs ! k) \<le> hot (xs ! i)"
  shows "mset (hot_pass i j xs) = mset xs \<and> take i (hot_pass i j xs) = take i xs \<and>
    (\<forall>k. i < k \<and> k < length xs \<longrightarrow> hot (hot_pass i j xs ! k) \<le> hot (hot_pass i j xs ! i))"
  using assms
proof (induction i j xs rule: hot_pass.induct)
  case (1 i j xs)
  show ?case
  proof (cases "j < length xs")
    case True
    let ?ys = "if hot (xs ! j) > hot (xs ! i) then xs[i := xs ! j, j := xs ! i] else xs"
    have "\<And>k. i < k \<Longrightarrow> k < j + 1 \<Longrightarrow> k < length ?ys \<Longrightarrow> hot (?ys ! k) \<le> hot (?ys ! i)"
    proof -
      fix k
      assume k: "i < k" "k < j + 1" "k < length ?ys"
      show "hot (?ys ! k) \<le> hot (?ys ! i)"
      proof (cases "k = j")
        case False
        then have "hot (xs ! k) \<le> hot (xs ! i)" using k 1(4) [of k] by (simp split: if_splits)
        with False k 1(2) True show ?thesis by (auto simp: nth_list_update)
      qed (use 1(2,3) True in \<open>auto simp: nth_list_update\<close>)
    qed
    moreover have "mset ?ys = mset xs" "take i ?ys = take i xs" "length ?ys = length xs"
      using 1(2,3) True by (simp_all add: mset_swap)
    ultimately show ?thesis
      using 1(1) [OF True] 1(2,3) True by (simp add: hot_pass.simps [of i j xs] del: if_split)
  next
    case False
    then show ?thesis using 1(4) by (simp add: hot_pass.simps [of i j xs])
  qed
qed

text \<open>The first \<open>i\<close> entries are in descending order and dominate the rest.\<close>

definition tops :: "nat \<Rightarrow> (MEM_TWO_WORDS \<times> uint64) list \<Rightarrow> bool" where
  "tops i xs = (\<forall>p q. p < i \<and> p < q \<and> q < length xs \<longrightarrow> hot (xs ! q) \<le> hot (xs ! p))"

lemma same_rest:
  assumes "mset ys = mset xs" and "take i ys = take i xs"
  shows "set (drop i ys) = set (drop i xs)"
proof -
  have "mset (take i ys) + mset (drop i ys) = mset (take i xs) + mset (drop i xs)"
    by (simp only: mset_append [symmetric] append_take_drop_id assms(1))
  then have "mset (drop i ys) = mset (drop i xs)" using assms(2) by simp
  then show ?thesis by (rule mset_eq_setD)
qed

lemma tops_hot_pass:
  assumes "tops i xs" and "i < length xs"
  shows "tops (i + 1) (hot_pass i (i + 1) xs)"
  unfolding tops_def
proof (intro allI impI)
  let ?ys = "hot_pass i (i + 1) xs"
  have f: "mset ?ys = mset xs" "take i ?ys = take i xs"
    "\<And>k. i < k \<Longrightarrow> k < length xs \<Longrightarrow> hot (?ys ! k) \<le> hot (?ys ! i)"
    using hot_pass_facts [of i "i + 1" xs] assms(2) by auto
  fix p q
  assume pq: "p < i + 1 \<and> p < q \<and> q < length ?ys"
  show "hot (?ys ! q) \<le> hot (?ys ! p)"
  proof (cases "p = i")
    case False
    have p: "?ys ! p = xs ! p" using f(2) pq False by (metis less_Suc_eq Suc_eq_plus1 nth_take)
    show ?thesis
    proof (cases "q < i")
      case True
      then have "?ys ! q = xs ! q" using f(2) by (metis nth_take)
      then show ?thesis using p pq True assms(1) by (simp add: tops_def)
    next
      case q: False
      then have "?ys ! q = drop i ?ys ! (q - i)" and "q - i < length (drop i ?ys)"
        using q pq by (auto intro: diff_less_mono)
      then have "?ys ! q \<in> set (drop i ?ys)" by (metis nth_mem)
      then obtain r where "r < length (drop i xs)" "?ys ! q = drop i xs ! r"
        using same_rest [OF f(1,2)] by (metis in_set_conv_nth)
      then show ?thesis using p pq False assms(1) by (simp add: tops_def)
    qed
  qed (use f(3) pq in simp)
qed

lemma hot_sort_facts:
  assumes "tops i xs"
  shows "mset (hot_sort i n xs) = mset xs \<and>
    tops (max i (min (length xs) (nat n))) (hot_sort i n xs)"
  using assms
proof (induction i n xs rule: hot_sort.induct)
  case (1 i n xs)
  show ?case
  proof (cases "i < length xs \<and> int i < n")
    case True
    have "mset (hot_pass i (i + 1) xs) = mset xs"
      using hot_pass_facts [of i "i + 1" xs] True by auto
    moreover have "max (i + 1) (min (length xs) (nat n)) = max i (min (length xs) (nat n))"
      using True by linarith
    ultimately show ?thesis
      using 1(1) [OF True tops_hot_pass] 1(2) True by (simp add: hot_sort.simps [of i n xs])
  next
    case False
    then have "max i (min (length xs) (nat n)) = i" by linarith
    then show ?thesis using 1(2) by (simp add: hot_sort.simps [of i n xs] False)
  qed
qed

subsection \<open>What is printed\<close>

lemma active_set: "set (active_addresses c) = {(a, n). n = c a \<and> n > 0}"
proof -
  have "a \<in> word_of_nat ` {0 ..< 65536}" for a :: MEM_TWO_WORDS
    using unat_word16_less [of a] by (intro image_eqI [of _ _ "unat a"]) simp_all
  then show ?thesis by (auto simp: active_addresses_def)
qed

lemma active_distinct: "distinct (active_addresses c)"
proof -
  have "inj_on (word_of_nat :: nat \<Rightarrow> MEM_TWO_WORDS) {0 ..< 65536}"
    by (rule inj_onI) (auto dest!: arg_cong [where f = unat] simp: unat_of_nat)
  then have "distinct (map word_of_nat [0 ..< 65536] :: MEM_TWO_WORDS list)"
    by (simp add: distinct_map)
  then show ?thesis by (simp add: active_addresses_def distinct_map inj_on_def)
qed

lemma hotspots_facts:
  fixes c n
  defines "hs \<equiv> hotspots n c"
  shows "length hs = min (nat n) (card {a. c a > 0})"
    and "distinct hs" and "set hs \<subseteq> {(a, k). k = c a \<and> k > 0}"
    and "sorted_wrt (\<lambda>x y. hot y \<le> hot x) hs"
    and "c a > 0 \<Longrightarrow> (a, c a) \<notin> set hs \<Longrightarrow> h \<in> set hs \<Longrightarrow> c a \<le> hot h"
proof -
  let ?xs = "active_addresses c"
  let ?ys = "hot_sort 0 n ?xs"
  let ?k = "min (length ?xs) (nat n)"
  have f: "mset ?ys = mset ?xs" "tops ?k ?ys"
    using hot_sort_facts [of 0 ?xs n] by (simp_all add: tops_def)
  have len: "length ?ys = length ?xs" by (rule mset_eq_length [OF f(1)])
  have "nat (if n < int k then n else int k) = min k (nat n)" for k by simp
  then have hs: "hs = take ?k ?ys" by (simp add: hs_def hotspots_def Let_def len)
  have dist: "distinct ?ys" and sets: "set ?ys = set ?xs"
    using f(1) active_distinct [of c] by (auto dest: mset_eq_setD mset_eq_imp_distinct_iff)
  have "length ?xs = card (set ?xs)" using active_distinct by (simp add: distinct_card)
  also have "\<dots> = card {a. c a > 0}"
    unfolding active_set
    by (rule bij_betw_same_card [of fst]) (auto simp: bij_betw_def inj_on_def image_iff)
  finally show "length hs = min (nat n) (card {a. c a > 0})" by (simp add: hs len min.commute)
  show "distinct hs" using dist by (simp add: hs)
  show "set hs \<subseteq> {(a, k). k = c a \<and> k > 0}"
    using sets active_set set_take_subset [of ?k ?ys] by (auto simp: hs)
  show "sorted_wrt (\<lambda>x y. hot y \<le> hot x) hs"
    using f(2) by (simp add: hs sorted_wrt_iff_nth_less tops_def len)
  assume "c a > 0" and out: "(a, c a) \<notin> set hs" and "h \<in> set hs"
  then have "(a, c a) \<in> set ?ys" by (simp add: sets active_set)
  then obtain q where q: "q < length ?ys" "?ys ! q = (a, c a)" by (auto simp: in_set_conv_nth)
  obtain p where p: "p < ?k" "h = ?ys ! p"
    using \<open>h \<in> set hs\<close> by (auto simp: hs in_set_conv_nth)
  have "\<not> q < ?k" using out q by (auto simp: hs in_set_conv_nth)
  then have "p < q" using p(1) by linarith
  then have "hot (?ys ! q) \<le> hot (?ys ! p)" using f(2) p(1) q(1) unfolding tops_def by blast
  then show "c a \<le> hot h" by (simp add: p q)
qed

end
