(* ===== verification/Debugger_Properties.thy ===== *)
theory Debugger_Properties
  imports Instr_Properties Inspect_Spec Profiler_Spec
begin

text \<open>
  The properties of src/debugger.c: its two tables, the breakpoint test, the watchpoint scan,
  the profiler's hot spots, and what the memory commands report.
\<close>

definition zero_debugger :: debugger where
  "zero_debugger = debugger_init
     \<lparr>breakpoints = [], watchpoints = [], breakpoint_count = 0, watchpoint_count = 0,
      prof_data = zero_prof, profiling_enabled = 0, interactive_mode = 0, debugger_paused = 0,
      console = []\<rparr>"

lemma zero_debugger_facts [simp]:
  "dbg_wf zero_debugger" "live_bps zero_debugger = []" "live_wps zero_debugger = []"
  "profiling_enabled zero_debugger = 1" "prof_data zero_debugger = zero_prof"
  "console zero_debugger = []"
  unfolding zero_debugger_def by (rule dbg_wf_init)+ (simp_all add: debugger_init_def profiler_init_def)

lemma ex_in_set_nth: "(\<exists>x \<in> set xs. P x) = (\<exists>i < length xs. P (xs ! i))"
  by (metis in_set_conv_nth)

subsection \<open>Breakpoints\<close>

text \<open>
  C36. The breakpoint table is a list of at most 32 entries: adding appends an enabled entry
  and returns its index, or returns -1 and keeps the list when it is full; removing by a valid
  index deletes that entry and closes the gap, by an invalid one returns -1 and changes
  nothing; removing the entry just added restores the list.
\<close>

theorem breakpoint_table_is_list:
  assumes "dbg_wf d"
  shows "(let (r, d') = debugger_add_breakpoint mem t a l d in
      dbg_wf d' \<and>
      (if length (live_bps d) < 32
       then r = int (length (live_bps d)) \<and>
         live_bps d' = live_bps d @
           [\<lparr>bp_enabled = 1, bp_type = t, bp_addr = a, bp_label = copy_label mem l\<rparr>] \<and>
         live_bps (snd (debugger_remove_breakpoint r d')) = live_bps d
       else r = - 1 \<and> live_bps d' = live_bps d)) \<and>
    (let (r, d') = debugger_remove_breakpoint i d in
      dbg_wf d' \<and>
      (if 0 \<le> i \<and> i < int (length (live_bps d))
       then r = 0 \<and> live_bps d' = take (nat i) (live_bps d) @ drop (nat i + 1) (live_bps d)
       else r = - 1 \<and> d' = d))"
  using bp_table.add_ok [OF assms, of "(mem, t, a, l)"]
    bp_table.add_result [OF assms, of "(mem, t, a, l)"]
    bp_table.remove_added [OF assms, of "(mem, t, a, l)"]
    bp_table.remove_ok [OF assms, of i] bp_table.remove_bad [OF assms, of i]
    bp_table.remove_good [OF assms, of i]
  by (auto simp: bp_add_def bp_entry_def without_def Let_def case_prod_beta split: if_splits)

theorem breakpoint_table_is_list_witness:
  "fst (debugger_add_breakpoint True BP_TYPE_EXEC 0x8000 None zero_debugger) = 0 \<and>
   debugger_remove_breakpoint 0 zero_debugger = (- 1, zero_debugger)"
  using breakpoint_table_is_list [of zero_debugger, where mem = True and t = BP_TYPE_EXEC and a = "0x8000"
      and l = None and i = 0]
  by (auto simp: case_prod_beta prod_eq_iff Let_def)

text \<open>
  A breakpoint check reports a hit exactly when some entry in use is enabled, has the
  address and has the kind of access or the kind ACCESS; it changes no table. An entry that
  has just been added is hit, until it is disabled when it was the only one.
\<close>

theorem breakpoint_check_exact:
  assumes "dbg_wf d"
  shows "fst (debugger_check_breakpoint t a d) =
      (if \<exists>i < length (live_bps d). bp_enabled (live_bps d ! i) \<noteq> 0 \<and> bp_addr (live_bps d ! i) = a \<and>
          (bp_type (live_bps d ! i) = t \<or> bp_type (live_bps d ! i) = BP_TYPE_ACCESS)
       then 1 else 0) \<and>
    live_bps (snd (debugger_check_breakpoint t a d)) = live_bps d \<and>
    (length (live_bps d) < 32 \<longrightarrow>
      fst (debugger_check_breakpoint t a (snd (debugger_add_breakpoint mem t a l d))) = 1) \<and>
    (live_bps d = [] \<longrightarrow>
      fst (debugger_check_breakpoint t a (snd (debugger_enable_breakpoint 0 0
        (snd (debugger_add_breakpoint mem t a l d))))) = 0)"
proof (intro conjI impI)
  note add = bp_table.add_room [OF assms, of "(mem, t, a, l)"]
    bp_table.add_ok [OF assms, of "(mem, t, a, l)"]
  show "fst (debugger_check_breakpoint t a d) =
      (if \<exists>i < length (live_bps d). bp_enabled (live_bps d ! i) \<noteq> 0 \<and> bp_addr (live_bps d ! i) = a \<and>
          (bp_type (live_bps d ! i) = t \<or> bp_type (live_bps d ! i) = BP_TYPE_ACCESS)
       then 1 else 0)"
    unfolding check_breakpoint_iff bp_hits_def ex_in_set_nth by (rule refl)
  show "live_bps (snd (debugger_check_breakpoint t a d)) = live_bps d"
    by (simp add: live_bps_def check_breakpoint_tables)
  show "fst (debugger_check_breakpoint t a (snd (debugger_add_breakpoint mem t a l d))) = 1"
    if "length (live_bps d) < 32"
    using add that by (simp add: check_breakpoint_iff bp_add_def bp_entry_def bp_hits_def)
  show "fst (debugger_check_breakpoint t a (snd (debugger_enable_breakpoint 0 0
        (snd (debugger_add_breakpoint mem t a l d))))) = 0"
    if "live_bps d = []"
    using add that
    by (simp add: check_breakpoint_iff bp_add_def bp_entry_def bp_hits_def enable_breakpoint_live)
qed

theorem breakpoint_check_exact_witness:
  "fst (debugger_check_breakpoint BP_TYPE_READ 5
     (snd (debugger_add_breakpoint True BP_TYPE_READ 5 None zero_debugger))) = 1"
  using breakpoint_check_exact [of zero_debugger BP_TYPE_READ 5 True None] by simp

subsection \<open>Watchpoints\<close>

text \<open>
  C37. A scan of the watchpoints of a memory without I/O handlers reports exactly the enabled
  ones whose byte differs from the remembered value, in slot order with old and new value,
  remembers the new values, and leaves the machine alone; a second scan reports nothing.
\<close>

theorem watchpoint_scan_exact:
  assumes "no_io m" and "dbg_wf d"
  defines "on \<equiv> \<lambda>wp. wp_enabled wp \<noteq> 0" and "now \<equiv> \<lambda>wp. peek (wp_addr wp) m"
  shows "let (d', m') = debugger_check_watchpoints (d, m) in
    m' = m \<and>
    live_wps d' = map (\<lambda>wp. if on wp then wp\<lparr>wp_old_value := now wp\<rparr> else wp) (live_wps d) \<and>
    console d' = console d @
      map (\<lambda>i. let wp = live_wps d ! i in
          Wp_Triggered i (wp_addr wp) (wp_old_value wp) (now wp) (wp_label wp))
        (filter (\<lambda>i. on (live_wps d ! i) \<and> now (live_wps d ! i) \<noteq> wp_old_value (live_wps d ! i))
          [0 ..< length (live_wps d)]) \<and>
    debugger_check_watchpoints (d', m') = (d', m')"
proof -
  have "concat (map (\<lambda>i. triggered m i (xs ! i)) is) =
      map (\<lambda>i. let wp = xs ! i in
          Wp_Triggered i (wp_addr wp) (wp_old_value wp) (now wp) (wp_label wp))
        (filter (\<lambda>i. on (xs ! i) \<and> now (xs ! i) \<noteq> wp_old_value (xs ! i)) is)" for xs "is"
    by (induction "is") (simp_all add: triggered_def on_def now_def Let_def)
  moreover have "map (refreshed m) xs =
      map (\<lambda>wp. if on wp then wp\<lparr>wp_old_value := now wp\<rparr> else wp) xs" for xs
    by (simp add: refreshed_def on_def now_def)
  moreover have "live_wps (fst (debugger_check_watchpoints (d, m))) = map (refreshed m) (live_wps d)"
    using assms(2) by (simp add: check_watchpoints_eq [OF assms(1,2)] dbg_wf_def live_wps_def)
  ultimately show ?thesis
    using check_watchpoints_twice [OF assms(1,2)]
    by (simp add: check_watchpoints_eq [OF assms(1,2)])
qed

theorem watchpoint_scan_exact_witness:
  "console (fst (debugger_check_watchpoints (zero_debugger\<lparr>watchpoint_count := 1,
      watchpoints := (watchpoints zero_debugger)[0 := zero_wp\<lparr>wp_enabled := 1, wp_addr := 0x200\<rparr>]\<rparr>,
      machine_with CPU_VARIANT_NMOS_6502 (regs 0x200 0 0 0) [0xEA]))) =
    [Wp_Triggered 0 0x200 0 0xEA None]"
proof -
  let ?d = "zero_debugger\<lparr>watchpoint_count := 1,
      watchpoints := (watchpoints zero_debugger)[0 := zero_wp\<lparr>wp_enabled := 1, wp_addr := 0x200\<rparr>]\<rparr>"
  have "dbg_wf ?d" using zero_debugger_facts(1) by (simp add: dbg_wf_def)
  moreover have "live_wps ?d = [zero_wp\<lparr>wp_enabled := 1, wp_addr := 0x200\<rparr>]"
    using zero_debugger_facts(1) by (simp add: dbg_wf_def live_wps_def take_Suc_conv_app_nth)
  ultimately show ?thesis
    using watchpoint_scan_exact
      [of "machine_with CPU_VARIANT_NMOS_6502 (regs 0x200 0 0 0) [0xEA]" ?d]
    by (simp add: case_prod_beta zero_wp_def)
qed

subsection \<open>Profiler\<close>

text \<open>
  C38. After a reset profiler has recorded the instructions \<open>es\<close>, fewer than $2^{64}$, the hot
  spots printed are as many addresses as asked for, or all that were executed when those are
  fewer; each with the number of times it was executed, in descending order, and no address
  left out was executed more often than one printed.
\<close>

theorem hotspots_are_hottest:
  fixes n :: int and es :: "(MEM_TWO_WORDS \<times> MEM_WORD \<times> uint32) list"
  assumes "profiling_enabled d \<noteq> 0" and "length es < 2 ^ 64"
  defines "runs \<equiv> \<lambda>a. length (filter (\<lambda>(pc, opcode, cycles). pc = a) es)"
  defines "hs \<equiv> hotspots n (address_exec_counts (prof_data (record_run es (profiler_reset d))))"
  shows "length hs = min (nat n) (card (set (map fst es))) \<and>
    distinct (map fst hs) \<and>
    sorted_wrt (\<ge>) (map (unat \<circ> snd) hs) \<and>
    (\<forall>(a, k) \<in> set hs. unat k = runs a \<and> 0 < runs a) \<and>
    (\<forall>a. a \<notin> set (map fst hs) \<longrightarrow> (\<forall>(b, k) \<in> set hs. runs a \<le> unat k))"
proof -
  have c: "address_exec_counts (prof_data (record_run es (profiler_reset d))) = (\<lambda>a. of_nat (runs a))"
    using record_run_counts(3) [of "profiler_reset d" es] assms(1)
    by (simp add: fun_eq_iff profiler_reset_def zero_prof_def say_def runs_def)
  have less: "runs a < 2 ^ 64" for a
    unfolding runs_def by (rule le_less_trans [OF length_filter_le assms(2)])
  then have u: "unat (of_nat (runs a) :: uint64) = runs a" for a by (simp add: unat_of_nat)
  have pos: "((of_nat (runs a) :: uint64) > 0) = (0 < runs a)" for a
    by (simp add: word_less_nat_alt u)
  have ex: "0 < runs a \<longleftrightarrow> a \<in> set (map fst es)" for a
    by (auto simp: runs_def filter_empty_conv intro: rev_image_eqI)
  note f = hotspots_facts [where n = n and c = "\<lambda>a. of_nat (runs a)", folded hs_def [unfolded c], unfolded pos]
  have sub: "k = of_nat (runs a) \<and> 0 < runs a" if "(a, k) \<in> set hs" for a k
    using f(3) that by (auto simp: pos)
  show ?thesis
  proof (intro conjI)
    show "length hs = min (nat n) (card (set (map fst es)))"
      using f(1) by (simp add: ex)
    show "distinct (map fst hs)"
      using f(2) by (auto simp: distinct_map inj_on_def dest!: sub)
    show "sorted_wrt (\<ge>) (map (unat \<circ> snd) hs)"
      using f(4) by (simp add: sorted_wrt_map word_le_nat_alt)
    show "\<forall>(a, k) \<in> set hs. unat k = runs a \<and> 0 < runs a"
      using sub u by fastforce
    show "\<forall>a. a \<notin> set (map fst hs) \<longrightarrow> (\<forall>(b, k) \<in> set hs. runs a \<le> unat k)"
    proof (intro allI impI ballI)
      fix a h
      assume out: "a \<notin> set (map fst hs)" and h: "h \<in> set hs"
      obtain b k where bk: "h = (b, k)" by (cases h)
      have "runs a \<le> unat k"
      proof (cases "0 < runs a")
        case True
        then have "(of_nat (runs a) :: uint64) \<le> k"
          using f(5) [of a h] out h bk by force
        then show ?thesis by (simp add: word_le_nat_alt u)
      qed simp
      then show "case h of (b, k) \<Rightarrow> runs a \<le> unat k" by (simp add: bk)
    qed
  qed
qed

theorem hotspots_are_hottest_witness:
  "let es = [(0x200, 0xEA, 2), (0x201, 0xEA, 2), (0x201, 0xEA, 2)] in
   length (hotspots 1 (address_exec_counts (prof_data (record_run es (profiler_reset zero_debugger))))) = 1 \<and>
   (\<forall>(a, k) \<in> set (hotspots 1 (address_exec_counts (prof_data (record_run es (profiler_reset zero_debugger))))).
     2 \<le> unat k)"
proof -
  let ?es = "[(0x200, 0xEA, 2), (0x201, 0xEA, 2), (0x201, 0xEA, 2)]"
  note w = hotspots_are_hottest [of zero_debugger ?es 1]
  show ?thesis
    unfolding Let_def
  proof (intro conjI ballI)
    let ?hs = "hotspots 1 (address_exec_counts (prof_data (record_run ?es (profiler_reset zero_debugger))))"
    show "length ?hs = 1" using w by simp
    fix h
    assume h: "h \<in> set ?hs"
    obtain a k where ak: "h = (a, k)" by (cases h)
    have "(0x201 :: MEM_TWO_WORDS) \<in> fst ` set ?hs \<or> 2 \<le> unat k"
      using w h ak by fastforce
    then show "case h of (a, k) \<Rightarrow> 2 \<le> unat k"
    proof
      assume "(0x201 :: MEM_TWO_WORDS) \<in> fst ` set ?hs"
      then obtain k' where k': "(0x201, k') \<in> set ?hs" by force
      have "length ?hs = 1" using w by simp
      then have "h = (0x201, k')" using h k' by (auto simp: length_Suc_conv)
      then show ?thesis using w k' by fastforce
    qed (simp add: ak)
  qed
qed

subsection \<open>Memory commands\<close>

text \<open>
  C39. On a memory without I/O handlers the search reports, in address order, exactly the
  addresses from \<open>start\<close> on at which the pattern occurs (wrapping at $FFFF) and which leave it
  room before \<open>end\<close>, and returns their number; an empty pattern is never found. When the
  pattern is longer than \<open>end\<close> + 1 bytes the bound underflows and the search runs on to $FFFF.
\<close>

theorem search_finds_occurrences:
  fixes s e :: MEM_TWO_WORDS
  assumes "no_io m" and "length ps < 0x10000"
  defines "limit \<equiv> (if length ps \<le> unat e + 1 then unat e + 2 - length ps else 0x10000)"
  defines "hits \<equiv> (if ps = [] then []
    else filter (\<lambda>i. \<forall>j < length ps. peek (of_nat i + of_nat j) m = ps ! j) [unat s ..< limit])"
  shows "debugger_search_memory s e ps (d, m) =
    (int (length hits), d\<lparr>console := console d @ Search_Header s e #
       map (Search_Hit \<circ> of_nat) hits @ [Search_Found (int (length hits))]\<rparr>, m)"
  using search_memory_no_io [OF assms(1,2), of s e d]
  unfolding hits_def limit_def occurs_def [abs_def] search_limit_def .

theorem search_finds_occurrences_witness:
  "fst (debugger_search_memory 0xFFFE 0 [0, 0] (zero_debugger,
     machine_at CPU_VARIANT_NMOS_6502 (regs 0x200 0 0 0))) = 2"
  using search_finds_occurrences [of "machine_at CPU_VARIANT_NMOS_6502 (regs 0x200 0 0 0)"
      "[0, 0]" "0xFFFE" 0 zero_debugger]
  by (simp add: upt_rec All_less_Suc2)

lemma small_offset_eq:
  "operand_length i \<noteq> operand_length j \<Longrightarrow>
    (of_nat (operand_length i) :: MEM_TWO_WORDS) \<noteq> of_nat (operand_length j)"
  by (cases i; cases j) simp_all

lemma dis_line_eq: "(dis_line m a = dis_line m b) = (a = b)"
  by (auto simp: dis_line_def Let_def)

text \<open>
  C40. The disassembler prints the opcode, operand bytes and mnemonic of one instruction per
  line. After an instruction that does not transfer control it continues where the CPU does,
  except for the opcodes in \<open>mis_sized\<close>, whose mode the CPU overrides by variant.
\<close>

theorem disassembly_follows_execution:
  assumes "executes m" and "no_io m"
    and "\<not> transfers (handler_of (CPU_VARIANT_MODE m) (peek (PC_of m) m))"
  shows "console (fst (debugger_disassemble (PC_of m) 2 (d, m))) =
      console d @ [Dis_Header (PC_of m), dis_line m (PC_of m), dis_line m (PC_of (cpu_step m))]
    \<longleftrightarrow> peek (PC_of m) m \<notin> set (mis_sized (CPU_VARIANT_MODE m))"
proof -
  let ?op = "peek (PC_of m) m"
  have pc: "PC_of (cpu_step m) =
      PC_of m + 1 + of_nat (operand_length (mode_of (CPU_VARIANT_MODE m) ?op))"
    using assms(1,3) call_instr_PC [of "next_handler m" "decoded m"]
    by (simp add: cpu_step_executes)
  have "console (fst (debugger_disassemble (PC_of m) 2 (d, m))) =
      console d @ [Dis_Header (PC_of m), dis_line m (PC_of m), dis_line m (dis_next m (PC_of m))]"
    by (simp add: debugger_disassemble_def disassemble_lines_no_io [OF assms(2)] upt_rec)
  moreover have "dis_next m (PC_of m) = PC_of (cpu_step m) \<longleftrightarrow> ?op \<notin> set (mis_sized (CPU_VARIANT_MODE m))"
    unfolding mis_sized_iff [symmetric] pc dis_next_def operand_size_length
    using small_offset_eq by (metis add_left_cancel)
  ultimately show ?thesis by (simp add: dis_line_eq)
qed

theorem disassembly_follows_execution_witness:
  "let m = machine_with CPU_VARIANT_NMOS_6502 (regs 0x200 0 0 0) [0xA9, 0x42, 0xEA] in
   console (fst (debugger_disassemble 0x200 2 (zero_debugger, m))) =
    [Dis_Header 0x200, dis_line m 0x200, dis_line m (PC_of (cpu_step m))]"
  using disassembly_follows_execution
    [of "machine_with CPU_VARIANT_NMOS_6502 (regs 0x200 0 0 0) [0xA9, 0x42, 0xEA]" zero_debugger]
  by (simp add: transfers_def handler_of_def NMOS_HANDLER_def INSTR_HANDLERS_def mis_sized_def)

text \<open>
  On a memory without I/O handlers the hex dump prints \<open>len\<close> bytes from \<open>start\<close>, 16 a
  line, the last line padded, in hex and as characters; the stack dump prints the bytes above
  the stack pointer, at most 16 and none above $01FF. Both leave the machine alone.
\<close>

theorem dumps_print_memory:
  assumes "no_io m"
  shows "debugger_hexdump a len (d, m) =
      (d\<lparr>console := console d @ Hex_Header a len #
         map (\<lambda>i. let k = min 16 (unat len - 16 * i); base = a + of_nat (16 * i);
                     bytes = map (\<lambda>j. peek (base + of_nat j) m) [0 ..< k]
                 in Hex_Line base (map Some bytes @ replicate (16 - k) None) (map printable bytes))
           [0 ..< (unat len + 15) div 16]\<rparr>, m) \<and>
    debugger_dump_stack (d, m) =
      (d\<lparr>console := console d @ Stack_Header (S_of m) #
         map (\<lambda>i. Stack_Line (0x0100 + ucast (S_of m) + of_nat i + 1)
               (peek (0x0100 + ucast (S_of m) + of_nat i + 1) m))
           [0 ..< min 16 (0xFF - unat (S_of m))]\<rparr>, m)"
proof
  let ?a = "stack_addr (S_of m)"
  have "unat ?a = 0x100 + unat (S_of m)" by (rule unat_stack_addr)
  then have n: "max 0 (min 16 (0x1FF - unat ?a)) = min 16 (0xFF - unat (S_of m))" by simp
  have "?a < 0x0200"
    using \<open>unat ?a = _\<close> unat_byte_less [of "S_of m"] by (simp add: word_less_nat_alt)
  note stack_lines_no_io [OF assms this, of 0, unfolded n]
  then show "debugger_dump_stack (d, m) =
      (d\<lparr>console := console d @ Stack_Header (S_of m) #
         map (\<lambda>i. Stack_Line (0x0100 + ucast (S_of m) + of_nat i + 1)
               (peek (0x0100 + ucast (S_of m) + of_nat i + 1) m))
           [0 ..< min 16 (0xFF - unat (S_of m))]\<rparr>, m)"
    unfolding debugger_dump_stack_def split stack_pointer_word
    by (simp add: say_def stack_addr_def)
qed (use hexdump_no_io [OF assms, of a len d] in \<open>simp add: hex_line_def [abs_def]\<close>)

theorem dumps_print_memory_witness:
  "console (fst (debugger_dump_stack (zero_debugger,
     machine_at CPU_VARIANT_NMOS_6502 (regs 0x200 0 0 0)))) =
   [Stack_Header 0xFD, Stack_Line 0x1FE 0, Stack_Line 0x1FF 0]"
  using dumps_print_memory [of "machine_at CPU_VARIANT_NMOS_6502 (regs 0x200 0 0 0)" 0 0 zero_debugger]
  by (simp add: upt_rec)

end
