(* ===== verification/Logging.thy ===== *)
theory Logging
  imports Prelude
begin

text \<open>
  src/logging.c, and the conversions of printf that the log messages use. A log state has the
  minimum level and the texts written so far to stdout, to stderr and to the log file.
\<close>

subsection \<open>Numbers as text\<close>

definition newline_char :: char where "newline_char = CHR 0x0A"

text \<open>A digit below 16, upper case, and the digits of a number, most significant first.\<close>

definition hex_char :: "nat \<Rightarrow> char" where
  "hex_char d = ''0123456789ABCDEF'' ! d"

fun digits_of :: "nat \<Rightarrow> nat \<Rightarrow> string" where
  "digits_of base n =
     (if base < 2 \<or> n < base then [hex_char (n mod 16)]
      else digits_of base (n div base) @ [hex_char (n mod base)])"

declare digits_of.simps [simp del]

text \<open>The conversions \<open>%d\<close> and \<open>%u\<close>, \<open>%02X\<close>, \<open>%04X\<close>.\<close>

definition dec :: "nat \<Rightarrow> string" where "dec n = digits_of 10 n"

definition zero_pad :: "nat \<Rightarrow> string \<Rightarrow> string" where
  "zero_pad k s = replicate (k - length s) (CHR ''0'') @ s"

definition hex2 :: "nat \<Rightarrow> string" where "hex2 n = zero_pad 2 (digits_of 16 n)"
definition hex4 :: "nat \<Rightarrow> string" where "hex4 n = zero_pad 4 (digits_of 16 n)"

subsection \<open>logging.c\<close>

datatype LOGGING_TYPES = LOG_INFO | LOG_WARN | LOG_ERROR

primrec level :: "LOGGING_TYPES \<Rightarrow> nat" where
  "level LOG_INFO = 0" | "level LOG_WARN = 1" | "level LOG_ERROR = 2"

text \<open>The code compares the constants of the enum.\<close>

instantiation LOGGING_TYPES :: linorder
begin

definition less_eq_LOGGING_TYPES :: "LOGGING_TYPES \<Rightarrow> LOGGING_TYPES \<Rightarrow> bool" where
  "less_eq_LOGGING_TYPES s t \<longleftrightarrow> level s \<le> level t"

definition less_LOGGING_TYPES :: "LOGGING_TYPES \<Rightarrow> LOGGING_TYPES \<Rightarrow> bool" where
  "less_LOGGING_TYPES s t \<longleftrightarrow> level s < level t"

instance
proof
  fix s t :: LOGGING_TYPES
  show "s \<le> t \<Longrightarrow> t \<le> s \<Longrightarrow> s = t"
    by (cases s; cases t) (simp_all add: less_eq_LOGGING_TYPES_def)
qed (auto simp: less_eq_LOGGING_TYPES_def less_LOGGING_TYPES_def)

end

definition MAX_LOG_LENGTH :: nat where "MAX_LOG_LENGTH = 1024"

text \<open>\<open>snprintf\<close> into a buffer of \<open>MAX_LOG_LENGTH\<close> bytes, the last one for the terminator.\<close>

definition in_buffer :: "string \<Rightarrow> string" where
  "in_buffer s = take (MAX_LOG_LENGTH - 1) s"

record log_state =
  g_min_level :: LOGGING_TYPES
  to_stdout :: string
  to_stderr :: string
  to_file :: string

definition log_start :: log_state where
  "log_start = \<lparr>g_min_level = LOG_INFO, to_stdout = [], to_stderr = [], to_file = []\<rparr>"

definition logging_set_level :: "LOGGING_TYPES \<Rightarrow> log_state \<Rightarrow> log_state" where
  "logging_set_level lv l = l\<lparr>g_min_level := lv\<rparr>"

primrec type_tag :: "LOGGING_TYPES \<Rightarrow> string" where
  "type_tag LOG_INFO = ''[INFO] ''"
| "type_tag LOG_WARN = ''[WARN] ''"
| "type_tag LOG_ERROR = ''[ERROR] ''"

text \<open>\<open>has_file\<close> says that \<open>file\<close> is not NULL.\<close>

definition logging ::
  "string \<Rightarrow> bool \<Rightarrow> bool \<Rightarrow> bool \<Rightarrow> bool \<Rightarrow> LOGGING_TYPES \<Rightarrow> log_state \<Rightarrow> log_state" where
  "logging log_text file_write newline type_prefix has_file type l =
     (if type < g_min_level l then l
      else
        (let l = (if file_write \<and> has_file
                  then l\<lparr>to_file := to_file l @
                    in_buffer (type_tag type @ log_text @ (if newline then [newline_char] else []))\<rparr>
                  else l);
             console_buffer =
               (if type_prefix
                then in_buffer (type_tag type @ log_text @ (if newline then [newline_char] else []))
                else in_buffer (log_text @ (if newline then [newline_char] else [])))
         in if type = LOG_WARN \<or> type = LOG_ERROR
            then l\<lparr>to_stderr := to_stderr l @ console_buffer\<rparr>
            else l\<lparr>to_stdout := to_stdout l @ console_buffer\<rparr>))"

text \<open>The two ways main.c calls it: no log file, with or without the type prefix.\<close>

definition info :: "string \<Rightarrow> bool \<Rightarrow> log_state \<Rightarrow> log_state" where
  "info s newline = logging s False newline False False LOG_INFO"

lemma logging_level [simp]: "g_min_level (logging s f n p h t l) = g_min_level l"
  by (simp add: logging_def Let_def)

text \<open>A call appends to at most one stream of the console, at most 1023 characters.\<close>

lemma length_in_buffer: "length (in_buffer s) \<le> 1023"
  by (simp add: in_buffer_def MAX_LOG_LENGTH_def)

lemma in_buffer_short: "length s \<le> 1023 \<Longrightarrow> in_buffer s = s"
  by (simp add: in_buffer_def MAX_LOG_LENGTH_def)

lemma logging_console:
  assumes "g_min_level l \<le> t"
  shows "to_stdout (logging s f n p h t l) = to_stdout l @
      (if t = LOG_INFO then in_buffer ((if p then type_tag t else []) @ s @ (if n then [newline_char] else [])) else [])"
    and "to_stderr (logging s f n p h t l) = to_stderr l @
      (if t = LOG_INFO then [] else in_buffer ((if p then type_tag t else []) @ s @ (if n then [newline_char] else [])))"
    and "to_file (logging s f n p h t l) = to_file l @
      (if f \<and> h then in_buffer (type_tag t @ s @ (if n then [newline_char] else [])) else [])"
  using assms by (cases t; simp add: logging_def Let_def not_less [symmetric])+

lemma logging_quiet: "t < g_min_level l \<Longrightarrow> logging s f n p h t l = l"
  by (simp add: logging_def)

end
