(* ===== verification/Args.thy ===== *)
theory Args
  imports Logging Machine
begin

text \<open>
  The command line of src/main.c: the option names, the numeric conversion (on a model of
  \<open>strtol\<close> with \<open>long\<close> of 64 bits in the C locale), and the loop over the arguments.
\<close>

subsection \<open>strtol\<close>

definition is_space :: "char \<Rightarrow> bool" where
  "is_space c = (c = CHR '' '' \<or> 9 \<le> (of_char c :: nat) \<and> (of_char c :: nat) \<le> 13)"

definition digit_value :: "char \<Rightarrow> nat" where
  "digit_value c =
     (let n = of_char c :: nat in
      if 48 \<le> n \<and> n \<le> 57 then n - 48
      else if 65 \<le> n \<and> n \<le> 90 then n - 55
      else if 97 \<le> n \<and> n \<le> 122 then n - 87
      else 36)"

text \<open>The sign, then the base and the digits after a prefix.\<close>

fun signed :: "string \<Rightarrow> bool \<times> string" where
  "signed [] = (False, [])"
| "signed (c # s) =
     (if c = CHR ''-'' then (True, s) else if c = CHR ''+'' then (False, s) else (False, c # s))"

fun prefixed :: "nat \<Rightarrow> string \<Rightarrow> nat \<times> string" where
  "prefixed base (z # x # d # s) =
     (if (base = 0 \<or> base = 16) \<and> z = CHR ''0'' \<and> (x = CHR ''x'' \<or> x = CHR ''X'') \<and>
         digit_value d < 16
      then (16, d # s)
      else if base = 0 then (if z = CHR ''0'' then 8 else 10, z # x # d # s)
      else (base, z # x # d # s))"
| "prefixed base s =
     (if base = 0 then (if take 1 s = ''0'' then 8 else 10, s) else (base, s))"

definition number :: "nat \<Rightarrow> string \<Rightarrow> nat" where
  "number base ds = fold (\<lambda>d n. n * base + digit_value d) ds 0"

definition LONG_MIN :: int where "LONG_MIN = - (2 ^ 63)"
definition LONG_MAX :: int where "LONG_MAX = 2 ^ 63 - 1"

text \<open>The value, whether \<open>errno\<close> is set (ERANGE), and the rest of the string at \<open>endptr\<close>.\<close>

definition strtol :: "string \<Rightarrow> nat \<Rightarrow> int \<times> bool \<times> string" where
  "strtol str base =
     (let (neg, s) = signed (dropWhile is_space str);
          (base, s) = prefixed base s;
          ds = takeWhile (\<lambda>c. digit_value c < base) s;
          n = (if neg then - int (number base ds) else int (number base ds))
      in if ds = [] then (0, False, str)
         else if n > LONG_MAX then (LONG_MAX, True, drop (length ds) s)
         else if n < LONG_MIN then (LONG_MIN, True, drop (length ds) s)
         else (n, False, drop (length ds) s))"

subsection \<open>parse_arg and parse_numeric\<close>

datatype ArgType = ARG_UNKNOWN | ARG_TRACE | ARG_FILE | ARG_ADDRESS | ARG_CPU | ARG_RAM_START
  | ARG_RAM_SIZE | ARG_ROM_START | ARG_ROM_SIZE | ARG_MONITOR

definition parse_arg :: "string \<Rightarrow> ArgType" where
  "parse_arg arg =
     (if arg = ''-t'' \<or> arg = ''--trace'' then ARG_TRACE
      else if arg = ''-f'' \<or> arg = ''--file'' then ARG_FILE
      else if arg = ''-a'' \<or> arg = ''--address'' then ARG_ADDRESS
      else if arg = ''-c'' \<or> arg = ''--cpu'' then ARG_CPU
      else if arg = ''-r'' \<or> arg = ''--ram-start'' then ARG_RAM_START
      else if arg = ''-R'' \<or> arg = ''--ram-size'' then ARG_RAM_SIZE
      else if arg = ''-s'' \<or> arg = ''--rom-start'' then ARG_ROM_START
      else if arg = ''-S'' \<or> arg = ''--rom-size'' then ARG_ROM_SIZE
      else if arg = ''-m'' \<or> arg = ''--monitor'' then ARG_MONITOR
      else ARG_UNKNOWN)"

text \<open>The value stored through \<open>out\<close>, None for the result -1. \<open>endptr == str\<close> says that the
  rest is the whole string.\<close>

definition parse_numeric :: "string \<Rightarrow> nat \<Rightarrow> int \<Rightarrow> int \<Rightarrow> int option" where
  "parse_numeric str base min_val max_val =
     (let (val, erange, rest) = strtol str base in
      if erange \<or> length rest = length str \<or> rest \<noteq> [] then None
      else if val < min_val \<or> val > max_val then None
      else Some val)"

subsection \<open>The options\<close>

record options =
  enable_trace :: int
  enable_monitor :: int
  rom_file :: "string option"
  rom_addr :: MEM_TWO_WORDS
  cpu_variant :: CPU_VARIANT
  ram_start :: MEM_TWO_WORDS
  ram_size :: MEM_TWO_WORDS
  rom_start :: MEM_TWO_WORDS
  rom_size :: MEM_TWO_WORDS

definition default_options :: options where
  "default_options =
     \<lparr>enable_trace = 0, enable_monitor = 0, rom_file = None, rom_addr = 0x8000,
      cpu_variant = CPU_VARIANT_NMOS_6502, ram_start = 0x0000, ram_size = 0x8000,
      rom_start = 0x8000, rom_size = 0x8000\<rparr>"

text \<open>A message with the offending argument, and the exit with status 1.\<close>

definition reject :: "string \<Rightarrow> string \<Rightarrow> LOGGING_TYPES \<Rightarrow> log_state \<Rightarrow> (int + 'a) \<times> log_state" where
  "reject what arg type l = (Inl 1, logging (in_buffer (what @ arg)) False True True False type l)"

text \<open>The arms of the switch that consume the next argument \<open>v\<close>.\<close>

definition option_value ::
  "ArgType \<Rightarrow> string \<Rightarrow> options \<Rightarrow> log_state \<Rightarrow> (int + options) \<times> log_state" where
  "option_value t v opts l =
     (case t of
        ARG_FILE \<Rightarrow> (Inr (opts\<lparr>rom_file := Some v\<rparr>), l)
      | ARG_ADDRESS \<Rightarrow>
          (case parse_numeric v 16 0 0xFFFF of
             None \<Rightarrow> reject ''Invalid address: '' v LOG_WARN l
           | Some n \<Rightarrow> (Inr (opts\<lparr>rom_addr := word_of_int n\<rparr>), l))
      | ARG_RAM_START \<Rightarrow>
          (case parse_numeric v 16 0 0xFFFF of
             None \<Rightarrow> reject ''Invalid RAM start: '' v LOG_WARN l
           | Some n \<Rightarrow> (Inr (opts\<lparr>ram_start := word_of_int n\<rparr>), l))
      | ARG_RAM_SIZE \<Rightarrow>
          (case parse_numeric v 0 1 0x10000 of
             None \<Rightarrow> reject ''Invalid RAM size: '' v LOG_WARN l
           | Some n \<Rightarrow> (Inr (opts\<lparr>ram_size := word_of_int n\<rparr>), l))
      | ARG_ROM_START \<Rightarrow>
          (case parse_numeric v 16 0 0xFFFF of
             None \<Rightarrow> reject ''Invalid ROM start: '' v LOG_WARN l
           | Some n \<Rightarrow> (Inr (opts\<lparr>rom_start := word_of_int n\<rparr>), l))
      | ARG_ROM_SIZE \<Rightarrow>
          (case parse_numeric v 0 1 0x10000 of
             None \<Rightarrow> reject ''Invalid ROM size: '' v LOG_WARN l
           | Some n \<Rightarrow> (Inr (opts\<lparr>rom_size := word_of_int n\<rparr>), l))
      | ARG_CPU \<Rightarrow>
          (if v = ''6502'' \<or> v = ''nmos'' then (Inr (opts\<lparr>cpu_variant := CPU_VARIANT_NMOS_6502\<rparr>), l)
           else if v = ''65c02'' \<or> v = ''cmos''
           then (Inr (opts\<lparr>cpu_variant := CPU_VARIANT_CMOS_65C02\<rparr>), l)
           else reject ''Unknown CPU variant: '' v LOG_ERROR l)
      | _ \<Rightarrow> (Inr opts, l))"

text \<open>The loop over \<open>argv[1 .. argc-1]\<close>; an option that lacks its value is ignored.\<close>

fun parse_args :: "string list \<Rightarrow> options \<Rightarrow> log_state \<Rightarrow> (int + options) \<times> log_state" where
  "parse_args [] opts l = (Inr opts, l)"
| "parse_args [arg] opts l =
     (case parse_arg arg of
        ARG_TRACE \<Rightarrow> (Inr (opts\<lparr>enable_trace := 1\<rparr>), l)
      | ARG_MONITOR \<Rightarrow> (Inr (opts\<lparr>enable_monitor := 1\<rparr>), l)
      | ARG_UNKNOWN \<Rightarrow>
          (Inr opts, logging (in_buffer (''Unknown argument: '' @ arg)) False True True False LOG_WARN l)
      | _ \<Rightarrow> (Inr opts, l))"
| "parse_args (arg # v # args) opts l =
     (case parse_arg arg of
        ARG_TRACE \<Rightarrow> parse_args (v # args) (opts\<lparr>enable_trace := 1\<rparr>) l
      | ARG_MONITOR \<Rightarrow> parse_args (v # args) (opts\<lparr>enable_monitor := 1\<rparr>) l
      | ARG_UNKNOWN \<Rightarrow>
          parse_args (v # args) opts
            (logging (in_buffer (''Unknown argument: '' @ arg)) False True True False LOG_WARN l)
      | t \<Rightarrow>
          (case option_value t v opts l of
             (Inl e, l) \<Rightarrow> (Inl e, l)
           | (Inr opts, l) \<Rightarrow> parse_args args opts l))"

end
