(* ===== verification/Loader.thy ===== *)
theory Loader
  imports Memory_Spec
begin

text \<open>
  src/loader.c: loading a binary file into the region memory in blocks of 4096 bytes. The file
  system is an argument: a function from path names to streams, None where \<open>fopen\<close> fails. A
  stream says what the stdio calls of the loader do on it: the bytes, the first offset that
  cannot be read, whether the seeks succeed and what \<open>ftell\<close> reports at the end.
\<close>

subsection \<open>Streams\<close>

record FILE =
  contents :: "MEM_WORD list"
  fpos :: nat
  bad_at :: "nat option"
  error_flag :: bool
  seek_end_ok :: bool
  seek_set_ok :: bool
  reported_size :: int

definition fseek_end :: "FILE \<Rightarrow> int \<times> FILE" where
  "fseek_end f = (if seek_end_ok f then (0, f\<lparr>fpos := length (contents f)\<rparr>) else (- 1, f))"

definition fseek_set :: "FILE \<Rightarrow> int \<times> FILE" where
  "fseek_set f = (if seek_set_ok f then (0, f\<lparr>fpos := 0\<rparr>) else (- 1, f))"

text \<open>The bytes before the first unreadable one.\<close>

definition readable :: "FILE \<Rightarrow> MEM_WORD list" where
  "readable f = (case bad_at f of None \<Rightarrow> contents f | Some b \<Rightarrow> take b (contents f))"

text \<open>\<open>fread\<close> reads less than asked for at the end of the file or at an error, which it flags.\<close>

definition fread :: "nat \<Rightarrow> FILE \<Rightarrow> MEM_WORD list \<times> FILE" where
  "fread n f =
     (let bs = take n (drop (fpos f) (readable f))
      in (bs, f\<lparr>fpos := fpos f + length bs,
                error_flag := (error_flag f \<or>
                  length bs < n \<and> length (readable f) < length (contents f))\<rparr>))"

lemma readable_update [simp]:
  "readable (f\<lparr>fpos := p\<rparr>) = readable f" "readable (f\<lparr>error_flag := e\<rparr>) = readable f"
  by (simp_all add: readable_def split: option.split)

lemma fread_fields [simp]:
  "readable (snd (fread n f)) = readable f" "contents (snd (fread n f)) = contents f"
  by (simp_all add: fread_def Let_def)

subsection \<open>load_bin_region\<close>

text \<open>The loop over the blocks, with the 32-bit offset \<open>off\<close>.\<close>

function load_blocks ::
  "MEM_TWO_WORDS \<Rightarrow> uint32 \<Rightarrow> FILE \<Rightarrow> 'd memory \<Rightarrow> int \<times> FILE \<times> 'd memory" where
  "load_blocks addr off f mem =
     (let (buf, f) = fread 4096 f in
      if length buf > 0 then
        (let (r, mem) = mem_region_load (ucast ((ucast addr :: uint32) + off)) buf mem in
         if r \<noteq> 0 then (- 1, f, mem)
         else load_blocks addr (off + of_nat (length buf)) f mem)
      else (0, f, mem))"
  by auto
termination
  by (relation "measure (\<lambda>(addr, off, f, mem). length (readable f) - fpos f)")
    (auto simp: fread_def Let_def)

declare load_blocks.simps [simp del]

definition load_bin_region ::
  "(string \<Rightarrow> FILE option) \<Rightarrow> string \<Rightarrow> MEM_TWO_WORDS \<Rightarrow> 'd memory \<Rightarrow> int \<times> 'd memory" where
  "load_bin_region fopen path addr mem =
     (case fopen path of
        None \<Rightarrow> (- 1, mem)
      | Some f \<Rightarrow>
          (let (r, f) = fseek_end f in
           if r \<noteq> 0 then (- 1, mem)
           else
             (let file_size_l = reported_size f in
              if file_size_l < 0 then (- 1, mem)
              else
                (let (r, f) = fseek_set f in
                 if r \<noteq> 0 then (- 1, mem)
                 else
                   (let file_size = (word_of_int file_size_l :: uint32) in
                    if (ucast addr :: uint32) + file_size > 0x10000 then (- 1, mem)
                    else
                      (let (r, f, mem) = load_blocks addr 0 f mem in
                       if r \<noteq> 0 then (- 1, mem)
                       else if error_flag f then (- 1, mem)
                       else (0, mem)))))))"

subsection \<open>The blocks are one load\<close>

lemma mem_region_load_append:
  "mem_region_load a (xs @ ys) m =
    (let (r, m') = mem_region_load a xs m in
     if r \<noteq> 0 then (r, m') else mem_region_load (a + of_nat (length xs)) ys m')"
proof (induction a xs m rule: mem_region_load.induct)
  case (2 a d ds m)
  then show ?case
    by (cases "find_region a m") (auto simp: add.assoc case_prod_beta Let_def)
qed simp

lemma mem_region_load_result: "fst (mem_region_load a ds m) \<in> {0, - 1}"
  by (induction a ds m rule: mem_region_load.induct) (auto split: option.splits)

lemma ucast_add_of_nat:
  "(ucast ((w :: uint32) + (k + of_nat n)) :: MEM_TWO_WORDS) = ucast (w + k) + of_nat n"
  by (simp add: word_unat_eq_iff unat_ucast_word unat_word_ariths unat_of_nat mod_mod_cancel
      mod_simps add.assoc)

text \<open>A read that is not at the end moves on by what it returns and keeps the error status.\<close>

lemma fread_advances:
  assumes "fpos f \<le> length (readable f)" and "drop (fpos f) (readable f) \<noteq> []"
  defines "g \<equiv> snd (fread 4096 f)"
  shows "drop (fpos g) (readable g) = drop 4096 (drop (fpos f) (readable f))"
    and "fpos g \<le> length (readable g)"
    and "length (readable g) - fpos g < length (readable f) - fpos f"
    and "(error_flag g \<or> length (readable g) < length (contents g)) =
      (error_flag f \<or> length (readable f) < length (contents f))"
  using assms(1,2) by (auto simp: g_def fread_def Let_def add.commute min_def)

lemma load_blocks_eq:
  defines "at \<equiv> \<lambda>addr off. ucast ((ucast (addr :: MEM_TWO_WORDS) :: uint32) + off)"
  assumes "fpos f \<le> length (readable f)"
  shows "\<exists>f'. load_blocks addr off f mem =
      (fst (mem_region_load (at addr off) (drop (fpos f) (readable f)) mem), f',
       snd (mem_region_load (at addr off) (drop (fpos f) (readable f)) mem)) \<and>
    (fst (mem_region_load (at addr off) (drop (fpos f) (readable f)) mem) = 0 \<longrightarrow>
      error_flag f' = (error_flag f \<or> length (readable f) < length (contents f)))"
  using assms(2)
proof (induction "length (readable f) - fpos f" arbitrary: off f mem rule: less_induct)
  case less
  let ?rest = "drop (fpos f) (readable f)"
  let ?buf = "take 4096 ?rest"
  obtain g where fr: "fread 4096 f = (?buf, g)" and g: "g = snd (fread 4096 f)"
    by (simp add: fread_def Let_def)
  show ?case
  proof (cases "?rest = []")
    case True
    then show ?thesis
      by (subst load_blocks.simps) (simp add: fread_def Let_def)
  next
    case more: False
    obtain r mem' where l: "mem_region_load (at addr off) ?buf mem = (r, mem')"
      by (cases "mem_region_load (at addr off) ?buf mem")
    have whole: "mem_region_load (at addr off) ?rest mem =
        (if r \<noteq> 0 then (r, mem')
         else mem_region_load (at addr off + of_nat (length ?buf)) (drop 4096 ?rest) mem')"
      using mem_region_load_append [of "at addr off" ?buf "drop 4096 ?rest" mem]
      unfolding append_take_drop_id l by simp
    have step: "load_blocks addr off f mem =
        (if r \<noteq> 0 then (- 1, g, mem')
         else load_blocks addr (off + of_nat (length ?buf)) g mem')"
      using more l by (subst load_blocks.simps) (simp add: fr at_def del: length_take)
    show ?thesis
    proof (cases "r = 0")
      case True
      have next_at: "at addr (off + of_nat (length ?buf)) = at addr off + of_nat (length ?buf)"
        unfolding at_def by (rule ucast_add_of_nat)
      note pos = fread_advances [OF less(2) more, folded g]
      from less(1) [OF pos(3,2), of "off + of_nat (length ?buf)" mem'] True show ?thesis
        unfolding step whole next_at pos(1,4) by simp
    next
      case False
      then have "r = - 1"
        using mem_region_load_result [of "at addr off" ?buf mem] l by simp
      then show ?thesis by (simp add: step whole)
    qed
  qed
qed

end
