(* ===== verification/Boot.thy ===== *)
theory Boot
  imports Args Emulator Loader
begin

text \<open>
  src/main.c from the parsed options to the end of normal execution: the checks of the region
  extents, the allocation of RAM and ROM, loading the program, the reset vector, the CPU reset
  and the loop of at most 10000 steps. The state is the machine with the region memory behind
  its bus, and the log. Whether the two callocs succeed and the file system are arguments.
\<close>

subsection \<open>Setting up the memory\<close>

definition running_in :: "options \<Rightarrow> string" where
  "running_in opts =
     ''C99-6502... Running in '' @
     (if cpu_variant opts = CPU_VARIANT_CMOS_65C02 then ''CMOS 65C02'' else ''NMOS 6502'') @
     '' MODE''"

text \<open>\<open>" %uB OK ($%04X-$%04X)"\<close>\<close>

definition extent_line :: "MEM_TWO_WORDS \<Rightarrow> MEM_TWO_WORDS \<Rightarrow> string" where
  "extent_line start n =
     '' '' @ dec (unat n) @ ''B OK ($'' @ hex4 (unat start) @ ''-$'' @
     hex4 (unat start + unat n - 1) @ '')''"

definition register_line :: "T_REGISTER \<Rightarrow> string" where
  "register_line r =
     ''PC: $'' @ hex4 (unat (rPC r)) @ '', SP: $'' @ hex2 (unat (rS r)) @
     '', P: $'' @ hex2 (unat (rP r)) @ '', A: $'' @ hex2 (unat (rA r)) @
     '', X: $'' @ hex2 (unat (rX r)) @ '', Y: $'' @ hex2 (unat (rY r))"

definition fail :: "log_state \<Rightarrow> log_state" where
  "fail = logging '' FAIL!'' False True False False LOG_ERROR"

type_synonym 'd program = "'d memory machine \<times> log_state"

text \<open>The combined extents; each phase tells whether main goes on.\<close>

definition check_extents :: "options \<Rightarrow> log_state \<Rightarrow> bool \<times> log_state" where
  "check_extents opts l =
     (if (ucast (ram_start opts) :: uint32) + ucast (ram_size opts) > 0x10000
      then (False, logging ''RAM region start+size exceeds 64KiB address space''
              False True True False LOG_WARN l)
      else if (ucast (rom_start opts) :: uint32) + ucast (rom_size opts) > 0x10000
      then (False, logging ''ROM region start+size exceeds 64KiB address space''
              False True True False LOG_WARN l)
      else (True, l))"

definition allocate_regions ::
  "bool \<Rightarrow> bool \<Rightarrow> options \<Rightarrow> 'd program \<Rightarrow> bool \<times> 'd program" where
  "allocate_regions ram_ok rom_ok opts = (\<lambda>(m, l).
     let m = m\<lparr>bus_world := mem_region_clear (bus_world m)\<rparr>;
         l = info ''RAM allocation...'' False l;
         (r, mem) = mem_region_add_ram ram_ok (ram_start opts) (ram_size opts) (bus_world m);
         m = m\<lparr>bus_world := mem\<rparr>
     in if r \<noteq> 0 then (False, m, fail l)
        else
          (let l = info (in_buffer (extent_line (ram_start opts) (ram_size opts))) True l;
               l = info ''ROM allocation...'' False l;
               (r, mem) = mem_region_add_rom rom_ok (rom_start opts) (rom_size opts) (bus_world m);
               m = m\<lparr>bus_world := mem\<rparr>
           in if r \<noteq> 0 then (False, m, fail l)
              else (True, m, info (in_buffer (extent_line (rom_start opts) (rom_size opts))) True l)))"

definition sample_rom :: "MEM_WORD list" where
  "sample_rom = [0xA9, 0x42, 0x8D, 0x00, 0x02, 0xE8, 0xC8, 0xEE, 0x00, 0x02, 0x4C, 0x00, 0x80]"

definition load_program ::
  "(string \<Rightarrow> FILE option) \<Rightarrow> options \<Rightarrow> 'd program \<Rightarrow> bool \<times> 'd program" where
  "load_program fopen opts = (\<lambda>(m, l).
     let l = info ''ROM loading...'' False l in
     case rom_file opts of
       Some path \<Rightarrow>
         (let (r, mem) = load_bin_region fopen path (rom_addr opts) (bus_world m);
              m = m\<lparr>bus_world := mem\<rparr>
          in if r = 0
             then (True, m, info (in_buffer ('' OK ('' @ path @ '' at $'' @
                     hex4 (unat (rom_addr opts)) @ '')'')) True l)
             else (False, m, fail l))
     | None \<Rightarrow>
         (let (r, mem) = mem_region_load (rom_addr opts) sample_rom (bus_world m);
              m = m\<lparr>bus_world := mem\<rparr>
          in (True, m, info (in_buffer ('' OK ($'' @ hex4 (unat (rom_addr opts)) @ '')'')) True l)))"

subsection \<open>Starting the CPU\<close>

definition start_cpu :: "options \<Rightarrow> 'd program \<Rightarrow> 'd program" where
  "start_cpu opts = (\<lambda>(m, l).
     let (r, mem) = mem_region_set_vector CPU_RESET_VECTOR_ADDRESS (rom_addr opts) (bus_world m);
         m = m\<lparr>bus_world := mem\<rparr>;
         l = info (in_buffer (''Vector resetting... OK ($'' @ hex4 (unat (rom_addr opts)) @ '')'')) True l;
         m = mem_region_init m;
         l = info ''Connecting memory bus... OK'' True l;
         m = cpu_reset m;
         l = info ''CPU resetting... OK'' True l;
         l = info (in_buffer (register_line (REG m))) True l
     in if enable_trace opts \<noteq> 0 then (trace_set_enabled 1 m, info ''Trace : True'' True l)
        else (m, l))"

text \<open>The boot sequence; Inl is an exit status.\<close>

definition main_boot ::
  "bool \<Rightarrow> bool \<Rightarrow> (string \<Rightarrow> FILE option) \<Rightarrow> options \<Rightarrow> 'd program \<Rightarrow> (int + unit) \<times> 'd program" where
  "main_boot ram_ok rom_ok fopen opts = (\<lambda>(m, l).
     let m = cpu_set_variant (cpu_variant opts) m; (ok, l) = check_extents opts l in
     if \<not> ok then (Inl 1, m, l)
     else
       (let l = info (in_buffer (running_in opts)) True l;
            (ok, s) = allocate_regions ram_ok rom_ok opts (m, l)
        in if \<not> ok then (Inl 1, s)
           else
             (let (ok, s) = load_program fopen opts s
              in if \<not> ok then (Inl 1, s) else (Inr (), start_cpu opts s))))"

subsection \<open>Normal execution\<close>

definition CPU_TEST_RUN_LIMIT :: nat where "CPU_TEST_RUN_LIMIT = 10000"

text \<open>The loop, with the number of iterations left and \<open>cycle_cnt\<close>.\<close>

fun test_run :: "nat \<Rightarrow> nat \<Rightarrow> 'd program \<Rightarrow> 'd program" where
  "test_run 0 cycle_cnt s = s"
| "test_run (Suc n) cycle_cnt (m, l) =
     (let m = cpu_step m in
      if PC_of m = 0
      then (m, info (in_buffer (''BRK at '' @ dec cycle_cnt @ ''... Execution terminated.'')) True l)
      else test_run n (cycle_cnt + 1) (m, l))"

definition run_normal :: "'d program \<Rightarrow> 'd program" where
  "run_normal = (\<lambda>(m, l).
     let l = info ''All set...'' True l;
         (m, l) = test_run CPU_TEST_RUN_LIMIT 1 (m, l);
         l = info (newline_char # ''Execution complete.'') True l;
         l = info (in_buffer (register_line (REG m))) True l;
         (v, m) = bus_read 0x0200 m;
         l = info (in_buffer (''Memory at $0200: $'' @ hex2 (unat v))) True l
     in (m, l))"

end
