(* ===== verification/Boot_Spec.thy ===== *)
theory Boot_Spec
  imports Boot
begin

text \<open>
  What the boot sequence of src/main.c leaves behind: when it succeeds, the memory map it
  builds, and the state of the CPU after the reset.
\<close>

subsection \<open>The loader\<close>

text \<open>The blocks of the loader amount to one load of the bytes that can be read.\<close>

lemma load_bin_region_eq:
  "load_bin_region fopen path addr mem =
    (case fopen path of
       None \<Rightarrow> (- 1, mem)
     | Some f \<Rightarrow>
         if seek_end_ok f \<and> 0 \<le> reported_size f \<and> seek_set_ok f \<and>
            (ucast addr :: uint32) + word_of_int (reported_size f) \<le> 0x10000
         then (if fst (mem_region_load addr (readable f) mem) = 0 \<and> \<not> error_flag f \<and>
                  length (readable f) = length (contents f)
               then 0 else - 1, snd (mem_region_load addr (readable f) mem))
         else (- 1, mem))"
proof (cases "fopen path")
  case (Some f)
  let ?g = "f\<lparr>fpos := 0\<rparr>" and ?l = "mem_region_load addr (readable f) mem"
  have at: "(ucast ((ucast addr :: uint32) + 0) :: MEM_TWO_WORDS) = addr"
    by (simp add: word_unat_eq_iff unat_ucast_word unat_word16_less)
  obtain h where h: "load_blocks addr 0 ?g mem = (fst ?l, h, snd ?l)"
    "fst ?l = 0 \<longrightarrow> error_flag h = (error_flag f \<or> length (readable f) < length (contents f))"
    using load_blocks_eq [of ?g addr 0 mem] unfolding at by auto
  have "length (readable f) \<le> length (contents f)"
    by (simp add: readable_def split: option.split)
  then show ?thesis
    using mem_region_load_result [of addr "readable f" mem] h Some
    by (auto simp: load_bin_region_def fseek_end_def fseek_set_def Let_def not_le)
qed (simp add: load_bin_region_def)

subsection \<open>Loading keeps the map\<close>

fun cell_kind :: "cell \<Rightarrow> MEM_REGION_TYPE" where
  "cell_kind Unmapped = MEM_REGION_NONE"
| "cell_kind (Ram v) = MEM_REGION_RAM"
| "cell_kind (Rom v) = MEM_REGION_ROM"
| "cell_kind (Io i) = MEM_REGION_IO"

lemma cell_kind_set_cell [simp]: "cell_kind (set_cell d c) = cell_kind c"
  by (cases c) simp_all

lemma cell_kind_load_cells: "cell_kind (snd (load_cells a ds V) b) = cell_kind (V b)"
  by (induction a ds V rule: load_cells.induct) (auto simp: fun_upd_def)

lemma find_region_load: "find_region b (snd (mem_region_load a ds m)) = find_region b m"
  by (induction a ds m rule: mem_region_load.induct)
    (auto simp: find_region_put_data split: option.split)

lemma load_keeps_map:
  assumes "mem_wf m"
  shows "mem_wf (snd (mem_region_load a ds m))"
    and "cell_kind (view (snd (mem_region_load a ds m)) b) = cell_kind (view m b)"
    and "find_region b (snd (mem_region_load a ds m)) = find_region b m"
  using load_refines [OF assms, of a ds] by (simp_all add: cell_kind_load_cells find_region_load)

lemma load_bin_keeps_map:
  assumes "mem_wf m"
  shows "mem_wf (snd (load_bin_region fopen path a m))"
    and "cell_kind (view (snd (load_bin_region fopen path a m)) b) = cell_kind (view m b)"
    and "find_region b (snd (load_bin_region fopen path a m)) = find_region b m"
  using load_keeps_map [OF assms] assms
  by (auto simp: load_bin_region_eq split: option.split)

subsection \<open>The two regions\<close>

definition in_range :: "MEM_TWO_WORDS \<Rightarrow> MEM_TWO_WORDS \<Rightarrow> MEM_TWO_WORDS \<Rightarrow> bool" where
  "in_range s n a = (unat s \<le> unat a \<and> unat a < unat s + unat n)"

text \<open>The map the options ask for, and when it can be built.\<close>

definition requested_map :: "options \<Rightarrow> MEM_TWO_WORDS \<Rightarrow> MEM_REGION_TYPE" where
  "requested_map opts a =
     (if in_range (ram_start opts) (ram_size opts) a then MEM_REGION_RAM
      else if in_range (rom_start opts) (rom_size opts) a then MEM_REGION_ROM
      else MEM_REGION_NONE)"

definition good_extents :: "options \<Rightarrow> bool" where
  "good_extents opts =
     (ram_size opts \<noteq> 0 \<and> unat (ram_start opts) + unat (ram_size opts) \<le> 0x10000 \<and>
      rom_size opts \<noteq> 0 \<and> unat (rom_start opts) + unat (rom_size opts) \<le> 0x10000 \<and>
      (unat (ram_start opts) + unat (ram_size opts) \<le> unat (rom_start opts) \<or>
       unat (rom_start opts) + unat (rom_size opts) \<le> unat (ram_start opts)))"

definition two_regions :: "options \<Rightarrow> 'd \<Rightarrow> 'd memory" where
  "two_regions opts dev =
     \<lparr>REGIONS =
        [\<lparr>START = ram_start opts, END = end_of (ram_start opts) (ram_size opts),
          REGION_TYPE = MEM_REGION_RAM, DATA = Some (replicate (unat (ram_size opts)) 0),
          READ_HANDLER = None, WRITE_HANDLER = None, REGION_CTX = 0\<rparr>,
         \<lparr>START = rom_start opts, END = end_of (rom_start opts) (rom_size opts),
          REGION_TYPE = MEM_REGION_ROM, DATA = Some (replicate (unat (rom_size opts)) 0),
          READ_HANDLER = None, WRITE_HANDLER = None, REGION_CTX = 0\<rparr>],
      devices = dev\<rparr>"

lemma good_extents_checks:
  "good_extents opts \<longleftrightarrow>
    \<not> bad_extent (ram_start opts) (ram_size opts) \<and> \<not> bad_extent (rom_start opts) (rom_size opts) \<and>
    \<not> (rom_start opts \<le> end_of (ram_start opts) (ram_size opts) \<and>
       ram_start opts \<le> end_of (rom_start opts) (rom_size opts))"
proof (cases "bad_extent (ram_start opts) (ram_size opts) \<or> bad_extent (rom_start opts) (rom_size opts)")
  case True
  then show ?thesis by (auto simp: good_extents_def bad_extent_iff)
next
  case False
  then have pos: "0 < unat (ram_size opts)" "0 < unat (rom_size opts)"
    and le: "unat (ram_start opts) + unat (ram_size opts) \<le> 0x10000"
      "unat (rom_start opts) + unat (rom_size opts) \<le> 0x10000"
    by (auto simp: bad_extent_iff unat_gt_0)
  from False show ?thesis
    using pos le by (auto simp: good_extents_def bad_extent_iff word_le_nat_alt unat_end_of)
qed

lemma check_extents_iff:
  "fst (check_extents opts l) \<longleftrightarrow>
    unat (ram_start opts) + unat (ram_size opts) \<le> 0x10000 \<and>
    unat (rom_start opts) + unat (rom_size opts) \<le> 0x10000"
proof -
  have "((ucast s :: uint32) + ucast n > 0x10000) = (0x10000 < unat s + unat n)"
    for s n :: MEM_TWO_WORDS
    using bad_extent_iff [of s n] unat_word16_less [of s] by (cases "n = 0") (auto simp: bad_extent_def word_less_nat_alt)
  then show ?thesis by (auto simp: check_extents_def not_less)
qed

text \<open>The two calls that add a region, after the table was cleared.\<close>

definition ram_only :: "options \<Rightarrow> 'd \<Rightarrow> 'd memory" where
  "ram_only opts dev = \<lparr>REGIONS = take 1 (REGIONS (two_regions opts dev)), devices = dev\<rparr>"

lemma boot_adds_ram:
  "mem_region_add_ram ok (ram_start opts) (ram_size opts) (mem_region_clear m) =
    (if \<not> bad_extent (ram_start opts) (ram_size opts) \<and> ok
     then (0, ram_only opts (devices m)) else (- 1, mem_region_clear m))"
  by (simp add: mem_region_add_ram_def mem_region_clear_def MAX_MEM_REGIONS_def ram_only_def
      two_regions_def)

lemma boot_adds_rom:
  assumes "\<not> bad_extent (ram_start opts) (ram_size opts)"
  shows "mem_region_add_rom ok (rom_start opts) (rom_size opts) (ram_only opts dev) =
    (if good_extents opts \<and> ok then (0, two_regions opts dev) else (- 1, ram_only opts dev))"
  using assms
  by (simp add: good_extents_checks mem_region_add_rom_def MAX_MEM_REGIONS_def ram_only_def
      two_regions_def)

lemma allocate_regions_eq:
  shows "fst (allocate_regions ram_ok rom_ok opts (m, l)) = (good_extents opts \<and> ram_ok \<and> rom_ok)"
    and "fst (allocate_regions ram_ok rom_ok opts (m, l)) \<Longrightarrow>
      fst (snd (allocate_regions ram_ok rom_ok opts (m, l))) =
        m\<lparr>bus_world := two_regions opts (devices (bus_world m))\<rparr>"
proof -
  have "fst (allocate_regions ram_ok rom_ok opts (m, l)) = (good_extents opts \<and> ram_ok \<and> rom_ok) \<and>
    (fst (allocate_regions ram_ok rom_ok opts (m, l)) \<longrightarrow>
      fst (snd (allocate_regions ram_ok rom_ok opts (m, l))) =
        m\<lparr>bus_world := two_regions opts (devices (bus_world m))\<rparr>)"
  proof (cases "\<not> bad_extent (ram_start opts) (ram_size opts) \<and> ram_ok")
    case True
    then show ?thesis
      by (simp add: allocate_regions_def boot_adds_ram boot_adds_rom Let_def split del: if_split)
        (simp split: if_split)
  next
    case False
    have no: "\<not> (good_extents opts \<and> ram_ok)" using False by (auto simp: good_extents_checks)
    note ram = boot_adds_ram [of ram_ok opts, unfolded if_not_P [OF False]]
    have "\<not> fst (allocate_regions ram_ok rom_ok opts (m, l))"
      by (simp add: allocate_regions_def ram Let_def)
    with no show ?thesis by blast
  qed
  then show "fst (allocate_regions ram_ok rom_ok opts (m, l)) = (good_extents opts \<and> ram_ok \<and> rom_ok)"
    and "fst (allocate_regions ram_ok rom_ok opts (m, l)) \<Longrightarrow>
      fst (snd (allocate_regions ram_ok rom_ok opts (m, l))) =
        m\<lparr>bus_world := two_regions opts (devices (bus_world m))\<rparr>"
    by blast+
qed

lemma two_regions_find:
  assumes "good_extents opts"
  shows "find_region a (two_regions opts dev) =
    (if in_range (ram_start opts) (ram_size opts) a then Some 0
     else if in_range (rom_start opts) (rom_size opts) a then Some 1 else None)"
  using assms
  by (simp add: good_extents_checks two_regions_def find_region_def in_extent in_range_def)

lemma two_regions_wf:
  assumes "good_extents opts"
  shows "mem_wf (two_regions opts dev)"
proof -
  have "unat (ram_size opts) \<noteq> 0" "unat (rom_size opts) \<noteq> 0"
    using assms by (simp_all add: good_extents_def unat_eq_zero)
  then obtain j k where "unat (ram_size opts) = Suc j" "unat (rom_size opts) = Suc k"
    by (meson not0_implies_Suc)
  then show ?thesis
    using assms unat_end_of [of "ram_start opts" "ram_size opts"]
      unat_end_of [of "rom_start opts" "rom_size opts"]
    by (auto simp: good_extents_checks mem_wf_def two_regions_def MAX_MEM_REGIONS_def
        region_wf_def apart_def not_le word_le_nat_alt word_less_nat_alt)
qed

lemma two_regions_kind:
  assumes "good_extents opts"
  shows "cell_kind (view (two_regions opts dev) a) = requested_map opts a"
  unfolding view_def two_regions_find [OF assms]
  by (auto simp: requested_map_def cell_of_def two_regions_def)


lemma good_map_kinds: "requested_map opts a \<noteq> MEM_REGION_IO"
  by (simp add: requested_map_def)

subsection \<open>Loading the program\<close>

definition load_succeeds :: "(string \<Rightarrow> FILE option) \<Rightarrow> options \<Rightarrow> 'd memory \<Rightarrow> bool" where
  "load_succeeds fopen opts mem =
     (case rom_file opts of
        None \<Rightarrow> True
      | Some path \<Rightarrow> fst (load_bin_region fopen path (rom_addr opts) mem) = 0)"

definition loaded :: "(string \<Rightarrow> FILE option) \<Rightarrow> options \<Rightarrow> 'd memory \<Rightarrow> 'd memory" where
  "loaded fopen opts mem =
     (case rom_file opts of
        None \<Rightarrow> snd (mem_region_load (rom_addr opts) sample_rom mem)
      | Some path \<Rightarrow> snd (load_bin_region fopen path (rom_addr opts) mem))"

lemma load_program_eq:
  "fst (load_program fopen opts (m, l)) = load_succeeds fopen opts (bus_world m)"
  "fst (snd (load_program fopen opts (m, l))) = m\<lparr>bus_world := loaded fopen opts (bus_world m)\<rparr>"
  by (simp_all add: load_program_def load_succeeds_def loaded_def Let_def case_prod_beta
      split: option.split)

lemma loaded_keeps_map:
  assumes "mem_wf mem"
  shows "mem_wf (loaded fopen opts mem)"
    and "cell_kind (view (loaded fopen opts mem) a) = cell_kind (view mem a)"
    and "find_region a (loaded fopen opts mem) = find_region a mem"
  using load_keeps_map [OF assms] load_bin_keeps_map [OF assms]
  by (simp_all add: loaded_def split: option.split)

subsection \<open>The reset\<close>

lemma no_io_REG [simp]: "no_io (REG_update f m) = no_io m"
  by (simp add: no_io_def on_regions_def wired_def)

lemma cpu_reset_no_io:
  assumes "no_io m"
  shows "cpu_reset m = m\<lparr>REG := \<lparr>rPC = word_of_bytes (peek 0xFFFC m) (peek 0xFFFD m), rA = 0,
      rP = 0x24, rS = 0xFD, rX = 0, rY = 0\<rparr>,
    CPU_WAITING := 0, CPU_STOPPED := 0, CYCLES := CYCLES m + 7\<rparr>"
proof -
  have r: "bus_read16 0xFFFC (REG_update f m) =
      (word_of_bytes (peek 0xFFFC m) (peek 0xFFFD m), REG_update f m)" for f
    using region_mem.quiet_bus_read16 [OF no_io_quiet, of "REG_update f m" "0xFFFC"] assms by simp
  show ?thesis
    by (simp add: cpu_reset_def Let_def r CPU_RESET_STACK_POINTER_def CPU_RESET_STATUS_def o_def)
qed

text \<open>The vector is stored when both its bytes lie in one of the two regions.\<close>

definition vector_in :: "options \<Rightarrow> bool" where
  "vector_in opts =
     (in_range (ram_start opts) (ram_size opts) 0xFFFC \<and> in_range (ram_start opts) (ram_size opts) 0xFFFD \<or>
      in_range (rom_start opts) (rom_size opts) 0xFFFC \<and> in_range (rom_start opts) (rom_size opts) 0xFFFD)"

definition map_of_options :: "options \<Rightarrow> 'd memory \<Rightarrow> bool" where
  "map_of_options opts mem =
     (mem_wf mem \<and> (\<forall>a. cell_kind (view mem a) = requested_map opts a) \<and>
      (\<forall>a. find_region a mem =
        (if in_range (ram_start opts) (ram_size opts) a then Some 0
         else if in_range (rom_start opts) (rom_size opts) a then Some 1 else None)))"

lemma map_of_two_regions: "good_extents opts \<Longrightarrow> map_of_options opts (two_regions opts dev)"
  by (simp add: map_of_options_def two_regions_wf two_regions_kind two_regions_find)

lemma map_of_loaded: "map_of_options opts mem \<Longrightarrow> map_of_options opts (loaded fopen opts mem)"
  using loaded_keeps_map [where mem = mem and fopen = fopen and opts = opts] by (simp add: map_of_options_def)

lemma set_vector_map:
  fixes mem :: "'d memory" and dest :: MEM_TWO_WORDS
  assumes "map_of_options opts mem" and "good_extents opts"
  defines "mem' \<equiv> snd (mem_region_set_vector 0xFFFC dest mem)"
  shows "mem_wf mem'" and "cell_kind (view mem' a) = requested_map opts a"
    and "vector_in opts \<Longrightarrow> cell_byte (view mem' 0xFFFC) = lo_byte dest"
    and "vector_in opts \<Longrightarrow> cell_byte (view mem' 0xFFFD) = hi_byte dest"
    and "\<not> vector_in opts \<Longrightarrow> mem' = mem"
proof -
  have wf: "mem_wf mem" and kind: "cell_kind (view mem b) = requested_map opts b"
    and find: "find_region b mem =
        (if in_range (ram_start opts) (ram_size opts) b then Some 0
         else if in_range (rom_start opts) (rom_size opts) b then Some 1 else None)" for b
    using assms(1) by (simp_all add: map_of_options_def)
  have data: "has_data (view mem b)" if "find_region b mem \<noteq> None" for b
    using kind [of b] that by (cases "view mem b") (auto simp: find requested_map_def split: if_splits)
  then have DATA: "DATA (REGIONS mem ! i) \<noteq> None" if "find_region b mem = Some i" for b i
    using has_data_view [OF wf, of b] that by auto
  have v: "vector_in opts \<longleftrightarrow> (\<exists>i. find_region 0xFFFC mem = Some i \<and> find_region 0xFFFD mem = Some i)"
    using assms(2) by (auto simp: vector_in_def find good_extents_def in_range_def split: if_splits)
  have ok: "mem_region_set_vector 0xFFFC dest mem = (0, mem')" if "vector_in opts"
    using that v DATA [of "0xFFFC"] unfolding mem'_def by (auto simp: set_vector_eq [OF wf])
  have bad: "mem' = mem" if "\<not> vector_in opts"
    using that v unfolding mem'_def by (auto simp: set_vector_eq [OF wf] split: option.split)
  then show "\<not> vector_in opts \<Longrightarrow> mem' = mem" .
  note view = set_vector_view [OF wf ok]
  show "mem_wf mem'" using wf view(1) bad by (cases "vector_in opts") simp_all
  show "cell_kind (view mem' a) = requested_map opts a"
    using kind view(2) bad by (cases "vector_in opts") simp_all
  show "vector_in opts \<Longrightarrow> cell_byte (view mem' 0xFFFC) = lo_byte dest"
    using view(2,3) by (cases "view mem 0xFFFC") simp_all
  show "vector_in opts \<Longrightarrow> cell_byte (view mem' 0xFFFD) = hi_byte dest"
    using view(2,4) by (cases "view mem 0xFFFD") simp_all
qed

subsection \<open>The boot sequence\<close>

lemma main_boot_phases:
  fixes m :: "'d memory machine" and ram_ok rom_ok fopen
  assumes "check_extents opts l = (True, l1)"
  defines "m1 \<equiv> cpu_set_variant (cpu_variant opts) m"
    and "l2 \<equiv> info (in_buffer (running_in opts)) True l1"
  defines "alloc \<equiv> allocate_regions ram_ok rom_ok opts (m1, l2)"
  defines "load \<equiv> load_program fopen opts (snd alloc)"
  shows "main_boot ram_ok rom_ok fopen opts (m, l) =
    (if \<not> fst alloc then (Inl 1, snd alloc)
     else if \<not> fst load then (Inl 1, snd load) else (Inr (), start_cpu opts (snd load)))"
  unfolding main_boot_def split assms(1) Let_def load_def alloc_def m1_def l2_def
  by (simp only: split case_prod_beta fst_conv snd_conv not_True_eq_False if_False)

lemma main_boot_outcome:
  fixes m :: "'d memory machine" and ram_ok rom_ok fopen opts l
  defines "mem \<equiv> two_regions opts (devices (bus_world m))"
  defines "r \<equiv> main_boot ram_ok rom_ok fopen opts (m, l)"
  shows "if good_extents opts \<and> ram_ok \<and> rom_ok \<and> load_succeeds fopen opts mem
    then fst r = Inr () \<and> (\<exists>l'. snd r = start_cpu opts
      (m\<lparr>CPU_VARIANT_MODE := cpu_variant opts, bus_world := loaded fopen opts mem\<rparr>, l'))
    else fst r = Inl 1"
proof (cases "fst (check_extents opts l)")
  case True
  then obtain l1 where c: "check_extents opts l = (True, l1)" by (metis prod.collapse)
  let ?m1 = "cpu_set_variant (cpu_variant opts) m"
  let ?l2 = "info (in_buffer (running_in opts)) True l1"
  let ?alloc = "allocate_regions ram_ok rom_ok opts (?m1, ?l2)"
  obtain m3 l3 where s: "snd ?alloc = (m3, l3)" by (cases "snd ?alloc")
  note phases = main_boot_phases [OF c, where m = m and ram_ok = ram_ok and rom_ok = rom_ok
      and fopen = fopen, unfolded s]
  show ?thesis
  proof (cases "fst ?alloc")
    case True
    have m3: "m3 = m\<lparr>CPU_VARIANT_MODE := cpu_variant opts, bus_world := mem\<rparr>"
      using allocate_regions_eq(2) [OF True] s by (simp add: mem_def cpu_set_variant_def)
    obtain l4 where l4: "snd (load_program fopen opts (m3, l3)) =
        (m3\<lparr>bus_world := loaded fopen opts (bus_world m3)\<rparr>, l4)"
      using load_program_eq(2) [of fopen opts m3 l3] by (metis prod.collapse)
    show ?thesis
      using True phases allocate_regions_eq(1) [of ram_ok rom_ok opts ?m1 ?l2]
        load_program_eq(1) [of fopen opts m3 l3] l4
      by (simp add: m3 r_def) blast
  next
    case False
    then have no: "\<not> (good_extents opts \<and> ram_ok \<and> rom_ok)"
      unfolding allocate_regions_eq(1) .
    have "fst r = Inl 1" using phases False by (simp add: r_def)
    with no show ?thesis by meson
  qed
next
  case False
  then have no: "\<not> good_extents opts" by (auto simp: check_extents_iff good_extents_def)
  obtain l1 where "check_extents opts l = (False, l1)" using False by (metis prod.collapse)
  then have "fst r = Inl 1" by (simp add: r_def main_boot_def Let_def)
  with no show ?thesis by meson
qed

end
