(* ===== verification/Args_Spec.thy ===== *)
theory Args_Spec
  imports Args
begin

text \<open>
  What the numeric options accept: the conversions of printf are parsed back, so the addresses
  and sizes the program prints are the ones its options read.
\<close>

subsection \<open>Digits\<close>

lemma hex_char_facts:
  assumes "d < 16"
  shows "digit_value (hex_char d) = d" and "\<not> is_space (hex_char d)"
    and "hex_char d \<noteq> CHR ''-''" and "hex_char d \<noteq> CHR ''+''"
    and "hex_char d \<noteq> CHR ''x''" and "hex_char d \<noteq> CHR ''X''"
    and "(hex_char d = CHR ''0'') = (d = 0)"
proof -
  have "d \<in> {0, 1, 2, 3, 4, 5, 6, 7, 8, 9, 10, 11, 12, 13, 14, 15}"
    using assms by (simp only: insert_iff empty_iff) arith
  then have "digit_value (hex_char d) = d \<and> \<not> is_space (hex_char d) \<and>
    hex_char d \<noteq> CHR ''-'' \<and> hex_char d \<noteq> CHR ''+'' \<and> hex_char d \<noteq> CHR ''x'' \<and>
    hex_char d \<noteq> CHR ''X'' \<and> (hex_char d = CHR ''0'') = (d = 0)"
    by (elim insertE emptyE) (simp_all add: hex_char_def digit_value_def is_space_def Let_def)
  then show "digit_value (hex_char d) = d" "\<not> is_space (hex_char d)"
    "hex_char d \<noteq> CHR ''-''" "hex_char d \<noteq> CHR ''+''" "hex_char d \<noteq> CHR ''x''"
    "hex_char d \<noteq> CHR ''X''" "(hex_char d = CHR ''0'') = (d = 0)"
    by blast+
qed

text \<open>A text of digits below the base.\<close>

definition numeral_text :: "nat \<Rightarrow> string \<Rightarrow> bool" where
  "numeral_text base s = (\<forall>c \<in> set s. \<exists>d < base. c = hex_char d)"

lemma digits_of_text:
  assumes "2 \<le> base" and "base \<le> 16"
  shows "numeral_text base (digits_of base n) \<and> digits_of base n \<noteq> [] \<and>
    number base (digits_of base n) = n"
  using assms
proof (induction base n rule: digits_of.induct)
  case (1 base n)
  show ?case
  proof (cases "n < base")
    case True
    then have "n < 16" using 1(3) by simp
    then show ?thesis
      using True 1(2) hex_char_facts(1) [of n]
      by (auto simp: digits_of.simps [of base n] numeral_text_def number_def)
  next
    case False
    have "digit_value (hex_char (n mod base)) = n mod base"
      using 1(2,3) mod_less_divisor [of base n] by (intro hex_char_facts) linarith
    moreover have "\<exists>d < base. hex_char (n mod base) = hex_char d"
      using 1(2) by (intro exI [of _ "n mod base"]) simp
    ultimately show ?thesis
      using False 1 by (auto simp: digits_of.simps [of base n] numeral_text_def number_def)
  qed
qed

lemma digits_of_hd:
  assumes "2 \<le> base" and "base \<le> 16" and "0 < n"
  shows "hd (digits_of base n) \<noteq> CHR ''0''"
  using assms
proof (induction base n rule: digits_of.induct)
  case (1 base n)
  then show ?case
    using hex_char_facts(7) [of n] digits_of_text [of base "n div base"]
    by (subst digits_of.simps) (auto simp: div_greater_zero_iff not_less)
qed

lemma length_digits_of: "2 \<le> base \<Longrightarrow> n < base ^ Suc k \<Longrightarrow> length (digits_of base n) \<le> Suc k"
proof (induction k arbitrary: n)
  case (Suc k)
  have "n div base < base ^ Suc k"
    using Suc.prems by (simp add: less_mult_imp_div_less mult.commute)
  then show ?case
    using Suc.IH [of "n div base"] Suc.prems(1) by (subst digits_of.simps) simp
qed (simp add: digits_of.simps)

lemma zero_pad_text:
  assumes "0 < base" and "numeral_text base s"
  shows "numeral_text base (zero_pad k s)" and "number base (zero_pad k s) = number base s"
proof -
  have z: "hex_char 0 = CHR ''0''" by (simp add: hex_char_def)
  show "numeral_text base (zero_pad k s)"
    using assms z by (auto simp: numeral_text_def zero_pad_def)
  have "fold (\<lambda>d n. n * base + digit_value d) (replicate j (CHR ''0'')) 0 = 0" for j
    by (induction j) (simp_all add: digit_value_def)
  then show "number base (zero_pad k s) = number base s"
    by (simp add: number_def zero_pad_def)
qed

subsection \<open>strtol reads a text of digits\<close>

lemma strtol_text:
  assumes "numeral_text b s" and "s \<noteq> []" and "b \<le> 16" and "int (number b s) \<le> LONG_MAX"
    and "base = b \<and> base \<noteq> 0 \<or> base = 0 \<and> b = 10 \<and> hd s \<noteq> CHR ''0''"
  shows "strtol s base = (int (number b s), False, [])"
proof -
  have d: "\<exists>d < b. c = hex_char d" if "c \<in> set s" for c
    using assms(1) that by (simp add: numeral_text_def)
  have c: "digit_value c < b" "\<not> is_space c" "c \<noteq> CHR ''-''" "c \<noteq> CHR ''+''"
    "c \<noteq> CHR ''x''" "c \<noteq> CHR ''X''" if "c \<in> set s" for c
    using d [OF that] assms(3) hex_char_facts by (auto dest: less_le_trans)
  have space: "dropWhile is_space s = s"
    using assms(2) c(2) by (cases s) simp_all
  have sign: "signed s = (False, s)"
    using assms(2) c(3,4) by (cases s) simp_all
  have pre: "prefixed base s = (b, s)"
    using assms(2,5) c(5,6) by (cases "(base, s)" rule: prefixed.cases) (auto split: if_splits)
  have all: "takeWhile (\<lambda>c. digit_value c < b) s = s"
    using c(1) by (simp add: takeWhile_eq_all_conv)
  show ?thesis
    using assms(2,4) by (simp add: strtol_def space sign pre all LONG_MIN_def)
qed

lemma parse_numeric_text:
  assumes "numeral_text b s" and "s \<noteq> []" and "b \<le> 16" and "lo \<le> int (number b s)"
    and "int (number b s) \<le> hi" and "hi \<le> LONG_MAX"
    and "base = b \<and> base \<noteq> 0 \<or> base = 0 \<and> b = 10 \<and> hd s \<noteq> CHR ''0''"
  shows "parse_numeric s base lo hi = Some (int (number b s))"
  using strtol_text [OF assms(1-3) _ assms(7)] assms
  by (simp add: parse_numeric_def)

lemma parse_hex4:
  assumes "n \<le> 0xFFFF"
  shows "parse_numeric (hex4 n) 16 0 0xFFFF = Some (int n)"
proof -
  have t: "numeral_text 16 (digits_of 16 n)" "digits_of 16 n \<noteq> []"
    "number 16 (digits_of 16 n) = n"
    using digits_of_text [of 16 n] by simp_all
  have "numeral_text 16 (hex4 n)" "number 16 (hex4 n) = n" "hex4 n \<noteq> []"
    unfolding hex4_def using zero_pad_text [of 16, OF _ t(1)] t(2,3) by (simp_all add: zero_pad_def)
  then show ?thesis
    using assms parse_numeric_text [of 16 "hex4 n" 0 "0xFFFF" 16] by (simp add: LONG_MAX_def)
qed

lemma parse_dec:
  assumes "1 \<le> n" and "n \<le> 0x10000"
  shows "parse_numeric (dec n) 0 1 0x10000 = Some (int n)"
proof -
  have t: "numeral_text 10 (dec n)" "dec n \<noteq> []" "number 10 (dec n) = n" "hd (dec n) \<noteq> CHR ''0''"
    using digits_of_text [of 10 n] digits_of_hd [of 10 n] assms(1) by (simp_all add: dec_def)
  then show ?thesis
    using assms parse_numeric_text [of 10 "dec n" 1 "0x10000" 0] by (simp add: LONG_MAX_def)
qed

text \<open>What is stored is in range.\<close>

lemma parse_numeric_range: "parse_numeric s base lo hi = Some n \<Longrightarrow> lo \<le> n \<and> n \<le> hi"
  by (auto simp: parse_numeric_def case_prod_beta Let_def split: if_splits)

end
