(* ===== verification/Boot_Properties.thy ===== *)
theory Boot_Properties
  imports Boot_Spec Args_Spec
begin

text \<open>
  The properties of src/main.c, src/loader.c and src/logging.c: the numeric options read back
  what the program prints, what the loader makes of a file, what the boot sequence leaves
  behind, and how normal execution ends.
\<close>

subsection \<open>Options\<close>

text \<open>
  C35. An address printed with four hexadecimal digits is read back by the address options, and
  a size from 1 to 65536 printed in decimal by the size options; whatever text is accepted, the
  value is within the bounds of the option.
\<close>

theorem options_read_back:
  "parse_numeric (hex4 (unat a)) 16 0 0xFFFF = Some (uint a) \<and>
   (1 \<le> n \<and> n \<le> 0x10000 \<longrightarrow> parse_numeric (dec n) 0 1 0x10000 = Some (int n)) \<and>
   (\<forall>v. parse_numeric s base lo hi = Some v \<longrightarrow> lo \<le> v \<and> v \<le> hi)"
  for a :: MEM_TWO_WORDS
  using parse_hex4 [of "unat a"] unat_word16_less [of a] parse_dec [of n]
    parse_numeric_range [of s base lo hi]
  by auto

theorem options_read_back_witness:
  "parse_numeric ''8000'' 16 0 0xFFFF = Some 0x8000 \<and>
   parse_numeric ''32768'' 0 1 0x10000 = Some 0x8000"
proof -
  have "hex4 (unat (0x8000 :: MEM_TWO_WORDS)) = ''8000''" "dec 0x8000 = ''32768''"
    by (simp_all add: hex4_def dec_def zero_pad_def digits_of.simps hex_char_def)
  then show ?thesis
    using options_read_back [of "0x8000" "0x8000" "[]" 0 0 0] by simp
qed

subsection \<open>The loader\<close>

text \<open>
  C34. Loading a file fails, leaving the memory alone, when the file cannot be opened, sought
  or measured, or when its reported size (as a 32-bit number) reaches past $FFFF. Otherwise its
  blocks of 4096 bytes amount to one store of all the bytes that can be read, and the result is
  0 when all of them went to addresses with data and there was no read error.
\<close>

theorem file_load_outcome:
  fixes mem :: "'d memory" and addr :: MEM_TWO_WORDS and fopen path
  assumes "mem_wf mem"
  defines "r \<equiv> load_bin_region fopen path addr mem"
  shows "mem_wf (snd r) \<and>
    (case fopen path of
       None \<Rightarrow> r = (- 1, mem)
     | Some f \<Rightarrow>
         if seek_end_ok f \<and> seek_set_ok f \<and> 0 \<le> reported_size f \<and>
            (ucast addr :: uint32) + word_of_int (reported_size f) \<le> 0x10000
         then view (snd r) = snd (load_cells addr (readable f) (view mem)) \<and>
           fst r = (if fst (load_cells addr (readable f) (view mem)) = 0 \<and>
                       \<not> error_flag f \<and> readable f = contents f then 0 else - 1)
         else r = (- 1, mem))"
proof -
  have "(length (readable f) = length (contents f)) = (readable f = contents f)" for f
    by (auto simp: readable_def split: option.split)
  then show ?thesis
    using load_refines [OF assms(1), of addr] load_bin_keeps_map(1) [OF assms(1)]
    by (auto simp: r_def load_bin_region_eq split: option.split)
qed

theorem file_load_outcome_witness:
  "fst (load_bin_region (\<lambda>path. Some \<lparr>contents = [0xA9, 0x42], fpos = 0, bad_at = None,
      error_flag = False, seek_end_ok = True, seek_set_ok = True, reported_size = 2\<rparr>)
    ''rom.bin'' 0xFFFF (default_memory ())) = - 1"
  using file_load_outcome [OF default_memory_facts(1) [of "()"], of "\<lambda>path. Some \<lparr>contents = [0xA9, 0x42],
      fpos = 0, bad_at = None, error_flag = False, seek_end_ok = True, seek_set_ok = True,
      reported_size = 2\<rparr>" "''rom.bin''" "0xFFFF"]
  by (simp add: word_le_nat_alt)

subsection \<open>Booting\<close>

lemma start_cpu_machine:
  "fst (start_cpu opts (m, l)) =
    (let m' = cpu_reset (mem_region_init (m\<lparr>bus_world :=
                snd (mem_region_set_vector 0xFFFC (rom_addr opts) (bus_world m))\<rparr>))
     in if enable_trace opts \<noteq> 0 then trace_set_enabled 1 m' else m')"
  by (simp add: start_cpu_def Let_def case_prod_beta)

lemma booted_machine:
  fixes dev :: 'd and fopen opts l
  assumes good: "good_extents opts"
  defines "m \<equiv> fst (start_cpu opts ((power_on dev)\<lparr>CPU_VARIANT_MODE := cpu_variant opts,
    bus_world := loaded fopen opts (two_regions opts dev)\<rparr>, l))"
  shows "no_io m \<and> ic_idle m \<and> CPU_STOPPED m = 0 \<and> CPU_WAITING m = 0 \<and>
      CPU_VARIANT_MODE m = cpu_variant opts \<and> trace_enabled m = (if enable_trace opts \<noteq> 0 then 1 else 0) \<and>
      (\<forall>a. cell_kind (view (bus_world m) a) = requested_map opts a) \<and>
      REG m = \<lparr>rPC = if vector_in opts then rom_addr opts
                      else word_of_bytes (peek 0xFFFC m) (peek 0xFFFD m),
        rA = 0, rP = 0x24, rS = 0xFD, rX = 0, rY = 0\<rparr> \<and>
      bus_world m = snd (mem_region_set_vector 0xFFFC (rom_addr opts)
        (loaded fopen opts (two_regions opts dev))) \<and> ic m = ic (power_on dev)"
proof -
  define mem' where "mem' = snd (mem_region_set_vector 0xFFFC (rom_addr opts) (loaded fopen opts (two_regions opts dev)))"
  define n where "n = mem_region_init ((power_on dev)
    \<lparr>CPU_VARIANT_MODE := cpu_variant opts, bus_world := mem'\<rparr>)"
  note map = set_vector_map [OF map_of_loaded [OF map_of_two_regions [OF good, of dev], of fopen] good,
      of "rom_addr opts", folded mem'_def]
  have w: "bus_world n = mem'" by (simp add: n_def mem_region_init_def)
  have on: "on_regions n"
    by (simp add: on_regions_def w map(1)) (simp add: n_def mem_region_init_def wired_def)
  have io: "view mem' a \<noteq> Io i" for a i
    using map(2) [of a] good_map_kinds [of opts a] by auto
  have n: "no_io n" using on io by (simp add: no_io_def w)
  have idle: "ic_idle n"
    using ic_idle_power_on [of dev] by (simp add: n_def ic_idle_def mem_region_init_def power_on_def)
  have peek: "peek a n = cell_byte (view mem' a)" for a
    using peek_cell [OF on] io by (simp add: w)
  have pc: "word_of_bytes (peek 0xFFFC n) (peek 0xFFFD n) = rom_addr opts" if "vector_in opts"
    using map(3,4) [OF that] by (simp add: peek)
  define e where "e = (if enable_trace opts \<noteq> 0 then 1 else 0 :: int)"
  have m: "m = n\<lparr>REG := \<lparr>rPC = word_of_bytes (peek 0xFFFC n) (peek 0xFFFD n), rA = 0,
      rP = 0x24, rS = 0xFD, rX = 0, rY = 0\<rparr>,
    CPU_WAITING := 0, CPU_STOPPED := 0, CYCLES := CYCLES n + 7, trace_enabled := e\<rparr>"
  proof -
    have "m = (if enable_trace opts \<noteq> 0 then trace_set_enabled 1 (cpu_reset n) else cpu_reset n)"
      by (simp add: m_def start_cpu_machine Let_def n_def mem'_def)
    moreover have "trace_enabled n = 0" by (simp add: n_def mem_region_init_def power_on_def)
    ultimately show ?thesis
      by (simp add: cpu_reset_no_io [OF n] trace_set_enabled_def e_def)
  qed
  have "no_io m" using n by (simp add: m no_io_def on_regions_def wired_def)
  moreover have "ic_idle m" using idle by (simp add: m ic_idle_def)
  moreover have "peek a m = peek a n" for a by (simp add: m peek_eq)
  moreover have "CPU_VARIANT_MODE m = cpu_variant opts"
    by (simp add: m n_def mem_region_init_def)
  moreover have "bus_world m = mem'" by (simp add: m w)
  ultimately show ?thesis
    using map(2) pc by (simp add: m e_def mem'_def n_def mem_region_init_def)
qed

text \<open>
  C25. From the initial state of the program the boot sequence succeeds exactly when both
  regions are non-empty, end by $FFFF and do not overlap, both allocations succeed, and the
  program file, if one was named, loads; otherwise main exits with status 1. On success the
  memory map is the one the options ask for, with no I/O; the CPU is wired to it, idle and
  reset, with PC at the load address whenever both bytes of the reset vector are in one region.
\<close>

theorem boot_builds_machine:
  fixes dev :: 'd and ram_ok rom_ok fopen opts l
  defines "r \<equiv> main_boot ram_ok rom_ok fopen opts (power_on dev, l)"
  defines "m \<equiv> fst (snd r)"
  shows "fst r = (if good_extents opts \<and> ram_ok \<and> rom_ok \<and>
        load_succeeds fopen opts (two_regions opts dev) then Inr () else Inl 1) \<and>
    (fst r = Inr () \<longrightarrow>
      no_io m \<and> ic_idle m \<and> CPU_STOPPED m = 0 \<and> CPU_WAITING m = 0 \<and>
      CPU_VARIANT_MODE m = cpu_variant opts \<and> trace_enabled m = (if enable_trace opts \<noteq> 0 then 1 else 0) \<and>
      (\<forall>a. cell_kind (view (bus_world m) a) = requested_map opts a) \<and>
      REG m = \<lparr>rPC = if vector_in opts then rom_addr opts
                      else word_of_bytes (peek 0xFFFC m) (peek 0xFFFD m),
        rA = 0, rP = 0x24, rS = 0xFD, rX = 0, rY = 0\<rparr>)"
proof -
  let ?mem = "two_regions opts dev"
  have dev: "devices (bus_world (power_on dev)) = dev" by (simp add: power_on_def)
  note out = main_boot_outcome [where m = "power_on dev" and ram_ok = ram_ok and rom_ok = rom_ok
      and fopen = fopen and opts = opts and l = l, unfolded dev, folded r_def]
  show ?thesis
  proof (cases "fst r = Inr ()")
    case True
    then obtain l' where run: "snd r = start_cpu opts ((power_on dev)\<lparr>CPU_VARIANT_MODE := cpu_variant opts,
        bus_world := loaded fopen opts ?mem\<rparr>, l')" and good: "good_extents opts"
      using out by (auto split: if_splits)
    then have m: "m = fst (start_cpu opts ((power_on dev)\<lparr>CPU_VARIANT_MODE := cpu_variant opts,
        bus_world := loaded fopen opts ?mem\<rparr>, l'))" by (simp add: m_def)
    show ?thesis
      using out True booted_machine [where dev = dev and fopen = fopen and l = l', OF good, folded m] by (simp split: if_splits)
  next
    case False
    then show ?thesis using out by (simp split: if_splits)
  qed
qed

theorem boot_builds_machine_witness:
  "PC_of (fst (snd (main_boot True True (\<lambda>_. None) default_options (power_on (), log_start)))) = 0x8000"
  using boot_builds_machine [where dev = "()" and ram_ok = True and rom_ok = True and
      fopen = "\<lambda>_. None" and opts = default_options and l = log_start]
  by (simp add: default_options_def good_extents_def load_succeeds_def vector_in_def in_range_def)


subsection \<open>Normal execution\<close>

lemma test_run_steps:
  "\<exists>j \<le> n. fst (test_run n k (m, l)) = (cpu_step ^^ j) m \<and> (0 < n \<longrightarrow> 0 < j) \<and>
    (\<forall>i. 0 < i \<and> i < j \<longrightarrow> PC_of ((cpu_step ^^ i) m) \<noteq> 0) \<and>
    (j < n \<longrightarrow> PC_of ((cpu_step ^^ j) m) = 0)"
proof (induction n arbitrary: k m l)
  case (Suc n)
  show ?case
  proof (cases "PC_of (cpu_step m) = 0")
    case True
    then show ?thesis by (intro exI [of _ 1]) (simp add: Let_def)
  next
    case False
    obtain j where j: "j \<le> n" "fst (test_run n (k + 1) (cpu_step m, l)) = (cpu_step ^^ j) (cpu_step m)"
      "\<forall>i. 0 < i \<and> i < j \<longrightarrow> PC_of ((cpu_step ^^ i) (cpu_step m)) \<noteq> 0"
      "j < n \<longrightarrow> PC_of ((cpu_step ^^ j) (cpu_step m)) = 0"
      using Suc.IH [of "k + 1" "cpu_step m" l] by blast
    have s: "(cpu_step ^^ i) (cpu_step m) = (cpu_step ^^ Suc i) m" for i by (simp add: funpow_swap1)
    have "PC_of ((cpu_step ^^ i) m) \<noteq> 0" if i: "0 < i" "i < Suc j" for i
    proof (cases "i = 1")
      case one: False
      then obtain i' where "i = Suc i'" "0 < i'" using i(1) one by (cases i) auto
      then show ?thesis using j(3) i(2) unfolding s by auto
    qed (use False in simp)
    then show ?thesis
      using j False unfolding s by (intro exI [of _ "Suc j"]) (simp add: Let_def del: funpow.simps)
  qed
qed simp

text \<open>
  C33. Normal execution steps the CPU until PC is 0, at most 10000 times, then reads the byte
  it prints; the ROM, and which addresses are RAM, are those of the booted machine.
\<close>

theorem normal_execution_stops:
  assumes "on_regions m"
  shows "\<exists>j \<ge> 1. j \<le> 10000 \<and> fst (run_normal (m, l)) = snd (bus_read 0x0200 ((cpu_step ^^ j) m)) \<and>
    (\<forall>i. 0 < i \<and> i < j \<longrightarrow> PC_of ((cpu_step ^^ i) m) \<noteq> 0) \<and>
    (j < 10000 \<longrightarrow> PC_of ((cpu_step ^^ j) m) = 0) \<and>
    rom_of (bus_world ((cpu_step ^^ j) m)) = rom_of (bus_world m) \<and>
    ram_of (bus_world ((cpu_step ^^ j) m)) = ram_of (bus_world m)"
  using test_run_steps [of 10000 1 m "info ''All set...'' True l"] steps_keep_memory_map(2,3) [OF assms]
  by (auto simp: run_normal_def CPU_TEST_RUN_LIMIT_def Let_def case_prod_beta Suc_le_eq)

theorem normal_execution_stops_witness:
  "\<exists>j \<ge> 1. j \<le> 10000 \<and>
    fst (run_normal (machine_at CPU_VARIANT_NMOS_6502 \<lparr>rPC = 0x8000, rA = 0, rP = 0, rS = 0xFD, rX = 0,
      rY = 0\<rparr>, log_start)) =
    snd (bus_read 0x0200 ((cpu_step ^^ j) (machine_at CPU_VARIANT_NMOS_6502 \<lparr>rPC = 0x8000, rA = 0,
      rP = 0, rS = 0xFD, rX = 0, rY = 0\<rparr>)))"
  using normal_execution_stops [of "machine_at CPU_VARIANT_NMOS_6502 \<lparr>rPC = 0x8000, rA = 0, rP = 0,
    rS = 0xFD, rX = 0, rY = 0\<rparr>" log_start] by auto

end
