(* ===== verification/Sample_Run.thy ===== *)
theory Sample_Run
  imports Boot_Properties
begin

text \<open>
  The program that src/main.c runs when no file is named, executed symbolically: what the
  registers and the byte at $0200 are after any number of steps.
\<close>

subsection \<open>The code in ROM\<close>

text \<open>
  The machine has the sample program at $8000 in ROM and RAM at $0200, and will execute: no
  interrupt is pending and it neither waits nor is stopped.
\<close>

definition sample_ready :: "'d memory machine \<Rightarrow> bool" where
  "sample_ready m \<longleftrightarrow> no_io m \<and> 0x0200 \<in> ram_of (bus_world m) \<and>
     (\<forall>i < 13. rom_of (bus_world m) (0x8000 + of_nat i) = Some (sample_rom ! i)) \<and>
     nmi_pending (ic m) = 0 \<and> irq_line (ic m) = 0 \<and> CPU_STOPPED m = 0 \<and> CPU_WAITING m = 0"

lemma sample_ready_executes: "sample_ready m \<Longrightarrow> executes m"
  by (simp add: sample_ready_def executes_def pending_eq)

lemma peek_rom:
  assumes "no_io m" and "rom_of (bus_world m) a = Some v"
  shows "peek a m = v"
  using assms peek_cell [of m a]
  by (auto simp: no_io_def rom_of_def split: cell.splits)

lemma sample_code:
  assumes "sample_ready m"
  shows "peek 0x8000 m = 0xA9" "peek 0x8001 m = 0x42" "peek 0x8002 m = 0x8D" "peek 0x8003 m = 0x00"
    "peek 0x8004 m = 0x02" "peek 0x8005 m = 0xE8" "peek 0x8006 m = 0xC8" "peek 0x8007 m = 0xEE"
    "peek 0x8008 m = 0x00" "peek 0x8009 m = 0x02" "peek 0x800A m = 0x4C" "peek 0x800B m = 0x00"
    "peek 0x800C m = 0x80"
proof -
  have "peek (0x8000 + of_nat i) m = sample_rom ! i" if "i < 13" for i
    using assms that by (intro peek_rom) (auto simp: sample_ready_def)
  note code = this [of 0] this [of 1] this [of 2] this [of 3] this [of 4] this [of 5] this [of 6]
    this [of 7] this [of 8] this [of 9] this [of 10] this [of 11] this [of 12]
  show "peek 0x8000 m = 0xA9" "peek 0x8001 m = 0x42" "peek 0x8002 m = 0x8D" "peek 0x8003 m = 0x00"
    "peek 0x8004 m = 0x02" "peek 0x8005 m = 0xE8" "peek 0x8006 m = 0xC8" "peek 0x8007 m = 0xEE"
    "peek 0x8008 m = 0x00" "peek 0x8009 m = 0x02" "peek 0x800A m = 0x4C" "peek 0x800B m = 0x00"
    "peek 0x800C m = 0x80"
    using code by (simp_all add: sample_rom_def)
qed

text \<open>Any step of an instruction that is none of BRK, KIL, STP and WAI keeps the machine ready.\<close>

lemma sample_ready_step:
  assumes "sample_ready m" and "next_handler m \<notin> {F_BRK, F_op_kil, F_STP, F_WAI}"
  shows "sample_ready (cpu_step m)"
proof -
  have "no_io (cpu_step m)" using assms(1) no_io_step by (auto simp: sample_ready_def)
  moreover have "rom_of (bus_world (cpu_step m)) = rom_of (bus_world m)"
    "ram_of (bus_world (cpu_step m)) = ram_of (bus_world m)"
    using steps_keep_memory_map [of m 1] assms(1) by (auto simp: sample_ready_def no_io_def)
  ultimately show ?thesis
    using assms
    by (simp add: sample_ready_def cpu_step_executes [OF sample_ready_executes] call_instr_ic
        call_instr_STOPPED call_instr_WAITING)
qed

subsection \<open>The six instructions\<close>

lemma sample_decode:
  "handler_of v 0xA9 = F_LDA" "handler_of v 0x8D = F_STA" "handler_of v 0xE8 = F_INX"
  "handler_of v 0xC8 = F_INY" "handler_of v 0xEE = F_INC" "handler_of v 0x4C = F_JMP"
  by (cases v; simp add: handler_of_def NMOS_HANDLER_def INSTR_HANDLERS_def)+

lemma sample_modes:
  "mode_of v 0xA9 = ADDR_IMM" "mode_of v 0x8D = ADDR_ABS" "mode_of v 0xE8 = ADDR_NONE"
  "mode_of v 0xC8 = ADDR_NONE" "mode_of v 0xEE = ADDR_ABS" "mode_of v 0x4C = ADDR_ABS"
  by (cases v; simp add: mode_of_def nmos_addr_override_def cmos_addr_override_def table_modes_eq
      table_modes_list)+

definition zn :: "MEM_WORD \<Rightarrow> MEM_WORD \<Rightarrow> MEM_WORD" where
  "zn v p = put_bit 128 (bit v 7) (put_bit 2 (v = 0) p)"

lemma zn_zn [simp]: "zn v (zn w p) = zn v p"
  by (rule bit_eqI) (simp add: zn_def flag_simps)

text \<open>The registers and the byte at $0200 after the instruction at PC.\<close>

definition sample_next :: "T_REGISTER \<times> MEM_WORD \<Rightarrow> T_REGISTER \<times> MEM_WORD" where
  "sample_next = (\<lambda>(r, v).
     if rPC r = 0x8000 then (r\<lparr>rPC := 0x8002, rA := 0x42, rP := zn 0x42 (rP r)\<rparr>, v)
     else if rPC r = 0x8002 then (r\<lparr>rPC := 0x8005\<rparr>, rA r)
     else if rPC r = 0x8005 then (r\<lparr>rPC := 0x8006, rX := rX r + 1, rP := zn (rX r + 1) (rP r)\<rparr>, v)
     else if rPC r = 0x8006 then (r\<lparr>rPC := 0x8007, rY := rY r + 1, rP := zn (rY r + 1) (rP r)\<rparr>, v)
     else if rPC r = 0x8007 then (r\<lparr>rPC := 0x800A, rP := zn (v + 1) (rP r)\<rparr>, v + 1)
     else (r\<lparr>rPC := 0x8000\<rparr>, v))"

definition sample_pcs :: "MEM_TWO_WORDS list" where
  "sample_pcs = [0x8000, 0x8002, 0x8005, 0x8006, 0x8007, 0x800A]"

definition sample_state :: "'d memory machine \<Rightarrow> T_REGISTER \<times> MEM_WORD" where
  "sample_state m = (REG m, peek 0x0200 m)"

lemma decoded_no_io:
  assumes "no_io m"
  shows "no_io (decoded m)" "bus_world (decoded m) = bus_world m" "peek a (decoded m) = peek a m"
proof -
  note q = no_io_quiet [OF fetched_no_io(2) [OF assms]]
  show w: "bus_world (decoded m) = bus_world m"
    using region_mem.addr_resolve_quiet(2) [OF q] fetched_no_io(1) [OF assms]
    by (simp add: decoded_def case_prod_beta Let_def)
  then show "no_io (decoded m)" "peek a (decoded m) = peek a m"
    using assms by (simp_all add: no_io_def on_regions_def wired_def peek_eq)
qed

lemma peek_finish: "peek a (finish m) = peek a m"
  by (simp add: peek_eq)

lemma sample_step:
  assumes "sample_ready m" and "PC_of m \<in> set sample_pcs"
  shows "sample_state (cpu_step m) = sample_next (sample_state m)" and "sample_ready (cpu_step m)"
proof -
  note code = sample_code [OF assms(1)]
  have h: "next_handler m \<in> {F_LDA, F_STA, F_INX, F_INY, F_INC, F_JMP}"
    using assms(2) by (auto simp: sample_pcs_def code sample_decode)
  then show "sample_ready (cpu_step m)"
    by (intro sample_ready_step [OF assms(1)]) auto
  have io: "no_io m" and ram: "0x0200 \<in> ram_of (bus_world m)" using assms(1) by (simp_all add: sample_ready_def)
  note dec = decoded_no_io [OF io]
  note ex = cpu_step_executes [OF sample_ready_executes [OF assms(1)]]
  have ea: "EA (decoded m) = (if PC_of m = 0x8000 then 0x42 else 0x0200)"
    if "PC_of m \<in> {0x8000, 0x8002, 0x8007}"
    unfolding decoded_EA_no_io [OF io] using that
    by (auto simp: sample_modes code mode_address.simps word_of_bytes_def)
  have jmp: "EA (decoded m) = 0x8000" if "PC_of m = 0x800A"
    unfolding decoded_EA_no_io [OF io] using that
    by (simp add: sample_modes code mode_address.simps word_of_bytes_def)
  have wr: "peek 0x0200 (bus_write 0x0200 v (decoded m)) = v" for v
    using dec(1,2) ram region_mem.peek_bus_write [of "decoded m" "0x0200" "0x0200" v]
    by (simp add: no_io_def on_regions_def plain_of_def)
  have rd: "bus_read a (decoded m) = (peek a m, decoded m)" for a
    using region_mem.quiet_bus_read [OF no_io_quiet [OF dec(1)]] dec(3) by simp
  show "sample_state (cpu_step m) = sample_next (sample_state m)"
    using assms(2)
    by (auto simp: sample_pcs_def sample_state_def sample_next_def ex code sample_decode sample_modes
        LDA_def STA_def INX_def INY_def INC_def JMP_def operand_def Let_def set_zn_eq zn_def o_def
        ea jmp wr rd dec peek_finish mode_has_ea_def bus_write_REG simp del: decoded_fields(12))
qed

subsection \<open>Any number of steps\<close>

lemma sample_state_PC: "rPC (fst (sample_state m)) = PC_of m"
  by (simp add: sample_state_def)

lemma sample_next_PC: "rPC (fst s) \<in> set sample_pcs \<Longrightarrow> rPC (fst (sample_next s)) \<in> set sample_pcs"
  by (cases s) (auto simp: sample_next_def sample_pcs_def)

lemma sample_steps:
  assumes "sample_ready m" and "PC_of m \<in> set sample_pcs"
  shows "sample_ready ((cpu_step ^^ n) m) \<and>
    PC_of ((cpu_step ^^ n) m) \<in> set sample_pcs \<and>
    sample_state ((cpu_step ^^ n) m) = (sample_next ^^ n) (sample_state m)"
proof (induction n)
  case (Suc n)
  let ?m = "(cpu_step ^^ n) m"
  have IH: "sample_ready ?m" "PC_of ?m \<in> set sample_pcs"
    "sample_state ?m = (sample_next ^^ n) (sample_state m)" using Suc by simp_all
  have "PC_of (cpu_step ?m) \<in> set sample_pcs"
    using sample_next_PC [of "sample_state ?m"] IH(2) sample_step(1) [OF IH(1,2)]
    by (simp add: sample_state_PC [symmetric])
  then show ?case using sample_step [OF IH(1,2)] IH(3) by simp
qed (use assms in simp)

lemma sample_round:
  assumes "rPC r = 0x8000"
  shows "(sample_next ^^ 6) (r, v) =
    (r\<lparr>rA := 0x42, rP := zn 0x43 (rP r), rX := rX r + 1, rY := rY r + 1\<rparr>, 0x43)"
proof -
  have six: "(sample_next ^^ 6) s = sample_next (sample_next (sample_next (sample_next (sample_next
      (sample_next s)))))" for s
    by (simp add: eval_nat_numeral)
  show ?thesis unfolding six using assms by (simp add: sample_next_def)
qed

lemma sample_rounds:
  assumes "rPC r = 0x8000"
  shows "(sample_next ^^ (6 * Suc k)) (r, v) =
    (r\<lparr>rA := 0x42, rP := zn 0x43 (rP r), rX := rX r + of_nat (Suc k), rY := rY r + of_nat (Suc k)\<rparr>, 0x43)"
proof (induction k)
  case 0
  show ?case using sample_round [OF assms] by simp
next
  case (Suc k)
  have "6 * Suc (Suc k) = 6 + 6 * Suc k" by simp
  then have "(sample_next ^^ (6 * Suc (Suc k))) (r, v) = (sample_next ^^ 6) ((sample_next ^^ (6 * Suc k)) (r, v))"
    by (simp only: funpow_add o_apply)
  then show ?case
    unfolding Suc.IH using assms by (simp add: sample_round add.assoc)
qed

text \<open>The 10000 steps of a normal run are 1666 rounds and four instructions.\<close>

lemma sample_10000:
  assumes "rPC r = 0x8000"
  shows "(sample_next ^^ 10000) (r, v) =
    (r\<lparr>rPC := 0x8007, rA := 0x42, rP := zn (rY r + 0x83) (rP r), rX := rX r + 0x83, rY := rY r + 0x83\<rparr>, 0x42)"
proof -
  have "10000 = 4 + 6 * Suc 1665" by simp
  then have "(sample_next ^^ 10000) (r, v) = (sample_next ^^ 4) ((sample_next ^^ (6 * Suc 1665)) (r, v))"
    by (simp only: funpow_add o_apply)
  also have "(sample_next ^^ 4) s = sample_next (sample_next (sample_next (sample_next s)))" for s
    by (simp add: eval_nat_numeral)
  finally have "(sample_next ^^ 10000) (r, v) = (r\<lparr>rPC := 0x8007, rA := 0x42,
      rP := zn (rY r + 1667) (rP r), rX := rX r + 1667, rY := rY r + 1667\<rparr>, 0x42)"
    unfolding sample_rounds [OF assms] using assms by (cases r) (simp add: sample_next_def add.assoc)
  moreover have "(1667 :: MEM_WORD) = 0x83" by simp
  ultimately show ?thesis by (simp only:)
qed

subsection \<open>From the boot to the end of the run\<close>

definition sample_options :: "options \<Rightarrow> bool" where
  "sample_options opts \<longleftrightarrow> good_extents opts \<and> rom_file opts = None \<and> rom_addr opts = 0x8000 \<and>
     vector_in opts \<and> requested_map opts 0x0200 = MEM_REGION_RAM \<and>
     (\<forall>i < 13. requested_map opts (0x8000 + of_nat i) = MEM_REGION_ROM)"

lemma kind_cells:
  "cell_kind c = MEM_REGION_RAM \<longleftrightarrow> (\<exists>v. c = Ram v)" "cell_kind c = MEM_REGION_ROM \<longleftrightarrow> (\<exists>v. c = Rom v)"
  by (cases c; simp)+

lemma loaded_sample:
  assumes "sample_options opts" and "i < 13"
  shows "view (loaded fopen opts (two_regions opts dev)) (0x8000 + of_nat i) = Rom (sample_rom ! i)"
proof -
  let ?V = "view (two_regions opts dev)"
  have good: "good_extents opts" using assms(1) by (simp add: sample_options_def)
  have rom: "\<exists>v. ?V (0x8000 + of_nat j) = Rom v" if "j < 13" for j
    using assms(1) that two_regions_kind [OF good, of dev "0x8000 + of_nat j"]
    by (simp add: sample_options_def kind_cells)
  then have data: "has_data (?V (0x8000 + of_nat j))" if "j < 13" for j
    using that by fastforce
  have "load_cells 0x8000 sample_rom ?V = (0, \<lambda>b. if unat (b - 0x8000) < length sample_rom
      then set_cell (sample_rom ! unat (b - 0x8000)) (?V b) else ?V b)"
    by (rule load_cells_all) (use data in \<open>simp_all add: sample_rom_def\<close>)
  moreover have "unat (of_nat i :: MEM_TWO_WORDS) = i" using assms(2) by (simp add: unat_of_nat)
  ultimately show ?thesis
    using load_refines [OF two_regions_wf [OF good], of "0x8000" sample_rom dev] assms rom [OF assms(2)]
    by (auto simp: loaded_def sample_options_def sample_rom_def)
qed

lemma set_vector_other:
  assumes "mem_wf m" and "a \<noteq> vec" and "a \<noteq> vec + 1"
  shows "view (snd (mem_region_set_vector vec dest m)) a = view m a"
proof (cases "fst (mem_region_set_vector vec dest m) = 0")
  case True
  then have "mem_region_set_vector vec dest m = (0, snd (mem_region_set_vector vec dest m))"
    by (metis prod.collapse)
  from set_vector_view(2) [OF assms(1) this] show ?thesis using assms(2,3) by simp
next
  case False
  then show ?thesis by (auto simp: set_vector_eq [OF assms(1)] split: option.splits if_splits)
qed

lemma booted_sample:
  fixes dev :: 'd and fopen l
  assumes "sample_options opts"
  defines "m \<equiv> fst (start_cpu opts ((power_on dev)\<lparr>CPU_VARIANT_MODE := cpu_variant opts,
    bus_world := loaded fopen opts (two_regions opts dev)\<rparr>, l))"
  shows "sample_ready m"
    and "REG m = \<lparr>rPC = 0x8000, rA = 0, rP = 0x24, rS = 0xFD, rX = 0, rY = 0\<rparr>"
proof -
  have good: "good_extents opts" using assms(1) by (simp add: sample_options_def)
  let ?w = "loaded fopen opts (two_regions opts dev)"
  note boot = booted_machine [where dev = dev and fopen = fopen and l = l, OF good, folded m_def]
  have wf: "mem_wf ?w" by (rule loaded_keeps_map(1) [OF two_regions_wf [OF good]])
  show "REG m = \<lparr>rPC = 0x8000, rA = 0, rP = 0x24, rS = 0xFD, rX = 0, rY = 0\<rparr>"
    using boot assms(1) by (simp add: sample_options_def)
  have ram: "\<exists>v. view (bus_world m) 0x0200 = Ram v"
  proof -
    have "cell_kind (view (bus_world m) 0x0200) = requested_map opts 0x0200" using boot by blast
    then show ?thesis using assms(1) by (simp add: sample_options_def kind_cells)
  qed
  have rom: "view (bus_world m) (0x8000 + of_nat i) = Rom (sample_rom ! i)" if "i < 13" for i
  proof -
    have bw: "bus_world m = snd (mem_region_set_vector 0xFFFC (rom_addr opts) ?w)" using boot by blast
    have ne: "(0x8000 + of_nat i :: MEM_TWO_WORDS) \<noteq> 0xFFFC" "(0x8000 + of_nat i :: MEM_TWO_WORDS) \<noteq> 0xFFFC + 1"
      using that by (auto simp: word_unat_eq_iff unat_word_ariths unat_of_nat)
    show ?thesis
      unfolding bw set_vector_other [OF wf ne] by (rule loaded_sample [OF assms(1) that])
  qed
  show "sample_ready m"
    using boot ram rom by (simp add: sample_ready_def ram_of_def rom_of_def)
qed

text \<open>
  C26. The program as it is started without a file: whatever the variant, the trace and the
  extents of the regions, as long as $0200 is RAM and $8000 to $800C and the reset vector are
  ROM, the 10000 steps of the run end before the INC at $8007, with $42 in A and at $0200, $83
  in X and Y, and N set.
\<close>

theorem sample_program_result:
  fixes dev :: 'd and fopen opts l
  assumes "sample_options opts"
  defines "m \<equiv> fst (run_normal (snd (main_boot True True fopen opts (power_on dev, l))))"
  shows "REG m = \<lparr>rPC = 0x8007, rA = 0x42, rP = 0xA4, rS = 0xFD, rX = 0x83, rY = 0x83\<rparr> \<and>
    peek 0x0200 m = 0x42"
proof -
  have good: "good_extents opts" and none: "rom_file opts = None"
    using assms(1) by (simp_all add: sample_options_def)
  have dev: "devices (bus_world (power_on dev)) = dev" by (simp add: power_on_def)
  obtain l' where run: "snd (main_boot True True fopen opts (power_on dev, l)) =
      start_cpu opts ((power_on dev)\<lparr>CPU_VARIANT_MODE := cpu_variant opts,
        bus_world := loaded fopen opts (two_regions opts dev)\<rparr>, l')"
    using main_boot_outcome [where m = "power_on dev" and ram_ok = True and rom_ok = True
        and fopen = fopen and opts = opts and l = l] good none
    by (auto simp: dev load_succeeds_def)
  obtain b l'' where b: "start_cpu opts ((power_on dev)\<lparr>CPU_VARIANT_MODE := cpu_variant opts,
        bus_world := loaded fopen opts (two_regions opts dev)\<rparr>, l') = (b, l'')" by fastforce
  note start = booted_sample [where dev = dev and fopen = fopen and l = l', OF assms(1), unfolded b fst_conv]
  have pcs: "PC_of b \<in> set sample_pcs" by (simp add: start(2) sample_pcs_def)
  note steps = sample_steps [OF start(1) pcs]
  define n where "n = (cpu_step ^^ 10000) b"
  have run_n: "fst (test_run 10000 1 (b, l1)) = n" for l1
  proof -
    obtain j where j: "j \<le> 10000" "fst (test_run 10000 1 (b, l1)) = (cpu_step ^^ j) b"
      "j < 10000 \<longrightarrow> PC_of ((cpu_step ^^ j) b) = 0"
      using test_run_steps [of 10000 1 b l1] by blast
    have "PC_of ((cpu_step ^^ j) b) \<noteq> 0" using steps [of j] by (auto simp: sample_pcs_def)
    then show ?thesis using j by (auto simp: n_def)
  qed
  have n: "sample_ready n" "sample_state n = (sample_next ^^ 10000) (sample_state b)"
    using steps [of 10000] by (simp_all add: n_def)
  then have io: "no_io n" by (simp add: sample_ready_def)
  have "m = n"
    using run_n region_mem.quiet_bus_read [OF no_io_quiet [OF io]]
    by (simp add: m_def run b run_normal_def CPU_TEST_RUN_LIMIT_def Let_def case_prod_beta)
  then show ?thesis
    using n(2) sample_10000 [of "REG b" "peek 0x0200 b"]
    by (simp add: sample_state_def start(2) zn_def put_bit_def)
qed

theorem sample_program_result_witness:
  "REG (fst (run_normal (snd (main_boot True True (\<lambda>_. None) default_options (power_on (), log_start))))) =
    \<lparr>rPC = 0x8007, rA = 0x42, rP = 0xA4, rS = 0xFD, rX = 0x83, rY = 0x83\<rparr>"
proof -
  have "requested_map default_options (0x8000 + of_nat i) = MEM_REGION_ROM" if "i < 13" for i
    using that by (simp add: default_options_def requested_map_def in_range_def unat_word_ariths unat_of_nat)
  then have "sample_options default_options"
    by (simp add: sample_options_def) (simp add: default_options_def good_extents_def vector_in_def
        in_range_def requested_map_def)
  from sample_program_result [where fopen = "\<lambda>_. None" and dev = "()" and l = log_start, OF this]
  show ?thesis by (rule conjunct1)
qed

end
