(* ===== verification/Monitor.thy ===== *)
theory Monitor
  imports Args Emulator "HOL-Library.Signed_Division"
begin

text \<open>
  The state behind the screen of src/tui_monitor.c (the fields \<open>disasm_addr\<close>, \<open>irq_pending\<close> and
  \<open>nmi_pending\<close>, which nothing reads or writes, are left out): the frame state, the ring of cycle
  samples, the instruction log, the bus activity and the memory watches. The clock readings
  that the code takes are arguments; \<open>current_mhz\<close>, a floating-point number only ever shown, is
  kept as the whole number of cycles per second it is a millionth of.
\<close>

subsection \<open>The data (tui_monitor.h)\<close>

definition SCREEN_MIN_WIDTH :: int where [simp]: "SCREEN_MIN_WIDTH = 85"
definition SCREEN_MIN_HEIGHT :: int where [simp]: "SCREEN_MIN_HEIGHT = 19"
definition CYCLE_HISTORY_SIZE :: nat where [simp]: "CYCLE_HISTORY_SIZE = 300"
definition INSTRUCTION_LOG_SIZE :: nat where [simp]: "INSTRUCTION_LOG_SIZE = 100"
definition INSTRUCTION_LOG_DISPLAY :: nat where [simp]: "INSTRUCTION_LOG_DISPLAY = 10"
definition MEMORY_WATCH_SIZE :: nat where [simp]: "MEMORY_WATCH_SIZE = 8"
definition CMD_LEN :: nat where [simp]: "CMD_LEN = 5"

record timespec =
  tv_sec :: int
  tv_nsec :: int

record MemoryWatch =
  mw_addr :: MEM_TWO_WORDS
  mw_value :: MEM_WORD
  mw_prev :: MEM_WORD
  mw_changed :: int

record InstructionLogEntry =
  le_cycle :: uint64
  le_addr :: MEM_TWO_WORDS
  le_opcode :: MEM_WORD
  le_mnemonic :: string
  le_state_change :: string
  le_timestamp :: timespec

datatype BusState = BUS_IDLE | BUS_READ | BUS_WRITE

record BusActivity =
  ba_state :: BusState
  ba_addr :: MEM_TWO_WORDS
  ba_data :: MEM_WORD
  ba_target :: string
  last_write_addr :: MEM_TWO_WORDS
  last_write_data :: MEM_WORD
  last_read_addr :: MEM_TWO_WORDS
  last_read_data :: MEM_WORD

record SystemConfig =
  sc_ram_start :: MEM_TWO_WORDS
  sc_ram_size :: MEM_TWO_WORDS
  sc_rom_start :: MEM_TWO_WORDS
  sc_rom_size :: MEM_TWO_WORDS
  sc_cpu_variant :: CPU_VARIANT

record MonitorState =
  running :: int
  stepping :: int
  should_quit :: int
  start_time :: timespec
  mon_cycles :: uint64
  current_hz :: uint64
  cycle_history :: "uint64 list"
  cycle_history_idx :: nat
  instruction_log :: "InstructionLogEntry list"
  instruction_log_idx :: nat
  instruction_log_count :: nat
  bus_activity :: BusActivity
  watches :: "MemoryWatch list"
  watch_count :: nat
  reset_pending :: int
  sys_config :: SystemConfig

text \<open>The static variables of \<open>monitor_state_update\<close>.\<close>

record update_statics =
  last_update :: timespec
  last_cycles :: uint64

definition zero_time :: timespec where "zero_time = \<lparr>tv_sec = 0, tv_nsec = 0\<rparr>"

definition zero_statics :: update_statics where
  "zero_statics = \<lparr>last_update = zero_time, last_cycles = 0\<rparr>"

definition zero_watch :: MemoryWatch where
  "zero_watch = \<lparr>mw_addr = 0, mw_value = 0, mw_prev = 0, mw_changed = 0\<rparr>"

definition zero_entry :: InstructionLogEntry where
  "zero_entry = \<lparr>le_cycle = 0, le_addr = 0, le_opcode = 0, le_mnemonic = [], le_state_change = [],
     le_timestamp = zero_time\<rparr>"

text \<open>\<open>memset(state, 0, sizeof(MonitorState))\<close>\<close>

definition zero_monitor :: MonitorState where
  "zero_monitor =
     \<lparr>running = 0, stepping = 0, should_quit = 0, start_time = zero_time, mon_cycles = 0,
      current_hz = 0, cycle_history = replicate CYCLE_HISTORY_SIZE 0, cycle_history_idx = 0,
      instruction_log = replicate INSTRUCTION_LOG_SIZE zero_entry, instruction_log_idx = 0,
      instruction_log_count = 0,
      bus_activity = \<lparr>ba_state = BUS_IDLE, ba_addr = 0, ba_data = 0, ba_target = [],
        last_write_addr = 0, last_write_data = 0, last_read_addr = 0, last_read_data = 0\<rparr>,
      watches = replicate MEMORY_WATCH_SIZE zero_watch, watch_count = 0, reset_pending = 0,
      sys_config = \<lparr>sc_ram_start = 0, sc_ram_size = 0, sc_rom_start = 0, sc_rom_size = 0,
        sc_cpu_variant = CPU_VARIANT_NMOS_6502\<rparr>\<rparr>"

subsection \<open>Memory watches\<close>

definition monitor_add_watch ::
  "MEM_TWO_WORDS \<Rightarrow> MonitorState \<times> 'w machine \<Rightarrow> MonitorState \<times> 'w machine" where
  "monitor_add_watch addr = (\<lambda>(st, m).
     if watch_count st < MEMORY_WATCH_SIZE then
       (let (v, m) = bus_read addr m;
            w = \<lparr>mw_addr = addr, mw_value = v, mw_prev = v, mw_changed = 0\<rparr>
        in (st\<lparr>watches := (watches st)[watch_count st := w], watch_count := watch_count st + 1\<rparr>, m))
     else (st, m))"

text \<open>The body of the last loop of \<open>monitor_state_update\<close>.\<close>

definition update_watch :: "nat \<Rightarrow> MonitorState \<times> 'w machine \<Rightarrow> MonitorState \<times> 'w machine" where
  "update_watch i = (\<lambda>(st, m).
     let w = watches st ! i; (new_value, m) = bus_read (mw_addr w) m;
         w = (if new_value \<noteq> mw_value w
              then w\<lparr>mw_prev := mw_value w, mw_value := new_value, mw_changed := 1\<rparr>
              else w\<lparr>mw_changed := 0\<rparr>)
     in (st\<lparr>watches := (watches st)[i := w]\<rparr>, m))"

subsection \<open>State initialization and update\<close>

definition monitor_state_init ::
  "timespec \<Rightarrow> MonitorState \<times> 'w machine \<Rightarrow> MonitorState \<times> 'w machine" where
  "monitor_state_init now = (\<lambda>(st, m).
     let st = zero_monitor\<lparr>start_time := now, running := 0, stepping := 0, should_quit := 0\<rparr>
     in monitor_add_watch 0x0200 (monitor_add_watch 0x0000 (st, m)))"

text \<open>A sample counts when it is positive and below 100000000.\<close>

definition valid_sample :: "uint64 \<Rightarrow> bool" where
  "valid_sample s = (s > 0 \<and> s < 100000000)"

text \<open>The elapsed time in milliseconds; C's division truncates towards zero.\<close>

definition elapsed_ms :: "timespec \<Rightarrow> timespec \<Rightarrow> int" where
  "elapsed_ms now before =
     (tv_sec now - tv_sec before) * 1000 + (tv_nsec now - tv_nsec before) sdiv 1000000"

text \<open>The sum and the number of the valid ones among the newest 30 samples.\<close>

definition recent_samples :: "MonitorState \<Rightarrow> uint64 \<times> nat" where
  "recent_samples st =
     fold (\<lambda>i (sum, count).
         let s = cycle_history st !
               ((cycle_history_idx st + CYCLE_HISTORY_SIZE - 1 - i) mod CYCLE_HISTORY_SIZE)
         in if valid_sample s then (sum + s, count + 1) else (sum, count))
       [0 ..< min 30 CYCLE_HISTORY_SIZE] (0, 0)"

text \<open>
  \<open>monitor_state_update\<close> down to the computation of \<open>current_mhz\<close>: a sample every 10 ms, and the
  mean of the recent ones.
\<close>

definition sampled ::
  "timespec \<Rightarrow> uint32 \<Rightarrow> update_statics \<times> MonitorState \<Rightarrow> update_statics \<times> MonitorState" where
  "sampled now cycles = (\<lambda>(u, st).
     let st = st\<lparr>mon_cycles := ucast cycles\<rparr>;
         u = (if tv_sec (last_update u) = 0
              then u\<lparr>last_update := now, last_cycles := mon_cycles st\<rparr> else u);
         ms = elapsed_ms now (last_update u);
         (u, st) =
           (if ms \<ge> 10 then
              (let cycles_delta = mon_cycles st - last_cycles u;
                   cycles_per_second = (cycles_delta * 1000) div word_of_int ms
               in (u\<lparr>last_update := now, last_cycles := mon_cycles st\<rparr>,
                   st\<lparr>cycle_history := (cycle_history st)[cycle_history_idx st := cycles_per_second],
                      cycle_history_idx := (cycle_history_idx st + 1) mod CYCLE_HISTORY_SIZE\<rparr>))
            else (u, st));
         (sum, count) = recent_samples st
     in (u, st\<lparr>current_hz := (if count > 0 then sum div of_nat count else 0)\<rparr>))"

definition monitor_state_update ::
  "timespec \<Rightarrow> update_statics \<times> MonitorState \<times> 'w machine
     \<Rightarrow> update_statics \<times> MonitorState \<times> 'w machine" where
  "monitor_state_update now = (\<lambda>(u, st, m).
     let (u, st) = sampled now (CYCLES m) (u, st);
         (st, m) = fold update_watch [0 ..< watch_count st] (st, m)
     in (u, st, m))"

subsection \<open>Instruction log and bus activity\<close>

text \<open>\<open>"A=$%02X X=$%02X Y=$%02X"\<close>, which fits the 32 bytes of the field.\<close>

definition state_line :: "T_REGISTER \<Rightarrow> string" where
  "state_line r =
     take 31 (''A=$'' @ hex2 (unat (rA r)) @ '' X=$'' @ hex2 (unat (rX r)) @ '' Y=$'' @ hex2 (unat (rY r)))"

definition monitor_log_instruction ::
  "timespec \<Rightarrow> MEM_TWO_WORDS \<Rightarrow> MEM_WORD \<Rightarrow> T_REGISTER \<Rightarrow> MonitorState \<Rightarrow> MonitorState" where
  "monitor_log_instruction now pc opcode reg st =
     (let entry = \<lparr>le_cycle = mon_cycles st, le_addr = pc, le_opcode = opcode,
                   le_mnemonic = take CMD_LEN (CMD (META_of opcode)),
                   le_state_change = state_line reg, le_timestamp = now\<rparr>;
          st = st\<lparr>instruction_log := (instruction_log st)[instruction_log_idx st := entry],
                  instruction_log_idx := (instruction_log_idx st + 1) mod INSTRUCTION_LOG_SIZE\<rparr>
      in if instruction_log_count st < INSTRUCTION_LOG_SIZE
         then st\<lparr>instruction_log_count := instruction_log_count st + 1\<rparr> else st)"

definition monitor_update_bus ::
  "BusState \<Rightarrow> MEM_TWO_WORDS \<Rightarrow> MEM_WORD \<Rightarrow> MonitorState \<Rightarrow> MonitorState" where
  "monitor_update_bus bs addr data st =
     (let b = (bus_activity st)\<lparr>ba_state := bs, ba_addr := addr, ba_data := data\<rparr>;
          b = (if bs = BUS_READ then b\<lparr>last_read_addr := addr, last_read_data := data\<rparr>
               else if bs = BUS_WRITE then b\<lparr>last_write_addr := addr, last_write_data := data\<rparr>
               else b);
          c = sys_config st;
          t = (if unat addr < unat (sc_ram_start c) + unat (sc_ram_size c) then ''RAM''
               else if addr \<ge> sc_rom_start c then ''ROM''
               else ''Unmapped'')
      in st\<lparr>bus_activity := b\<lparr>ba_target := t\<rparr>\<rparr>)"

subsection \<open>Keys\<close>

text \<open>
  \<open>getch\<close> as its integer result; flushing the input queue leaves the program's state alone.
\<close>

definition KEY_ERR :: int where [simp]: "KEY_ERR = - 1"
definition KEY_RESIZE :: int where [simp]: "KEY_RESIZE = 410"

definition key_is :: "int \<Rightarrow> char \<Rightarrow> char \<Rightarrow> bool" where
  "key_is ch c d = (ch = of_char c \<or> ch = of_char d)"

definition tui_handle_input :: "int \<Rightarrow> MonitorState \<times> 'w machine \<Rightarrow> MonitorState \<times> 'w machine" where
  "tui_handle_input ch = (\<lambda>(st, m).
     if ch = KEY_ERR then (st, m)
     else if ch = KEY_RESIZE then (st, m)
     else if ch > 127 \<or> ch < 0 then (st, m)
     else if key_is ch (CHR ''q'') (CHR ''Q'') then (st\<lparr>should_quit := 1\<rparr>, m)
     else if key_is ch (CHR ''s'') (CHR ''S'') then (st\<lparr>stepping := 1, running := 0\<rparr>, m)
     else if key_is ch (CHR ''c'') (CHR ''C'') then (st\<lparr>running := 1, stepping := 0\<rparr>, m)
     else if key_is ch (CHR ''b'') (CHR ''B'') then (st\<lparr>running := 0\<rparr>, m)
     else if key_is ch (CHR ''r'') (CHR ''R'') then (st\<lparr>reset_pending := 1\<rparr>, cpu_reset m)
     else (st, m))"

subsection \<open>Performance figures\<close>

definition compare_uint64 :: "uint64 \<Rightarrow> uint64 \<Rightarrow> int" where
  "compare_uint64 a b = (if a < b then - 1 else if a > b then 1 else 0)"

text \<open>\<open>qsort\<close>, which for a total order has one result.\<close>

fun insert_by :: "('a \<Rightarrow> 'a \<Rightarrow> int) \<Rightarrow> 'a \<Rightarrow> 'a list \<Rightarrow> 'a list" where
  "insert_by cmp x [] = [x]"
| "insert_by cmp x (y # ys) = (if cmp x y \<le> 0 then x # y # ys else y # insert_by cmp x ys)"

definition qsort :: "('a \<Rightarrow> 'a \<Rightarrow> int) \<Rightarrow> 'a list \<Rightarrow> 'a list" where
  "qsort cmp xs = foldr (insert_by cmp) xs []"

text \<open>
  The computation at the head of \<open>draw_execution_history\<close>: current, average, 1% low and 0.1%
  low, and the maximum the bars are scaled by; None while there is no sample. \<open>sum\<close> and \<open>count\<close> are those of the valid samples.
\<close>

record performance =
  perf_current :: uint64
  perf_avg :: uint64
  perf_low_1 :: uint64
  perf_low_01 :: uint64
  perf_max :: uint64

definition performance_of :: "MonitorState \<Rightarrow> performance option" where
  "performance_of st =
     (let valid_samples = filter valid_sample (take CYCLE_HISTORY_SIZE (cycle_history st));
          count = length valid_samples;
          sum = fold (\<lambda>s a. a + s) valid_samples 0;
          max_cycles = fold (\<lambda>s a. if s > a then s else a) valid_samples 0;
          current = (if count > 0 then
              (let c = cycle_history st !
                     ((cycle_history_idx st + CYCLE_HISTORY_SIZE - 1) mod CYCLE_HISTORY_SIZE)
               in if c = 0 \<or> c \<ge> 100000000 then max_cycles else c)
            else 0)
      in if count > 0 \<and> max_cycles > 0 then
           (let sorted = qsort compare_uint64 valid_samples;
                low1 = (if count \<ge> 100
                        then sorted ! (if count div 100 \<ge> count then count - 1 else count div 100)
                        else sorted ! 0);
                low01 = (if count \<ge> 1000
                         then sorted ! (if count div 1000 \<ge> count then count - 1 else count div 1000)
                         else sorted ! 0)
            in Some \<lparr>perf_current = current, perf_avg = sum div of_nat count,
                     perf_low_1 = low1, perf_low_01 = low01, perf_max = max_cycles\<rparr>)
         else None)"

subsection \<open>Times\<close>

text \<open>\<open>"%02d:%02d:%02d"\<close>, for elapsed times that are not negative.\<close>

definition dec2 :: "nat \<Rightarrow> string" where "dec2 n = zero_pad 2 (dec n)"

definition format_uptime :: "timespec \<Rightarrow> timespec \<Rightarrow> string" where
  "format_uptime now start =
     (let elapsed = nat (tv_sec now - tv_sec start)
      in take 15 (dec2 (elapsed div 3600) @ '':'' @ dec2 (elapsed mod 3600 div 60) @ '':'' @
           dec2 (elapsed mod 60)))"

end
