(* ===== verification/Terminal.thy ===== *)
theory Terminal
  imports Logging
begin

text \<open>
  The terminal as src/tui_monitor.c uses it: \<open>tui_init\<close> and \<open>tui_cleanup\<close>, the colors, and the
  things the drawing functions put on the screen. What the terminal can do is an argument; its
  state is whether curses has it, the colors set up, and the static variable of \<open>tui_cleanup\<close>.
\<close>

subsection \<open>Colors\<close>

definition COLOR_DARK_GREY :: nat where [simp]: "COLOR_DARK_GREY = 8"
definition COLOR_PANEL_BORDER :: nat where [simp]: "COLOR_PANEL_BORDER = 1"
definition COLOR_PANEL_TITLE :: nat where [simp]: "COLOR_PANEL_TITLE = 2"
definition COLOR_RUNNING :: nat where [simp]: "COLOR_RUNNING = 3"
definition COLOR_STOPPED :: nat where [simp]: "COLOR_STOPPED = 4"
definition COLOR_FLAG_SET :: nat where [simp]: "COLOR_FLAG_SET = 5"
definition COLOR_FLAG_CLEAR :: nat where [simp]: "COLOR_FLAG_CLEAR = 6"
definition COLOR_HIGHLIGHT :: nat where [simp]: "COLOR_HIGHLIGHT = 7"
definition COLOR_BUS_READ :: nat where [simp]: "COLOR_BUS_READ = 8"
definition COLOR_BUS_WRITE :: nat where [simp]: "COLOR_BUS_WRITE = 9"
definition COLOR_ALT_LINE :: nat where [simp]: "COLOR_ALT_LINE = 10"
definition COLOR_INST_CONTROL :: nat where [simp]: "COLOR_INST_CONTROL = 11"
definition COLOR_INST_BRANCH :: nat where [simp]: "COLOR_INST_BRANCH = 12"
definition COLOR_INST_MEMORY :: nat where [simp]: "COLOR_INST_MEMORY = 13"
definition COLOR_INST_MATH :: nat where [simp]: "COLOR_INST_MATH = 14"
definition COLOR_INST_STACK :: nat where [simp]: "COLOR_INST_STACK = 15"
definition COLOR_INST_TRANSFER :: nat where [simp]: "COLOR_INST_TRANSFER = 16"

text \<open>The colors of curses.\<close>

definition COLOR_BLACK :: int where [simp]: "COLOR_BLACK = 0"
definition COLOR_RED :: int where [simp]: "COLOR_RED = 1"
definition COLOR_GREEN :: int where [simp]: "COLOR_GREEN = 2"
definition COLOR_YELLOW :: int where [simp]: "COLOR_YELLOW = 3"
definition COLOR_BLUE :: int where [simp]: "COLOR_BLUE = 4"
definition COLOR_MAGENTA :: int where [simp]: "COLOR_MAGENTA = 5"
definition COLOR_CYAN :: int where [simp]: "COLOR_CYAN = 6"
definition COLOR_WHITE :: int where [simp]: "COLOR_WHITE = 7"

subsection \<open>Taking and giving back the terminal\<close>

record terminal =
  initscr_ok :: bool
  has_colors :: bool
  can_change_color :: bool

record tty =
  curses_on :: bool
  colors :: "nat \<rightharpoonup> int \<times> int \<times> int"
  pairs :: "nat \<rightharpoonup> int \<times> int"
  cleaned_up :: int
  cleanup_at_exit :: bool

definition tty_start :: tty where
  "tty_start = \<lparr>curses_on = False, colors = (\<lambda>_. None), pairs = (\<lambda>_. None), cleaned_up = 0,
     cleanup_at_exit = False\<rparr>"

text \<open>What a call of \<open>init_pair\<close> records.\<close>

definition set_pair :: "nat \<Rightarrow> int \<Rightarrow> int \<Rightarrow> tty \<Rightarrow> tty" where
  "set_pair n fg bg t = t\<lparr>pairs := (pairs t)(n \<mapsto> (fg, bg))\<rparr>"

definition init_colors :: "terminal \<Rightarrow> tty \<Rightarrow> tty" where
  "init_colors term t =
     (let t = (if can_change_color term
               then t\<lparr>colors := (colors t)(COLOR_DARK_GREY \<mapsto> (100, 100, 100))\<rparr> else t);
          t = set_pair COLOR_PANEL_BORDER COLOR_WHITE (- 1) t;
          t = set_pair COLOR_PANEL_TITLE COLOR_WHITE (- 1) t;
          t = set_pair COLOR_RUNNING COLOR_GREEN (- 1) t;
          t = set_pair COLOR_STOPPED COLOR_RED (- 1) t;
          t = set_pair COLOR_FLAG_SET COLOR_GREEN (- 1) t;
          t = set_pair COLOR_FLAG_CLEAR COLOR_WHITE (- 1) t;
          t = set_pair COLOR_HIGHLIGHT COLOR_BLACK COLOR_WHITE t;
          t = set_pair COLOR_BUS_READ COLOR_WHITE (- 1) t;
          t = set_pair COLOR_BUS_WRITE COLOR_WHITE (- 1) t;
          t = set_pair COLOR_ALT_LINE COLOR_WHITE (- 1) t;
          t = set_pair COLOR_INST_CONTROL COLOR_RED (- 1) t;
          t = set_pair COLOR_INST_BRANCH COLOR_YELLOW (- 1) t;
          t = set_pair COLOR_INST_MEMORY COLOR_CYAN (- 1) t;
          t = set_pair COLOR_INST_MATH COLOR_GREEN (- 1) t;
          t = set_pair COLOR_INST_STACK COLOR_MAGENTA (- 1) t;
          t = set_pair COLOR_INST_TRANSFER COLOR_BLUE (- 1) t
      in t)"

text \<open>Inl carries the status of \<open>exit\<close>.\<close>

definition tui_init :: "terminal \<Rightarrow> tty \<times> log_state \<Rightarrow> (int + unit) \<times> tty \<times> log_state" where
  "tui_init term = (\<lambda>(t, l).
     if \<not> initscr_ok term then
       (Inl 1, t, l\<lparr>to_stderr := to_stderr l @ ''cannot initialize terminal'' @ [newline_char]\<rparr>)
     else
       (let t = t\<lparr>curses_on := True\<rparr>; t = (if has_colors term then init_colors term t else t)
        in (Inr (), t, l)))"

definition escape_char :: char where "escape_char = CHR 0x1B"

definition tui_cleanup :: "tty \<times> log_state \<Rightarrow> tty \<times> log_state" where
  "tui_cleanup = (\<lambda>(t, l).
     if cleaned_up t \<noteq> 0 then (t, l)
     else (t\<lparr>cleaned_up := 1, curses_on := False\<rparr>,
           l\<lparr>to_stdout := to_stdout l @ escape_char # ''[0m'' @ escape_char # ''[2J'' @
                escape_char # ''[H''\<rparr>))"

subsection \<open>Things on the screen\<close>

text \<open>
  A piece of text: characters, one of the terminal's line-drawing characters, the quotient
  \<open>v / k\<close> printed with \<open>d\<close> decimals (\<open>Ratio d v k\<close>), or pieces filled up with spaces to a width.
\<close>

datatype piece = Str string | Acs string | Ratio nat uint64 nat | Pad nat "piece list"

datatype attr = Pair nat | Pair_Bold nat | Pair_Dim nat | Bold | Reverse

text \<open>\<open>mvprintw\<close> or \<open>mvaddch\<close>, \<open>printw\<close> or \<open>addch\<close>, \<open>attron\<close>, \<open>attroff\<close>.\<close>

datatype (plugins only:) item = At int int "piece list" | More "piece list" | On attr | Off attr

text \<open>A box with a title.\<close>

definition draw_panel :: "int \<Rightarrow> int \<Rightarrow> int \<Rightarrow> int \<Rightarrow> string option \<Rightarrow> item list" where
  "draw_panel y x height width title =
     [On (Pair COLOR_PANEL_BORDER), At y x [Acs ''ULCORNER'']] @
     replicate (nat (width - 2)) (More [Acs ''HLINE'']) @ [More [Acs ''URCORNER'']] @
     concat (map (\<lambda>i. [At (y + i) x [Acs ''VLINE''], At (y + i) (x + width - 1) [Acs ''VLINE'']])
       [1 .. height - 2]) @
     [At (y + height - 1) x [Acs ''LLCORNER'']] @
     replicate (nat (width - 2)) (More [Acs ''HLINE'']) @ [More [Acs ''LRCORNER'']] @
     [Off (Pair COLOR_PANEL_BORDER)] @
     (case title of
        Some s \<Rightarrow> [On (Pair_Bold COLOR_PANEL_TITLE), At y (x + 2) [Str ('' '' @ s @ '' '')],
                   Off (Pair_Bold COLOR_PANEL_TITLE)]
      | None \<Rightarrow> [])"

text \<open>\<open>strncmp(mnemonic, s, 3) == 0\<close> for three-letter strings \<open>s\<close>.\<close>

definition get_instruction_color :: "string \<Rightarrow> nat" where
  "get_instruction_color mnemonic =
     (let s = take 3 mnemonic in
      if s \<in> {''JMP'', ''JSR'', ''BRK'', ''RTS'', ''RTI''} then COLOR_INST_CONTROL
      else if s \<in> {''BCC'', ''BCS'', ''BEQ'', ''BNE'', ''BMI'', ''BPL'', ''BVC'', ''BVS'',
          ''BRA'', ''BBR'', ''BBS''} then COLOR_INST_BRANCH
      else if s \<in> {''LDA'', ''STA'', ''LDX'', ''STX'', ''LDY'', ''STY'', ''STZ''}
      then COLOR_INST_MEMORY
      else if s \<in> {''ADC'', ''SBC'', ''AND'', ''ORA'', ''EOR'', ''CMP'', ''CPX'', ''CPY'', ''BIT'',
          ''INC'', ''DEC'', ''INX'', ''DEX'', ''INY'', ''DEY'', ''ASL'', ''LSR'', ''ROL'', ''ROR''}
      then COLOR_INST_MATH
      else if s \<in> {''PHA'', ''PLA'', ''PHP'', ''PLP'', ''PHX'', ''PLX'', ''PHY'', ''PLY''}
      then COLOR_INST_STACK
      else if s \<in> {''TAX'', ''TXA'', ''TAY'', ''TYA'', ''TSX'', ''TXS''} then COLOR_INST_TRANSFER
      else COLOR_PANEL_BORDER)"

subsection \<open>Lengths computed in floating point\<close>

text \<open>
  The double nearest to \<open>a / b\<close>, ties to even, as the pair \<open>(s, k)\<close> for \<open>s / 2 ^ k\<close> with a
  significand of 53 bits; for the positive quotients that need no negative \<open>k\<close>.
\<close>

fun bit_count :: "nat \<Rightarrow> nat" where
  "bit_count n = (if n = 0 then 0 else bit_count (n div 2) + 1)"

declare bit_count.simps [simp del]

definition round_even :: "nat \<Rightarrow> nat \<Rightarrow> nat" where
  "round_even a b =
     (let q = a div b; r = a mod b
      in if 2 * r < b \<or> (2 * r = b \<and> even q) then q else q + 1)"

definition to_double :: "nat \<Rightarrow> nat \<Rightarrow> nat \<times> nat" where
  "to_double a b =
     (let k = 52 + bit_count b - bit_count a;
          k = (if 2 ^ 52 * b \<le> a * 2 ^ k then k else k + 1)
      in (round_even (a * 2 ^ k) b, k))"

text \<open>\<open>(int)((double)a / b * w)\<close>\<close>

definition scaled :: "uint64 \<Rightarrow> uint64 \<Rightarrow> int \<Rightarrow> int" where
  "scaled a b w =
     (if a = 0 \<or> w = 0 then 0
      else (let (s, k) = to_double (unat a) (unat b);
                (s, k) = to_double (s * nat \<bar>w\<bar>) (2 ^ k)
            in sgn w * int (s div 2 ^ k)))"

end
