(* ===== verification/Screen.thy ===== *)
theory Screen
  imports Monitor Terminal Debugger
begin

text \<open>
  The drawing functions of src/tui_monitor.c, as the sequence of things they put on the screen
  and the bus reads they make.
\<close>

subsection \<open>Status and registers\<close>

text \<open>The cycle count with its unit, and a memory size.\<close>

definition cycles_text :: "uint64 \<Rightarrow> piece list" where
  "cycles_text n =
     (if n \<ge> 1000000000000 then [Ratio 2 n 1000000000000, Str ''T'']
      else if n \<ge> 1000000000 then [Ratio 2 n 1000000000, Str ''G'']
      else if n \<ge> 1000000 then [Ratio 2 n 1000000, Str ''M'']
      else if n \<ge> 1000 then [Ratio 1 n 1000, Str ''K'']
      else [Str (dec (unat n))])"

definition size_text :: "MEM_TWO_WORDS \<Rightarrow> string" where
  "size_text n = (if n \<ge> 1024 then dec (unat n div 1024) @ ''KB'' else dec (unat n) @ ''B'')"

definition draw_cpu_status ::
  "timespec \<Rightarrow> MonitorState \<Rightarrow> int \<Rightarrow> int \<Rightarrow> int \<Rightarrow> int \<Rightarrow> item list" where
  "draw_cpu_status now st y x width height =
     (let color = (if running st \<noteq> 0 then COLOR_RUNNING else COLOR_STOPPED);
          status = (if running st \<noteq> 0 then ''RUNNING'' else ''STOPPED'');
          cpu_name = (if sc_cpu_variant (sys_config st) = CPU_VARIANT_CMOS_65C02
                      then ''65C02'' else ''6502'')
      in draw_panel y x height width (Some ''Status'') @
      [At (y + 1) (x + 2) [Str ''State: ''],
          On (Pair_Bold color), More [Pad 7 [Str status]], Off (Pair_Bold color),
          More [Str ''  Speed: '', Ratio 2 (current_hz st) 1000000, Str '' MHz''],
          At (y + 2) (x + 2) [Str ''Cycles: '', Pad 7 (cycles_text (mon_cycles st)),
            Str ''  Uptime: '', Str (format_uptime now (start_time st))],
          At (y + 3) (x + 2) [Str ''CPU: '', Pad 5 [Str cpu_name],
            Str ''  RAM: '', Pad 5 [Str (size_text (sc_ram_size (sys_config st)))],
            Str ''  ROM: '', Str (size_text (sc_rom_size (sys_config st)))]])"

definition draw_registers ::
  "'w machine \<Rightarrow> int \<Rightarrow> int \<Rightarrow> int \<Rightarrow> int \<Rightarrow> item list" where
  "draw_registers m y x width height =
     draw_panel y x height width (Some ''Registers'') @
      [At (y + 1) (x + 2) [Str (''PC: $'' @ hex4 (unat (PC_of m)) @ ''  SP: $'' @ hex2 (unat (S_of m)) @
        ''   A: $'' @ hex2 (unat (A_of m)) @ ''  X: $'' @ hex2 (unat (X_of m)))],
      At (y + 2) (x + 2) [Str (''P:  $'' @ hex2 (unat (P_of m)) @ ''    Y:  $'' @
        hex2 (unat (Y_of m)) @ ''   '')],
      At (y + 3) (x + 2) [Str ''Flags: ['']] @
     concat (map (\<lambda>(i, flag, set_char, clear_char).
         (if i > 0 then [More [Str '' '']] else []) @
         (if P_of m AND flag \<noteq> 0
          then [On (Pair_Bold COLOR_FLAG_SET), More [Str [set_char]], Off (Pair_Bold COLOR_FLAG_SET)]
          else [On (Pair_Dim COLOR_FLAG_CLEAR), More [Str [clear_char]],
                Off (Pair_Dim COLOR_FLAG_CLEAR)]))
       [(0 :: nat, FLAG_N, CHR ''N'', CHR ''n''), (1, FLAG_V, CHR ''V'', CHR ''v''),
        (2, FLAG_U, CHR ''-'', CHR ''-''), (3, FLAG_B, CHR ''B'', CHR ''b''),
        (4, FLAG_D, CHR ''D'', CHR ''d''), (5, FLAG_I, CHR ''I'', CHR ''i''),
        (6, FLAG_Z, CHR ''Z'', CHR ''z''), (7, FLAG_C, CHR ''C'', CHR ''c'')]) @
     [More [Str '' ]'']]"

subsection \<open>Performance\<close>

definition format_perf :: "uint64 \<Rightarrow> piece list" where
  "format_perf cycles =
     (if cycles \<ge> 1000000 then [Ratio 2 cycles 1000000, Str '' MHz'']
      else if cycles \<ge> 1000 then [Ratio 1 cycles 1000, Str '' KHz'']
      else [Str (dec (unat cycles) @ '' Hz'')])"

text \<open>\<open>color\<close> is the number of a pair; what else the code puts in, \<open>COLOR_PAIR\<close> masks away.\<close>

definition draw_perf_bar ::
  "int \<Rightarrow> int \<Rightarrow> int \<Rightarrow> string \<Rightarrow> uint64 \<Rightarrow> uint64 \<Rightarrow> piece list \<Rightarrow> nat \<Rightarrow> item list" where
  "draw_perf_bar row bar_x bar_width label cycles max_cycles value_str color =
     (let bar_len = scaled cycles max_cycles bar_width;
          bar_len = (if bar_len > bar_width then bar_width else bar_len);
          bar_len = (if bar_len < 1 then 1 else bar_len);
          padding = bar_width - bar_len
      in [At row bar_x [Pad 8 [Str label]], On (Pair color)] @
         replicate (nat bar_len) (More [Acs ''CKBOARD'']) @ [Off (Pair color)] @
         replicate (nat padding) (More [Str '' '']) @ [More (Str '' '' # value_str)])"

definition draw_execution_history ::
  "MonitorState \<Rightarrow> int \<Rightarrow> int \<Rightarrow> int \<Rightarrow> int \<Rightarrow> item list" where
  "draw_execution_history st y x width height =
     draw_panel y x height width (Some ''Performance'') @
     (let bar_y = y + 1; bar_x = x + 2; bar_width = width - 24 in
      case performance_of st of
        Some p \<Rightarrow>
          draw_perf_bar bar_y bar_x bar_width ''Curr'' (perf_current p) (perf_max p)
            (format_perf (perf_current p)) COLOR_RUNNING @
          draw_perf_bar (bar_y + 1) bar_x bar_width ''Avg'' (perf_avg p) (perf_max p)
            (format_perf (perf_avg p)) COLOR_PANEL_TITLE @
          draw_perf_bar (bar_y + 2) bar_x bar_width ''1%'' (perf_low_1 p) (perf_max p)
            (format_perf (perf_low_1 p)) COLOR_BUS_READ @
          draw_perf_bar (bar_y + 3) bar_x bar_width ''.1%'' (perf_low_01 p) (perf_max p)
            (format_perf (perf_low_01 p)) COLOR_BUS_WRITE
      | None \<Rightarrow>
          map (\<lambda>(i, label). At (bar_y + i) bar_x [Pad 8 [Str label], Str '' 0.00 MHz''])
            [(0, ''Curr''), (1, ''Avg''), (2, ''1%''), (3, ''.1%'')])"

subsection \<open>Bus and configuration\<close>

definition draw_bus_activity ::
  "MonitorState \<Rightarrow> int \<Rightarrow> int \<Rightarrow> int \<Rightarrow> int \<Rightarrow> item list" where
  "draw_bus_activity st y x width height =
     (let b = bus_activity st;
          (state_str, color) =
            (case ba_state b of BUS_READ \<Rightarrow> (''READ'', COLOR_BUS_READ)
             | BUS_WRITE \<Rightarrow> (''WRITE'', COLOR_BUS_WRITE) | BUS_IDLE \<Rightarrow> (''IDLE'', nat COLOR_WHITE))
      in draw_panel y x height width (Some ''Bus Activity'') @
      [At (y + 1) (x + 2) [Str ''State: ''],
          On (Pair_Bold color), More [Str state_str], Off (Pair_Bold color),
          More [Str (''   Addr: $'' @ hex4 (unat (ba_addr b)) @ ''  Data: $'' @ hex2 (unat (ba_data b)))],
          At (y + 2) (x + 2) [Str (''Target: '' @ ba_target b)],
          At (y + 3) (x + 2) [Str (''Last Read:  $'' @ hex4 (unat (last_read_addr b)) @ '' => $'' @
            hex2 (unat (last_read_data b)))],
          At (y + 4) (x + 2) [Str (''Last Write: $'' @ hex4 (unat (last_write_addr b)) @ '' <= $'' @
            hex2 (unat (last_write_data b)))]])"

text \<open>The address before \<open>n\<close>, an int printed as an unsigned number.\<close>

definition last_text :: "nat \<Rightarrow> string" where
  "last_text n = (if n = 0 then ''FFFFFFFF'' else hex4 (n - 1))"

text \<open>
  No panel of \<open>tui_draw\<close> is this one. The two reads of the vector are operands of one expression,
  whose order C leaves open; the model reads the low byte first.
\<close>

definition draw_system_info ::
  "MonitorState \<Rightarrow> int \<Rightarrow> int \<Rightarrow> int \<Rightarrow> int \<Rightarrow> 'w machine \<Rightarrow> item list \<times> 'w machine" where
  "draw_system_info st y x width height m =
     (let c = sys_config st;
          cpu_name = (if sc_cpu_variant c = CPU_VARIANT_CMOS_65C02 then ''65C02 (CMOS)''
                      else ''6502 (NMOS)'');
          range = (\<lambda>s n. ''$'' @ hex4 (unat s) @ ''-$'' @ last_text (unat s + unat n) @ '' ('' @
            dec (unat n) @ '' bytes)'');
          (lo, m) = bus_read 0xFFFC m; (hi, m) = bus_read 0xFFFD m
      in (draw_panel y x height width (Some ''System Configuration'') @
      [At (y + 1) (x + 2) [Str (''CPU: '' @ cpu_name)],
           At (y + 2) (x + 2) [Str (''RAM: '' @ range (sc_ram_start c) (sc_ram_size c))],
           At (y + 3) (x + 2) [Str (''ROM: '' @ range (sc_rom_start c) (sc_rom_size c))],
           At (y + 4) (x + 2) [Str (''Vectors: RST=$'' @ hex4 (unat lo + unat hi * 256))]], m))"

text \<open>
  The percentages of the code are exact in double precision: \<open>stack_used / 256\<close> needs eight
  fractional bits.
\<close>

definition draw_stack_depth :: "'w machine \<Rightarrow> int \<Rightarrow> int \<Rightarrow> int \<Rightarrow> int \<Rightarrow> item list" where
  "draw_stack_depth m y x width height =
     (let stack_used = 0xFF - unat (S_of m); stack_free = unat (S_of m); bar_width = width - 4;
          filled = int stack_used * bar_width sdiv 256;
          color = (if stack_used * 100 > 90 * 256 then COLOR_STOPPED
                   else if stack_used * 100 > 75 * 256 then COLOR_PANEL_TITLE else COLOR_RUNNING)
      in
      draw_panel y x height width (Some ''Stack Depth'') @
      [At (y + 1) (x + 2) [Str (''SP: $'' @ hex2 (unat (S_of m)) @ ''  Used: '' @ dec stack_used @ ''/256'')],
       At (y + 2) (x + 2) [Str ''['']] @
      concat (map (\<lambda>i. if i < filled then [On (Pair color), More [Acs ''VLINE''], Off (Pair color)]
                      else [More [Str '' '']]) [0 .. bar_width - 1]) @
      [More [Str '']''],
       At (y + 3) (x + 2) [Str (dec (stack_free * 100 div 256) @ ''% Free  Range: $0100-$01FF'')]])"

subsection \<open>Disassembly, memory and instruction log\<close>

text \<open>The screen's own table of operand sizes, which differs from the debugger's in \<open>ADDR_ZPREL\<close>.\<close>

definition tui_operand_size :: "ADDR_MODE \<Rightarrow> nat" where
  "tui_operand_size mode =
     (if mode = ADDR_IMM \<or> mode = ADDR_ZP \<or> mode = ADDR_ZPX \<or> mode = ADDR_ZPY \<or>
         mode = ADDR_INDX \<or> mode = ADDR_INDY \<or> mode = ADDR_REL \<or> mode = ADDR_ZP_IND \<or>
         mode = ADDR_ZPREL then 1
      else if mode = ADDR_ABS \<or> mode = ADDR_ABSX \<or> mode = ADDR_ABSY \<or> mode = ADDR_IND \<or>
         mode = ADDR_ABS_IND_X then 2
      else 0)"

text \<open>The loop over \<open>line\<close>, with the number of lines left.\<close>

fun disassembly_lines ::
  "nat \<Rightarrow> int \<Rightarrow> MEM_TWO_WORDS \<Rightarrow> int \<Rightarrow> int \<Rightarrow> 'w machine \<Rightarrow> item list \<times> 'w machine" where
  "disassembly_lines 0 line addr y x m = ([], m)"
| "disassembly_lines (Suc n) line addr y x m =
     (let (opcode, m) = bus_read addr m;
          meta = META_of opcode;
          size = tui_operand_size (ADDR meta);
          (operands, m) = read_bytes size (addr + 1) m;
          here = (addr = PC_of m);
          inst_color = get_instruction_color (CMD meta);
          bytes = Str (hex2 (unat opcode) @ '' '' @
            (if size = 0 then ''      ''
             else if size = 1 then hex2 (unat (operands ! 0)) @ ''    ''
             else hex2 (unat (operands ! 0)) @ '' '' @ hex2 (unat (operands ! 1)) @ '' ''));
          items =
            (if here then [On (Pair COLOR_HIGHLIGHT),
                           At (y + 1 + line) (x + 2) [Str (''>'' @ hex4 (unat addr) @ '' '')]]
             else [At (y + 1 + line) (x + 2) [Str ('' '' @ hex4 (unat addr) @ '' '')]]) @
            [More [bytes]] @
            (if here then [More [Str (CMD meta)], Off (Pair COLOR_HIGHLIGHT)]
             else [On (Pair inst_color), More [Str (CMD meta)], Off (Pair inst_color)]);
          (rest, m) = disassembly_lines n (line + 1) (addr + 1 + of_nat size) y x m
      in (items @ rest, m))"

definition draw_disassembly ::
  "int \<Rightarrow> int \<Rightarrow> int \<Rightarrow> int \<Rightarrow> 'w machine \<Rightarrow> item list \<times> 'w machine" where
  "draw_disassembly y x width height m =
     (let (items, m) = disassembly_lines (nat (height - 2)) 0 (PC_of m) y x m
      in (draw_panel y x height width (Some ''Disassembly'') @ items, m))"

fun memory_lines ::
  "nat \<Rightarrow> nat \<Rightarrow> int \<Rightarrow> int \<Rightarrow> 'w machine \<Rightarrow> item list \<times> 'w machine" where
  "memory_lines 0 line y x m = ([], m)"
| "memory_lines (Suc n) line y x m =
     (let addr = of_nat (line * 8);
          (hex, m) = read_bytes 8 addr m;
          (ascii, m) = read_bytes 8 addr m;
          (rest, m) = memory_lines n (line + 1) y x m
      in (At (y + 1 + int line) (x + 2) [Str (''$'' @ hex4 (unat (addr :: MEM_TWO_WORDS)) @ '': '')] #
          map (\<lambda>b. More [Str (hex2 (unat b) @ '' '')]) hex @
          More [Str '' ''] #
          map (\<lambda>b. More [Str [printable b]]) ascii @ rest, m))"

definition draw_memory_watch ::
  "MonitorState \<Rightarrow> int \<Rightarrow> int \<Rightarrow> int \<Rightarrow> int \<Rightarrow> 'w machine \<Rightarrow> item list \<times> 'w machine" where
  "draw_memory_watch st y x width height m =
     (let max_lines = height - 2; b = bus_activity st;
          (items, m) = memory_lines (nat (max_lines - 2)) 0 y x m
      in (draw_panel y x height width (Some ''Memory'') @ items @
          (if max_lines \<ge> 2 then
             [At (y + height - 3) (x + 2) [Str (''Last Read:  $'' @ hex4 (unat (last_read_addr b)) @
                '' => $'' @ hex2 (unat (last_read_data b)))],
              At (y + height - 2) (x + 2) [Str (''Last Write: $'' @ hex4 (unat (last_write_addr b)) @
                '' <= $'' @ hex2 (unat (last_write_data b)))]]
           else []), m))"

text \<open>The entries shown, newest first, and their lines.\<close>

definition shown_log :: "int \<Rightarrow> MonitorState \<Rightarrow> InstructionLogEntry list" where
  "shown_log height st =
     (let display_count = (if height - 3 < int INSTRUCTION_LOG_DISPLAY then height - 3
                           else int INSTRUCTION_LOG_DISPLAY)
      in map (\<lambda>i. instruction_log st !
             ((instruction_log_idx st + INSTRUCTION_LOG_SIZE - 1 - i) mod INSTRUCTION_LOG_SIZE))
           [0 ..< min (nat display_count) (instruction_log_count st)])"

definition log_items :: "int \<Rightarrow> int \<Rightarrow> InstructionLogEntry \<Rightarrow> item list" where
  "log_items row x e =
     (let inst_color = get_instruction_color (le_mnemonic e) in
      [At row (x + 2) [Str (hex4 (unat (le_addr e)) @ '' '')],
       On (Pair inst_color), More [Pad 3 [Str (le_mnemonic e)]], Off (Pair inst_color),
       More [Str ('' '' @ le_state_change e)]])"

definition draw_instruction_log ::
  "MonitorState \<Rightarrow> int \<Rightarrow> int \<Rightarrow> int \<Rightarrow> int \<Rightarrow> item list" where
  "draw_instruction_log st y x width height =
     (let es = shown_log height st in
      draw_panel y x height width (Some ''Instructions'') @
      [At (y + 1) (x + 2) [Str ''Addr Ins State'']] @
      concat (map (\<lambda>i. log_items (y + 2 + int i) x (es ! i)) [0 ..< length es]))"

subsection \<open>The whole screen\<close>

definition draw_help_bar :: "int \<Rightarrow> int \<Rightarrow> int \<Rightarrow> item list" where
  "draw_help_bar y x width =
     [On Reverse,
      At y x [Pad (nat width) [Str '' [S] Step  [C] Continue  [B] Break  [R] Reset  [Q] Quit'']],
      Off Reverse]"

text \<open>The new contents of the screen, which replace the old (\<open>erase\<close>).\<close>

definition tui_draw ::
  "timespec \<Rightarrow> int \<Rightarrow> int \<Rightarrow> MonitorState \<Rightarrow> 'w machine \<Rightarrow> item list \<times> 'w machine" where
  "tui_draw now max_y max_x st m =
     (if max_y < SCREEN_MIN_HEIGHT \<or> max_x < SCREEN_MIN_WIDTH then
        ([On Bold, At (max_y div 2) (if max_x > 22 then (max_x - 22) div 2 else 0)
           [Str ''terminal too small''], Off Bold], m)
      else
        (let left = max_x div 2; right = max_x - left;
             status = draw_cpu_status now st 0 0 left 5;
             registers = draw_registers m 0 left right 5;
             (disassembly, m) = draw_disassembly 5 0 left 7 m;
             (memory, m) = draw_memory_watch st 5 left right 7 m;
             bottom_height = max_y - 12 - 1;
             bottom =
               (if bottom_height > 5
                then draw_instruction_log st 12 0 left bottom_height @
                     draw_execution_history st 12 left right bottom_height
                else [])
         in (status @ registers @ disassembly @ memory @ bottom @ draw_help_bar (max_y - 1) 0 max_x, m)))"

end
