(* ===== verification/Monitor_Mode.thy ===== *)
theory Monitor_Mode
  imports Screen Boot
begin

text \<open>
  \<open>run_monitor_mode\<close> of src/main.c, and main as a whole. What happens outside the program
  during a session is a list with one entry per frame: whether a signal arrived, the key, the
  clock readings and the size of the terminal. The pause at the end of a frame changes nothing.
\<close>

subsection \<open>One frame\<close>

record frame_input =
  quit_signal :: bool
  pressed :: int
  stamps :: "nat \<Rightarrow> timespec"
  update_time :: timespec
  draw_time :: timespec
  term_rows :: int
  term_cols :: int

definition INSTRUCTIONS_PER_FRAME :: nat where "INSTRUCTIONS_PER_FRAME = 20000"

text \<open>The loop over \<open>i\<close>, with the number of iterations left.\<close>

fun run_instructions ::
  "(nat \<Rightarrow> timespec) \<Rightarrow> nat \<Rightarrow> nat \<Rightarrow> MonitorState \<times> 'w machine \<Rightarrow> MonitorState \<times> 'w machine" where
  "run_instructions clock 0 i s = s"
| "run_instructions clock (Suc n) i (st, m) =
     (if running st \<noteq> 0 \<or> stepping st \<noteq> 0 then
        (let pc = PC_of m; (opcode, m) = bus_read pc m;
             st = (if stepping st \<noteq> 0 \<or> i mod 10 = 0
                   then monitor_update_bus BUS_READ pc opcode
                          (monitor_log_instruction (clock i) pc opcode (REG m) st)
                   else st);
             m = cpu_step m
         in if stepping st \<noteq> 0 then (st\<lparr>stepping := 0, running := 0\<rparr>, m)
            else run_instructions clock n (i + 1) (st, m))
      else (st, m))"

definition run_frame ::
  "frame_input \<Rightarrow> update_statics \<times> MonitorState \<times> 'w machine
     \<Rightarrow> item list \<times> update_statics \<times> MonitorState \<times> 'w machine" where
  "run_frame f = (\<lambda>(u, st, m).
     let (st, m) = tui_handle_input (pressed f) (st, m);
         (st, m) = (if running st \<noteq> 0 \<or> stepping st \<noteq> 0
                    then (let (st, m) = run_instructions (stamps f) INSTRUCTIONS_PER_FRAME 0 (st, m)
                          in (monitor_update_bus BUS_IDLE 0 0 st, m))
                    else (st, m));
         (u, st, m) = monitor_state_update (update_time f) (u, st, m);
         (items, m) = tui_draw (draw_time f) (term_rows f) (term_cols f) st m
     in (items, u, st, m))"

subsection \<open>The session\<close>

text \<open>
  The loop goes on until a quit key or a signal ends it; None when the input given runs out
  before that.
\<close>

fun monitor_loop ::
  "frame_input list \<Rightarrow> update_statics \<times> MonitorState \<times> 'w machine
     \<Rightarrow> (update_statics \<times> MonitorState \<times> 'w machine) option" where
  "monitor_loop [] s = (if should_quit (fst (snd s)) \<noteq> 0 then Some s else None)"
| "monitor_loop (f # fs) s =
     (if should_quit (fst (snd s)) \<noteq> 0 \<or> quit_signal f then Some s
      else monitor_loop fs (snd (run_frame f s)))"

definition config_of :: "options \<Rightarrow> SystemConfig" where
  "config_of opts =
     \<lparr>sc_ram_start = ram_start opts, sc_ram_size = ram_size opts, sc_rom_start = rom_start opts,
      sc_rom_size = rom_size opts, sc_cpu_variant = cpu_variant opts\<rparr>"

text \<open>What the session gets from outside: the terminal, its size, the time, and the frames.\<close>

record session =
  session_terminal :: terminal
  start_rows :: int
  start_cols :: int
  monitor_start :: timespec
  frames :: "frame_input list"

text \<open>The monitor and the machine as the loop finds them.\<close>

definition monitor_setup :: "session \<Rightarrow> options \<Rightarrow> 'w machine \<Rightarrow> MonitorState \<times> 'w machine" where
  "monitor_setup env opts m =
     (let (st, m) = monitor_state_init (monitor_start env) (zero_monitor, m);
          st = st\<lparr>sys_config := config_of opts\<rparr>;
          (st, m) = monitor_add_watch 0x0000 (st, m);
          (st, m) = monitor_add_watch 0x0200 (st, m);
          (st, m) = monitor_add_watch 0x0201 (st, m)
      in (st, m))"

text \<open>
  None while the session goes on; otherwise Inl the status of an exit out of it, or Inr when it
  returns. The screen after each frame is what \<open>run_frame\<close> returns first.
\<close>

definition run_monitor_mode ::
  "session \<Rightarrow> options \<Rightarrow> tty \<times> 'd program \<Rightarrow> ((int + unit) \<times> tty \<times> 'd program) option" where
  "run_monitor_mode env opts = (\<lambda>(t, m, l).
     case tui_init (session_terminal env) (t, l) of
       (Inl status, t, l) \<Rightarrow> Some (Inl status, t, m, l)
     | (Inr _, t, l) \<Rightarrow>
         (let max_y = start_rows env; max_x = start_cols env; (t, l) = tui_cleanup (t, l) in
          if max_x < SCREEN_MIN_WIDTH \<or> max_y < SCREEN_MIN_HEIGHT then
            Some (Inr (), t, m,
              logging (in_buffer (''Error: Terminal too small. Need at least '' @
                 dec (nat SCREEN_MIN_WIDTH) @ ''x'' @ dec (nat SCREEN_MIN_HEIGHT) @ '', got '' @
                 dec (nat max_x) @ ''x'' @ dec (nat max_y))) False True True False LOG_ERROR l)
          else
            (case tui_init (session_terminal env) (t, l) of
               (Inl status, t, l) \<Rightarrow> Some (Inl status, t, m, l)
             | (Inr _, t, l) \<Rightarrow>
                 (let t = t\<lparr>cleanup_at_exit := True\<rparr>; (st, m) = monitor_setup env opts m in
                  case monitor_loop (frames env) (zero_statics, st, m) of
                    None \<Rightarrow> None
                  | Some (u, st, m) \<Rightarrow>
                      (let (t, l) = tui_cleanup (t, l);
                           l = info (newline_char # ''Monitor exited.'') True l;
                           l = info (in_buffer (''Total cycles executed: '' @ dec (unat (mon_cycles st))))
                                 True l
                       in Some (Inr (), t, m, l))))))"

subsection \<open>main\<close>

record environment =
  ram_calloc_ok :: bool
  rom_calloc_ok :: bool
  files :: "string \<Rightarrow> FILE option"
  monitor_session :: session

definition c_main ::
  "environment \<Rightarrow> string list \<Rightarrow> tty \<times> 'd program \<Rightarrow> (int \<times> tty \<times> 'd program) option" where
  "c_main env args = (\<lambda>(t, m, l).
     case parse_args args default_options l of
       (Inl status, l) \<Rightarrow> Some (status, t, m, l)
     | (Inr opts, l) \<Rightarrow>
         (case main_boot (ram_calloc_ok env) (rom_calloc_ok env) (files env) opts (m, l) of
            (Inl status, s) \<Rightarrow> Some (status, t, s)
          | (Inr _, m, l) \<Rightarrow>
              if enable_monitor opts \<noteq> 0 then
                (case run_monitor_mode (monitor_session env) opts
                        (t, m, info ''Starting TUI monitor...'' True l) of
                   None \<Rightarrow> None
                 | Some (Inl status, s) \<Rightarrow> Some (status, s)
                 | Some (Inr _, s) \<Rightarrow> Some (0, s))
              else Some (0, t, run_normal (m, l))))"

text \<open>
  What \<open>atexit\<close> registered runs last first: \<open>tui_cleanup\<close> once the monitor has registered it,
  then \<open>mem_region_clear\<close>.
\<close>

definition at_exit :: "tty \<times> 'd program \<Rightarrow> tty \<times> 'd program" where
  "at_exit = (\<lambda>(t, m, l).
     let (t, l) = (if cleanup_at_exit t then tui_cleanup (t, l) else (t, l))
     in (t, m\<lparr>bus_world := mem_region_clear (bus_world m)\<rparr>, l))"

definition run_program ::
  "environment \<Rightarrow> string list \<Rightarrow> tty \<times> 'd program \<Rightarrow> (int \<times> tty \<times> 'd program) option" where
  "run_program env args s =
     (case c_main env args s of None \<Rightarrow> None | Some (status, s) \<Rightarrow> Some (status, at_exit s))"

end
