(* ===== verification/Monitor_Spec.thy ===== *)
theory Monitor_Spec
  imports Monitor_Mode Boot_Spec Inspect_Spec
begin

text \<open>
  What the monitor's operations compute: the instruction log as a bounded log, the watches as
  slots; and that a frame, on memory without I/O handlers, affects the machine only by the
  steps and resets its key asks for.
\<close>

lemma no_io_reset: "no_io m \<Longrightarrow> no_io (cpu_reset m)"
  by (simp add: cpu_reset_no_io) (simp add: no_io_def on_regions_def wired_def)

subsection \<open>Reading for display changes nothing\<close>

lemma add_watch_no_io:
  "no_io m \<Longrightarrow> snd (monitor_add_watch a (st, m)) = m"
  by (simp add: monitor_add_watch_def bus_read_no_io)

lemma update_watches_no_io:
  assumes "no_io m"
  shows "snd (fold update_watch is (st, m)) = m"
proof (induction "is" arbitrary: st)
  case (Cons i "is")
  have "snd (update_watch i (st, m)) = m"
    by (simp add: update_watch_def bus_read_no_io [OF assms] Let_def)
  then obtain st' where "update_watch i (st, m) = (st', m)" by (metis prod.collapse)
  then show ?case using Cons by simp
qed simp

lemma update_no_io:
  assumes "no_io m"
  shows "snd (snd (monitor_state_update now (u, st, m))) = m"
  by (simp add: monitor_state_update_def Let_def case_prod_beta update_watches_no_io [OF assms])

lemma disassembly_lines_no_io:
  assumes "no_io m"
  shows "snd (disassembly_lines n line a y x m) = m"
  by (induction n arbitrary: line a)
    (simp_all add: bus_read_no_io [OF assms] read_bytes_no_io [OF assms] Let_def case_prod_beta)

lemma memory_lines_no_io:
  assumes "no_io m"
  shows "snd (memory_lines n line y x m) = m"
  by (induction n arbitrary: line)
    (simp_all add: read_bytes_no_io [OF assms] Let_def case_prod_beta)

lemma draw_no_io:
  assumes "no_io m"
  shows "snd (tui_draw now rows cols st m) = m"
  by (simp add: tui_draw_def draw_disassembly_def draw_memory_watch_def Let_def case_prod_beta
      disassembly_lines_no_io [OF assms] memory_lines_no_io [OF assms])

subsection \<open>The instructions of a frame\<close>

lemma log_and_bus_fields [simp]:
  "running (monitor_log_instruction t pc op r st) = running st"
  "stepping (monitor_log_instruction t pc op r st) = stepping st"
  "should_quit (monitor_log_instruction t pc op r st) = should_quit st"
  "running (monitor_update_bus b a d st) = running st"
  "stepping (monitor_update_bus b a d st) = stepping st"
  "should_quit (monitor_update_bus b a d st) = should_quit st"
  by (simp_all add: monitor_log_instruction_def monitor_update_bus_def Let_def)

text \<open>How many instructions a frame executes.\<close>

definition frame_steps :: "MonitorState \<Rightarrow> nat" where
  "frame_steps st =
     (if stepping st \<noteq> 0 then 1 else if running st \<noteq> 0 then INSTRUCTIONS_PER_FRAME else 0)"

lemma run_instructions_running:
  assumes "no_io m" and "running st \<noteq> 0" and "stepping st = 0"
  shows "snd (run_instructions clock n i (st, m)) = (cpu_step ^^ n) m \<and>
    running (fst (run_instructions clock n i (st, m))) = running st \<and>
    stepping (fst (run_instructions clock n i (st, m))) = 0"
  using assms
proof (induction n arbitrary: i st m)
  case (Suc n)
  let ?st = "if i mod 10 = 0
    then monitor_update_bus BUS_READ (PC_of m) (peek (PC_of m) m)
      (monitor_log_instruction (clock i) (PC_of m) (peek (PC_of m) m) (REG m) st) else st"
  have "run_instructions clock (Suc n) i (st, m) = run_instructions clock n (i + 1) (?st, cpu_step m)"
    using Suc.prems by (simp add: bus_read_no_io Let_def)
  moreover have "running ?st = running st" "stepping ?st = 0" using Suc.prems by simp_all
  ultimately show ?case
    using Suc.IH [of "cpu_step m" ?st "i + 1"] Suc.prems by (simp add: no_io_step funpow_swap1)
qed simp

lemma run_instructions_stepping:
  assumes "no_io m" and "stepping st \<noteq> 0"
  shows "snd (run_instructions clock (Suc n) i (st, m)) = cpu_step m \<and>
    running (fst (run_instructions clock (Suc n) i (st, m))) = 0 \<and>
    stepping (fst (run_instructions clock (Suc n) i (st, m))) = 0"
  using assms by (simp add: bus_read_no_io Let_def)

subsection \<open>The instruction log is a bounded log\<close>

definition log_ok :: "MonitorState \<Rightarrow> bool" where
  "log_ok st = ring_wf 100 (instruction_log st) (instruction_log_idx st) (instruction_log_count st)"

text \<open>The logged instructions, oldest first.\<close>

definition log_entries :: "MonitorState \<Rightarrow> InstructionLogEntry list" where
  "log_entries st =
     ring_entries (instruction_log st) (instruction_log_idx st) (instruction_log_count st)"

definition push_entry :: "InstructionLogEntry \<Rightarrow> MonitorState \<Rightarrow> MonitorState" where
  "push_entry e st =
     st\<lparr>instruction_log := (instruction_log st)[instruction_log_idx st := e],
        instruction_log_idx := (instruction_log_idx st + 1) mod 100,
        instruction_log_count :=
          (if instruction_log_count st < 100 then instruction_log_count st + 1
           else instruction_log_count st)\<rparr>"

definition entry_for ::
  "uint64 \<Rightarrow> timespec \<times> MEM_TWO_WORDS \<times> MEM_WORD \<times> T_REGISTER \<Rightarrow> InstructionLogEntry" where
  "entry_for cycles = (\<lambda>(now, pc, opcode, reg).
     \<lparr>le_cycle = cycles, le_addr = pc, le_opcode = opcode,
      le_mnemonic = take CMD_LEN (CMD (META_of opcode)), le_state_change = state_line reg,
      le_timestamp = now\<rparr>)"

lemma log_instruction_pushes:
  "monitor_log_instruction now pc op r st = push_entry (entry_for (mon_cycles st) (now, pc, op, r)) st"
  by (simp add: monitor_log_instruction_def push_entry_def entry_for_def Let_def)

interpretation instruction_ring: bounded_log log_ok log_entries push_entry 100
proof unfold_locales
  fix e st
  assume "log_ok st"
  note push = ring_push [OF this [unfolded log_ok_def], of e]
  show "log_ok (push_entry e st)" using push(1) by (simp add: log_ok_def push_entry_def)
  show "log_entries (push_entry e st) = newest 100 (log_entries st @ [e])"
    using push(2) by (simp add: log_entries_def push_entry_def)
qed simp

lemma mon_cycles_push [simp]: "mon_cycles (push_entry e st) = mon_cycles st"
  by (simp add: push_entry_def)

lemma log_instructions_push:
  "fold (\<lambda>(now, pc, op, r). monitor_log_instruction now pc op r) cs st =
    fold push_entry (map (entry_for (mon_cycles st)) cs) st"
  by (induction cs arbitrary: st) (auto simp: log_instruction_pushes)

lemma shown_log_eq:
  assumes "log_ok st"
  shows "shown_log h st = take (min (nat (min (h - 3) 10)) (instruction_log_count st)) (rev (log_entries st))"
proof -
  have lines: "(if h - 3 < int INSTRUCTION_LOG_DISPLAY then h - 3 else int INSTRUCTION_LOG_DISPLAY) =
      min (h - 3) 10" by simp
  show ?thesis
    unfolding shown_log_def Let_def lines log_entries_def INSTRUCTION_LOG_SIZE_def
    by (rule ring_newest_first [OF assms [unfolded log_ok_def]]) simp
qed

lemma length_log_entries: "log_ok st \<Longrightarrow> length (log_entries st) = instruction_log_count st"
  by (simp add: log_ok_def log_entries_def length_ring_entries)

subsection \<open>Watches\<close>

definition watch_ok :: "MonitorState \<Rightarrow> bool" where
  "watch_ok st = (length (watches st) = 8 \<and> watch_count st \<le> 8)"

definition live_watches :: "MonitorState \<Rightarrow> MemoryWatch list" where
  "live_watches st = take (watch_count st) (watches st)"

definition watch_for :: "MEM_TWO_WORDS \<Rightarrow> 'w machine \<Rightarrow> MemoryWatch" where
  "watch_for a m =
     \<lparr>mw_addr = a, mw_value = fst (bus_read a m), mw_prev = fst (bus_read a m), mw_changed = 0\<rparr>"

definition watch_slot ::
  "MEM_TWO_WORDS \<Rightarrow> MonitorState \<times> 'w machine \<Rightarrow> int \<times> MonitorState \<times> 'w machine" where
  "watch_slot a = (\<lambda>(st, m).
     (if watch_count st < 8 then int (watch_count st) else - 1, monitor_add_watch a (st, m)))"

interpretation watch_table: slot_adder "watch_ok \<circ> fst" "live_watches \<circ> fst" 8
  "\<lambda>a s. watch_for a (snd s)" watch_slot
  by unfold_locales
    (auto simp: watch_ok_def live_watches_def watch_slot_def watch_for_def monitor_add_watch_def
      Let_def take_Suc_conv_app_nth split: prod.splits)

text \<open>What an update makes of a watch.\<close>

definition refreshed_watch :: "'w machine \<Rightarrow> MemoryWatch \<Rightarrow> MemoryWatch" where
  "refreshed_watch m w =
     (if peek (mw_addr w) m \<noteq> mw_value w
      then w\<lparr>mw_prev := mw_value w, mw_value := peek (mw_addr w) m, mw_changed := 1\<rparr>
      else w\<lparr>mw_changed := 0\<rparr>)"

lemma update_watch_eq:
  "no_io m \<Longrightarrow> update_watch i (st, m) =
    (st\<lparr>watches := (watches st)[i := refreshed_watch m (watches st ! i)]\<rparr>, m)"
  by (simp add: update_watch_def bus_read_no_io refreshed_watch_def Let_def)

lemma update_watches_upto:
  assumes "no_io m" and "n \<le> length (watches st)"
  shows "fold update_watch [0 ..< n] (st, m) =
    (st\<lparr>watches := map (refreshed_watch m) (take n (watches st)) @ drop n (watches st)\<rparr>, m)"
  using assms(2)
proof (induction n)
  case (Suc n)
  then show ?case
    by (simp add: update_watch_eq [OF assms(1)] nth_append map_prefix_update)
qed simp

end
