(* ===== verification/Session_Spec.thy ===== *)
theory Session_Spec
  imports Monitor_Spec
begin

text \<open>
  The frames of a monitor session: the invariant they keep, the machine of keys that they
  implement, and when a session ends.
\<close>

subsection \<open>The invariant of the monitor's state\<close>

definition mon_wf :: "MonitorState \<Rightarrow> bool" where
  "mon_wf st = (log_ok st \<and> watch_ok st \<and> length (cycle_history st) = 300 \<and>
     cycle_history_idx st < 300 \<and> (running st = 0 \<or> stepping st = 0))"

text \<open>Between frames no single step is outstanding.\<close>

definition between_frames :: "MonitorState \<Rightarrow> bool" where
  "between_frames st = (mon_wf st \<and> stepping st = 0)"

lemma mon_wf_bus [simp]: "mon_wf (monitor_update_bus b a d st) = mon_wf st"
  by (simp add: monitor_update_bus_def Let_def mon_wf_def log_ok_def watch_ok_def)

lemma mon_wf_log [simp]: "mon_wf st \<Longrightarrow> mon_wf (monitor_log_instruction t pc op r st)"
  using instruction_ring.put_ok [of st]
  by (simp add: log_instruction_pushes mon_wf_def)
    (simp add: push_entry_def watch_ok_def)

lemma mon_wf_add_watch: "mon_wf st \<Longrightarrow> mon_wf (fst (monitor_add_watch a (st, m)))"
  using watch_table.add_ok [of "(st, m)" a]
  by (auto simp: watch_slot_def monitor_add_watch_def mon_wf_def log_ok_def Let_def
      split: prod.splits)

lemma mon_wf_update_watches: "mon_wf st \<Longrightarrow> mon_wf (fst (fold update_watch is (st, m)))"
proof (induction "is" arbitrary: st m)
  case (Cons i "is")
  obtain st' m' where *: "update_watch i (st, m) = (st', m')" by fastforce
  then have "mon_wf st'" using Cons.prems
    by (auto simp: update_watch_def mon_wf_def log_ok_def watch_ok_def Let_def split: prod.splits)
  then show ?case using Cons.IH * by simp
qed simp

lemma watch_flags:
  "running (fst (fold update_watch is (st, m))) = running st \<and>
   stepping (fst (fold update_watch is (st, m))) = stepping st \<and>
   should_quit (fst (fold update_watch is (st, m))) = should_quit st"
proof (induction "is" arbitrary: st m)
  case (Cons i "is")
  obtain st' m' where *: "update_watch i (st, m) = (st', m')" by fastforce
  then have "running st' = running st \<and> stepping st' = stepping st \<and> should_quit st' = should_quit st"
    by (auto simp: update_watch_def Let_def split: prod.splits)
  then show ?case using Cons.IH [of st' m'] * by simp
qed simp

lemma sampled_keeps:
  assumes "sampled now c (u, st) = (u', st')"
  shows "mon_wf st \<Longrightarrow> mon_wf st'"
    and "running st' = running st" "stepping st' = stepping st" "should_quit st' = should_quit st"
    and "watches st' = watches st" "watch_count st' = watch_count st" "mon_cycles st' = ucast c"
    and "log_entries st' = log_entries st" "log_ok st' = log_ok st"
  using assms
  by (auto simp: sampled_def Let_def mon_wf_def log_ok_def watch_ok_def log_entries_def
      split: if_splits prod.splits)

lemma update_keeps:
  assumes "monitor_state_update now (u, st, m) = (u', st', m')"
  shows "mon_wf st \<Longrightarrow> mon_wf st'"
    and "running st' = running st" "stepping st' = stepping st" "should_quit st' = should_quit st"
proof -
  obtain u1 st1 where s: "sampled now (CYCLES m) (u, st) = (u1, st1)" by fastforce
  then have st': "st' = fst (fold update_watch [0 ..< watch_count st1] (st1, m))"
    using assms by (auto simp: monitor_state_update_def split: prod.splits)
  show "mon_wf st'" if "mon_wf st"
    using sampled_keeps(1) [OF s that] by (simp add: st' mon_wf_update_watches)
  show "running st' = running st" "stepping st' = stepping st" "should_quit st' = should_quit st"
    using sampled_keeps(2-4) [OF s] watch_flags [of "[0 ..< watch_count st1]" st1 m] st' by auto
qed

lemma input_keeps:
  assumes "tui_handle_input k (st, m) = (st', m')"
  shows "mon_wf st \<Longrightarrow> mon_wf st'"
  using assms
  by (auto simp: tui_handle_input_def mon_wf_def log_ok_def watch_ok_def split: if_splits)

lemma run_instructions_keeps:
  assumes "mon_wf st"
  shows "mon_wf (fst (run_instructions clock n i (st, m))) \<and>
    should_quit (fst (run_instructions clock n i (st, m))) = should_quit st \<and>
    (0 < n \<longrightarrow> stepping (fst (run_instructions clock n i (st, m))) = 0)"
  using assms
proof (induction n arbitrary: i st m)
  case (Suc n)
  show ?case
  proof (cases "running st \<noteq> 0 \<or> stepping st \<noteq> 0")
    case True
    obtain opcode m' where read: "bus_read (PC_of m) m = (opcode, m')" by fastforce
    let ?st = "if stepping st \<noteq> 0 \<or> i mod 10 = 0
      then monitor_update_bus BUS_READ (PC_of m) opcode
        (monitor_log_instruction (clock i) (PC_of m) opcode (REG m') st) else st"
    have wf: "mon_wf ?st" and flags: "stepping ?st = stepping st" "should_quit ?st = should_quit st"
      using Suc.prems by simp_all
    have run: "run_instructions clock (Suc n) i (st, m) =
        (if stepping ?st \<noteq> 0 then (?st\<lparr>stepping := 0, running := 0\<rparr>, cpu_step m')
         else run_instructions clock n (i + 1) (?st, cpu_step m'))"
      using True by (simp add: read Let_def)
    show ?thesis
    proof (cases "stepping st = 0")
      case True
      then show ?thesis
        unfolding run using Suc.IH [OF wf, of "i + 1" "cpu_step m'"] flags by (cases n) simp_all
    next
      case False
      have "mon_wf (?st\<lparr>stepping := 0, running := 0\<rparr>)"
        using wf by (simp add: mon_wf_def log_ok_def watch_ok_def)
      then show ?thesis unfolding run using False flags by simp
    qed
  qed (use Suc.prems in simp)
qed simp

subsection \<open>What a key does\<close>

definition quit_key :: "int \<Rightarrow> bool" where "quit_key k = key_is k (CHR ''q'') (CHR ''Q'')"
definition step_key :: "int \<Rightarrow> bool" where "step_key k = key_is k (CHR ''s'') (CHR ''S'')"
definition continue_key :: "int \<Rightarrow> bool" where "continue_key k = key_is k (CHR ''c'') (CHR ''C'')"
definition break_key :: "int \<Rightarrow> bool" where "break_key k = key_is k (CHR ''b'') (CHR ''B'')"
definition reset_key :: "int \<Rightarrow> bool" where "reset_key k = key_is k (CHR ''r'') (CHR ''R'')"

lemmas key_defs = quit_key_def step_key_def continue_key_def break_key_def reset_key_def key_is_def

text \<open>
  The machine of keys: its state says whether the CPU runs freely and whether the session is to
  end, and has the emulated machine. A key sets the mode, and then the frame executes one
  instruction after a step key, 20000 when running, none otherwise.
\<close>

definition key_frame :: "int \<Rightarrow> bool \<times> bool \<times> 'w machine \<Rightarrow> bool \<times> bool \<times> 'w machine" where
  "key_frame k = (\<lambda>(run, quit, m).
     let run = (if continue_key k then True else if step_key k \<or> break_key k then False else run);
         m = (if reset_key k then cpu_reset m else m)
     in (run, quit \<or> quit_key k,
         if step_key k then cpu_step m else if run then (cpu_step ^^ 20000) m else m))"

definition session_view :: "update_statics \<times> MonitorState \<times> 'w machine \<Rightarrow> bool \<times> bool \<times> 'w machine" where
  "session_view = (\<lambda>(u, st, m). (running st \<noteq> 0, should_quit st \<noteq> 0, m))"

lemma session_view_snd: "snd (snd (session_view s)) = snd (snd s)"
  by (simp add: session_view_def case_prod_beta)

lemma input_effect:
  assumes "stepping st = 0"
  shows "tui_handle_input k (st, m) =
    (if quit_key k then (st\<lparr>should_quit := 1\<rparr>, m)
     else if step_key k then (st\<lparr>stepping := 1, running := 0\<rparr>, m)
     else if continue_key k then (st\<lparr>running := 1, stepping := 0\<rparr>, m)
     else if break_key k then (st\<lparr>running := 0\<rparr>, m)
     else if reset_key k then (st\<lparr>reset_pending := 1\<rparr>, cpu_reset m)
     else (st, m))"
  by (auto simp: tui_handle_input_def key_defs)

lemma keys_distinct:
  "step_key k \<Longrightarrow> \<not> quit_key k \<and> \<not> continue_key k \<and> \<not> break_key k \<and> \<not> reset_key k"
  "quit_key k \<Longrightarrow> \<not> continue_key k \<and> \<not> break_key k \<and> \<not> reset_key k"
  "continue_key k \<Longrightarrow> \<not> break_key k \<and> \<not> reset_key k"
  "break_key k \<Longrightarrow> \<not> reset_key k"
  by (auto simp: key_defs)

text \<open>The frame after its key, with the instructions as one function of state and machine.\<close>

definition after_key :: "frame_input \<Rightarrow> MonitorState \<times> 'w machine \<Rightarrow> MonitorState \<times> 'w machine" where
  "after_key f = (\<lambda>(st, m).
     if running st \<noteq> 0 \<or> stepping st \<noteq> 0
     then (let (st, m) = run_instructions (stamps f) INSTRUCTIONS_PER_FRAME 0 (st, m)
           in (monitor_update_bus BUS_IDLE 0 0 st, m))
     else (st, m))"

lemma run_frame_eq:
  "snd (run_frame f (u, st, m)) =
    (let (st, m) = after_key f (tui_handle_input (pressed f) (st, m));
         (u, st, m) = monitor_state_update (update_time f) (u, st, m)
     in (u, st, snd (tui_draw (draw_time f) (term_rows f) (term_cols f) st m)))"
  by (simp add: run_frame_def after_key_def Let_def case_prod_beta)

lemma after_key_keeps:
  assumes "mon_wf st"
  shows "between_frames (fst (after_key f (st, m))) \<and>
    should_quit (fst (after_key f (st, m))) = should_quit st"
  using run_instructions_keeps [OF assms, of "stamps f" INSTRUCTIONS_PER_FRAME 0 m] assms
  by (auto simp: after_key_def between_frames_def case_prod_beta INSTRUCTIONS_PER_FRAME_def)

lemma frame_keeps:
  assumes "between_frames st"
  shows "between_frames (fst (snd (snd (run_frame f (u, st, m)))))" (is ?wf)
    and "should_quit (fst (snd (snd (run_frame f (u, st, m))))) =
      (if quit_key (pressed f) then 1 else should_quit st)" (is ?quit)
proof -
  obtain st1 m1 where i: "tui_handle_input (pressed f) (st, m) = (st1, m1)" by fastforce
  obtain st2 m2 where a: "after_key f (st1, m1) = (st2, m2)" by fastforce
  obtain u3 st3 m3 where p: "monitor_state_update (update_time f) (u, st2, m2) = (u3, st3, m3)"
    by (metis prod_cases3)
  have wf: "mon_wf st1" using input_keeps [OF i] assms by (simp add: between_frames_def)
  have quit: "should_quit st1 = (if quit_key (pressed f) then 1 else should_quit st)"
    using i assms by (auto simp: input_effect between_frames_def split: if_splits)
  note k = after_key_keeps [OF wf, of f m1, unfolded a fst_conv] update_keeps [OF p]
  show ?wf using k by (simp add: run_frame_eq i a p between_frames_def)
  show ?quit using k quit by (simp add: run_frame_eq i a p)
qed

subsection \<open>Frames implement the machine of keys\<close>

lemma after_key_effect:
  assumes "no_io m" and "mon_wf st"
  shows "snd (after_key f (st, m)) =
      (if stepping st \<noteq> 0 then cpu_step m else if running st \<noteq> 0 then (cpu_step ^^ 20000) m else m)"
    and "running (fst (after_key f (st, m))) = running st"
proof -
  show "snd (after_key f (st, m)) =
      (if stepping st \<noteq> 0 then cpu_step m else if running st \<noteq> 0 then (cpu_step ^^ 20000) m else m)"
    using run_instructions_running [OF assms(1), of st "stamps f" 20000 0]
      run_instructions_stepping [OF assms(1), of st "stamps f" 19999 0]
    by (simp add: after_key_def INSTRUCTIONS_PER_FRAME_def case_prod_beta del: run_instructions.simps)
  show "running (fst (after_key f (st, m))) = running st"
    using run_instructions_running [OF assms(1), of st "stamps f" 20000 0]
      run_instructions_stepping [OF assms(1), of st "stamps f" 19999 0] assms(2)
    by (auto simp: after_key_def INSTRUCTIONS_PER_FRAME_def case_prod_beta mon_wf_def
        simp del: run_instructions.simps)
qed

lemma frame_implements_key:
  assumes "no_io m" and "between_frames st"
  shows "session_view (snd (run_frame f (u, st, m))) = key_frame (pressed f) (session_view (u, st, m))"
proof -
  obtain st1 m1 where i: "tui_handle_input (pressed f) (st, m) = (st1, m1)" by fastforce
  obtain st2 m2 where a: "after_key f (st1, m1) = (st2, m2)" by fastforce
  obtain u3 st3 m3 where p: "monitor_state_update (update_time f) (u, st2, m2) = (u3, st3, m3)"
    by (metis prod_cases3)
  have step0: "stepping st = 0" using assms(2) by (simp add: between_frames_def)
  note input = i [unfolded input_effect [OF step0]]
  have m1: "m1 = (if reset_key (pressed f) then cpu_reset m else m)"
    using input keys_distinct [of "pressed f"] by (auto split: if_splits)
  have io1: "no_io m1" using assms(1) by (simp add: m1 no_io_reset)
  have wf: "mon_wf st1" using input_keeps [OF i] assms(2) by (simp add: between_frames_def)
  have flags: "running st1 \<noteq> 0 \<longleftrightarrow> (if continue_key (pressed f) then True
        else if step_key (pressed f) \<or> break_key (pressed f) then False else running st \<noteq> 0)"
    "stepping st1 \<noteq> 0 \<longleftrightarrow> step_key (pressed f)"
    using input keys_distinct [of "pressed f"] step0 by (auto split: if_splits)
  note eff = after_key_effect [OF io1 wf, of f, unfolded a snd_conv fst_conv]
  have io2: "no_io m2" using io1 no_io_steps [OF io1] no_io_step [OF io1] by (simp add: eff(1))
  have m3: "m3 = m2" using update_no_io [OF io2, of "update_time f" u st2] p by simp
  have "session_view (snd (run_frame f (u, st, m))) = (running st1 \<noteq> 0, should_quit st3 \<noteq> 0, m2)"
    using update_keeps(2) [OF p] eff(2)
    by (simp add: run_frame_eq i a p m3 draw_no_io [OF io2] session_view_def)
  moreover have "should_quit st3 \<noteq> 0 \<longleftrightarrow> should_quit st \<noteq> 0 \<or> quit_key (pressed f)"
    using frame_keeps(2) [OF assms(2), of f u m] by (simp add: run_frame_eq i a p split: if_splits)
  ultimately show ?thesis
    using flags by (simp add: key_frame_def session_view_def Let_def eff(1) m1 [symmetric])
qed

subsection \<open>Sessions\<close>

text \<open>Whether a session ends within the frames given, and the keys of the frames it runs.\<close>

definition ends_session :: "frame_input \<Rightarrow> bool" where
  "ends_session f = (quit_signal f \<or> quit_key (pressed f))"

fun session_keys :: "frame_input list \<Rightarrow> int list" where
  "session_keys [] = []"
| "session_keys (f # fs) =
     (if quit_signal f then [] else if quit_key (pressed f) then [pressed f]
      else pressed f # session_keys fs)"

lemma loop_over: "should_quit (fst (snd s)) \<noteq> 0 \<Longrightarrow> monitor_loop fs s = Some s"
  by (cases fs) simp_all

lemma loop_ends_iff:
  assumes "between_frames (fst (snd s))" and "should_quit (fst (snd s)) = 0"
  shows "(\<exists>r. monitor_loop fs s = Some r) \<longleftrightarrow> (\<exists>f \<in> set fs. ends_session f)"
  using assms
proof (induction fs arbitrary: s)
  case (Cons f fs)
  obtain u st m where s: "s = (u, st, m)" by (metis prod_cases3)
  let ?s = "snd (run_frame f s)"
  have wf: "between_frames (fst (snd ?s))"
    and quit: "should_quit (fst (snd ?s)) = (if quit_key (pressed f) then 1 else 0)"
    using Cons.prems frame_keeps [of st f u m] by (simp_all add: s)
  show ?case
  proof (cases "ends_session f")
    case True
    then show ?thesis
      using Cons.prems(2) quit loop_over [of ?s fs] by (auto simp: ends_session_def simp del: split_paired_Ex)
  next
    case False
    then show ?thesis
      using Cons.IH [OF wf] Cons.prems(2) quit by (simp add: ends_session_def)
  qed
qed simp

lemma no_io_key_frame: "no_io (snd (snd v)) \<Longrightarrow> no_io (snd (snd (key_frame k v)))"
  using no_io_steps [of _ 20000] no_io_step
  by (auto simp: key_frame_def Let_def no_io_reset case_prod_beta)

lemma loop_implements_keys:
  assumes "no_io (snd (snd s))" and "between_frames (fst (snd s))" and "should_quit (fst (snd s)) = 0"
    and "monitor_loop fs s = Some r"
  shows "session_view r = fold key_frame (session_keys fs) (session_view s)"
  using assms
proof (induction fs arbitrary: s)
  case (Cons f fs)
  obtain u st m where s: "s = (u, st, m)" by (metis prod_cases3)
  let ?s = "snd (run_frame f s)"
  have view: "session_view ?s = key_frame (pressed f) (session_view s)"
    using frame_implements_key [of m st f u] Cons.prems by (simp add: s)
  have wf: "between_frames (fst (snd ?s))"
    and quit: "should_quit (fst (snd ?s)) = (if quit_key (pressed f) then 1 else 0)"
    using Cons.prems frame_keeps [of st f u m] by (simp_all add: s)
  have io: "no_io (snd (snd ?s))"
    using no_io_key_frame [of "session_view s" "pressed f"] Cons.prems(1) view
    by (metis session_view_snd)
  consider "quit_signal f" | "\<not> quit_signal f" "quit_key (pressed f)"
    | "\<not> quit_signal f" "\<not> quit_key (pressed f)" by blast
  then show ?case
  proof cases
    case 2
    then show ?thesis using Cons.prems(3,4) loop_over [of ?s fs] quit view by simp
  next
    case 3
    then show ?thesis using Cons.IH [OF io wf] Cons.prems(3,4) quit view by simp
  qed (use Cons.prems(3,4) in simp)
qed simp

end
