(* ===== verification/Performance_Spec.thy ===== *)
theory Performance_Spec
  imports Monitor "HOL-Library.Multiset"
begin

text \<open>
  The performance panel of src/tui_monitor.c: its figures are the mean and the order statistics
  of the valid samples.
\<close>

definition valid_history :: "MonitorState \<Rightarrow> uint64 list" where
  "valid_history st = filter valid_sample (cycle_history st)"

lemma fold_sum:
  fixes xs :: "uint64 list"
  assumes "\<forall>x \<in> set xs. unat x < 100000000" and "unat acc + length xs * 100000000 < 2 ^ 64"
  shows "unat (fold (\<lambda>s a. a + s) xs acc) = unat acc + (\<Sum>x\<leftarrow>xs. unat x)"
  using assms
proof (induction xs arbitrary: acc)
  case (Cons x xs)
  have small: "unat x < 100000000" using Cons.prems(1) by simp
  have room: "unat acc + 100000000 + length xs * 100000000 < 2 ^ 64" using Cons.prems(2) by simp
  then have "unat acc + unat x < 2 ^ LENGTH(64)" using small by simp
  then have sum: "unat (acc + x) = unat acc + unat x" by (rule unat_add_lem [THEN iffD1])
  have "unat (fold (\<lambda>s a. a + s) xs (acc + x)) = unat (acc + x) + (\<Sum>x\<leftarrow>xs. unat x)"
  proof (rule Cons.IH)
    show "unat (acc + x) + length xs * 100000000 < 2 ^ 64" using sum small room by linarith
  qed (use Cons.prems(1) in simp)
  then show ?case using sum by simp
qed simp

lemma fold_max:
  fixes xs :: "uint64 list"
  shows "fold (\<lambda>s a. if s > a then s else a) xs acc = Max (insert acc (set xs))"
proof (induction xs arbitrary: acc)
  case (Cons x xs)
  have "Max (insert (if x > acc then x else acc) (set xs)) = Max (insert acc (set (x # xs)))"
    by (cases "xs = []") (auto simp: max_def Max_insert2 Max_insert)
  then show ?case by (simp add: Cons.IH)
qed simp

lemma sorted_hd_Min:
  fixes xs :: "'a::linorder list"
  assumes "xs \<noteq> []"
  shows "sort xs ! 0 = Min (set xs)"
proof -
  have "sort xs ! 0 \<le> x" if "x \<in> set xs" for x
  proof -
    have "x \<in> set (sort xs)" using that by simp
    then obtain i where "i < length (sort xs)" "sort xs ! i = x" unfolding in_set_conv_nth by blast
    then show ?thesis using sorted_nth_mono [of "sort xs" 0 i] by simp
  qed
  moreover have "sort xs ! 0 \<in> set xs"
    using assms nth_mem [of 0 "sort xs"] by simp
  ultimately show ?thesis by (intro Min_eqI [symmetric]) auto
qed

text \<open>Fewer than or exactly \<open>k\<close> elements lie below the \<open>k\<close>-th of a sorted list.\<close>

lemma count_below_sorted:
  fixes xs :: "'a::linorder list"
  assumes "k < length xs"
  shows "length (filter (\<lambda>x. x < sort xs ! k) xs) \<le> k"
    and "k < length (filter (\<lambda>x. x \<le> sort xs ! k) xs)"
proof -
  let ?s = "sort xs"
  have perm: "length (filter P xs) = length (filter P ?s)" for P
    by (metis mset_sort mset_filter size_mset)
  have "filter (\<lambda>x. x < ?s ! k) (drop k ?s) = []"
    using assms by (auto simp: filter_empty_conv in_set_conv_nth not_less intro!: sorted_nth_mono)
  then have "filter (\<lambda>x. x < ?s ! k) ?s = filter (\<lambda>x. x < ?s ! k) (take k ?s)"
    by (metis append.right_neutral append_take_drop_id filter_append)
  then show "length (filter (\<lambda>x. x < ?s ! k) xs) \<le> k"
    using assms by (simp add: perm) (metis length_filter_le length_sort length_take min.absorb4 min.strict_order_iff)
  have "filter (\<lambda>x. x \<le> ?s ! k) (take (Suc k) ?s) = take (Suc k) ?s"
    using assms by (auto simp: filter_id_conv in_set_conv_nth intro!: sorted_nth_mono)
  then have "length (filter (\<lambda>x. x \<le> ?s ! k) (take (Suc k) ?s)) = Suc k" using assms by simp
  moreover have "length (filter (\<lambda>x. x \<le> ?s ! k) ?s) =
      length (filter (\<lambda>x. x \<le> ?s ! k) (take (Suc k) ?s)) +
      length (filter (\<lambda>x. x \<le> ?s ! k) (drop (Suc k) ?s))"
    by (metis append_take_drop_id filter_append length_append)
  ultimately show "k < length (filter (\<lambda>x. x \<le> ?s ! k) xs)" by (simp add: perm)
qed

lemma qsort_is_sort: "qsort compare_uint64 xs = sort xs"
proof -
  have "insert_by compare_uint64 x ys = insort x ys" for x ys
    by (induction ys) (auto simp: compare_uint64_def)
  then have "insert_by compare_uint64 = insort" by (intro ext)
  then show ?thesis by (simp add: qsort_def sort_key_def)
qed

lemma valid_sample_bounds: "valid_sample s \<longleftrightarrow> 0 < unat s \<and> unat s < 100000000"
  by (simp add: valid_sample_def word_less_nat_alt)

lemma performance_figures_eq:
  assumes "length (cycle_history st) = 300"
  shows "performance_of st =
    (if valid_history st = [] then None
     else let vs = valid_history st; newest = cycle_history st ! ((cycle_history_idx st + 299) mod 300)
       in Some \<lparr>perf_current = if valid_sample newest then newest else Max (set vs),
            perf_avg = fold (\<lambda>s a. a + s) vs 0 div of_nat (length vs),
            perf_low_1 = sort vs ! (length vs div 100), perf_low_01 = Min (set vs),
            perf_max = Max (set vs)\<rparr>)"
proof -
  let ?vs = "valid_history st"
  have vs: "filter valid_sample (take CYCLE_HISTORY_SIZE (cycle_history st)) = ?vs"
    using assms by (simp add: valid_history_def)
  have short: "length ?vs < 1000"
    using assms length_filter_le [of valid_sample "cycle_history st"] by (simp add: valid_history_def)
  show ?thesis
  proof (cases "?vs = []")
    case True
    then show ?thesis unfolding performance_of_def qsort_is_sort vs by simp
  next
    case False
    have max: "fold (\<lambda>s a. if s > a then s else a) ?vs 0 = Max (set ?vs)"
      using False by (simp add: fold_max Max_insert)
    have "\<forall>x \<in> set ?vs. x > 0" by (simp add: valid_history_def valid_sample_def)
    then have pos: "Max (set ?vs) > 0" using False Max_in [of "set ?vs"] by simp
    have low: "(if length ?vs \<ge> 100 then sort ?vs !
          (if length ?vs div 100 \<ge> length ?vs then length ?vs - 1 else length ?vs div 100)
        else sort ?vs ! 0) = sort ?vs ! (length ?vs div 100)"
      by auto
    have low01: "(if length ?vs \<ge> 1000 then sort ?vs !
          (if length ?vs div 1000 \<ge> length ?vs then length ?vs - 1 else length ?vs div 1000)
        else sort ?vs ! 0) = Min (set ?vs)"
      using short sorted_hd_Min [OF False] by simp
    have current: "(if c = 0 \<or> c \<ge> 100000000 then d else c) = (if valid_sample c then c else d)"
      for c d :: uint64
      by (auto simp: valid_sample_def word_neq_0_conv)
    have last_idx: "cycle_history_idx st + CYCLE_HISTORY_SIZE - 1 = cycle_history_idx st + 299" by simp
    have guard: "(True \<and> True) = True" "(0 < Max (set ?vs)) = True" "(0 < length ?vs) = True"
      "(?vs = []) = False"
      using False pos by simp_all
    show ?thesis
      unfolding performance_of_def qsort_is_sort vs
      unfolding Let_def max low low01 last_idx current guard if_True if_False
      unfolding CYCLE_HISTORY_SIZE_def ..
  qed
qed

end
