(* ===== verification/Monitor_Properties.thy ===== *)
theory Monitor_Properties
  imports Session_Spec Performance_Spec
begin

text \<open>
  The properties of src/tui_monitor.c and of the program as a whole: the invariant of the
  monitor's state, what a session does to the emulated machine, when it ends and how it leaves
  the terminal, what the log and the performance panel show, and the exit status.
\<close>

subsection \<open>The start of a session\<close>

text \<open>A frame with a key, for evaluation.\<close>

definition key_input :: "int \<Rightarrow> frame_input" where
  "key_input k = \<lparr>quit_signal = False, pressed = k, stamps = (\<lambda>_. zero_time),
     update_time = zero_time, draw_time = zero_time, term_rows = 24, term_cols = 100\<rparr>"

definition quit_session :: session where
  "quit_session = \<lparr>session_terminal = \<lparr>initscr_ok = True, has_colors = True, can_change_color = True\<rparr>,
     start_rows = 24, start_cols = 100, monitor_start = zero_time, frames = [key_input 113]\<rparr>"

lemma zero_monitor_wf:
  "mon_wf (zero_monitor\<lparr>start_time := now, running := 0, stepping := 0, should_quit := 0\<rparr>)"
  by (simp add: zero_monitor_def mon_wf_def log_ok_def watch_ok_def ring_wf_def)

lemma between_frames_zero [simp]: "between_frames zero_monitor" "should_quit zero_monitor = 0"
  "log_ok zero_monitor" "log_entries zero_monitor = []"
  "running zero_monitor = 0"
  by (simp_all add: zero_monitor_def between_frames_def mon_wf_def log_ok_def log_entries_def
      watch_ok_def ring_wf_def ring_entries_def)

lemma add_watch_flags:
  "running (fst (monitor_add_watch a (st, m))) = running st"
  "stepping (fst (monitor_add_watch a (st, m))) = stepping st"
  "should_quit (fst (monitor_add_watch a (st, m))) = should_quit st"
  by (simp_all add: monitor_add_watch_def Let_def split: prod.splits)

lemma add_watches_keep:
  assumes "mon_wf st"
  shows "mon_wf (fst (fold monitor_add_watch as (st, m))) \<and>
    running (fst (fold monitor_add_watch as (st, m))) = running st \<and>
    stepping (fst (fold monitor_add_watch as (st, m))) = stepping st \<and>
    should_quit (fst (fold monitor_add_watch as (st, m))) = should_quit st"
  using assms
proof (induction as arbitrary: st m)
  case (Cons a as)
  obtain st' m' where *: "monitor_add_watch a (st, m) = (st', m')" by fastforce
  show ?case
    using Cons.IH [of st' m'] mon_wf_add_watch [OF Cons.prems, of a m] add_watch_flags [of a st m] *
    by simp
qed simp

lemma setup_facts:
  "between_frames (fst (monitor_setup env opts m)) \<and>
   running (fst (monitor_setup env opts m)) = 0 \<and> should_quit (fst (monitor_setup env opts m)) = 0"
proof -
  let ?z = "zero_monitor\<lparr>start_time := monitor_start env, running := 0, stepping := 0, should_quit := 0\<rparr>"
  obtain st1 m1 where 1: "fold monitor_add_watch [0x0000, 0x0200] (?z, m) = (st1, m1)" by fastforce
  let ?st = "st1\<lparr>sys_config := config_of opts\<rparr>"
  have s: "monitor_setup env opts m = fold monitor_add_watch [0x0000, 0x0200, 0x0201] (?st, m1)"
    using 1 by (simp add: monitor_setup_def monitor_state_init_def Let_def case_prod_beta)
  have k1: "mon_wf st1 \<and> running st1 = 0 \<and> stepping st1 = 0 \<and> should_quit st1 = 0"
    using add_watches_keep [OF zero_monitor_wf, of "[0x0000, 0x0200]" "monitor_start env" m]
    unfolding 1 by simp
  then have "mon_wf ?st" by (simp add: mon_wf_def log_ok_def watch_ok_def)
  then show ?thesis
    using add_watches_keep [of ?st "[0x0000, 0x0200, 0x0201]" m1] k1
    unfolding s between_frames_def by simp
qed

lemma add_watch_machine: "no_io (snd s) \<Longrightarrow> snd (monitor_add_watch a s) = snd s"
  using add_watch_no_io [of "snd s" a "fst s"] by simp

lemma setup_no_io: "no_io m \<Longrightarrow> snd (monitor_setup env opts m) = m"
  by (simp add: monitor_setup_def monitor_state_init_def Let_def case_prod_beta add_watch_machine)

text \<open>
  C29. The monitor's state is well-formed when a session starts and after every frame, whatever
  the key, the clock, the terminal and the memory do: the log, the samples and the watches stay
  within their arrays, and no single step is left outstanding.
\<close>

theorem monitor_invariant:
  "between_frames (fst (monitor_setup env opts m)) \<and>
   (between_frames st \<longrightarrow> between_frames (fst (snd (snd (run_frame f (u, st, m))))))"
  using setup_facts [of env opts m] frame_keeps(1) [of st f u m] by blast

theorem monitor_invariant_witness:
  "between_frames (fst (snd (snd (run_frame (key_input 115) (zero_statics, zero_monitor,
     machine_at CPU_VARIANT_NMOS_6502 \<lparr>rPC = 0x8000, rA = 0, rP = 0x24, rS = 0xFD, rX = 0, rY = 0\<rparr>)))))"
  by (rule monitor_invariant [where st = zero_monitor, THEN conjunct2, THEN mp]) simp

text \<open>
  C27. A session does to a machine without I/O handlers what its keys ask for and nothing else:
  a frame executes one instruction after a step key, 20000 while running and none otherwise,
  after a reset if the key was one; drawing, logging, watches and samples leave the machine
  alone. So a session that has ended left the machine as the keys up to its end do.
\<close>

theorem session_follows_keys:
  assumes "no_io m" and "between_frames st" and "should_quit st = 0"
  shows "session_view (snd (run_frame f (u, st, m))) = key_frame (pressed f) (session_view (u, st, m)) \<and>
    (monitor_loop fs (u, st, m) = Some r \<longrightarrow>
       session_view r = fold key_frame (session_keys fs) (session_view (u, st, m)))"
  using frame_implements_key [OF assms(1,2), of f u] loop_implements_keys [of "(u, st, m)" fs r] assms
  by simp

theorem session_follows_keys_witness:
  "\<exists>m r. monitor_loop [key_input 115, key_input 113] (zero_statics, zero_monitor, m) = Some r \<and>
     session_view r = (False, True, cpu_step (m :: unit memory machine))"
proof -
  let ?m = "machine_at CPU_VARIANT_NMOS_6502 \<lparr>rPC = 0x8000, rA = 0, rP = 0x24, rS = 0xFD, rX = 0, rY = 0\<rparr>"
  let ?s = "(zero_statics, zero_monitor, ?m)"
  have "\<exists>r. monitor_loop [key_input 115, key_input 113] ?s = Some r"
    by (subst loop_ends_iff) (simp_all add: ends_session_def key_input_def key_defs)
  then obtain r where r: "monitor_loop [key_input 115, key_input 113] ?s = Some r" ..
  have "session_view r = (False, True, cpu_step ?m)"
    using session_follows_keys [OF machine_at_regions(2) between_frames_zero(1,2),
        THEN conjunct2, THEN mp, OF r]
    by (simp add: key_input_def key_frame_def key_defs session_view_def)
  with r show ?thesis by blast
qed

subsection \<open>The log and the performance panel\<close>

text \<open>
  C31. The log panel shows the newest instructions logged, newest first, at most ten and at most
  as many as there are lines, each with the address, mnemonic and registers it was logged with,
  however many have been logged.
\<close>

theorem log_shows_newest:
  assumes "log_ok st"
  shows "shown_log h (fold (\<lambda>(now, pc, op, r). monitor_log_instruction now pc op r) cs st) =
    take (nat (min (h - 3) 10)) (rev (log_entries st @ map (entry_for (mon_cycles st)) cs))"
proof -
  let ?es = "log_entries st @ map (entry_for (mon_cycles st)) cs"
  let ?st = "fold push_entry (map (entry_for (mon_cycles st)) cs) st"
  have ok: "log_ok ?st" using assms by (rule instruction_ring.entries_fold)
  have "newest 100 (log_entries st) = log_entries st"
    using length_log_entries [OF assms] assms
    by (intro newest_all) (auto simp: log_ok_def ring_wf_def)
  then have entries: "log_entries ?st = newest 100 ?es"
    using instruction_ring.entries_fold(2) [OF assms, of "log_entries st"] by simp
  define k where "k = nat (min (h - 3) 10)"
  have "take (min k (length (newest 100 ?es))) (rev (newest 100 ?es)) = take k (rev ?es)"
    by (rule take_newest) (simp add: k_def)
  then show ?thesis
    using length_log_entries [OF ok] shown_log_eq [OF ok, of h]
    unfolding log_instructions_push entries k_def [symmetric] by simp
qed

theorem log_shows_newest_witness:
  "shown_log 10 (monitor_log_instruction zero_time 0x8000 0xEA
     \<lparr>rPC = 0x8000, rA = 0, rP = 0x24, rS = 0xFD, rX = 0, rY = 0\<rparr> zero_monitor) =
   [entry_for 0 (zero_time, 0x8000, 0xEA, \<lparr>rPC = 0x8000, rA = 0, rP = 0x24, rS = 0xFD, rX = 0, rY = 0\<rparr>)]"
  using log_shows_newest [of zero_monitor 10 "[(zero_time, 0x8000, 0xEA,
      \<lparr>rPC = 0x8000, rA = 0, rP = 0x24, rS = 0xFD, rX = 0, rY = 0\<rparr>)]"]
  by simp (simp add: zero_monitor_def)

text \<open>
  C32. The performance panel has figures exactly when some sample is valid. Their maximum, mean
  and ".1%" are the maximum, the truncated mean and the minimum of the valid samples, without
  overflow; below the "1%" figure lie at most a hundredth of them, at or below it more; and the
  current one is the latest sample, or the maximum when that is not valid.
\<close>

theorem performance_figures:
  assumes "length (cycle_history st) = 300"
  defines "vs \<equiv> valid_history st"
  shows "case performance_of st of
      None \<Rightarrow> vs = []
    | Some p \<Rightarrow>
        vs \<noteq> [] \<and> perf_max p = Max (set vs) \<and> perf_low_01 p = Min (set vs) \<and>
        unat (perf_avg p) = (\<Sum>v\<leftarrow>vs. unat v) div length vs \<and>
        length (filter (\<lambda>v. v < perf_low_1 p) vs) \<le> length vs div 100 \<and>
        length vs div 100 < length (filter (\<lambda>v. v \<le> perf_low_1 p) vs) \<and>
        (let c = cycle_history st ! ((cycle_history_idx st + 299) mod 300)
         in perf_current p = (if valid_sample c then c else Max (set vs)))"
proof (cases "vs = []")
  case True
  then show ?thesis by (simp add: performance_figures_eq [OF assms(1)] vs_def)
next
  case False
  let ?k = "length vs div 100"
  have len: "length vs \<le> 300"
    using assms(1) length_filter_le [of valid_sample "cycle_history st"]
    by (simp add: vs_def valid_history_def)
  then have "unat (0 :: uint64) + length vs * 100000000 < 2 ^ 64" by simp
  then have sum: "unat (fold (\<lambda>s a. a + s) vs 0) = (\<Sum>v\<leftarrow>vs. unat v)"
    using fold_sum [of vs 0] by (simp add: vs_def valid_history_def valid_sample_bounds)
  have avg: "unat (fold (\<lambda>s a. a + s) vs 0 div of_nat (length vs)) = (\<Sum>v\<leftarrow>vs. unat v) div length vs"
    using len sum by (simp add: unat_div unat_of_nat)
  have k: "?k < length vs" using False by simp
  show ?thesis
    using False avg count_below_sorted [OF k]
    by (simp add: performance_figures_eq [OF assms(1)] vs_def [symmetric] Let_def)
qed

theorem performance_figures_witness:
  "case performance_of (zero_monitor\<lparr>cycle_history := 5 # 3 # replicate 298 0\<rparr>) of
     None \<Rightarrow> False
   | Some p \<Rightarrow> perf_max p = 5 \<and> perf_low_01 p = 3 \<and> unat (perf_avg p) = 4"
  using performance_figures [of "zero_monitor\<lparr>cycle_history := 5 # 3 # replicate 298 0\<rparr>"]
  by (simp add: valid_history_def valid_sample_def numeral_2_eq_2 [symmetric] split: option.splits)

subsection \<open>The session and the terminal\<close>

lemma init_colors_fields [simp]:
  "curses_on (init_colors term t) = curses_on t" "cleaned_up (init_colors term t) = cleaned_up t"
  "cleanup_at_exit (init_colors term t) = cleanup_at_exit t"
  by (simp_all add: init_colors_def set_pair_def Let_def)

text \<open>
  C28. A session ends exactly when the terminal fails or is too small, or a quit key or a signal
  comes. Too small is fewer than 19 rows or fewer than 85 columns, the limit of the code, where
  the README says that 80 columns suffice: on 80 to 84 columns the session is refused. A refused
  session leaves the emulated machine as it was. But the terminal is given back only then:
  \<open>tui_cleanup\<close> works once, the check of the size uses it up, and after a session that has run,
  and at exit, curses still has the terminal.
\<close>

theorem session_outcome:
  fixes env opts m l
  defines "ok \<equiv> initscr_ok (session_terminal env) \<and>
    SCREEN_MIN_HEIGHT \<le> start_rows env \<and> SCREEN_MIN_WIDTH \<le> start_cols env"
  defines "r \<equiv> run_monitor_mode env opts (tty_start, m, l)"
  shows "(r \<noteq> None) = (if ok then \<exists>f \<in> set (frames env). ends_session f else True) \<and>
    (case r of None \<Rightarrow> True
     | Some (status, s) \<Rightarrow>
         status = (if initscr_ok (session_terminal env) then Inr () else Inl 1) \<and>
         curses_on (fst (at_exit s)) = ok \<and>
         (if ok then True else fst (snd s) = m))"
proof (cases ok)
  case True
  obtain st m1 where s: "monitor_setup env opts m = (st, m1)" by fastforce
  note start = setup_facts [of env opts m, unfolded s fst_conv]
  have "(monitor_loop (frames env) (zero_statics, st, m1) \<noteq> None) =
      (\<exists>f \<in> set (frames env). ends_session f)"
    using loop_ends_iff [of "(zero_statics, st, m1)" "frames env"] start by simp
  then show ?thesis
    using True
    by (auto simp: r_def ok_def run_monitor_mode_def tui_init_def tui_cleanup_def at_exit_def s
        tty_start_def Let_def case_prod_beta split: option.splits)
next
  case False
  then show ?thesis
    by (auto simp: r_def ok_def run_monitor_mode_def tui_init_def tui_cleanup_def at_exit_def
        tty_start_def Let_def case_prod_beta split: option.splits)
qed

theorem session_outcome_witness:
  "\<exists>s. run_monitor_mode quit_session default_options (tty_start, power_on (), log_start) =
     Some (Inr (), s) \<and> curses_on (fst (at_exit s))"
  using session_outcome [of quit_session default_options "power_on ()" log_start]
  by (auto simp: quit_session_def key_input_def ends_session_def key_defs split: option.splits)

subsection \<open>The exit status\<close>

lemma option_value_status:
  "option_value t v opts l = (Inl e, l') \<Longrightarrow> e = 1"
  by (auto simp: option_value_def reject_def split: ArgType.splits option.splits if_splits)

lemma parse_args_status: "parse_args args opts l = (Inl e, l') \<Longrightarrow> e = 1"
proof (induction args opts l rule: parse_args.induct)
  case (3 arg v args opts l)
  then show ?case
    using option_value_status
    by (auto split: ArgType.splits prod.splits sum.splits simp del: parse_args.simps(2))
qed (auto split: ArgType.splits)

lemma session_status:
  "run_monitor_mode env opts s = Some (r, s') \<Longrightarrow>
    r = (if initscr_ok (session_terminal env) then Inr () else Inl 1)"
  by (auto simp: run_monitor_mode_def tui_init_def Let_def case_prod_beta
      split: option.splits if_splits prod.splits)

lemma exit_clears: "REGIONS (bus_world (fst (snd (at_exit s)))) = []"
  by (auto simp: at_exit_def mem_region_clear_def Let_def case_prod_beta)

text \<open>What the command line and the environment must be for the program to reach its work.\<close>

definition boots :: "environment \<Rightarrow> options \<Rightarrow> 'd \<Rightarrow> bool" where
  "boots env opts dev \<longleftrightarrow> good_extents opts \<and> ram_calloc_ok env \<and> rom_calloc_ok env \<and>
     load_succeeds (files env) opts (two_regions opts dev)"

text \<open>The session as main starts it.\<close>

definition monitor_run ::
  "environment \<Rightarrow> options \<Rightarrow> tty \<times> 'd program \<Rightarrow> ((int + unit) \<times> tty \<times> 'd program) option" where
  "monitor_run env opts = (\<lambda>(t, m, l).
     run_monitor_mode (monitor_session env) opts (t, m, info ''Starting TUI monitor...'' True l))"

lemma main_after_options:
  fixes dev :: 'd and env t
  assumes parse: "parse_args args default_options l = (Inr opts, l1)"
  obtains m1 l2 where "c_main env args (t, power_on dev, l) =
    (if \<not> boots env opts dev then Some (1, t, m1, l2)
     else if enable_monitor opts \<noteq> 0
     then (case monitor_run env opts (t, m1, l2) of
             None \<Rightarrow> None | Some (Inl status, s) \<Rightarrow> Some (status, s) | Some (Inr _, s) \<Rightarrow> Some (0, s))
     else Some (0, t, run_normal (m1, l2)))"
proof -
  note boot = main_boot_outcome [where m = "power_on dev" and ram_ok = "ram_calloc_ok env"
      and rom_ok = "rom_calloc_ok env" and fopen = "files env" and opts = opts and l = l1]
  have dev: "devices (bus_world (power_on dev)) = dev" by (simp add: power_on_def)
  obtain b m1 l2 where b: "main_boot (ram_calloc_ok env) (rom_calloc_ok env) (files env) opts
      (power_on dev, l1) = (b, m1, l2)" by (metis prod_cases3)
  have b': "b = (if boots env opts dev then Inr () else Inl 1)"
    using boot unfolding b dev by (auto simp: boots_def split: if_splits)
  show ?thesis
    by (rule that [of m1 l2]) (simp add: c_main_def parse b b' monitor_run_def)
qed

text \<open>
  C30. The program returns whenever the monitor was not asked for; its exit status is 0 exactly
  when the options parse, the boot sequence succeeds and, for the monitor, the terminal can be
  set up, and 1 otherwise; and at exit no memory region is left allocated.
\<close>

theorem exit_status:
  fixes env args dev l
  defines "r \<equiv> run_program env args (tty_start, power_on dev, l)"
  defines "p \<equiv> fst (parse_args args default_options l)"
  shows "case r of
      None \<Rightarrow> \<exists>opts. p = Inr opts \<and> enable_monitor opts \<noteq> 0 \<and> boots env opts dev
    | Some (status, t, m, l') \<Rightarrow>
        status = (if \<exists>opts. p = Inr opts \<and> boots env opts dev \<and>
            (enable_monitor opts = 0 \<or> initscr_ok (session_terminal (monitor_session env)))
          then 0 else 1) \<and> REGIONS (bus_world m) = []"
proof -
  show ?thesis
  proof (cases p)
    case (Inl e)
    then obtain l1 where parse: "parse_args args default_options l = (Inl e, l1)"
      unfolding p_def by (metis prod.collapse)
    show ?thesis
      using exit_clears [of "(tty_start, power_on dev, l1)"] parse_args_status [OF parse]
      by (simp add: r_def run_program_def c_main_def parse Inl case_prod_beta)
  next
    case (Inr opts)
    then obtain l1 where parse: "parse_args args default_options l = (Inr opts, l1)"
      unfolding p_def by (metis prod.collapse)
    obtain m1 l2 where main: "c_main env args (tty_start, power_on dev, l) =
        (if \<not> boots env opts dev then Some (1, tty_start, m1, l2)
         else if enable_monitor opts \<noteq> 0
         then (case monitor_run env opts (tty_start, m1, l2) of
                 None \<Rightarrow> None | Some (Inl status, s) \<Rightarrow> Some (status, s) | Some (Inr _, s) \<Rightarrow> Some (0, s))
         else Some (0, tty_start, run_normal (m1, l2)))"
      by (rule main_after_options [OF parse, of env tty_start dev])
    let ?mode = "monitor_run env opts (tty_start, m1, l2)"
    show ?thesis
    proof (cases "boots env opts dev \<and> enable_monitor opts \<noteq> 0")
      case True
      show ?thesis
      proof (cases ?mode)
        case None
        with True show ?thesis by (simp add: r_def run_program_def main Inr)
      next
        case (Some a)
        obtain x s where a: "a = (x, s)" by (cases a)
        with True Some session_status [OF Some [unfolded a monitor_run_def split]] show ?thesis
          by (simp add: r_def run_program_def main Inr exit_clears case_prod_beta)
      qed
    next
      case False
      then show ?thesis by (auto simp: r_def run_program_def main Inr exit_clears case_prod_beta)
    qed
  qed
qed

theorem exit_status_witness:
  "\<exists>s. run_program \<lparr>ram_calloc_ok = True, rom_calloc_ok = True, files = (\<lambda>_. None),
       monitor_session = quit_session\<rparr> [] (tty_start, power_on (), log_start) = Some (0, s)"
  using exit_status [where env = "\<lparr>ram_calloc_ok = True, rom_calloc_ok = True, files = (\<lambda>_. None),
      monitor_session = quit_session\<rparr>" and args = "[]" and dev = "()" and l = log_start]
  by (auto simp: default_options_def boots_def good_extents_def load_succeeds_def split: option.splits)

end
