(* ===== verification/Spec2Isabelle.thy ===== *)
theory Spec2Isabelle
  imports Instr_Properties Memory_Properties Cpu_Properties Debugger_Properties
    Boot_Properties Sample_Run Monitor_Properties
begin

text \<open>
  A verification library for C99-6502, an emulator of the NMOS 6502 and the 65C02 in C.

  The program. main.c reads the options, builds a memory map of one RAM and one ROM region,
  loads a program, and runs the CPU: up to 10000 steps, or under the control of a full-screen
  monitor. \<open>cpu_step\<close> (cpu.c) polls the interrupt controller (interrupt.c), fetches an opcode
  through the bus (bus.c), looks up its addressing mode (instructions_table.c, addressing.c)
  and its handler (instructions_handlers.c), and the handler (instructions_implementation.c)
  works on the registers, the stack (stack.c) and the bus. The bus reaches memory through two
  callbacks, which memory.c provides: a table of at most 16 regions of RAM, ROM or I/O with
  handlers of its own. trace.c prints what is executed; debugger.c has breakpoints, watchpoints,
  a profiler and memory tools; tui_monitor.c is the screen of the monitor; loader.c reads a
  program file and logging.c writes the messages.

  How it is modelled. All globals of the emulator are the fields of one record, \<open>machine\<close>; a C
  function is a HOL function on it, under the name it has in the code, with the calls in the
  order of the code. The type variable \<open>'w\<close> of \<open>'w machine\<close> is the state behind the bus callbacks,
  which are fields of the machine as they are in the code; with main.c's callbacks it is
  \<open>'d memory\<close>, the region table over the devices' state \<open>'d\<close>. 8-, 16-, 32- and 64-bit integers
  are words of that width. Errors are the code's own return values, or Inl of an exit status.
  \<open>cpu_run\<close> may not return, and then is None. Everything from outside is an argument: the contents
  and failures of files (\<open>FILE\<close>), the success of each allocation, the I/O handlers, and for a
  session with the monitor the terminal, the clock, the keys and the signals, frame by frame.

  Theories, in the order of their imports.
  Prelude: words and bits. Machine: types.h and the globals. Bus: bus.c, and the contracts
  \<open>bus_invariant\<close> (a property of the world that both callbacks keep) and \<open>memory_bus\<close> (they behave
  as memory at some addresses), which every fact about instructions rests on and Memory_Bus
  and Monitor_Spec interpret with the region table. Ring and Slots: the contracts of a bounded
  log and of an array of slots, interpreted with the interrupt history, the breakpoints, the
  watchpoints, the instruction log and the memory watches. Memory, Fetch_Stack, Addressing,
  Interrupt, Instructions, Instr_Table, Handlers, Cpu: the files of the same names, the trace
  included. Debugger, Loader, Logging, Args, Boot: debugger.c, loader.c, logging.c and main.c up to
  normal execution. Terminal, Monitor, Screen: tui_monitor.c. Monitor_Mode: the rest of main.c.
  Emulator: the assembled machine.

  What is proved.
  Memory_Spec, Memory_Bus, Memory_Properties: the region table implements one cell per address
  (open bus, RAM, ROM, I/O); every access stays within its array; regions never overlap; loading
  is storing byte by byte; nothing the CPU executes changes ROM or the map.
  Alu_Spec, Shift_Spec, Decode, Handler_Facts, Returns, Instr_Properties: arithmetic on numbers
  (binary, decimal, nine-bit shifts), addressing against a reference, undocumented instructions
  as compositions, the tables consistent for all 512 decodings, RTS and RTI as inverses.
  Cpu_Spec, Trace_Spec, Cpu_Properties: the case distinction of a step, cycles, the program
  counter, interrupt entry, termination of \<open>cpu_run\<close>, and that tracing is transparent.
  Debugger_Spec, Profiler_Spec, Inspect_Spec, Debugger_Properties: the tables as lists, what the
  checks and scans report, hot spots, search, disassembly and dumps.
  Args_Spec, Boot_Spec, Boot_Properties, Sample_Run: round trips of the options, when booting
  succeeds, the machine it builds, what a file load does, how normal execution ends, and what
  the built-in sample program computes.
  Monitor_Spec, Session_Spec, Performance_Spec, Monitor_Properties: the monitor only observes: a
  session affects the machine as an abstract machine of keys does; when it ends; its invariant;
  the log and the performance figures; the exit status of the program.

  Bounds. 16 regions, 32 events of interrupt history, 32 breakpoints, 16 watchpoints, 100 log
  entries, 300 samples, 8 watches, messages of 1023 characters, files read 4096 bytes at a time,
  10000 steps of a normal run and 20000 per frame are those of the code. The functions with a
  counter argument (\<open>test_run\<close>, \<open>run_instructions\<close>, the lines of the listings) count down the
  iterations that the code's own loop has left, so that no bound is ours. A step never takes more
  than ten cycles, which is why \<open>cpu_run\<close> overshoots its budget by less than ten.

  Not modelled. curses beyond the calls made to it, signal delivery beyond its time, \<open>usleep\<close>,
  \<open>sleep\<close>, the build with NO_TUI_MONITOR, which only leaves code out, and \<open>calculate_mhz\<close>, a
  floating-point quotient that nothing calls. The heap: \<open>free\<close> leaves no trace in the model, where
  \<open>mem_region_clear\<close> only empties the table. The message that an NMI takes over an IRQ sequence
  (interrupt.c:108). An I/O handler that calls back into the emulator. The lists that stand for
  a buffer and its 16-bit length (\<open>mem_region_load\<close>) have a counterpart in C up to 65535 bytes. C
  leaves the order of the two bus reads in \<open>draw_system_info\<close> open; the model takes the one on
  the left first. Quotients that are printed with
  decimals stay quotients; the lengths of the bars follow the code's double arithmetic.
\<close>

subsection \<open>Where code and documentation differ\<close>

text \<open>In NMOS mode four opcodes reach handlers of the 65C02, and $DB, where DCP belongs, is a NOP.\<close>

lemma nmos_handlers_of_cmos:
  "handler_of CPU_VARIANT_NMOS_6502 0x80 = F_BRA" "handler_of CPU_VARIANT_NMOS_6502 0x9C = F_STZ"
  "handler_of CPU_VARIANT_NMOS_6502 0x9E = F_STZ" "handler_of CPU_VARIANT_NMOS_6502 0xDB = F_op_illegal"
  by (simp_all add: handler_of_def NMOS_HANDLER_def INSTR_HANDLERS_def)

text \<open>The debugger and the screen disagree on the length of BBR and BBS only.\<close>

lemma screen_operand_sizes: "tui_operand_size mode = operand_size mode \<longleftrightarrow> mode \<noteq> ADDR_ZPREL"
  by (cases mode) (simp_all add: tui_operand_size_def operand_size_def)

text \<open>A region of the whole address space is accepted as an option, stored as 0 and then refused.\<close>

lemma full_region_refused:
  "parse_numeric (dec 0x10000) 0 1 0x10000 = Some 0x10000 \<and>
   \<not> good_extents (opts\<lparr>ram_size := word_of_int 0x10000\<rparr>)"
  using parse_dec [of "0x10000"] by (simp add: good_extents_def)

text \<open>
  README.md and README_KO.md ask for a terminal of 80 columns and 19 rows; \<open>SCREEN_MIN_WIDTH\<close> is
  85. The session on a terminal of 80 to 84 columns (as on any narrower one) returns at once,
  with only an error message to show for it.
\<close>

lemma documented_size_refused:
  assumes "initscr_ok (session_terminal env)" "start_cols env < 85"
  shows "case run_monitor_mode env opts (tty_start, m, l) of None \<Rightarrow> False
    | Some (status, t, m', l') \<Rightarrow> status = Inr () \<and> m' = m"
  using assms
  by (simp add: run_monitor_mode_def tui_init_def tui_cleanup_def tty_start_def Let_def
      case_prod_beta)

end
